(* ===== verification/Prelude.thy ===== *)
theory Prelude
  imports Main "HOL-Library.Word"
begin

unbundle bit_operations_syntax

text \<open>
  Shared vocabulary of the development: bytes and byte strings, the (value, error) results
  of Go functions as sums, the sequencing of such results, and a few facts on lists, options
  and words that the component theories use. A Go byte slice is a list of 8-bit words; a nil
  slice that the code tells apart from an empty one is the value None of an option. A Go
  string is a list of characters. A result of type \<open>'e + 'a\<close> is \<open>Inl e\<close> when the
  function returns a non-nil error and \<open>Inr a\<close> when it returns the value.
\<close>

section \<open>Types\<close>

type_synonym byte = "8 word"
type_synonym bytes = "byte list"
type_synonym u32 = "32 word"
type_synonym u64 = "64 word"

named_theorems bytes_simps
named_theorems guard_simps

section \<open>Results\<close>

text \<open>\<open>if err != nil { return err }\<close> after a call.\<close>

fun bindR :: "'e + 'a \<Rightarrow> ('a \<Rightarrow> 'e + 'b) \<Rightarrow> 'e + 'b" where
  "bindR (Inl e) f = Inl e"
| "bindR (Inr a) f = f a"

text \<open>\<open>fmt.Errorf("...: %w", err)\<close>: the error is wrapped, the value passes through.\<close>

fun wrapR :: "('e \<Rightarrow> 'f) \<Rightarrow> 'e + 'a \<Rightarrow> 'f + 'a" where
  "wrapR w (Inl e) = Inl (w e)"
| "wrapR w (Inr a) = Inr a"

text \<open>The same for a function that also changes a state, which the error keeps.\<close>

definition bindS :: "'s \<times> ('e + 'a) \<Rightarrow> ('s \<Rightarrow> 'a \<Rightarrow> 's \<times> ('e + 'b)) \<Rightarrow> 's \<times> ('e + 'b)" where
  "bindS r f = (case r of (s, Inl e) \<Rightarrow> (s, Inl e) | (s, Inr a) \<Rightarrow> f s a)"

definition wrapS :: "('e \<Rightarrow> 'f) \<Rightarrow> 's \<times> ('e + 'a) \<Rightarrow> 's \<times> ('f + 'a)" where
  "wrapS w r = (case r of (s, Inl e) \<Rightarrow> (s, Inl (w e)) | (s, Inr a) \<Rightarrow> (s, Inr a))"

lemma bindS_simps [simp]: "bindS (s, Inl e) f = (s, Inl e)" "bindS (s, Inr a) f = f s a"
  by (simp_all add: bindS_def)

lemma wrapS_simps [simp]: "wrapS w (s, Inl e) = (s, Inl (w e))" "wrapS w (s, Inr a) = (s, Inr a)"
  by (simp_all add: wrapS_def)

lemma bindS_Inr_iff:
  "bindS r f = (s', Inr b) \<longleftrightarrow> (\<exists>s a. r = (s, Inr a) \<and> f s a = (s', Inr b))"
  by (auto simp: bindS_def split: prod.splits sum.splits)

lemma wrapS_Inr_iff: "wrapS w r = (s', Inr b) \<longleftrightarrow> r = (s', Inr b)"
  by (auto simp: wrapS_def split: prod.splits sum.splits)

definition is_ok :: "'e + 'a \<Rightarrow> bool" where
  "is_ok r = (case r of Inl _ \<Rightarrow> False | Inr _ \<Rightarrow> True)"

lemma is_ok_simps [simp]: "\<not> is_ok (Inl e)" "is_ok (Inr a)"
  by (simp_all add: is_ok_def)

lemma is_ok_iff: "is_ok r \<longleftrightarrow> (\<exists>a. r = Inr a)"
  by (cases r) auto

lemma bindR_Inr_iff: "bindR r f = Inr b \<longleftrightarrow> (\<exists>a. r = Inr a \<and> f a = Inr b)"
  by (cases r) auto

lemma bindR_Inl_iff: "bindR r f = Inl e \<longleftrightarrow> r = Inl e \<or> (\<exists>a. r = Inr a \<and> f a = Inl e)"
  by (cases r) auto

lemma wrapR_Inr_iff [simp]: "wrapR w r = Inr a \<longleftrightarrow> r = Inr a"
  by (cases r) auto

lemma bindR_assoc: "bindR (bindR r f) g = bindR r (\<lambda>a. bindR (f a) g)"
  by (cases r) auto

section \<open>Slices\<close>

text \<open>\<open>s[i:j]\<close> for \<open>i \<le> j \<le> len(s)\<close>; callers establish the bounds.\<close>

definition subslice :: "nat \<Rightarrow> nat \<Rightarrow> 'a list \<Rightarrow> 'a list" where
  "subslice i j xs = take (j - i) (drop i xs)"

lemma length_subslice [simp]: "length (subslice i j xs) = min (length xs - i) (j - i)"
  by (simp add: subslice_def min.commute)

lemma subslice_full: "subslice 0 (length xs) xs = xs"
  by (simp add: subslice_def)

lemma take_subslice_drop:
  "i \<le> j \<Longrightarrow> j \<le> length xs \<Longrightarrow> take i xs @ subslice i j xs @ drop j xs = xs"
  by (metis subslice_def append_take_drop_id drop_drop le_add_diff_inverse2)

section \<open>Bytes\<close>

lemma unat_byte_of_nat [bytes_simps]: "m < 256 \<Longrightarrow> unat (of_nat m :: byte) = m"
  by (simp add: unat_of_nat)

lemma byte_of_nat_inj:
  "m < 256 \<Longrightarrow> n < 256 \<Longrightarrow> (of_nat m :: byte) = of_nat n \<longleftrightarrow> m = n"
  by (metis unat_byte_of_nat)

lemma unat_byte_less [simp]: "unat (b :: byte) < 256"
  using unsigned_less [of b, where ?'a = nat] by simp

lemma xor_eq_0_byte: "(a XOR b = (0 :: 'n::len word)) \<longleftrightarrow> a = b"
  by (auto simp: bit_eq_iff bit_xor_iff)

lemma or_eq_0_word: "(a OR b = (0 :: 'n::len word)) \<longleftrightarrow> a = 0 \<and> b = 0"
  by (simp add: or_eq_0_iff)

section \<open>Lists\<close>

lemma list_all_replicate_eq:
  "list_all (\<lambda>b. b = x) xs \<longleftrightarrow> xs = replicate (length xs) x"
  by (induction xs) auto

lemma last_drop_nth:
  "xs \<noteq> [] \<Longrightarrow> xs ! (length xs - 1) = last xs"
  by (simp add: last_conv_nth)

end
