(* ===== verification/Padding.thy ===== *)
theory Padding
  imports Prelude
begin

text \<open>
  The padding schemes of the code: the PKCS#7 routines of internal/attachment/cipher.go,
  internal/provisioning/cipher.go and internal/backup/decrypt.go (three independent
  implementations of the same unpadding), and Signal's content padding (padContent in
  pkg/signal/send.go, stripContentPadding in pkg/signal/content.go). The locale
  \<open>padding_scheme\<close> is the contract the decryption routines rely on; it is interpreted on
  the attachment and on the backup implementation.
\<close>

section \<open>PKCS#7\<close>

datatype pad_error = InvalidPadding | EmptyPlaintext | BadPaddingLength | BadPaddingBytes

definition pkcs7Pad :: "bytes \<Rightarrow> nat \<Rightarrow> bytes" where
  "pkcs7Pad data blockSize =
    (let padding0 = blockSize - length data mod blockSize;
         padding = (if padding0 = 0 then blockSize else padding0)
     in data @ replicate padding (of_nat padding))"

text \<open>internal/attachment/cipher.go: byte-by-byte check with an early return.\<close>

definition att_pkcs7Unpad :: "bytes \<Rightarrow> nat \<Rightarrow> pad_error + bytes" where
  "att_pkcs7Unpad data blockSize =
    (if length data = 0 \<or> length data mod blockSize \<noteq> 0 then Inl InvalidPadding
     else let padding = unat (data ! (length data - 1)) in
       if padding = 0 \<or> padding > blockSize \<or> padding > length data then Inl InvalidPadding
       else if \<not> list_all (\<lambda>b. unat b = padding) (drop (length data - padding) data)
       then Inl InvalidPadding
       else Inr (take (length data - padding) data))"

text \<open>The constant-time accumulator \<open>diff |= b ^ byte(padLen)\<close> of the other two.\<close>

definition pad_diff :: "bytes \<Rightarrow> nat \<Rightarrow> byte" where
  "pad_diff tail padLen = foldl (\<lambda>diff b. diff OR (b XOR of_nat padLen)) 0 tail"

text \<open>internal/backup/decrypt.go.\<close>

definition backup_pkcs7Unpad :: "bytes \<Rightarrow> nat \<Rightarrow> pad_error + bytes" where
  "backup_pkcs7Unpad data blockSize =
    (if length data = 0 \<or> length data mod blockSize \<noteq> 0 then Inl BadPaddingLength
     else let padLen = unat (data ! (length data - 1)) in
       if padLen = 0 \<or> padLen > blockSize \<or> padLen > length data then Inl InvalidPadding
       else if pad_diff (drop (length data - padLen) data) padLen \<noteq> 0 then Inl BadPaddingBytes
       else Inr (take (length data - padLen) data))"

text \<open>internal/provisioning/cipher.go: block size fixed to 16, no alignment check.\<close>

definition prov_pkcs7Unpad :: "bytes \<Rightarrow> pad_error + bytes" where
  "prov_pkcs7Unpad data =
    (if length data = 0 then Inl EmptyPlaintext
     else let padLen = unat (data ! (length data - 1)) in
       if padLen = 0 \<or> padLen > 16 \<or> padLen > length data then Inl InvalidPadding
       else if pad_diff (drop (length data - padLen) data) padLen \<noteq> 0 then Inl InvalidPadding
       else Inr (take (length data - padLen) data))"

lemma foldl_or_eq_0:
  "foldl (\<lambda>diff b. diff OR (b XOR k)) d xs = (0 :: 'n::len word) \<longleftrightarrow>
     d = 0 \<and> list_all (\<lambda>b. b = k) xs"
  by (induction xs arbitrary: d) (auto simp: or_eq_0_word xor_eq_0_byte)

lemma pad_diff_eq_0:
  assumes "n < 256"
  shows "pad_diff xs n = 0 \<longleftrightarrow> list_all (\<lambda>b. unat b = n) xs"
proof -
  have "(\<lambda>b :: byte. b = of_nat n) = (\<lambda>b. unat b = n)"
    using assms by (auto simp: fun_eq_iff bytes_simps)
  then show ?thesis by (simp add: pad_diff_def foldl_or_eq_0)
qed

text \<open>The acceptance condition, shared by the three implementations.\<close>

definition pkcs7_valid :: "bytes \<Rightarrow> nat \<Rightarrow> bool" where
  "pkcs7_valid data bs \<longleftrightarrow>
     (let n = unat (data ! (length data - 1)) in
      data \<noteq> [] \<and> 0 < n \<and> n \<le> bs \<and> n \<le> length data \<and>
      list_all (\<lambda>b. unat b = n) (drop (length data - n) data))"

definition pkcs7_body :: "bytes \<Rightarrow> bytes" where
  "pkcs7_body data = take (length data - unat (data ! (length data - 1))) data"

lemma att_pkcs7Unpad_iff:
  "att_pkcs7Unpad data bs = Inr d \<longleftrightarrow>
     length data mod bs = 0 \<and> pkcs7_valid data bs \<and> d = pkcs7_body data"
  by (auto simp: att_pkcs7Unpad_def pkcs7_valid_def pkcs7_body_def Let_def)

lemma backup_pkcs7Unpad_iff:
  "backup_pkcs7Unpad data bs = Inr d \<longleftrightarrow>
     length data mod bs = 0 \<and> pkcs7_valid data bs \<and> d = pkcs7_body data"
  by (auto simp: backup_pkcs7Unpad_def pkcs7_valid_def pkcs7_body_def Let_def pad_diff_eq_0)

lemma prov_pkcs7Unpad_iff:
  "prov_pkcs7Unpad data = Inr d \<longleftrightarrow> pkcs7_valid data 16 \<and> d = pkcs7_body data"
  by (auto simp: prov_pkcs7Unpad_def pkcs7_valid_def pkcs7_body_def Let_def pad_diff_eq_0)

lemma pkcs7Pad_eq:
  "0 < bs \<Longrightarrow> pkcs7Pad d bs =
     d @ replicate (bs - length d mod bs) (of_nat (bs - length d mod bs))"
  by (simp add: pkcs7Pad_def Let_def not_le)

lemma length_pkcs7Pad:
  assumes "0 < bs"
  shows "length (pkcs7Pad d bs) = (length d div bs + 1) * bs"
proof -
  have "length d mod bs < bs" using assms by simp
  moreover have "length d = length d div bs * bs + length d mod bs" by simp
  ultimately have "length d + (bs - length d mod bs) = length d div bs * bs + bs" by linarith
  then show ?thesis using assms by (simp add: pkcs7Pad_eq)
qed

lemma pkcs7Pad_aligned: "0 < bs \<Longrightarrow> length (pkcs7Pad d bs) mod bs = 0"
  by (simp add: length_pkcs7Pad)

lemma pkcs7Pad_valid:
  assumes bs: "0 < bs" "bs < 256"
  shows "pkcs7_valid (pkcs7Pad d bs) bs" and "pkcs7_body (pkcs7Pad d bs) = d"
proof -
  define n where "n = bs - length d mod bs"
  have n: "0 < n" "n \<le> bs" "n < 256"
    using bs by (auto simp: n_def)
  have p: "pkcs7Pad d bs = d @ replicate n (of_nat n)"
    using bs by (simp add: pkcs7Pad_eq n_def)
  have "(d @ replicate n (of_nat n :: byte)) ! (length d + (n - 1)) = of_nat n"
    using n by (subst nth_append_length_plus) simp
  then have l: "unat ((d @ replicate n (of_nat n :: byte)) ! (length d + n - 1)) = n"
    using n by (simp add: bytes_simps)
  show "pkcs7_valid (pkcs7Pad d bs) bs"
    using n l by (simp add: pkcs7_valid_def p Let_def list_all_length bytes_simps)
  show "pkcs7_body (pkcs7Pad d bs) = d"
    using l by (simp add: pkcs7_body_def p)
qed

lemma pkcs7_valid_canonical:
  assumes bs: "0 < bs" "bs < 256" and a: "length data mod bs = 0" and v: "pkcs7_valid data bs"
  shows "pkcs7Pad (pkcs7_body data) bs = data"
proof -
  define n where "n = unat (data ! (length data - 1))"
  have n: "0 < n" "n \<le> bs" "n \<le> length data"
    and tl: "list_all (\<lambda>b. unat b = n) (drop (length data - n) data)"
    using v by (auto simp: pkcs7_valid_def n_def Let_def)
  have "n < 256" using n bs by simp
  then have "(\<lambda>b :: byte. unat b = n) = (\<lambda>b. b = of_nat n)"
    by (auto simp: fun_eq_iff bytes_simps)
  then have tl': "drop (length data - n) data = replicate n (of_nat n)"
    using tl n by (simp add: list_all_replicate_eq)
  have m: "bs - (length data - n) mod bs = n"
  proof -
    obtain k where k: "length data = k * bs" using a by (metis mod_0_imp_dvd dvdE mult.commute)
    have kpos: "0 < k" using n k by (cases k) auto
    have "length data - n = (k - 1) * bs + (bs - n)"
      using k kpos n by (cases k) auto
    then have "(length data - n) mod bs = (bs - n) mod bs" by simp
    also have "\<dots> = bs - n" using n bs by simp
    finally show ?thesis using n by simp
  qed
  have lb: "length (pkcs7_body data) = length data - n"
    by (simp add: pkcs7_body_def n_def)
  have "pkcs7Pad (pkcs7_body data) bs = pkcs7_body data @ replicate n (of_nat n)"
    using bs m by (simp add: pkcs7Pad_eq lb)
  also have "\<dots> = take (length data - n) data @ drop (length data - n) data"
    unfolding tl' pkcs7_body_def n_def [symmetric] ..
  finally show ?thesis by simp
qed

section \<open>The contract of a padding scheme\<close>

locale padding_scheme =
  fixes pad :: "bytes \<Rightarrow> bytes" and unpad :: "bytes \<Rightarrow> pad_error + bytes"
  assumes unpad_pad: "unpad (pad d) = Inr d"
    and unpad_canonical: "unpad p = Inr d \<Longrightarrow> p = pad d"
    and pad_longer: "length d < length (pad d)"
begin

lemma pad_inj: "pad d = pad d' \<Longrightarrow> d = d'"
  by (metis unpad_pad sum.inject(2))

lemma unpad_ok_iff: "is_ok (unpad p) \<longleftrightarrow> (\<exists>d. p = pad d)"
  by (metis unpad_pad unpad_canonical is_ok_iff)

lemma unpad_shorter: "unpad p = Inr d \<Longrightarrow> length d < length p"
  using unpad_canonical pad_longer by fastforce

lemma unpad_inj: "unpad p = Inr d \<Longrightarrow> unpad q = Inr d \<Longrightarrow> p = q"
  using unpad_canonical by metis

end

interpretation att16: padding_scheme "\<lambda>d. pkcs7Pad d 16" "\<lambda>p. att_pkcs7Unpad p 16"
proof unfold_locales
  fix d p :: bytes
  show "att_pkcs7Unpad (pkcs7Pad d 16) 16 = Inr d"
    by (simp add: att_pkcs7Unpad_iff pkcs7Pad_valid pkcs7Pad_aligned)
  show "p = pkcs7Pad d 16" if "att_pkcs7Unpad p 16 = Inr d"
    using that by (simp add: att_pkcs7Unpad_iff pkcs7_valid_canonical)
  show "length d < length (pkcs7Pad d 16)"
    by (simp add: pkcs7Pad_eq)
qed

interpretation backup16: padding_scheme "\<lambda>d. pkcs7Pad d 16" "\<lambda>p. backup_pkcs7Unpad p 16"
proof unfold_locales
  fix d p :: bytes
  show "backup_pkcs7Unpad (pkcs7Pad d 16) 16 = Inr d"
    by (simp add: backup_pkcs7Unpad_iff pkcs7Pad_valid pkcs7Pad_aligned)
  show "p = pkcs7Pad d 16" if "backup_pkcs7Unpad p 16 = Inr d"
    using that by (simp add: backup_pkcs7Unpad_iff pkcs7_valid_canonical)
  show "length d < length (pkcs7Pad d 16)"
    by (simp add: pkcs7Pad_eq)
qed

lemma prov_unpad_pad: "prov_pkcs7Unpad (pkcs7Pad d 16) = Inr d"
  by (simp add: prov_pkcs7Unpad_iff pkcs7Pad_valid)

lemma prov_eq_att_aligned:
  "length p mod 16 = 0 \<Longrightarrow> prov_pkcs7Unpad p = Inr d \<longleftrightarrow> att_pkcs7Unpad p 16 = Inr d"
  by (simp add: prov_pkcs7Unpad_iff att_pkcs7Unpad_iff)

section \<open>Content padding\<close>

definition padContent :: "bytes \<Rightarrow> bytes" where
  "padContent body =
    (let target = 160 * (1 + length body div 160);
         out = body @ replicate (target - length body) 0
     in out[length body := 0x80])"

text \<open>The backward loop; the argument is one more than the loop's index i.\<close>

fun scanTerminator :: "bytes \<Rightarrow> nat \<Rightarrow> nat option" where
  "scanTerminator padded 0 = None"
| "scanTerminator padded (Suc i) =
    (if padded ! i = 0x80 then Some i
     else if padded ! i \<noteq> 0 then None
     else scanTerminator padded i)"

definition stripContentPadding :: "bytes \<Rightarrow> bytes" where
  "stripContentPadding padded =
    (case scanTerminator padded (length padded) of
       None \<Rightarrow> padded
     | Some idx \<Rightarrow> take idx padded)"

lemma len_div_mod_160:
  "length (b :: bytes) = length b div 160 * 160 + length b mod 160 \<and> length b mod 160 < 160"
  by simp

lemma arith_160:
  fixes l q r :: nat
  assumes "l = q * 160 + r \<and> r < 160"
  shows "160 * (1 + q) - l = Suc (159 - r)" and "l \<le> 160 * (1 + q)"
  using assms by auto

lemma padContent_eq:
  "padContent b = b @ 0x80 # replicate (159 - length b mod 160) 0"
proof -
  have t: "160 * (1 + length b div 160) - length b = Suc (159 - length b mod 160)"
    using arith_160 [OF len_div_mod_160] by blast
  show ?thesis
    unfolding padContent_def Let_def t by (simp add: list_update_append)
qed

lemma length_padContent: "length (padContent b) = 160 * (1 + length b div 160)"
proof -
  have "length b \<le> 160 * (1 + length b div 160)"
    using arith_160 [OF len_div_mod_160] by blast
  then show ?thesis by (simp add: padContent_def Let_def)
qed

lemma scanTerminator_Some:
  "n \<le> length p \<Longrightarrow> scanTerminator p n = Some i \<Longrightarrow>
     i < n \<and> p ! i = 0x80 \<and> (\<forall>j. i < j \<and> j < n \<longrightarrow> p ! j = 0)"
  by (induction p n rule: scanTerminator.induct) (auto split: if_splits simp: less_Suc_eq)

lemma scanTerminator_zeros:
  "i \<le> n \<Longrightarrow> (\<forall>j. i \<le> j \<and> j < n \<longrightarrow> p ! j = 0) \<Longrightarrow> scanTerminator p n = scanTerminator p i"
  by (induction n) (auto simp: le_Suc_eq)

lemma scanTerminator_body:
  "scanTerminator (b @ 0x80 # replicate k 0) (Suc (length b) + k) = Some (length b)"
proof -
  have "scanTerminator (b @ 0x80 # replicate k 0) (Suc (length b) + k) =
        scanTerminator (b @ 0x80 # replicate k 0) (Suc (length b))"
    by (rule scanTerminator_zeros) (auto simp: nth_append nth_Cons split: nat.splits)
  then show ?thesis by simp
qed

lemma strip_terminated: "stripContentPadding (b @ 0x80 # replicate k 0) = b"
  using scanTerminator_body [of b k] by (simp add: stripContentPadding_def)

lemma strip_cases:
  "stripContentPadding p = p \<or> (\<exists>k. p = stripContentPadding p @ 0x80 # replicate k 0)"
proof (cases "scanTerminator p (length p)")
  case None
  then show ?thesis by (simp add: stripContentPadding_def)
next
  case (Some i)
  then have i: "i < length p" "p ! i = 0x80" "\<forall>j. i < j \<and> j < length p \<longrightarrow> p ! j = 0"
    using scanTerminator_Some [of "length p" p i] by auto
  have "drop (Suc i) p = replicate (length p - Suc i) 0"
    using i by (intro nth_equalityI) auto
  then have "p = take i p @ 0x80 # replicate (length p - Suc i) 0"
    using i by (metis id_take_nth_drop)
  then show ?thesis using Some by (auto simp: stripContentPadding_def)
qed

section \<open>Properties\<close>

text \<open>
  The three PKCS#7 decoders (attachments, backup archives, provisioning) agree. On 16-byte
  blocks each accepts exactly the padded form of what it returns, so exactly one padding is
  valid for each message; the provisioning one alone omits the block-length check and agrees
  with the others on whole blocks.
\<close>

theorem pkcs7_decoders_agree:
  "(att_pkcs7Unpad p 16 = Inr d \<longleftrightarrow> p = pkcs7Pad d 16) \<and>
   (backup_pkcs7Unpad p 16 = Inr d \<longleftrightarrow> p = pkcs7Pad d 16) \<and>
   (prov_pkcs7Unpad p = Inr d \<and> length p mod 16 = 0 \<longleftrightarrow> p = pkcs7Pad d 16)"
  using att16.unpad_pad att16.unpad_canonical backup16.unpad_pad backup16.unpad_canonical
    prov_unpad_pad prov_eq_att_aligned pkcs7Pad_aligned [of 16 d] by fastforce

text \<open>
  Content padding (padContent, stripContentPadding). Stripping undoes padding; the padded
  length is the next multiple of 160 and depends on the plaintext length only through its
  160-byte bucket, so it hides the length within a bucket; stripping any other string returns
  it whole or removes one 0x80 and the zeros after it.
\<close>

theorem content_padding_round_trip:
  "stripContentPadding (padContent b) = b \<and>
   length (padContent b) = 160 * (1 + length b div 160) \<and>
   (length (padContent b) = length (padContent c) \<longleftrightarrow> length b div 160 = length c div 160) \<and>
   (stripContentPadding p = p \<or> (\<exists>k. p = stripContentPadding p @ 0x80 # replicate k 0))"
proof -
  have "stripContentPadding (padContent b) = b" by (simp add: padContent_eq strip_terminated)
  then show ?thesis using strip_cases by (simp add: length_padContent)
qed

end
