(* ===== verification/Crypto.thy ===== *)
theory Crypto
  imports Padding
begin

text \<open>
  The Go standard library's cryptography as the code uses it. The compression of SHA-256 and
  the AES block permutation are the fields of a record \<open>crypto\<close>, a parameter of every
  definition that needs them; HMAC (RFC 2104, crypto/hmac), CBC mode (crypto/cipher) and the
  constant-time comparison (crypto/subtle) are defined over it. \<open>block_cipher_ok\<close> and
  \<open>hash_ok\<close> name what the code relies on: AES decryption inverts encryption on 16-byte
  blocks, and SHA-256 returns 32 bytes.
\<close>

record crypto =
  sha256 :: "bytes \<Rightarrow> bytes"
  aes_enc :: "bytes \<Rightarrow> bytes \<Rightarrow> bytes"
  aes_dec :: "bytes \<Rightarrow> bytes \<Rightarrow> bytes"

definition block_cipher_ok :: "crypto \<Rightarrow> bool" where
  "block_cipher_ok C \<longleftrightarrow> (\<forall>k b. length b = 16 \<longrightarrow>
     length (aes_enc C k b) = 16 \<and> length (aes_dec C k b) = 16 \<and>
     aes_dec C k (aes_enc C k b) = b)"

definition hash_ok :: "crypto \<Rightarrow> bool" where
  "hash_ok C \<longleftrightarrow> (\<forall>m. length (sha256 C m) = 32)"

section \<open>HMAC-SHA256\<close>

definition xor_all :: "byte \<Rightarrow> bytes \<Rightarrow> bytes" where
  "xor_all p k = map (\<lambda>b. b XOR p) k"

definition hmac_key :: "crypto \<Rightarrow> bytes \<Rightarrow> bytes" where
  "hmac_key C key =
    (let k = (if length key > 64 then sha256 C key else key)
     in k @ replicate (64 - length k) 0)"

definition hmac :: "crypto \<Rightarrow> bytes \<Rightarrow> bytes \<Rightarrow> bytes" where
  "hmac C key msg =
    sha256 C (xor_all 0x5c (hmac_key C key) @
              sha256 C (xor_all 0x36 (hmac_key C key) @ msg))"

lemma length_hmac: "hash_ok C \<Longrightarrow> length (hmac C k m) = 32"
  by (simp add: hmac_def hash_ok_def)

section \<open>Constant-time comparison\<close>

text \<open>crypto/subtle: 0 on different lengths, otherwise 1 iff the XOR accumulator is 0.\<close>

definition constantTimeCompare :: "bytes \<Rightarrow> bytes \<Rightarrow> nat" where
  "constantTimeCompare x y =
    (if length x \<noteq> length y then 0
     else if foldl (\<lambda>v (a, b). v OR (a XOR b)) 0 (zip x y) = 0 then 1 else 0)"

lemma foldl_xor_zip:
  "length x = length y \<Longrightarrow>
   foldl (\<lambda>v (a, b). v OR (a XOR b)) (d :: byte) (zip x y) = 0 \<longleftrightarrow> d = 0 \<and> x = y"
  by (induction x y arbitrary: d rule: list_induct2) (auto simp: or_eq_0_word xor_eq_0_byte)

lemma constantTimeCompare_eq_1 [guard_simps]: "constantTimeCompare x y = 1 \<longleftrightarrow> x = y"
  by (auto simp: constantTimeCompare_def foldl_xor_zip)

lemma constantTimeCompare_eq_Suc_0 [guard_simps]: "constantTimeCompare x y = Suc 0 \<longleftrightarrow> x = y"
  using constantTimeCompare_eq_1 [of x y] by simp

lemma constantTimeCompare_refl [simp]: "constantTimeCompare x x = Suc 0"
  using constantTimeCompare_eq_1 [of x x] by simp

section \<open>CBC mode\<close>

definition xor_bytes :: "bytes \<Rightarrow> bytes \<Rightarrow> bytes" where
  "xor_bytes x y = map2 (XOR) x y"

lemma length_xor_bytes [simp]: "length (xor_bytes x y) = min (length x) (length y)"
  by (simp add: xor_bytes_def)

lemma xor_bytes_cancel:
  "length x = length y \<Longrightarrow> xor_bytes (xor_bytes x y) y = x"
  by (induction x y rule: list_induct2)
     (auto simp: xor_bytes_def xor.assoc)

text \<open>
  \<open>CryptBlocks\<close> on whole 16-byte blocks; the callers check the alignment (Go panics
  otherwise), and a shorter tail is dropped here.
\<close>

function cbc_encrypt :: "crypto \<Rightarrow> bytes \<Rightarrow> bytes \<Rightarrow> bytes \<Rightarrow> bytes" where
  "cbc_encrypt C key iv src =
    (if length src < 16 then []
     else let c = aes_enc C key (xor_bytes (take 16 src) iv)
          in c @ cbc_encrypt C key c (drop 16 src))"
  by auto
termination by (relation "measure (\<lambda>(C, key, iv, src). length src)") auto

function cbc_decrypt :: "crypto \<Rightarrow> bytes \<Rightarrow> bytes \<Rightarrow> bytes \<Rightarrow> bytes" where
  "cbc_decrypt C key iv src =
    (if length src < 16 then []
     else xor_bytes (aes_dec C key (take 16 src)) iv @
          cbc_decrypt C key (take 16 src) (drop 16 src))"
  by auto
termination by (relation "measure (\<lambda>(C, key, iv, src). length src)") auto

declare cbc_encrypt.simps [simp del] cbc_decrypt.simps [simp del]

lemma aligned_drop: "length (xs :: bytes) mod 16 = 0 \<Longrightarrow> length (drop 16 xs) mod 16 = 0"
  by (simp add: mod_eq_0_iff_dvd dvd_minus_self)

lemma aligned_short: "length (xs :: bytes) mod 16 = 0 \<Longrightarrow> length xs < 16 \<Longrightarrow> xs = []"
  by simp

lemma length_cbc_encrypt:
  "block_cipher_ok C \<Longrightarrow> length iv = 16 \<Longrightarrow> length src mod 16 = 0 \<Longrightarrow>
   length (cbc_encrypt C key iv src) = length src"
proof (induction C key iv src rule: cbc_encrypt.induct)
  case (1 C key iv src)
  show ?case
  proof (cases "length src < 16")
    case True
    then show ?thesis using 1 by (simp add: cbc_encrypt.simps)
  next
    case False
    then show ?thesis
      using 1 aligned_drop [of src]
      by (subst cbc_encrypt.simps) (simp add: Let_def block_cipher_ok_def)
  qed
qed

lemma length_cbc_decrypt:
  "block_cipher_ok C \<Longrightarrow> length iv = 16 \<Longrightarrow> length src mod 16 = 0 \<Longrightarrow>
   length (cbc_decrypt C key iv src) = length src"
proof (induction C key iv src rule: cbc_decrypt.induct)
  case (1 C key iv src)
  show ?case
  proof (cases "length src < 16")
    case True
    then show ?thesis using 1 by (simp add: cbc_decrypt.simps)
  next
    case False
    then show ?thesis
      using 1 aligned_drop [of src]
      by (subst cbc_decrypt.simps) (simp add: block_cipher_ok_def)
  qed
qed

lemma cbc_decrypt_step:
  "length c = 16 \<Longrightarrow> cbc_decrypt C k iv (c @ rest) =
     xor_bytes (aes_dec C k c) iv @ cbc_decrypt C k c rest"
  by (subst cbc_decrypt.simps) simp

lemma cbc_round_trip:
  "block_cipher_ok C \<Longrightarrow> length iv = 16 \<Longrightarrow> length src mod 16 = 0 \<Longrightarrow>
   cbc_decrypt C key iv (cbc_encrypt C key iv src) = src"
proof (induction C key iv src rule: cbc_encrypt.induct)
  case (1 C key iv src)
  show ?case
  proof (cases "length src < 16")
    case True
    then have "src = []" using 1 aligned_short by simp
    then show ?thesis by (simp add: cbc_encrypt.simps cbc_decrypt.simps)
  next
    case False
    define c where "c = aes_enc C key (xor_bytes (take 16 src) iv)"
    have l: "length c = 16" and d: "aes_dec C key c = xor_bytes (take 16 src) iv"
      using 1 False by (auto simp: c_def block_cipher_ok_def)
    have ih: "cbc_decrypt C key c (cbc_encrypt C key c (drop 16 src)) = drop 16 src"
      using "1.IH" [OF False c_def] "1.prems" l aligned_drop [of src] by simp
    have "cbc_encrypt C key iv src = c @ cbc_encrypt C key c (drop 16 src)"
      using False by (subst cbc_encrypt.simps) (simp add: c_def Let_def)
    then have "cbc_decrypt C key iv (cbc_encrypt C key iv src) =
        xor_bytes (xor_bytes (take 16 src) iv) iv @ drop 16 src"
      by (simp add: cbc_decrypt_step l d ih)
    also have "\<dots> = take 16 src @ drop 16 src"
      using False 1 by (simp add: xor_bytes_cancel)
    finally show ?thesis by simp
  qed
qed

section \<open>An instance\<close>

text \<open>
  A small instance of the parameter, used by the witnesses: the block permutation adds the
  first key byte to every byte of the block, the digest sums the message into 32 bytes.
\<close>

definition sum_crypto :: crypto where
  "sum_crypto = \<lparr> sha256 = (\<lambda>m. replicate 32 (sum_list m)),
                  aes_enc = (\<lambda>k b. map (\<lambda>x. x + hd (k @ [0])) b),
                  aes_dec = (\<lambda>k b. map (\<lambda>x. x - hd (k @ [0])) b) \<rparr>"

lemma sum_crypto_ok: "block_cipher_ok sum_crypto" "hash_ok sum_crypto"
  by (simp_all add: block_cipher_ok_def hash_ok_def sum_crypto_def o_def)

end
