(* ===== verification/Encoding.thy ===== *)
theory Encoding
  imports Prelude
begin

text \<open>
  Text encodings: hexadecimal (encoding/hex) and the UUID strings of
  internal/libsignal/uuid.go. The locale \<open>codec\<close> states what a client of an encoder and a
  fallible decoder relies on; it is interpreted on both.
\<close>

section \<open>The contract of an encoder and its decoder\<close>

locale codec =
  fixes wf :: "'a \<Rightarrow> bool" and enc :: "'a \<Rightarrow> 'b" and dec :: "'b \<Rightarrow> 'e + 'a"
  assumes dec_enc: "wf a \<Longrightarrow> dec (enc a) = Inr a"
    and dec_wf: "dec b = Inr a \<Longrightarrow> wf a"
begin

lemma enc_inj: "wf a \<Longrightarrow> wf a' \<Longrightarrow> enc a = enc a' \<Longrightarrow> a = a'"
  by (metis dec_enc sum.inject(2))

lemma dec_idem: "dec b = Inr a \<Longrightarrow> dec (enc a) = dec b"
  using dec_enc dec_wf by simp

lemma rejected_not_encoded: "dec b = Inl e \<Longrightarrow> wf a \<Longrightarrow> b \<noteq> enc a"
  using dec_enc by auto

end

section \<open>Hexadecimal\<close>

definition hextable :: string where
  "hextable = ''0123456789abcdef''"

definition hexDigit :: "nat \<Rightarrow> char" where
  "hexDigit n = hextable ! n"

fun hexEncode :: "bytes \<Rightarrow> string" where
  "hexEncode [] = []"
| "hexEncode (b # bs) = hexDigit (unat b div 16) # hexDigit (unat b mod 16) # hexEncode bs"

text \<open>\<open>fromHexChar\<close>: lower and upper case digits.\<close>

definition fromHexChar :: "char \<Rightarrow> nat option" where
  "fromHexChar c =
    (let n = of_char c :: nat in
     if 48 \<le> n \<and> n \<le> 57 then Some (n - 48)
     else if 97 \<le> n \<and> n \<le> 102 then Some (n - 87)
     else if 65 \<le> n \<and> n \<le> 70 then Some (n - 55)
     else None)"

datatype hex_error = InvalidByte char | HexLength

fun hexDecode :: "string \<Rightarrow> hex_error + bytes" where
  "hexDecode [] = Inr []"
| "hexDecode [p] = (if fromHexChar p = None then Inl (InvalidByte p) else Inl HexLength)"
| "hexDecode (p # q # s) =
    (case fromHexChar p of None \<Rightarrow> Inl (InvalidByte p)
     | Some a \<Rightarrow> case fromHexChar q of None \<Rightarrow> Inl (InvalidByte q)
       | Some b \<Rightarrow> bindR (hexDecode s) (\<lambda>bs. Inr (of_nat (a * 16 + b) # bs)))"

lemma fromHexChar_digits: "list_all (\<lambda>n. fromHexChar (hexDigit n) = Some n) [0..<16]"
  by code_simp

lemma fromHexChar_hexDigit [simp]: "n < 16 \<Longrightarrow> fromHexChar (hexDigit n) = Some n"
  using fromHexChar_digits by (simp add: list_all_iff)

lemma hexDecode_hexEncode [simp]: "hexDecode (hexEncode bs) = Inr bs"
proof (induction bs)
  case (Cons b bs)
  have "unat b div 16 < 16" using unat_byte_less [of b] by (simp add: div_less_iff_less_mult)
  then show ?case using Cons by simp
qed simp

lemma length_hexEncode [simp]: "length (hexEncode bs) = 2 * length bs"
  by (induction bs) auto

lemma length_hexDecode: "hexDecode s = Inr bs \<Longrightarrow> length s = 2 * length bs"
  by (induction s arbitrary: bs rule: hexDecode.induct)
     (auto split: option.splits if_splits simp: bindR_Inr_iff)

interpretation hex: codec "\<lambda>_. True" hexEncode hexDecode
  by unfold_locales simp_all

section \<open>UUIDs\<close>

datatype uuid_error = InvalidUUID string | UUIDHex hex_error | UUIDLength

text \<open>
  The index expressions \<open>s[8]\<close> ... are reached only after the length check, as Go's
  short-circuit \<open>||\<close> does.
\<close>

definition ParseUUIDString :: "string \<Rightarrow> uuid_error + bytes" where
  "ParseUUIDString s =
    (if length s \<noteq> 36 \<or> s ! 8 \<noteq> CHR ''-'' \<or> s ! 13 \<noteq> CHR ''-'' \<or> s ! 18 \<noteq> CHR ''-'' \<or>
        s ! 23 \<noteq> CHR ''-''
     then Inl (InvalidUUID s)
     else
       let hexStr = subslice 0 8 s @ subslice 9 13 s @ subslice 14 18 s @ subslice 19 23 s @
                    subslice 24 36 s
       in case hexDecode hexStr of
            Inl e \<Rightarrow> Inl (UUIDHex e)
          | Inr b \<Rightarrow> if length b \<noteq> 16 then Inl UUIDLength else Inr b)"

text \<open>formatUUID (stores_impl.go): a dash after bytes 3, 5, 7 and 9.\<close>

fun uuid_loop :: "nat \<Rightarrow> bytes \<Rightarrow> string" where
  "uuid_loop i [] = []"
| "uuid_loop i (v # vs) =
    hexDigit (unat (drop_bit 4 v)) # hexDigit (unat (v AND 0x0F)) #
    (if i = 3 \<or> i = 5 \<or> i = 7 \<or> i = 9 then CHR ''-'' # uuid_loop (i + 1) vs
     else uuid_loop (i + 1) vs)"

definition formatUUID :: "bytes \<Rightarrow> string" where
  "formatUUID b = uuid_loop 0 b"

definition FormatRawUUID :: "bytes \<Rightarrow> string" where
  "FormatRawUUID b = (if b = replicate 16 0 then [] else formatUUID b)"

text \<open>\<open>rnd\<close> is what crypto/rand put into the array.\<close>

definition NewRandomUUID :: "bytes \<Rightarrow> string" where
  "NewRandomUUID rnd =
    (let b1 = rnd[6 := (rnd ! 6 AND 0x0f) OR 0x40];
         b2 = b1[8 := (b1 ! 8 AND 0x3f) OR 0x80]
     in formatUUID b2)"

lemma nibbles:
  "unat (drop_bit 4 v :: byte) < 16" "unat (v AND 0x0F :: byte) < 16"
  "of_nat (unat (drop_bit 4 v) * 16 + unat (v AND 0x0F)) = (v :: byte)"
proof -
  have d: "unat (drop_bit 4 v) = unat v div 16"
    by (subst unat_drop_bit_eq, subst drop_bit_eq_div) simp
  have m: "unat (v AND 0x0F) = unat v mod 16"
    using take_bit_eq_mask [of 4 "unat v"]
    by (simp add: unsigned_and_eq mask_eq_exp_minus_1 take_bit_eq_mod)
  show "unat (drop_bit 4 v) < 16"
    using unat_byte_less [of v] by (simp add: d div_less_iff_less_mult)
  show "unat (v AND 0x0F) < 16" by (simp add: m)
  show "of_nat (unat (drop_bit 4 v) * 16 + unat (v AND 0x0F)) = v"
    by (simp only: d m div_mult_mod_eq) simp
qed

lemma length_16_cases:
  "length b = 16 \<Longrightarrow> \<exists>b0 b1 b2 b3 b4 b5 b6 b7 b8 b9 b10 b11 b12 b13 b14 b15.
     b = [b0, b1, b2, b3, b4, b5, b6, b7, b8, b9, b10, b11, b12, b13, b14, b15]"
  by (auto simp add: numeral_eq_Suc length_Suc_conv)

lemma ParseUUIDString_formatUUID:
  assumes "length b = 16"
  shows "ParseUUIDString (formatUUID b) = Inr b"
  using length_16_cases [OF assms]
  by (elim exE) (simp add: formatUUID_def ParseUUIDString_def subslice_def nibbles del: of_nat_add)

lemma length_formatUUID:
  assumes "length b = 16"
  shows "length (formatUUID b) = 36"
  using length_16_cases [OF assms] by (elim exE) (simp add: formatUUID_def)

interpretation uuid: codec "\<lambda>b. length b = 16" formatUUID ParseUUIDString
  by unfold_locales
     (auto simp: ParseUUIDString_formatUUID, auto simp: ParseUUIDString_def Let_def
       split: if_splits sum.splits)

lemma version_bits:
  "((x :: byte) AND 0x0f OR 0x40) AND 0xf0 = 0x40" "((x :: byte) AND 0x3f OR 0x80) AND 0xc0 = 0x80"
  by (simp_all add: bit.conj_disj_distrib2 and.assoc)

text \<open>
  UUID strings (formatUUID, ParseUUIDString, NewRandomUUID). Sixteen bytes printed as a UUID
  parse back to themselves, so no two of them share a string, and every string that parses
  denotes sixteen bytes; the zero UUID alone prints as the empty string in FormatRawUUID; a
  fresh UUID carries version 4 and the RFC 4122 variant and leaves the other 14 random bytes
  as they were drawn.
\<close>

theorem uuid_round_trip:
  assumes "length b = 16" "length b' = 16"
  shows "ParseUUIDString (formatUUID b) = Inr b \<and> (formatUUID b = formatUUID b' \<longleftrightarrow> b = b') \<and>
    length (formatUUID b) = 36 \<and>
    (FormatRawUUID b = [] \<longleftrightarrow> b = replicate 16 0) \<and>
    (ParseUUIDString s = Inr c \<longrightarrow> length s = 36 \<and> length c = 16) \<and>
    (\<exists>u. ParseUUIDString (NewRandomUUID b) = Inr u \<and> u ! 6 AND 0xf0 = 0x40 \<and> u ! 8 AND 0xc0 = 0x80 \<and>
       list_all (\<lambda>i. if i = 6 \<or> i = 8 then True else u ! i = b ! i) [0..<16])"
proof (intro conjI impI)
  show "ParseUUIDString (formatUUID b) = Inr b" by (rule uuid.dec_enc [OF assms(1)])
  show "formatUUID b = formatUUID b' \<longleftrightarrow> b = b'" using uuid.enc_inj assms by blast
  show l: "length (formatUUID b) = 36" by (rule length_formatUUID [OF assms(1)])
  show "FormatRawUUID b = [] \<longleftrightarrow> b = replicate 16 0" using l by (auto simp: FormatRawUUID_def)
  show "length s = 36" "length c = 16" if "ParseUUIDString s = Inr c"
    using that uuid.dec_wf [OF that] by (auto simp: ParseUUIDString_def split: if_splits)
  let ?u = "b[6 := (b ! 6 AND 0x0f) OR 0x40, 8 := (b ! 8 AND 0x3f) OR 0x80]"
  have "ParseUUIDString (NewRandomUUID b) = Inr ?u"
    using assms by (simp add: NewRandomUUID_def Let_def uuid.dec_enc)
  then show "\<exists>u. ParseUUIDString (NewRandomUUID b) = Inr u \<and> u ! 6 AND 0xf0 = 0x40 \<and> u ! 8 AND 0xc0 = 0x80 \<and>
       list_all (\<lambda>i. if i = 6 \<or> i = 8 then True else u ! i = b ! i) [0..<16]"
    using assms by (intro exI [of _ ?u]) (auto simp: version_bits list_all_iff)
qed

theorem uuid_round_trip_witness:
  "formatUUID (replicate 16 0xab) \<noteq> formatUUID (replicate 16 0xaa) \<and>
   ParseUUIDString (formatUUID (replicate 16 0xab)) = Inr (replicate 16 0xab)"
  using uuid_round_trip [of "replicate 16 0xab" "replicate 16 0xaa"] by simp

end
