(* ===== verification/Attachment.thy ===== *)
theory Attachment
  imports Crypto Encoding
begin

text \<open>
  Attachment encryption: internal/attachment/cipher.go (the legacy PKCS#7 format),
  internal/attachment/padding.go and internal/attachment/v2.go (log padding, incremental
  MAC), and the chunking loop of internal/libsignal/incremental_mac.go. Keys, IVs and the
  floating-point bucket of LogPadSize are arguments; the libsignal incremental MAC handles
  are parameters.
\<close>

datatype att_error =
    AttKeySize
  | AttTooShort
  | AttDigestSize
  | AttMacMismatch
  | AttDigestMismatch
  | AttBadLength
  | AttPadding pad_error
  | AttShorterThanSize
  | AttPackKeySize
  | AttChunkSizeRequired
  | AttHkdf string
  | AttIncrementalMac string

definition CombinedKeySize :: nat where "CombinedKeySize = 64"
definition cipherKeySize :: nat where "cipherKeySize = 32"
definition IVSize :: nat where "IVSize = 16"
definition MacSize :: nat where "MacSize = 32"

lemmas size_defs = CombinedKeySize_def cipherKeySize_def IVSize_def MacSize_def

section \<open>Sizes\<close>

text \<open>The int64 argument is a 64-bit word: a negative length is one with \<open>sint n < 0\<close>.\<close>

definition CiphertextLength :: "64 word \<Rightarrow> 64 word" where
  "CiphertextLength plaintextLen =
    (if sint plaintextLen < 0 then 0
     else let padded = (plaintextLen div 16 + 1) * 16
          in 16 + padded + 32)"

text \<open>\<open>bucket\<close> is \<open>int(math.Max(541, ...))\<close>, computed in floating point.\<close>

definition LogPadSize :: "(int \<Rightarrow> int) \<Rightarrow> int \<Rightarrow> int" where
  "LogPadSize bucket n = (if n \<le> 0 then 541 else bucket n)"

definition logPad :: "(int \<Rightarrow> int) \<Rightarrow> bytes \<Rightarrow> bytes" where
  "logPad bucket plaintext =
    (let target = LogPadSize bucket (int (length plaintext)) in
     if target \<le> int (length plaintext) then plaintext
     else plaintext @ replicate (nat target - length plaintext) 0)"

definition trimLogPad :: "bytes \<Rightarrow> int \<Rightarrow> bytes" where
  "trimLogPad padded plaintextLen =
    (if plaintextLen \<le> 0 \<or> plaintextLen > int (length padded) then padded
     else take (nat plaintextLen) padded)"

definition CiphertextLengthV2 :: "(int \<Rightarrow> int) \<Rightarrow> int \<Rightarrow> int" where
  "CiphertextLengthV2 bucket plaintextLen =
    (let padded = LogPadSize bucket plaintextLen;
         encLen = (if padded mod 16 = 0 then padded + 16 else (padded div 16 + 1) * 16)
     in int IVSize + encLen + int MacSize)"

section \<open>The legacy format\<close>

record encrypt_result =
  Ciphertext :: bytes
  Digest :: bytes

definition transmittedDigest :: "crypto \<Rightarrow> bytes \<Rightarrow> bytes" where
  "transmittedDigest C blob =
    (if length blob < MacSize then []
     else sha256 C (take (length blob - MacSize) blob @ drop (length blob - MacSize) blob))"

definition Encrypt :: "crypto \<Rightarrow> bytes \<Rightarrow> bytes \<Rightarrow> bytes \<Rightarrow> att_error + encrypt_result" where
  "Encrypt C iv plaintext combinedKey =
    (if length combinedKey \<noteq> CombinedKeySize then Inl AttKeySize
     else
       let cipherKey = take cipherKeySize combinedKey;
           macKey = drop cipherKeySize combinedKey;
           padded = pkcs7Pad plaintext 16;
           encrypted = cbc_encrypt C cipherKey iv padded;
           tag = hmac C macKey (iv @ encrypted);
           out = iv @ encrypted @ tag;
           digest = transmittedDigest C out
       in Inr \<lparr> Ciphertext = out, Digest = digest \<rparr>)"

definition Decrypt ::
  "crypto \<Rightarrow> bytes \<Rightarrow> bytes \<Rightarrow> bytes option \<Rightarrow> int \<Rightarrow> att_error + bytes" where
  "Decrypt C ciphertext combinedKey digest plaintextLen =
    (if length combinedKey \<noteq> CombinedKeySize then Inl AttKeySize
     else if length ciphertext \<le> IVSize + MacSize then Inl AttTooShort
     else if (\<exists>d \<in> set_option digest. length d \<noteq> 32) then Inl AttDigestSize
     else
       let macKey = drop cipherKeySize combinedKey;
           bodyEnd = length ciphertext - MacSize;
           theirMAC = drop bodyEnd ciphertext;
           ourMAC = hmac C macKey (take bodyEnd ciphertext)
       in if constantTimeCompare ourMAC theirMAC \<noteq> 1 then Inl AttMacMismatch
       else
         let gotDigest = transmittedDigest C ciphertext
         in if (\<exists>d \<in> set_option digest. constantTimeCompare gotDigest d \<noteq> 1)
            then Inl AttDigestMismatch
         else
           let cipherKey = take cipherKeySize combinedKey;
               iv = take IVSize ciphertext;
               enc = subslice IVSize bodyEnd ciphertext
           in if length enc mod 16 \<noteq> 0 then Inl AttBadLength
           else
             case att_pkcs7Unpad (cbc_decrypt C cipherKey iv enc) 16 of
               Inl e \<Rightarrow> Inl (AttPadding e)
             | Inr plain \<Rightarrow>
                 if plaintextLen > 0 then
                   if int (length plain) < plaintextLen then Inl AttShorterThanSize
                   else Inr (take (nat plaintextLen) plain)
                 else Inr plain)"

text \<open>\<open>hkdf\<close> is \<open>libsignal.HKDFSHA256(64, packKey, "Sticker Pack", nil)\<close>.\<close>

definition ExpandStickerPackKey :: "(bytes \<Rightarrow> string + bytes) \<Rightarrow> bytes \<Rightarrow> att_error + bytes" where
  "ExpandStickerPackKey hkdf packKey =
    (if length packKey \<noteq> 32 then Inl AttPackKeySize
     else wrapR AttHkdf (hkdf packKey))"

definition DecryptSticker ::
  "crypto \<Rightarrow> (bytes \<Rightarrow> string + bytes) \<Rightarrow> bytes \<Rightarrow> bytes \<Rightarrow> att_error + bytes" where
  "DecryptSticker C hkdf ciphertext packKey =
    bindR (ExpandStickerPackKey hkdf packKey)
      (\<lambda>combined. Decrypt C ciphertext combined None 0)"

section \<open>Incremental MAC\<close>

text \<open>
  The libsignal handles: a handle of type \<open>'h\<close> is created from key and chunk size, fed
  chunks (each call returns the digest completed by it, possibly empty) and finalised. The
  two checks of NewIncrementalMac are the wrapper's own.
\<close>

record 'h imac_api =
  imac_init :: "bytes \<Rightarrow> u32 \<Rightarrow> string + 'h"
  imac_update :: "'h \<Rightarrow> bytes \<Rightarrow> string + ('h \<times> bytes)"
  imac_finalize :: "'h \<Rightarrow> string + bytes"
  vmac_init :: "bytes \<Rightarrow> u32 \<Rightarrow> bytes \<Rightarrow> string + 'h"
  vmac_update :: "'h \<Rightarrow> bytes \<Rightarrow> string + ('h \<times> int)"
  vmac_finalize :: "'h \<Rightarrow> string + int"
  imac_chunk_size :: "u32 \<Rightarrow> string + u32"

definition NewIncrementalMac :: "'h imac_api \<Rightarrow> bytes \<Rightarrow> u32 \<Rightarrow> string + 'h" where
  "NewIncrementalMac A key chunkSize =
    (if length key \<noteq> 32 then Inl ''key must be 32 bytes''
     else if chunkSize = 0 then Inl ''chunk size must be positive''
     else imac_init A key chunkSize)"

definition imac_Update :: "'h imac_api \<Rightarrow> 'h \<Rightarrow> bytes \<Rightarrow> string + ('h \<times> bytes list)" where
  "imac_Update A h data =
    (if length data = 0 then Inr (h, [])
     else bindR (imac_update A h data)
       (\<lambda>(h', out). Inr (h', if length out = 0 then [] else [out])))"

text \<open>The loop of DigestIncrementalMac; it only runs with a positive chunk size.\<close>

function digest_loop ::
  "'h imac_api \<Rightarrow> nat \<Rightarrow> 'h \<Rightarrow> bytes \<Rightarrow> bytes list \<Rightarrow> string + ('h \<times> bytes list)" where
  "digest_loop A chunkSize h data parts =
    (if data = [] \<or> chunkSize = 0 then Inr (h, parts)
     else
       let n = (if chunkSize > length data then length data else chunkSize)
       in case imac_Update A h (take n data) of
            Inl e \<Rightarrow> Inl e
          | Inr (h', emitted) \<Rightarrow> digest_loop A chunkSize h' (drop n data) (parts @ emitted))"
  by auto
termination
  by (relation "measure (\<lambda>(A, c, h, data, parts). length data)") (auto split: if_splits)

declare digest_loop.simps [simp del]

definition DigestIncrementalMac ::
  "'h imac_api \<Rightarrow> bytes \<Rightarrow> u32 \<Rightarrow> bytes \<Rightarrow> string + bytes" where
  "DigestIncrementalMac A key chunkSize data =
    bindR (NewIncrementalMac A key chunkSize)
      (\<lambda>h. bindR (digest_loop A (unat chunkSize) h data [])
        (\<lambda>(h', parts). bindR (imac_finalize A h')
          (\<lambda>final. Inr (concat (parts @ [final])))))"

text \<open>NewValidatingMac, Update and Finalize with their own checks.\<close>

definition NewValidatingMac :: "'h imac_api \<Rightarrow> bytes \<Rightarrow> u32 \<Rightarrow> bytes \<Rightarrow> string + 'h" where
  "NewValidatingMac A key chunkSize digests =
    (if length key \<noteq> 32 then Inl ''key must be 32 bytes''
     else if chunkSize = 0 then Inl ''chunk size must be positive''
     else if length digests = 0 then Inl ''digests required''
     else vmac_init A key chunkSize digests)"

definition vmac_Update :: "'h imac_api \<Rightarrow> 'h \<Rightarrow> bytes \<Rightarrow> string + ('h \<times> int)" where
  "vmac_Update A h data =
    (if length data = 0 then Inr (h, 0)
     else bindR (vmac_update A h data)
       (\<lambda>(h', validated). if validated < 0 then Inl ''MAC verification failed''
                          else Inr (h', validated)))"

definition vmac_Finalize :: "'h imac_api \<Rightarrow> 'h \<Rightarrow> string + int" where
  "vmac_Finalize A h =
    bindR (vmac_finalize A h)
      (\<lambda>validated. if validated < 0 then Inl ''MAC verification failed'' else Inr validated)"

section \<open>The v2 format\<close>

definition SupportsIncrementalMac :: "string \<Rightarrow> bool" where
  "SupportsIncrementalMac contentType \<longleftrightarrow> contentType = ''video/mp4''"

record v2_result =
  v2Ciphertext :: bytes
  v2Digest :: bytes
  v2PlaintextHash :: string
  v2IncrementalMAC :: bytes
  v2ChunkSize :: u32

definition splitKeys :: "bytes \<Rightarrow> bytes \<times> bytes" where
  "splitKeys combined = (take cipherKeySize combined, drop cipherKeySize combined)"

definition EncryptV2 ::
  "crypto \<Rightarrow> 'h imac_api \<Rightarrow> (int \<Rightarrow> int) \<Rightarrow> bytes \<Rightarrow> bytes \<Rightarrow> bytes \<Rightarrow> string \<Rightarrow>
   att_error + v2_result" where
  "EncryptV2 C A bucket iv plaintext combinedKey contentType =
    (if length combinedKey \<noteq> CombinedKeySize then Inl AttKeySize
     else
       let (aesKey, macKey) = splitKeys combinedKey;
           padded = logPad bucket plaintext;
           pkcs = pkcs7Pad padded 16;
           encrypted = cbc_encrypt C aesKey iv pkcs;
           body = iv @ encrypted;
           tag = hmac C macKey body;
           ciphertext = body @ tag;
           result = \<lparr> v2Ciphertext = ciphertext, v2Digest = sha256 C ciphertext,
                      v2PlaintextHash = hexEncode (sha256 C plaintext),
                      v2IncrementalMAC = [], v2ChunkSize = 0 \<rparr>
       in if SupportsIncrementalMac contentType
          then wrapR AttIncrementalMac
                 (bindR (imac_chunk_size A (of_nat (length ciphertext)))
                   (\<lambda>chunkSize. bindR (DigestIncrementalMac A macKey chunkSize ciphertext)
                     (\<lambda>incr. Inr (result\<lparr> v2IncrementalMAC := incr,
                                           v2ChunkSize := chunkSize \<rparr>))))
          else Inr result)"

definition check_incremental ::
  "'h imac_api \<Rightarrow> bytes \<Rightarrow> u32 \<Rightarrow> bytes \<Rightarrow> bytes \<Rightarrow> att_error + unit" where
  "check_incremental A macKey chunkSize incrementalMAC ciphertext =
    (if length incrementalMAC > 0 then
       if chunkSize = 0 then Inl AttChunkSizeRequired
       else wrapR AttIncrementalMac
              (bindR (NewValidatingMac A macKey chunkSize incrementalMAC)
                (\<lambda>v. bindR (vmac_Update A v ciphertext)
                  (\<lambda>(v', n). bindR (vmac_Finalize A v') (\<lambda>n. Inr ()))))
     else Inr ())"

definition DecryptV2 ::
  "crypto \<Rightarrow> 'h imac_api \<Rightarrow> bytes \<Rightarrow> bytes \<Rightarrow> bytes option \<Rightarrow> bytes \<Rightarrow> u32 \<Rightarrow> int \<Rightarrow>
   att_error + bytes" where
  "DecryptV2 C A ciphertext combinedKey digest incrementalMAC chunkSize plaintextLen =
    (if length combinedKey \<noteq> CombinedKeySize then Inl AttKeySize
     else if length ciphertext \<le> IVSize + MacSize then Inl AttTooShort
     else if (\<exists>d \<in> set_option digest. length d \<noteq> 32) then Inl AttDigestSize
     else
       let (aesKey, macKey) = splitKeys combinedKey
       in if (\<exists>d \<in> set_option digest. constantTimeCompare (sha256 C ciphertext) d \<noteq> 1)
          then Inl AttDigestMismatch
       else case check_incremental A macKey chunkSize incrementalMAC ciphertext of
         Inl e \<Rightarrow> Inl e
       | Inr _ \<Rightarrow>
         let bodyEnd = length ciphertext - MacSize;
             theirMAC = drop bodyEnd ciphertext
         in if constantTimeCompare (hmac C macKey (take bodyEnd ciphertext)) theirMAC \<noteq> 1
            then Inl AttMacMismatch
         else
           let iv = take IVSize ciphertext;
               enc = subslice IVSize bodyEnd ciphertext
           in if length enc mod 16 \<noteq> 0 then Inl AttBadLength
           else
             case att_pkcs7Unpad (cbc_decrypt C aesKey iv enc) 16 of
               Inl e \<Rightarrow> Inl (AttPadding e)
             | Inr unpadded \<Rightarrow> Inr (trimLogPad unpadded plaintextLen))"

definition DecryptAuto ::
  "crypto \<Rightarrow> 'h imac_api \<Rightarrow> bytes \<Rightarrow> bytes \<Rightarrow> bytes option \<Rightarrow> bytes \<Rightarrow> u32 \<Rightarrow> int \<Rightarrow>
   att_error + bytes" where
  "DecryptAuto C A ciphertext combinedKey digest incrementalMAC chunkSize plaintextLen =
    (if length incrementalMAC > 0 \<or> chunkSize > 0
     then DecryptV2 C A ciphertext combinedKey digest incrementalMAC chunkSize plaintextLen
     else case DecryptV2 C A ciphertext combinedKey digest [] 0 plaintextLen of
       Inr out \<Rightarrow> Inr out
     | Inl _ \<Rightarrow> Decrypt C ciphertext combinedKey digest plaintextLen)"


section \<open>Shape of a sealed blob\<close>

lemma sealed_parts:
  assumes "length iv = 16" "length tag = 32"
  shows "take (length (iv @ enc @ tag) - MacSize) (iv @ enc @ tag) = iv @ enc"
    and "drop (length (iv @ enc @ tag) - MacSize) (iv @ enc @ tag) = tag"
    and "take IVSize (iv @ enc @ tag) = iv"
    and "subslice IVSize (length (iv @ enc @ tag) - MacSize) (iv @ enc @ tag) = enc"
  using assms by (simp_all add: size_defs subslice_def)

lemma blob_split:
  assumes "IVSize + MacSize < length ct"
  shows "ct = take IVSize ct @ subslice IVSize (length ct - MacSize) ct @
              drop (length ct - MacSize) ct"
    and "length (take IVSize ct) = 16"
    and "take (length ct - MacSize) ct = take IVSize ct @ subslice IVSize (length ct - MacSize) ct"
proof -
  show "ct = take IVSize ct @ subslice IVSize (length ct - MacSize) ct @
             drop (length ct - MacSize) ct"
    using assms take_subslice_drop [of IVSize "length ct - MacSize" ct]
    by (simp add: size_defs)
  show "length (take IVSize ct) = 16"
    using assms by (simp add: size_defs)
  show "take (length ct - MacSize) ct = take IVSize ct @ subslice IVSize (length ct - MacSize) ct"
    using assms by (simp add: size_defs subslice_def flip: take_add)
qed

lemma transmittedDigest_eq: "MacSize \<le> length ct \<Longrightarrow> transmittedDigest C ct = sha256 C ct"
  by (simp add: transmittedDigest_def)

text \<open>The plaintext behind an accepted blob, with the guards that both decryptors share.\<close>

definition opens :: "crypto \<Rightarrow> bytes \<Rightarrow> bytes \<Rightarrow> bytes option \<Rightarrow> bytes \<Rightarrow> bool" where
  "opens C ct key digest plain \<longleftrightarrow>
     length key = CombinedKeySize \<and> IVSize + MacSize < length ct \<and>
     (\<forall>d \<in> set_option digest. length d = 32 \<and> d = sha256 C ct) \<and>
     drop (length ct - MacSize) ct =
       hmac C (drop cipherKeySize key) (take (length ct - MacSize) ct) \<and>
     length (subslice IVSize (length ct - MacSize) ct) mod 16 = 0 \<and>
     att_pkcs7Unpad (cbc_decrypt C (take cipherKeySize key) (take IVSize ct)
       (subslice IVSize (length ct - MacSize) ct)) 16 = Inr plain"

lemma Decrypt_ok_iff:
  "Decrypt C ct key digest n = Inr out \<longleftrightarrow>
     (\<exists>plain. opens C ct key digest plain \<and>
        (if n > 0 then n \<le> int (length plain) \<and> out = take (nat n) plain else out = plain))"
  by (cases digest)
     (auto simp: Decrypt_def opens_def Let_def guard_simps transmittedDigest_eq
       split: sum.splits if_splits)

lemma DecryptV2_plain_ok_iff:
  "DecryptV2 C A ct key digest [] 0 n = Inr out \<longleftrightarrow>
     (\<exists>plain. opens C ct key digest plain \<and> out = trimLogPad plain n)"
  by (cases digest)
     (auto simp: DecryptV2_def opens_def Let_def guard_simps splitKeys_def check_incremental_def
       split: sum.splits if_splits)

lemma DecryptV2_ok_iff:
  "DecryptV2 C A ct key digest imac cs n = Inr out \<longleftrightarrow>
     check_incremental A (drop cipherKeySize key) cs imac ct = Inr () \<and>
     (\<exists>plain. opens C ct key digest plain \<and> out = trimLogPad plain n)"
  by (cases digest)
     (auto simp: DecryptV2_def opens_def Let_def guard_simps splitKeys_def
       split: sum.splits if_splits)

lemma trimLogPad_of_truncated:
  "(if n > 0 then n \<le> int (length plain) \<and> out = take (nat n) plain else out = plain) \<Longrightarrow>
   out = trimLogPad plain n"
  by (auto simp: trimLogPad_def split: if_splits)

lemma sealed_opens:
  assumes ok: "block_cipher_ok C" "hash_ok C" and iv: "length iv = 16"
    and key: "length key = CombinedKeySize"
    and ct: "ct = iv @ enc @ hmac C (drop cipherKeySize key) (iv @ enc)"
    and enc: "enc = cbc_encrypt C (take cipherKeySize key) iv (pkcs7Pad p 16)"
    and d: "digest = None \<or> digest = Some (sha256 C ct)"
  shows "opens C ct key digest p"
proof -
  have le: "length enc = length (pkcs7Pad p 16)"
    using ok iv by (simp add: enc length_cbc_encrypt pkcs7Pad_aligned)
  note parts = sealed_parts [of iv "hmac C (drop cipherKeySize key) (iv @ enc)" enc,
      OF iv length_hmac [OF ok(2)], folded ct]
  have len: "IVSize + MacSize < length ct"
    using iv le att16.pad_longer [of p]
    by (simp add: ct length_hmac [OF ok(2)] size_defs length_0_conv [symmetric] del: length_0_conv)
  have dec: "cbc_decrypt C (take cipherKeySize key) iv enc = pkcs7Pad p 16"
    unfolding enc using ok iv by (simp add: cbc_round_trip pkcs7Pad_aligned)
  have "\<forall>x \<in> set_option digest. length x = 32 \<and> x = sha256 C ct"
    using d ok(2) by (auto simp: hash_ok_def)
  then show ?thesis
    using key len by (simp add: opens_def parts dec le pkcs7Pad_aligned att16.unpad_pad)
qed

lemma Encrypt_ok:
  assumes "Encrypt C iv p key = Inr r"
  shows "length key = CombinedKeySize \<and>
    Ciphertext r = iv @ cbc_encrypt C (take cipherKeySize key) iv (pkcs7Pad p 16) @
      hmac C (drop cipherKeySize key)
        (iv @ cbc_encrypt C (take cipherKeySize key) iv (pkcs7Pad p 16)) \<and>
    Digest r = transmittedDigest C (Ciphertext r)"
  using assms by (auto simp: Encrypt_def Let_def split: if_splits)

lemma Encrypt_opens:
  assumes "block_cipher_ok C" "hash_ok C" "length iv = 16" "Encrypt C iv p key = Inr r"
  shows "opens C (Ciphertext r) key (Some (Digest r)) p"
proof -
  note r = Encrypt_ok [OF assms(4)]
  have "MacSize \<le> length (Ciphertext r)"
    using r assms(2) by (simp add: length_hmac size_defs)
  then have "Digest r = sha256 C (Ciphertext r)"
    using r by (simp add: transmittedDigest_eq)
  then show ?thesis
    using sealed_opens [OF assms(1-3)] r by metis
qed

lemma trimLogPad_prefix: "\<exists>rest. plain = trimLogPad plain n @ rest"
  by (auto simp: trimLogPad_def) (metis append_take_drop_id)

lemma DecryptAuto_opens:
  assumes "DecryptAuto C A ct key digest imac cs n = Inr out"
  shows "\<exists>plain. opens C ct key digest plain \<and> out = trimLogPad plain n"
proof -
  have "DecryptV2 C A ct key digest imac cs n = Inr out \<or>
      DecryptV2 C A ct key digest [] 0 n = Inr out \<or> Decrypt C ct key digest n = Inr out"
    using assms by (auto simp: DecryptAuto_def split: if_splits sum.splits)
  then show ?thesis
    using trimLogPad_of_truncated
    unfolding DecryptV2_plain_ok_iff DecryptV2_ok_iff Decrypt_ok_iff by metis
qed

lemma DecryptAuto_opened:
  assumes "opens C ct key digest p"
  shows "DecryptAuto C A ct key digest [] 0 n = Inr (trimLogPad p n)"
proof -
  have "DecryptV2 C A ct key digest [] 0 n = Inr (trimLogPad p n)"
    using assms DecryptV2_plain_ok_iff by metis
  then show ?thesis by (simp add: DecryptAuto_def)
qed

lemma opens_unique: "opens C ct key d p \<Longrightarrow> opens C ct key d' p' \<Longrightarrow> p = p'"
  by (simp add: opens_def)

section \<open>The v2 blob\<close>

lemma EncryptV2_ok:
  assumes "EncryptV2 C A bucket iv p key ctype = Inr r"
  shows "length key = CombinedKeySize \<and>
    v2Ciphertext r = iv @ cbc_encrypt C (take cipherKeySize key) iv (pkcs7Pad (logPad bucket p) 16) @
      hmac C (drop cipherKeySize key)
        (iv @ cbc_encrypt C (take cipherKeySize key) iv (pkcs7Pad (logPad bucket p) 16)) \<and>
    v2Digest r = sha256 C (v2Ciphertext r) \<and>
    v2PlaintextHash r = hexEncode (sha256 C p) \<and>
    (if SupportsIncrementalMac ctype
     then imac_chunk_size A (of_nat (length (v2Ciphertext r))) = Inr (v2ChunkSize r) \<and>
          DigestIncrementalMac A (drop cipherKeySize key) (v2ChunkSize r) (v2Ciphertext r)
            = Inr (v2IncrementalMAC r)
     else v2IncrementalMAC r = [] \<and> v2ChunkSize r = 0)"
  using assms
  by (auto simp: EncryptV2_def Let_def splitKeys_def bindR_Inr_iff split: if_splits)

lemma EncryptV2_imac:
  assumes "EncryptV2 C A bucket iv p key ctype = Inr r" "SupportsIncrementalMac ctype"
  shows "DigestIncrementalMac A (drop cipherKeySize key) (v2ChunkSize r) (v2Ciphertext r)
           = Inr (v2IncrementalMAC r)"
  using assms by (auto simp: EncryptV2_def Let_def splitKeys_def bindR_Inr_iff split: if_splits)

text \<open>
  What the code relies on of the incremental MAC library: the digests that the chunking loop
  obtained validate the same data under the same key and chunk size.
\<close>

definition imac_ok :: "'h imac_api \<Rightarrow> bool" where
  "imac_ok A \<longleftrightarrow> (\<forall>k cs ct d. DigestIncrementalMac A k cs ct = Inr d \<and> ct \<noteq> [] \<longrightarrow>
     d \<noteq> [] \<and> (\<exists>v v' n m. vmac_init A k cs d = Inr v \<and> vmac_update A v ct = Inr (v', n) \<and>
        0 \<le> n \<and> vmac_finalize A v' = Inr m \<and> 0 \<le> m))"

lemma DigestIncrementalMac_guards:
  "DigestIncrementalMac A k cs ct = Inr d \<Longrightarrow> length k = 32 \<and> cs \<noteq> 0"
  by (auto simp: DigestIncrementalMac_def NewIncrementalMac_def bindR_Inr_iff split: if_splits)

lemma check_incremental_digest:
  assumes ok: "imac_ok A" and d: "DigestIncrementalMac A k cs ct = Inr d" and ne: "ct \<noteq> []"
  shows "check_incremental A k cs d ct = Inr ()"
proof -
  have g: "length k = 32" "cs \<noteq> 0" using DigestIncrementalMac_guards [OF d] by auto
  have "d \<noteq> [] \<and> (\<exists>v v' n m. vmac_init A k cs d = Inr v \<and> vmac_update A v ct = Inr (v', n) \<and>
        0 \<le> n \<and> vmac_finalize A v' = Inr m \<and> 0 \<le> m)"
    using ok d ne unfolding imac_ok_def by blast
  then show ?thesis using g ne
    by (auto simp: check_incremental_def NewValidatingMac_def vmac_Update_def vmac_Finalize_def)
qed

lemma EncryptV2_incremental:
  assumes "EncryptV2 C A bucket iv p key ctype = Inr r" "hash_ok C"
    and "SupportsIncrementalMac ctype \<longrightarrow> imac_ok A"
  shows "check_incremental A (drop cipherKeySize key) (v2ChunkSize r) (v2IncrementalMAC r)
           (v2Ciphertext r) = Inr ()"
proof -
  note r = EncryptV2_ok [OF assms(1)]
  have ne: "v2Ciphertext r \<noteq> []"
    using r length_hmac [OF assms(2)] by (metis append_is_Nil_conv length_0_conv zero_neq_numeral)
  show ?thesis
  proof (cases "SupportsIncrementalMac ctype")
    case True
    then have "DigestIncrementalMac A (drop cipherKeySize key) (v2ChunkSize r) (v2Ciphertext r)
        = Inr (v2IncrementalMAC r)"
      using EncryptV2_imac [OF assms(1)] by simp
    then show ?thesis using assms(3) True check_incremental_digest [OF _ _ ne] by blast
  next
    case False
    then show ?thesis using r by (simp add: check_incremental_def)
  qed
qed

lemma logPad_target:
  assumes "int (length p) \<le> LogPadSize bucket (int (length p))"
  shows "logPad bucket p = p @ replicate (nat (LogPadSize bucket (int (length p))) - length p) 0"
    and "int (length (logPad bucket p)) = LogPadSize bucket (int (length p))"
  using assms by (auto simp: logPad_def Let_def)

lemma trimLogPad_logPad:
  assumes "0 < length p"
  shows "trimLogPad (logPad bucket p) (int (length p)) = p"
  using assms by (auto simp: logPad_def Let_def trimLogPad_def)

lemma opens_v2:
  assumes "block_cipher_ok C" "hash_ok C" "length iv = 16"
    and "EncryptV2 C A bucket iv p key ctype = Inr r"
  shows "opens C (v2Ciphertext r) key (Some (v2Digest r)) (logPad bucket p)"
  using sealed_opens [OF assms(1-3)] EncryptV2_ok [OF assms(4)] by metis

section \<open>Properties\<close>

lemma unat_div_16_word:
  "n < 2 ^ 62 \<Longrightarrow> unat ((of_nat n div 16 + 1) * 16 :: 64 word) = (n div 16 + 1) * 16"
  by (simp add: unat_word_ariths unat_of_nat unat_div) 

lemma CiphertextLength_nat:
  assumes "n < 2 ^ 62"
  shows "unat (CiphertextLength (of_nat n)) = 48 + (n div 16 + 1) * 16"
proof -
  have "sint (of_nat n :: 64 word) = int n"
    using assms by (simp add: sint_uint uint_nat unat_of_nat signed_take_bit_int_eq_self)
  moreover have "unat (16 + (of_nat n div 16 + 1) * 16 + 32 :: 64 word) = 48 + (n div 16 + 1) * 16"
    using unat_div_16_word [OF assms] assms
    by (subst unat_word_ariths, subst unat_word_ariths) simp
  ultimately show ?thesis by (simp add: CiphertextLength_def Let_def)
qed

lemma Decrypt_opens:
  assumes "opens C ct key digest p"
  shows "Decrypt C ct key digest n =
       (if n \<le> 0 then Inr p
        else if n \<le> int (length p) then Inr (take (nat n) p)
        else Inl AttShorterThanSize)"
  using assms
  by (cases digest) (auto simp: Decrypt_def opens_def Let_def guard_simps transmittedDigest_eq)

text \<open>
  Attachment encryption round trip (Encrypt/Decrypt): whatever the random IV, a plaintext
  encrypted under a 64-byte key decrypts to itself with the digest that Encrypt returned,
  both without a size and with the exact size; a larger size is refused, a smaller one
  truncates. The blob has exactly the length that CiphertextLength computes in int64.
\<close>

theorem attachment_round_trip:
  assumes "block_cipher_ok C" "hash_ok C" "length iv = IVSize" "length key = CombinedKeySize"
    and "length p < 2 ^ 62"
  shows "\<exists>r. Encrypt C iv p key = Inr r \<and>
     length (Ciphertext r) = unat (CiphertextLength (of_nat (length p))) \<and>
     Decrypt C (Ciphertext r) key (Some (Digest r)) n =
       (if n \<le> 0 then Inr p
        else if n \<le> int (length p) then Inr (take (nat n) p)
        else Inl AttShorterThanSize)"
proof -
  have len: "length (cbc_encrypt C k iv (pkcs7Pad p 16)) = (length p div 16 + 1) * 16" for k
    using assms(1,3)
    by (simp add: length_cbc_encrypt pkcs7Pad_aligned length_pkcs7Pad IVSize_def)
  obtain r where r: "Encrypt C iv p key = Inr r"
    using assms(4) by (simp add: Encrypt_def Let_def)
  have "length (Ciphertext r) = 48 + (length p div 16 + 1) * 16"
    using Encrypt_ok [OF r] assms(2,3) len by (simp add: length_hmac IVSize_def)
  moreover have "opens C (Ciphertext r) key (Some (Digest r)) p"
    using Encrypt_opens assms(1-3) r by (simp add: IVSize_def)
  ultimately show ?thesis
    using r CiphertextLength_nat [OF assms(5)] Decrypt_opens by metis
qed

definition ident_imac :: "bytes imac_api" where
  "ident_imac = \<lparr> imac_init = (\<lambda>k cs. Inr []),
     imac_update = (\<lambda>h d. Inr (h, [1])), imac_finalize = (\<lambda>h. Inr [2]),
     vmac_init = (\<lambda>k cs ds. Inr ds), vmac_update = (\<lambda>h d. Inr (h, 0)),
     vmac_finalize = (\<lambda>h. Inr 0), imac_chunk_size = (\<lambda>n. Inr 65536) \<rparr>"

lemma ident_imac_ok: "imac_ok ident_imac"
  by (auto simp: imac_ok_def DigestIncrementalMac_def bindR_Inr_iff ident_imac_def)

lemma ident_loop_total: "\<exists>x. digest_loop ident_imac cs h data parts = Inr x"
proof (induction "length data" arbitrary: h data parts rule: less_induct)
  case less
  then show ?case
    by (subst digest_loop.simps)
       (auto simp: Let_def imac_Update_def ident_imac_def split: sum.splits)
qed

lemma ident_digest_total:
  "length k = 32 \<Longrightarrow> cs \<noteq> 0 \<Longrightarrow> \<exists>d. DigestIncrementalMac ident_imac k cs data = Inr d"
  using ident_loop_total [of "unat cs" "[]" data "[]"]
  by (auto simp: DigestIncrementalMac_def NewIncrementalMac_def ident_imac_def)

lemma EncryptV2_total:
  assumes "length key = 64"
  shows "\<exists>r. EncryptV2 C ident_imac bucket iv p key ctype = Inr r"
proof -
  have "\<forall>data. \<exists>d. DigestIncrementalMac ident_imac (drop 32 key) 65536 data = Inr d"
    using assms by (simp add: ident_digest_total)
  then obtain f where "\<And>data. DigestIncrementalMac ident_imac (drop 32 key) 65536 data = Inr (f data)"
    by metis
  moreover have "imac_chunk_size ident_imac n = Inr 65536" for n
    by (simp add: ident_imac_def)
  ultimately show ?thesis
    using assms by (simp add: EncryptV2_def Let_def splitKeys_def size_defs)
qed

theorem attachment_round_trip_witness:
  "\<exists>r. Encrypt sum_crypto (replicate 16 1) [1, 2, 3] (replicate 64 7) = Inr r \<and>
     length (Ciphertext r) = 64 \<and>
     Decrypt sum_crypto (Ciphertext r) (replicate 64 7) (Some (Digest r)) 2 = Inr [1, 2]"
  using attachment_round_trip [of sum_crypto "replicate 16 1" "replicate 64 7" "[1, 2, 3]" 2]
  by (simp add: sum_crypto_ok size_defs CiphertextLength_def)

text \<open>
  C20. Attachment v2 round trip (EncryptV2/DecryptV2/DecryptAuto): a non-empty plaintext, log
  padded into the bucket, comes back exactly when decrypted with the metadata EncryptV2
  returned and its own length, through DecryptV2 and through DecryptAuto; with an
  incremental MAC (video/mp4) this relies on the library validating its own digests. The
  blob has the size CiphertextLengthV2 announces. Proved for every bucket function that is
  not below the plaintext length.
\<close>

theorem attachment_v2_round_trip:
  assumes "block_cipher_ok C" "hash_ok C" "length iv = 16"
    and "EncryptV2 C A bucket iv p key ctype = Inr r"
    and "SupportsIncrementalMac ctype \<longrightarrow> imac_ok A"
    and "int (length p) \<le> bucket (int (length p))" "p \<noteq> []"
  shows "DecryptV2 C A (v2Ciphertext r) key (Some (v2Digest r)) (v2IncrementalMAC r)
           (v2ChunkSize r) (int (length p)) = Inr p \<and>
         DecryptAuto C A (v2Ciphertext r) key (Some (v2Digest r)) (v2IncrementalMAC r)
           (v2ChunkSize r) (int (length p)) = Inr p \<and>
         int (length (v2Ciphertext r)) = CiphertextLengthV2 bucket (int (length p))"
proof -
  note r = EncryptV2_ok [OF assms(4)]
  have 1: "DecryptV2 C A (v2Ciphertext r) key (Some (v2Digest r)) (v2IncrementalMAC r)
           (v2ChunkSize r) (int (length p)) = Inr p"
    using EncryptV2_incremental [OF assms(4,2,5)] opens_v2 [OF assms(1-4)]
      trimLogPad_logPad [of p bucket] assms(7)
    by (auto simp: DecryptV2_ok_iff)
  have 2: "DecryptAuto C A (v2Ciphertext r) key (Some (v2Digest r)) (v2IncrementalMAC r)
           (v2ChunkSize r) (int (length p)) = Inr p"
    using 1 by (auto simp: DecryptAuto_def word_greater_zero_iff)
  let ?n = "LogPadSize bucket (int (length p))"
  have "0 < int (length p)" using assms(7) by simp
  then have pos: "0 < bucket (int (length p))" using assms(6) by linarith
  have n: "int (length (logPad bucket p)) = ?n" "?n > 0"
    using assms(6,7) pos logPad_target [of p bucket] by (simp_all add: LogPadSize_def)
  have "length (v2Ciphertext r) = 48 + (length (logPad bucket p) div 16 + 1) * 16"
    using r assms(1-3) by (simp add: length_hmac length_cbc_encrypt pkcs7Pad_aligned length_pkcs7Pad)
  then have "int (length (v2Ciphertext r)) = 48 + (?n div 16 + 1) * 16"
    using n by (simp add: zdiv_int flip: n(1))
  then have "int (length (v2Ciphertext r)) = CiphertextLengthV2 bucket (int (length p))"
    by (auto simp: CiphertextLengthV2_def Let_def size_defs)
  then show ?thesis using 1 2 by blast
qed

theorem attachment_v2_round_trip_witness:
  "\<exists>r. EncryptV2 sum_crypto ident_imac (\<lambda>n. n + 2) (replicate 16 1) [1, 2, 3] (replicate 64 7)
         ''video/mp4'' = Inr r \<and>
     DecryptV2 sum_crypto ident_imac (v2Ciphertext r) (replicate 64 7) (Some (v2Digest r))
       (v2IncrementalMAC r) (v2ChunkSize r) 3 = Inr [1, 2, 3]"
proof -
  obtain r where r: "EncryptV2 sum_crypto ident_imac (\<lambda>n. n + 2) (replicate 16 1) [1, 2, 3]
      (replicate 64 7) ''video/mp4'' = Inr r"
    using EncryptV2_total by fastforce
  show ?thesis
    using attachment_v2_round_trip [OF sum_crypto_ok _ r] r by (simp add: ident_imac_ok)
qed

text \<open>
  C2. Authenticity of decrypted attachments: whatever DecryptAuto returns for a blob, the blob
  ends with the HMAC of everything before it under the second half of the key, its digest is
  the pointer's digest when there is one, and the body decrypts to a correctly padded
  plaintext of which the output is a prefix. No blob with a wrong tag, digest, length or
  padding is ever decrypted.
\<close>

theorem attachment_authentic:
  assumes "DecryptAuto C A ct key digest imac cs n = Inr out"
  shows "\<exists>iv enc plain rest. length iv = 16 \<and> length enc mod 16 = 0 \<and> length key = 64 \<and>
    ct = iv @ enc @ hmac C (drop 32 key) (iv @ enc) \<and>
    (digest = None \<or> digest = Some (sha256 C ct)) \<and>
    cbc_decrypt C (take 32 key) iv enc = pkcs7Pad plain 16 \<and> plain = out @ rest"
proof -
  obtain plain rest where o: "opens C ct key digest plain" and rest: "plain = out @ rest"
    using DecryptAuto_opens [OF assms] trimLogPad_prefix by metis
  have len: "IVSize + MacSize < length ct" using o by (simp add: opens_def)
  have "digest = None \<or> digest = Some (sha256 C ct)"
    using o by (cases digest) (auto simp: opens_def)
  moreover have "cbc_decrypt C (take 32 key) (take IVSize ct)
      (subslice IVSize (length ct - MacSize) ct) = pkcs7Pad plain 16"
    using o att16.unpad_canonical by (simp add: opens_def cipherKeySize_def)
  ultimately show ?thesis
    using o blob_split [OF len] rest unfolding opens_def CombinedKeySize_def cipherKeySize_def
    by metis
qed

theorem attachment_authentic_witness:
  "\<exists>iv enc. length iv = 16 \<and>
     (case Encrypt sum_crypto (replicate 16 1) [1, 2, 3] (replicate 64 7) of
        Inl _ \<Rightarrow> False
      | Inr r \<Rightarrow> Ciphertext r = iv @ enc @ hmac sum_crypto (replicate 32 7) (iv @ enc))"
proof -
  let ?e = "Encrypt sum_crypto (replicate 16 1) [1, 2, 3] (replicate 64 7)"
  obtain r where r: "?e = Inr r"
    by (simp add: Encrypt_def Let_def CombinedKeySize_def)
  have "opens sum_crypto (Ciphertext r) (replicate 64 7) (Some (Digest r)) [1, 2, 3]"
    using Encrypt_opens [OF sum_crypto_ok _ r] by simp
  then have d: "DecryptAuto sum_crypto ident_imac (Ciphertext r) (replicate 64 7)
      (Some (Digest r)) [] 0 3 = Inr [1, 2, 3]"
    by (simp add: DecryptAuto_opened trimLogPad_def)
  have "length (replicate 64 7 :: bytes) = 64" by simp
  then show ?thesis using attachment_authentic [OF d] r by fastforce
qed

text \<open>
  The legacy fallback of DecryptAuto never changes a result: every blob that the legacy
  Decrypt accepts is accepted by DecryptV2 without incremental MAC with the same plaintext,
  so DecryptAuto succeeds exactly when DecryptV2 does and the legacy size check is not
  enforced: a size larger than the plaintext is ignored.
\<close>

theorem decrypt_auto_is_v2:
  "(DecryptAuto C A ct key digest [] 0 n = Inr out) = (DecryptV2 C A ct key digest [] 0 n = Inr out)
   \<and> (Decrypt C ct key digest n = Inr out \<longrightarrow> DecryptV2 C A ct key digest [] 0 n = Inr out)
   \<and> (opens C ct key digest plain \<and> int (length plain) < n \<longrightarrow>
        Decrypt C ct key digest n = Inl AttShorterThanSize \<and>
        DecryptAuto C A ct key digest [] 0 n = Inr plain)"
proof -
  have 1: "DecryptV2 C A ct key digest [] 0 n = Inr x" if "Decrypt C ct key digest n = Inr x" for x
    using that trimLogPad_of_truncated unfolding Decrypt_ok_iff DecryptV2_plain_ok_iff by metis
  have 2: "(DecryptAuto C A ct key digest [] 0 n = Inr x) =
      (DecryptV2 C A ct key digest [] 0 n = Inr x)" for x
    using 1 by (auto simp: DecryptAuto_def split: sum.splits)
  have 3: "Decrypt C ct key digest n = Inl AttShorterThanSize \<and>
      DecryptAuto C A ct key digest [] 0 n = Inr plain"
    if "opens C ct key digest plain" "int (length plain) < n"
    using that unfolding 2 DecryptV2_plain_ok_iff by (auto simp: Decrypt_opens trimLogPad_def)
  show ?thesis using 1 2 3 by blast
qed

text \<open>Three bytes announced as five: refused by Decrypt, returned by DecryptAuto.\<close>

theorem decrypt_auto_is_v2_witness:
  "case Encrypt sum_crypto (replicate 16 1) [1, 2, 3] (replicate 64 7) of
     Inl _ \<Rightarrow> False
   | Inr r \<Rightarrow>
       Decrypt sum_crypto (Ciphertext r) (replicate 64 7) (Some (Digest r)) 5 = Inl AttShorterThanSize \<and>
       DecryptAuto sum_crypto ident_imac (Ciphertext r) (replicate 64 7) (Some (Digest r)) [] 0 5 =
         Inr [1, 2, 3]"
proof -
  obtain r where r: "Encrypt sum_crypto (replicate 16 1) [1, 2, 3] (replicate 64 7) = Inr r"
    by (simp add: Encrypt_def Let_def CombinedKeySize_def)
  have "opens sum_crypto (Ciphertext r) (replicate 64 7) (Some (Digest r)) [1, 2, 3]"
    using Encrypt_opens [OF sum_crypto_ok _ r] by simp
  then show ?thesis
    using decrypt_auto_is_v2 [of sum_crypto ident_imac "Ciphertext r" "replicate 64 7"
        "Some (Digest r)" 5 "[1, 2, 3]" "[1, 2, 3]"] r by simp
qed

end
