(* ===== verification/GoStrings.thy ===== *)
theory GoStrings
  imports Prelude
begin

text \<open>
  The functions of package strings that the code uses. A Go string is a list of characters,
  one per byte. On strings that are entirely ASCII, ToLower and Fields are computed; on others
  they consult the Unicode tables, which are the fields of the parameter \<open>unicode\<close>.
\<close>

record go_unicode =
  uni_lower :: "string \<Rightarrow> string"
  uni_fields :: "string \<Rightarrow> string list"

text \<open>Tables that change nothing outside ASCII, for concrete runs.\<close>

definition plain_unicode :: go_unicode where
  "plain_unicode = \<lparr> uni_lower = (\<lambda>s. s), uni_fields = (\<lambda>s. [s]) \<rparr>"

definition is_ascii :: "string \<Rightarrow> bool" where
  "is_ascii s = list_all (\<lambda>c. (of_char c :: nat) < 128) s"

definition ascii_lower :: "char \<Rightarrow> char" where
  "ascii_lower c =
    (let n = of_char c :: nat in if 65 \<le> n \<and> n \<le> 90 then char_of (n + 32) else c)"

definition ToLower :: "go_unicode \<Rightarrow> string \<Rightarrow> string" where
  "ToLower U s = (if is_ascii s then map ascii_lower s else uni_lower U s)"

definition HasPrefix :: "string \<Rightarrow> string \<Rightarrow> bool" where
  "HasPrefix s p \<longleftrightarrow> length s \<ge> length p \<and> take (length p) s = p"

definition TrimLeft_blanks :: "string \<Rightarrow> string" where
  "TrimLeft_blanks s = dropWhile (\<lambda>c. c = CHR 0x20 \<or> c = CHR 0x09) s"

definition is_space :: "char \<Rightarrow> bool" where
  "is_space c \<longleftrightarrow> (let n = of_char c :: nat in n = 32 \<or> (9 \<le> n \<and> n \<le> 13))"

fun split_fields :: "string \<Rightarrow> string \<Rightarrow> string list" where
  "split_fields [] cur = (if cur = [] then [] else [rev cur])"
| "split_fields (c # s) cur =
    (if is_space c then (if cur = [] then split_fields s [] else rev cur # split_fields s [])
     else split_fields s (c # cur))"

definition Fields :: "go_unicode \<Rightarrow> string \<Rightarrow> string list" where
  "Fields U s = (if is_ascii s then split_fields s [] else uni_fields U s)"

fun Contains :: "string \<Rightarrow> string \<Rightarrow> bool" where
  "Contains [] sub = (sub = [])"
| "Contains (c # s) sub = (HasPrefix (c # s) sub \<or> Contains s sub)"

lemma HasPrefix_iff: "HasPrefix s p \<longleftrightarrow> (\<exists>r. s = p @ r)"
  by (auto simp: HasPrefix_def) (metis append_take_drop_id)

lemma Contains_iff: "Contains s sub \<longleftrightarrow> (\<exists>a b. s = a @ sub @ b)"
proof (induction s)
  case (Cons c s)
  have "(\<exists>a b. c # s = a @ sub @ b) \<longleftrightarrow> (\<exists>b. c # s = sub @ b) \<or> (\<exists>a b. s = a @ sub @ b)"
  proof
    assume "\<exists>a b. c # s = a @ sub @ b"
    then obtain a b where "c # s = a @ sub @ b" by blast
    then show "(\<exists>b. c # s = sub @ b) \<or> (\<exists>a b. s = a @ sub @ b)" by (cases a) auto
  next
    assume "(\<exists>b. c # s = sub @ b) \<or> (\<exists>a b. s = a @ sub @ b)"
    then show "\<exists>a b. c # s = a @ sub @ b" by (metis append_Cons append_Nil)
  qed
  then show ?case using Cons by (simp add: HasPrefix_iff)
qed auto

lemma length_ToLower_ascii: "is_ascii s \<Longrightarrow> length (ToLower U s) = length s"
  by (simp add: ToLower_def)

lemma ToLower_append:
  "is_ascii s \<Longrightarrow> is_ascii t \<Longrightarrow> ToLower U (s @ t) = ToLower U s @ ToLower U t"
  by (simp add: ToLower_def is_ascii_def)

lemma is_ascii_append [simp]: "is_ascii (s @ t) \<longleftrightarrow> is_ascii s \<and> is_ascii t"
  by (simp add: is_ascii_def)

lemma HasPrefix_ToLower_ascii:
  assumes "is_ascii s" "is_ascii p"
  shows "HasPrefix (ToLower U s) (ToLower U p) \<longleftrightarrow>
    length p \<le> length s \<and> ToLower U (take (length p) s) = ToLower U p"
proof -
  have "is_ascii (take (length p) s)"
    using assms(1) by (metis append_take_drop_id is_ascii_append)
  then show ?thesis
    using assms by (simp add: HasPrefix_def ToLower_def take_map)
qed

lemma split_fields_no_space:
  "list_all (\<lambda>c. \<not> is_space c) cur \<Longrightarrow> f \<in> set (split_fields s cur) \<Longrightarrow>
   f \<noteq> [] \<and> list_all (\<lambda>c. \<not> is_space c) f"
proof (induction s arbitrary: cur)
  case (Cons c s)
  from Cons.prems Cons.IH [of "[]"] Cons.IH [of "c # cur"] show ?case
    by (cases "is_space c"; cases "cur = []") auto
qed (auto split: if_splits)

end
