(* ===== verification/Events.thy ===== *)
theory Events
  imports Encoding GoStrings
begin

text \<open>
  The typed events of pkg/signal/events.go. A \<open>time.Time\<close> is its Unix time in milliseconds;
  the zero Time (year 1) is \<open>zeroTime\<close>. A duration is in nanoseconds, as in Go.
\<close>

type_synonym time = int

definition zeroTime :: time where "zeroTime = - 62135596800000"

text \<open>msToTime (pkg/signal/dispatch.go); \<open>int64(ms)\<close> reinterprets the word as signed.\<close>

definition msToTime :: "u64 \<Rightarrow> time" where
  "msToTime ms = (if ms = 0 then zeroTime else sint ms)"

definition IsZero :: "time \<Rightarrow> bool" where
  "IsZero t \<longleftrightarrow> t = zeroTime"

record AttachmentMeta =
  am_ContentType :: string
  am_FileName :: string
  am_Size :: u32
  am_CDNKey :: string
  am_CDNNumber :: u32
  am_Key :: bytes
  am_Digest :: "bytes option"
  am_IncrementalMAC :: bytes
  am_ChunkSize :: u32
  am_UploadTimestamp :: u64

record MessageEvent =
  me_Sender :: string
  me_SenderDevice :: u32
  me_Timestamp :: time
  me_ServerTimestamp :: time
  me_Body :: string
  me_Attachments :: "AttachmentMeta list"
  me_GroupID :: string
  me_ExpiresIn :: int

record GroupUpdateEvent =
  gu_Sender :: string
  gu_SenderDevice :: u32
  gu_Timestamp :: time
  gu_ServerTimestamp :: time
  gu_GroupID :: string
  gu_Revision :: u32
  gu_GroupChange :: bytes

datatype ReceiptType = ReceiptDelivery | ReceiptRead | ReceiptViewed

record ReceiptEvent =
  rc_Sender :: string
  rc_SenderDevice :: u32
  rc_Type :: ReceiptType
  rc_Timestamps :: "time list"

datatype TypingAction = TypingStarted | TypingStopped

record TypingEvent =
  ty_Sender :: string
  ty_SenderDevice :: u32
  ty_Action :: TypingAction
  ty_Timestamp :: time
  ty_GroupID :: string

record SyncMessageEvent =
  sy_SenderDevice :: u32
  sy_Timestamp :: time
  sy_SentBody :: string
  sy_SentTo :: string
  sy_ReadTimestamps :: "time list"

record DecryptionErrorEvent =
  de_Sender :: string
  de_SenderDevice :: u32
  de_Timestamp :: time
  de_Err :: string

record ReactionEvent =
  re_Sender :: string
  re_SenderDevice :: u32
  re_Timestamp :: time
  re_ServerTimestamp :: time
  re_Emoji :: string
  re_Remove :: bool
  re_TargetAuthorACI :: string
  re_TargetTimestamp :: time
  re_GroupID :: string

record EditMessageEvent =
  ed_Sender :: string
  ed_SenderDevice :: u32
  ed_Timestamp :: time
  ed_ServerTimestamp :: time
  ed_TargetTimestamp :: time
  ed_NewBody :: string
  ed_GroupID :: string

datatype Event =
    EvMessage MessageEvent
  | EvGroupUpdate GroupUpdateEvent
  | EvReceipt ReceiptEvent
  | EvTyping TypingEvent
  | EvSync SyncMessageEvent
  | EvDecryptionError DecryptionErrorEvent
  | EvQueueEmpty time
  | EvReaction ReactionEvent
  | EvEdit EditMessageEvent

text \<open>The sealed interface's method.\<close>

fun eventTimestamp :: "Event \<Rightarrow> time" where
  "eventTimestamp (EvMessage e) = me_Timestamp e"
| "eventTimestamp (EvGroupUpdate e) = gu_Timestamp e"
| "eventTimestamp (EvReceipt e) = (case rc_Timestamps e of [] \<Rightarrow> zeroTime | t # ts \<Rightarrow> t)"
| "eventTimestamp (EvTyping e) = ty_Timestamp e"
| "eventTimestamp (EvSync e) = sy_Timestamp e"
| "eventTimestamp (EvDecryptionError e) = de_Timestamp e"
| "eventTimestamp (EvQueueEmpty t) = t"
| "eventTimestamp (EvReaction e) = re_Timestamp e"
| "eventTimestamp (EvEdit e) = ed_Timestamp e"

end
