(* ===== verification/ConvoStore.thy ===== *)
theory ConvoStore
  imports GoStrings "HOL-Library.AList"
begin

text \<open>
  Per-conversation state of a bot: pkg/bot/convo.go. The locale \<open>convo_store\<close> is the
  interface ConvoStore with the laws its documentation promises; the stage helpers of a Convo
  are proved inside it, and MemoryConvoStore (a map of maps, kept as association lists)
  interprets it.
\<close>

record ConvoKey =
  ck_Sender :: string
  ck_GroupID :: string

type_synonym fields = "(string \<times> string) list"
type_synonym memory_store = "(ConvoKey \<times> fields) list"

section \<open>MemoryConvoStore\<close>

definition NewMemoryConvoStore :: memory_store where
  "NewMemoryConvoStore = []"

definition mcs_Get :: "memory_store \<Rightarrow> ConvoKey \<Rightarrow> string \<Rightarrow> string \<times> bool" where
  "mcs_Get s key field =
    (case map_of s key of
       None \<Rightarrow> ([], False)
     | Some m \<Rightarrow> (case map_of m field of None \<Rightarrow> ([], False) | Some v \<Rightarrow> (v, True)))"

definition mcs_Set :: "memory_store \<Rightarrow> ConvoKey \<Rightarrow> string \<Rightarrow> string \<Rightarrow> memory_store" where
  "mcs_Set s key field val =
    (let m = (case map_of s key of None \<Rightarrow> [] | Some m \<Rightarrow> m)
     in AList.update key (AList.update field val m) s)"

definition mcs_Delete :: "memory_store \<Rightarrow> ConvoKey \<Rightarrow> string \<Rightarrow> memory_store" where
  "mcs_Delete s key field =
    (case map_of s key of
       None \<Rightarrow> s
     | Some m \<Rightarrow>
         let m' = AList.delete field m
         in if length m' = 0 then AList.delete key s else AList.update key m' s)"

definition mcs_Clear :: "memory_store \<Rightarrow> ConvoKey \<Rightarrow> memory_store" where
  "mcs_Clear s key = AList.delete key s"

definition mcs_All :: "memory_store \<Rightarrow> ConvoKey \<Rightarrow> fields" where
  "mcs_All s key = (case map_of s key of None \<Rightarrow> [] | Some m \<Rightarrow> m)"

section \<open>The interface\<close>

locale convo_store =
  fixes get :: "'s \<Rightarrow> ConvoKey \<Rightarrow> string \<Rightarrow> string \<times> bool"
    and set_field :: "'s \<Rightarrow> ConvoKey \<Rightarrow> string \<Rightarrow> string \<Rightarrow> 's"
    and delete_field :: "'s \<Rightarrow> ConvoKey \<Rightarrow> string \<Rightarrow> 's"
    and clear_key :: "'s \<Rightarrow> ConvoKey \<Rightarrow> 's"
    and all_fields :: "'s \<Rightarrow> ConvoKey \<Rightarrow> fields"
  assumes get_set: "get (set_field s k f v) k' f' =
      (if k' = k \<and> f' = f then (v, True) else get s k' f')"
    and get_delete: "get (delete_field s k f) k' f' =
      (if k' = k \<and> f' = f then ([], False) else get s k' f')"
    and get_clear: "get (clear_key s k) k' f' = (if k' = k then ([], False) else get s k' f')"
    and all_get: "(case map_of (all_fields s k) f of None \<Rightarrow> ([], False) | Some v \<Rightarrow> (v, True))
      = get s k f"
begin

lemma other_conversation:
  "k' \<noteq> k \<Longrightarrow> get (set_field s k f v) k' f' = get s k' f'"
  "k' \<noteq> k \<Longrightarrow> get (delete_field s k f) k' f' = get s k' f'"
  "k' \<noteq> k \<Longrightarrow> get (clear_key s k) k' f' = get s k' f'"
  by (simp_all add: get_set get_delete get_clear)

lemma set_delete: "get (delete_field (set_field s k f v) k f) k' f' = get (delete_field s k f) k' f'"
  by (simp add: get_set get_delete)

lemma all_after_clear: "map_of (all_fields (clear_key s k) k) f = None"
  using all_get [of "clear_key s k" k f] by (simp add: get_clear split: option.splits)

lemma all_after_set: "map_of (all_fields (set_field s k f v) k) f = Some v"
  using all_get [of "set_field s k f v" k f] by (simp add: get_set split: option.splits)

end

lemma map_of_AList_update: "map_of (AList.update k v al) k' = (if k' = k then Some v else map_of al k')"
  by (simp add: update_conv')

lemma map_of_AList_delete: "map_of (AList.delete k al) k' = (if k' = k then None else map_of al k')"
  by (simp add: delete_conv')

interpretation mem_convo: convo_store mcs_Get mcs_Set mcs_Delete mcs_Clear mcs_All
proof unfold_locales
  fix s :: memory_store and k k' f f' v
  show "mcs_Get (mcs_Set s k f v) k' f' = (if k' = k \<and> f' = f then (v, True) else mcs_Get s k' f')"
    by (auto simp: mcs_Get_def mcs_Set_def map_of_AList_update Let_def split: option.splits)
  show "mcs_Get (mcs_Clear s k) k' f' = (if k' = k then ([], False) else mcs_Get s k' f')"
    by (simp add: mcs_Get_def mcs_Clear_def map_of_AList_delete)
  show "(case map_of (mcs_All s k) f of None \<Rightarrow> ([], False) | Some v \<Rightarrow> (v, True)) = mcs_Get s k f"
    by (simp add: mcs_All_def mcs_Get_def split: option.splits)
  show "mcs_Get (mcs_Delete s k f) k' f' =
      (if k' = k \<and> f' = f then ([], False) else mcs_Get s k' f')"
  proof (cases "map_of s k")
    case None
    then show ?thesis by (auto simp: mcs_Delete_def mcs_Get_def)
  next
    case (Some m)
    have d: "map_of (AList.delete f m) g = (if g = f then None else map_of m g)" for g
      by (rule map_of_AList_delete)
    show ?thesis
    proof (cases "AList.delete f m = []")
      case True
      then have "map_of m g = None" if "g \<noteq> f" for g using d [of g] that by simp
      then show ?thesis using Some True
        by (auto simp: mcs_Delete_def mcs_Get_def map_of_AList_delete Let_def)
    next
      case False
      then show ?thesis using Some
        by (auto simp: mcs_Delete_def mcs_Get_def map_of_AList_update map_of_AList_delete Let_def)
    qed
  qed
qed

section \<open>Well-formedness: no conversation with an empty map is kept\<close>

definition mcs_wf :: "memory_store \<Rightarrow> bool" where
  "mcs_wf s \<longleftrightarrow> distinct (map fst s) \<and> (\<forall>(k, m) \<in> set s. m \<noteq> [] \<and> distinct (map fst m))"

lemma mcs_wf_lookup: "mcs_wf s \<Longrightarrow> map_of s k = Some m \<Longrightarrow> m \<noteq> [] \<and> distinct (map fst m)"
  by (auto simp: mcs_wf_def dest: map_of_SomeD)

lemma set_AList_update:
  "(a, b) \<in> set (AList.update k v al) \<Longrightarrow> (a, b) = (k, v) \<or> (a, b) \<in> set al"
  by (induction al) (auto split: if_splits)

lemma update_not_Nil: "AList.update k v al \<noteq> []"
  by (cases al) auto

lemma mcs_wf_update:
  assumes "mcs_wf s" "m \<noteq> []" "distinct (map fst m)"
  shows "mcs_wf (AList.update k m s)"
  using assms by (auto simp: mcs_wf_def distinct_update dest!: set_AList_update)

lemma mcs_wf_delete: "mcs_wf s \<Longrightarrow> mcs_wf (AList.delete k s)"
  by (auto simp: mcs_wf_def AList.delete_eq distinct_map_filter)

lemma mcs_wf_Set: "mcs_wf s \<Longrightarrow> mcs_wf (mcs_Set s k f v)"
  by (auto simp: mcs_Set_def Let_def update_not_Nil distinct_update
      intro!: mcs_wf_update split: option.splits dest: mcs_wf_lookup)

lemma mcs_wf_Delete:
  assumes "mcs_wf s"
  shows "mcs_wf (mcs_Delete s k f)"
proof (cases "map_of s k")
  case None
  then show ?thesis using assms by (simp add: mcs_Delete_def)
next
  case (Some m)
  then have "distinct (map fst (AList.delete f m))"
    using mcs_wf_lookup [OF assms Some] by (simp add: AList.delete_eq distinct_map_filter)
  then show ?thesis
    using assms Some by (simp add: mcs_Delete_def Let_def mcs_wf_delete mcs_wf_update)
qed

lemma mcs_wf_Clear: "mcs_wf s \<Longrightarrow> mcs_wf (mcs_Clear s k)"
  by (simp add: mcs_Clear_def mcs_wf_delete)

section \<open>Convo handles\<close>

text \<open>
  A Convo is the key with a store, which is nil for the handle of a nil Conversations; every
  operation on such a handle is a no-op.
\<close>

definition convo_Get :: "memory_store option \<Rightarrow> ConvoKey \<Rightarrow> string \<Rightarrow> string \<times> bool" where
  "convo_Get st key field = (case st of None \<Rightarrow> ([], False) | Some s \<Rightarrow> mcs_Get s key field)"

definition convo_Set ::
  "memory_store option \<Rightarrow> ConvoKey \<Rightarrow> string \<Rightarrow> string \<Rightarrow> memory_store option" where
  "convo_Set st key field val = map_option (\<lambda>s. mcs_Set s key field val) st"

definition convo_Delete :: "memory_store option \<Rightarrow> ConvoKey \<Rightarrow> string \<Rightarrow> memory_store option" where
  "convo_Delete st key field = map_option (\<lambda>s. mcs_Delete s key field) st"

definition convo_Clear :: "memory_store option \<Rightarrow> ConvoKey \<Rightarrow> memory_store option" where
  "convo_Clear st key = map_option (\<lambda>s. mcs_Clear s key) st"

definition convo_All :: "memory_store option \<Rightarrow> ConvoKey \<Rightarrow> fields" where
  "convo_All st key = (case st of None \<Rightarrow> [] | Some s \<Rightarrow> mcs_All s key)"

definition stageField :: string where "stageField = ''_stage''"

definition convo_Stage :: "memory_store option \<Rightarrow> ConvoKey \<Rightarrow> string" where
  "convo_Stage st key = fst (convo_Get st key stageField)"

definition convo_ClearStage :: "memory_store option \<Rightarrow> ConvoKey \<Rightarrow> memory_store option" where
  "convo_ClearStage st key = convo_Delete st key stageField"

definition convo_SetStage :: "memory_store option \<Rightarrow> ConvoKey \<Rightarrow> string \<Rightarrow> memory_store option" where
  "convo_SetStage st key stage =
    (if stage = [] then convo_ClearStage st key else convo_Set st key stageField stage)"

lemma convo_Stage_SetStage:
  "convo_Stage (convo_SetStage (Some s) k st) k' = (if k' = k then st else convo_Stage (Some s) k')"
  by (simp add: convo_Stage_def convo_SetStage_def convo_ClearStage_def convo_Delete_def
      convo_Set_def convo_Get_def mem_convo.get_set mem_convo.get_delete)

lemma convo_Stage_ClearStage:
  "convo_Stage (convo_ClearStage (Some s) k) k' = (if k' = k then [] else convo_Stage (Some s) k')"
  by (simp add: convo_Stage_def convo_ClearStage_def convo_Delete_def convo_Get_def
      mem_convo.get_delete)

lemma convo_nil_store [simp]:
  "convo_Stage None k = []" "convo_SetStage None k s = None" "convo_ClearStage None k = None"
  by (simp_all add: convo_Stage_def convo_SetStage_def convo_ClearStage_def convo_Delete_def
      convo_Set_def convo_Get_def)

text \<open>
  Conversation state (MemoryConvoStore, Convo): operations on one conversation never change
  what another conversation, or another field, reads; a stage that was set is read back,
  setting the empty stage removes it, and the store never keeps an empty map: after any
  operation on a well-formed store every stored conversation has at least one field.
\<close>

theorem convo_state_isolated:
  assumes "mcs_wf s"
  shows "mcs_Get (mcs_Set s k f v) k' f' = (if k' = k \<and> f' = f then (v, True) else mcs_Get s k' f') \<and>
    mcs_Get (mcs_Delete s k f) k' f' = (if k' = k \<and> f' = f then ([], False) else mcs_Get s k' f') \<and>
    mcs_Get (mcs_Clear s k) k' f' = (if k' = k then ([], False) else mcs_Get s k' f') \<and>
    map_of (mcs_All s k) f' = (if snd (mcs_Get s k f') then Some (fst (mcs_Get s k f')) else None) \<and>
    convo_Stage (convo_SetStage (Some s) k st) k' = (if k' = k then st else convo_Stage (Some s) k') \<and>
    mcs_wf (mcs_Set s k f v) \<and> mcs_wf (mcs_Delete s k f) \<and> mcs_wf (mcs_Clear s k) \<and>
    mcs_wf NewMemoryConvoStore"
proof -
  have "map_of (mcs_All s k) f' = (if snd (mcs_Get s k f') then Some (fst (mcs_Get s k f')) else None)"
    by (simp add: mcs_All_def mcs_Get_def split: option.splits)
  moreover have "mcs_wf NewMemoryConvoStore" by (simp add: mcs_wf_def NewMemoryConvoStore_def)
  ultimately show ?thesis
    using mem_convo.get_set mem_convo.get_delete mem_convo.get_clear convo_Stage_SetStage
      mcs_wf_Set mcs_wf_Delete mcs_wf_Clear assms by simp
qed

theorem convo_state_isolated_witness:
  "mcs_wf [(\<lparr> ck_Sender = ''a'', ck_GroupID = [] \<rparr>, [(''x'', ''1'')])] \<and>
   mcs_Get (mcs_Delete [(\<lparr> ck_Sender = ''a'', ck_GroupID = [] \<rparr>, [(''x'', ''1'')])]
     \<lparr> ck_Sender = ''a'', ck_GroupID = [] \<rparr> ''x'') \<lparr> ck_Sender = ''a'', ck_GroupID = [] \<rparr> ''x''
     = ([], False)"
proof -
  have w: "mcs_wf [(\<lparr> ck_Sender = ''a'', ck_GroupID = [] \<rparr>, [(''x'', ''1'')])]"
    by (simp add: mcs_wf_def)
  show ?thesis
    using convo_state_isolated [OF w, of "\<lparr> ck_Sender = ''a'', ck_GroupID = [] \<rparr>" "''x''" "[]"
        "\<lparr> ck_Sender = ''a'', ck_GroupID = [] \<rparr>" "''x''"] w by simp
qed

end
