(* ===== verification/BotMatch.thy ===== *)
theory BotMatch
  imports Events ConvoStore
begin

text \<open>
  Matchers of the bot package: pkg/bot/match.go and the reaction and edit matchers and the
  fluent builders of pkg/bot/bot.go. A compiled regular expression is its
  FindStringSubmatch function; nil maps and nil regexps are None.
\<close>

datatype matchKind = matchExact | matchPrefix | matchRegex | matchCommand | matchAnyText

record matcher =
  mt_kind :: matchKind
  mt_text :: string
  mt_re :: "(string \<Rightarrow> string list option) option"
  mt_dmOnly :: bool
  mt_groupOnly :: bool
  mt_fromACI :: string
  mt_allowedGroupIDs :: "string set option"
  mt_stage :: string
  mt_stageAny :: bool

definition new_matcher :: "matchKind \<Rightarrow> string \<Rightarrow> (string \<Rightarrow> string list option) option \<Rightarrow> matcher" where
  "new_matcher k t re = \<lparr> mt_kind = k, mt_text = t, mt_re = re, mt_dmOnly = False,
     mt_groupOnly = False, mt_fromACI = [], mt_allowedGroupIDs = None, mt_stage = [],
     mt_stageAny = False \<rparr>"

definition msg_IsGroup :: "MessageEvent \<Rightarrow> bool" where
  "msg_IsGroup ev \<longleftrightarrow> me_GroupID ev \<noteq> []"

definition msg_ConvoKey :: "MessageEvent \<Rightarrow> ConvoKey" where
  "msg_ConvoKey ev = \<lparr> ck_Sender = me_Sender ev, ck_GroupID = me_GroupID ev \<rparr>"

text \<open>The store is the one behind \<open>msg.Convo()\<close> at the time of the test.\<close>

definition scopeOK :: "matcher \<Rightarrow> MessageEvent \<Rightarrow> memory_store option \<Rightarrow> bool" where
  "scopeOK m ev st =
    (if mt_dmOnly m \<and> msg_IsGroup ev then False
     else if mt_groupOnly m \<and> \<not> msg_IsGroup ev then False
     else if mt_fromACI m \<noteq> [] \<and> me_Sender ev \<noteq> mt_fromACI m then False
     else if mt_allowedGroupIDs m \<noteq> None \<and> me_GroupID ev \<noteq> [] \<and>
             me_GroupID ev \<notin> the (mt_allowedGroupIDs m) then False
     else if mt_stageAny m \<or> mt_stage m \<noteq> [] then
       let current = convo_Stage st (msg_ConvoKey ev) in
       if mt_stageAny m \<and> current = [] then False
       else if mt_stage m \<noteq> [] \<and> current \<noteq> mt_stage m then False
       else True
     else True)"

section \<open>Body patterns\<close>

definition parseCommand :: "go_unicode \<Rightarrow> string \<Rightarrow> string \<Rightarrow> string list option" where
  "parseCommand U body0 name =
    (let body = TrimLeft_blanks body0 in
     if length body < 1 + length name \<or> body ! 0 \<noteq> CHR ''/'' then None
     else
       let rest = drop 1 body; lower = ToLower U rest in
       if \<not> HasPrefix lower (ToLower U name) then None
       else
         let after = drop (length name) rest in
         if length after = 0 then Some []
         else if after ! 0 \<noteq> CHR 0x20 \<and> after ! 0 \<noteq> CHR 0x09 then None
         else Some (Fields U after))"

definition bodyMatch :: "go_unicode \<Rightarrow> matcher \<Rightarrow> string \<Rightarrow> string list option" where
  "bodyMatch U m body =
    (case mt_kind m of
       matchExact \<Rightarrow> if body = mt_text m then Some [] else None
     | matchPrefix \<Rightarrow>
         if HasPrefix (ToLower U body) (ToLower U (mt_text m)) then Some [] else None
     | matchRegex \<Rightarrow> (case mt_re m of None \<Rightarrow> None | Some re \<Rightarrow> re body)
     | matchCommand \<Rightarrow> parseCommand U body (mt_text m)
     | matchAnyText \<Rightarrow> Some [])"

definition matcher_match ::
  "go_unicode \<Rightarrow> matcher \<Rightarrow> MessageEvent \<Rightarrow> memory_store option \<Rightarrow> string list option" where
  "matcher_match U m ev st =
    (if \<not> scopeOK m ev st then None else bodyMatch U m (me_Body ev))"

section \<open>Reaction and edit matchers\<close>

record reactionMatcher =
  rm_emoji :: string
  rm_includeRm :: bool
  rm_dmOnly :: bool
  rm_groupOnly :: bool
  rm_fromACI :: string
  rm_allowedGroupIDs :: "string set option"

definition reaction_match :: "reactionMatcher \<Rightarrow> ReactionEvent \<Rightarrow> bool" where
  "reaction_match m ev =
    (if rm_dmOnly m \<and> re_GroupID ev \<noteq> [] then False
     else if rm_groupOnly m \<and> re_GroupID ev = [] then False
     else if rm_fromACI m \<noteq> [] \<and> re_Sender ev \<noteq> rm_fromACI m then False
     else if rm_allowedGroupIDs m \<noteq> None \<and> re_GroupID ev \<noteq> [] \<and>
             re_GroupID ev \<notin> the (rm_allowedGroupIDs m) then False
     else if \<not> rm_includeRm m \<and> re_Remove ev then False
     else if rm_emoji m \<noteq> [] \<and> re_Emoji ev \<noteq> rm_emoji m then False
     else True)"

record editMatcher =
  em_dmOnly :: bool
  em_groupOnly :: bool
  em_fromACI :: string
  em_allowedGroupIDs :: "string set option"

definition edit_match :: "editMatcher \<Rightarrow> EditMessageEvent \<Rightarrow> bool" where
  "edit_match m ev =
    (if em_dmOnly m \<and> ed_GroupID ev \<noteq> [] then False
     else if em_groupOnly m \<and> ed_GroupID ev = [] then False
     else if em_fromACI m \<noteq> [] \<and> ed_Sender ev \<noteq> em_fromACI m then False
     else if em_allowedGroupIDs m \<noteq> None \<and> ed_GroupID ev \<noteq> [] \<and>
             ed_GroupID ev \<notin> the (em_allowedGroupIDs m) then False
     else True)"

section \<open>Builders\<close>

definition match_DM :: "matcher \<Rightarrow> matcher" where "match_DM m = m\<lparr> mt_dmOnly := True \<rparr>"
definition match_Group :: "matcher \<Rightarrow> matcher" where "match_Group m = m\<lparr> mt_groupOnly := True \<rparr>"
definition match_From :: "string \<Rightarrow> matcher \<Rightarrow> matcher" where
  "match_From aci m = m\<lparr> mt_fromACI := aci \<rparr>"
definition match_Stage :: "string \<Rightarrow> matcher \<Rightarrow> matcher" where
  "match_Stage s m = m\<lparr> mt_stage := s, mt_stageAny := False \<rparr>"
definition match_AnyStage :: "matcher \<Rightarrow> matcher" where
  "match_AnyStage m = m\<lparr> mt_stage := [], mt_stageAny := True \<rparr>"
definition match_InGroups :: "string list \<Rightarrow> matcher \<Rightarrow> matcher" where
  "match_InGroups ids m = m\<lparr> mt_allowedGroupIDs := Some (set ids) \<rparr>"

definition OnText :: "string \<Rightarrow> matcher" where "OnText t = new_matcher matchExact t None"
definition OnPrefix :: "string \<Rightarrow> matcher" where "OnPrefix p = new_matcher matchPrefix p None"
definition OnRegex :: "(string \<Rightarrow> string list option) option \<Rightarrow> matcher" where
  "OnRegex re = new_matcher matchRegex [] re"
definition OnCommand :: "string \<Rightarrow> matcher" where "OnCommand n = new_matcher matchCommand n None"
definition OnAnyText :: matcher where "OnAnyText = new_matcher matchAnyText [] None"

definition reaction_DM :: "reactionMatcher \<Rightarrow> reactionMatcher" where
  "reaction_DM m = m\<lparr> rm_dmOnly := True \<rparr>"
definition reaction_Group :: "reactionMatcher \<Rightarrow> reactionMatcher" where
  "reaction_Group m = m\<lparr> rm_groupOnly := True \<rparr>"
definition reaction_From :: "string \<Rightarrow> reactionMatcher \<Rightarrow> reactionMatcher" where
  "reaction_From aci m = m\<lparr> rm_fromACI := aci \<rparr>"
definition reaction_InGroups :: "string list \<Rightarrow> reactionMatcher \<Rightarrow> reactionMatcher" where
  "reaction_InGroups ids m = m\<lparr> rm_allowedGroupIDs := Some (set ids) \<rparr>"
definition reaction_IncludeRemovals :: "reactionMatcher \<Rightarrow> reactionMatcher" where
  "reaction_IncludeRemovals m = m\<lparr> rm_includeRm := True \<rparr>"
definition OnReaction :: "string \<Rightarrow> reactionMatcher" where
  "OnReaction emoji = \<lparr> rm_emoji = emoji, rm_includeRm = False, rm_dmOnly = False,
     rm_groupOnly = False, rm_fromACI = [], rm_allowedGroupIDs = None \<rparr>"
definition OnAnyReaction :: reactionMatcher where "OnAnyReaction = OnReaction []"

definition edit_DM :: "editMatcher \<Rightarrow> editMatcher" where "edit_DM m = m\<lparr> em_dmOnly := True \<rparr>"
definition edit_Group :: "editMatcher \<Rightarrow> editMatcher" where
  "edit_Group m = m\<lparr> em_groupOnly := True \<rparr>"
definition edit_From :: "string \<Rightarrow> editMatcher \<Rightarrow> editMatcher" where
  "edit_From aci m = m\<lparr> em_fromACI := aci \<rparr>"
definition edit_InGroups :: "string list \<Rightarrow> editMatcher \<Rightarrow> editMatcher" where
  "edit_InGroups ids m = m\<lparr> em_allowedGroupIDs := Some (set ids) \<rparr>"
definition OnEdit :: editMatcher where
  "OnEdit = \<lparr> em_dmOnly = False, em_groupOnly = False, em_fromACI = [],
     em_allowedGroupIDs = None \<rparr>"

lemmas builder_defs = match_DM_def match_Group_def match_From_def match_Stage_def
  match_AnyStage_def match_InGroups_def OnText_def OnPrefix_def OnRegex_def OnCommand_def
  OnAnyText_def new_matcher_def
lemmas reaction_builder_defs = reaction_DM_def reaction_Group_def reaction_From_def
  reaction_InGroups_def reaction_IncludeRemovals_def OnReaction_def OnAnyReaction_def
lemmas edit_builder_defs = edit_DM_def edit_Group_def edit_From_def edit_InGroups_def OnEdit_def

section \<open>What the scope filters admit\<close>

text \<open>The thread filter that the three matchers share.\<close>

definition thread_ok :: "bool \<Rightarrow> bool \<Rightarrow> string \<Rightarrow> string set option \<Rightarrow> string \<Rightarrow> string \<Rightarrow> bool" where
  "thread_ok dm grp from ids sender gid \<longleftrightarrow>
     (dm \<longrightarrow> gid = []) \<and> (grp \<longrightarrow> gid \<noteq> []) \<and> (from \<noteq> [] \<longrightarrow> sender = from) \<and>
     (case ids of None \<Rightarrow> True | Some S \<Rightarrow> gid = [] \<or> gid \<in> S)"

lemma scopeOK_iff:
  "scopeOK m ev st \<longleftrightarrow>
     thread_ok (mt_dmOnly m) (mt_groupOnly m) (mt_fromACI m) (mt_allowedGroupIDs m)
       (me_Sender ev) (me_GroupID ev) \<and>
     (mt_stageAny m \<longrightarrow> convo_Stage st (msg_ConvoKey ev) \<noteq> []) \<and>
     (mt_stage m \<noteq> [] \<longrightarrow> convo_Stage st (msg_ConvoKey ev) = mt_stage m)"
  by (auto simp: scopeOK_def thread_ok_def msg_IsGroup_def Let_def split: option.splits)

lemma reaction_match_iff:
  "reaction_match m ev \<longleftrightarrow>
     thread_ok (rm_dmOnly m) (rm_groupOnly m) (rm_fromACI m) (rm_allowedGroupIDs m)
       (re_Sender ev) (re_GroupID ev) \<and>
     (re_Remove ev \<longrightarrow> rm_includeRm m) \<and> (rm_emoji m \<noteq> [] \<longrightarrow> re_Emoji ev = rm_emoji m)"
  by (auto simp: reaction_match_def thread_ok_def split: option.splits)

lemma edit_match_iff:
  "edit_match m ev \<longleftrightarrow>
     thread_ok (em_dmOnly m) (em_groupOnly m) (em_fromACI m) (em_allowedGroupIDs m)
       (ed_Sender ev) (ed_GroupID ev)"
  by (auto simp: edit_match_def thread_ok_def split: option.splits)

section \<open>Commands\<close>

definition is_blank :: "char \<Rightarrow> bool" where
  "is_blank c \<longleftrightarrow> c = CHR 0x20 \<or> c = CHR 0x09"

lemma TrimLeft_split:
  "\<exists>ws. s = ws @ TrimLeft_blanks s \<and> list_all is_blank ws"
proof (intro exI conjI)
  show "s = takeWhile is_blank s @ TrimLeft_blanks s"
    by (simp add: TrimLeft_blanks_def is_blank_def [abs_def])
  show "list_all is_blank (takeWhile is_blank s)"
    by (auto simp: list_all_iff dest: set_takeWhileD)
qed

lemma TrimLeft_blanks_append:
  "list_all is_blank ws \<Longrightarrow> TrimLeft_blanks (ws @ CHR ''/'' # r) = CHR ''/'' # r"
  by (induction ws) (auto simp: TrimLeft_blanks_def is_blank_def)

text \<open>A slash command, as a relation between the body, the command name and its arguments.\<close>

definition command_body :: "go_unicode \<Rightarrow> string \<Rightarrow> string \<Rightarrow> string list \<Rightarrow> bool" where
  "command_body U body name args \<longleftrightarrow>
    (\<exists>ws cmd after. body = ws @ CHR ''/'' # cmd @ after \<and> list_all is_blank ws \<and>
       length cmd = length name \<and> ToLower U cmd = ToLower U name \<and>
       (after = [] \<and> args = [] \<or> after \<noteq> [] \<and> is_blank (hd after) \<and> args = Fields U after))"

lemma parseCommand_trimmed:
  assumes "is_ascii r" "is_ascii name" and t: "TrimLeft_blanks body = CHR ''/'' # r"
  shows "parseCommand U body name = Some args \<longleftrightarrow>
    length name \<le> length r \<and> ToLower U (take (length name) r) = ToLower U name \<and>
    (let after = drop (length name) r in
     after = [] \<and> args = [] \<or> after \<noteq> [] \<and> is_blank (hd after) \<and> args = Fields U after)"
  using HasPrefix_ToLower_ascii [OF assms(1,2), of U]
  by (auto simp: parseCommand_def Let_def t is_blank_def hd_drop_conv_nth hd_conv_nth not_less)

lemma parseCommand_not_slash:
  "(\<forall>r. TrimLeft_blanks body \<noteq> CHR ''/'' # r) \<Longrightarrow> parseCommand U body name = None"
  by (cases "TrimLeft_blanks body") (auto simp: parseCommand_def Let_def)

lemma parseCommand_iff:
  assumes "is_ascii body" "is_ascii name"
  shows "parseCommand U body name = Some args \<longleftrightarrow> command_body U body name args"
proof
  assume p: "parseCommand U body name = Some args"
  then obtain r where t: "TrimLeft_blanks body = CHR ''/'' # r"
    using parseCommand_not_slash [of body U name] by fastforce
  obtain ws where ws: "body = ws @ CHR ''/'' # r" "list_all is_blank ws"
    using TrimLeft_split [of body] t by auto
  have r: "is_ascii r" using assms(1) ws by (simp add: is_ascii_def)
  have q: "length name \<le> length r" "ToLower U (take (length name) r) = ToLower U name"
    "drop (length name) r = [] \<and> args = [] \<or> drop (length name) r \<noteq> [] \<and>
      is_blank (hd (drop (length name) r)) \<and> args = Fields U (drop (length name) r)"
    using p parseCommand_trimmed [OF r assms(2) t] by (auto simp: Let_def)
  have "body = ws @ CHR ''/'' # take (length name) r @ drop (length name) r"
    "length (take (length name) r) = length name" using ws q(1) by simp_all
  then show "command_body U body name args"
    using ws(2) q(2,3) unfolding command_body_def by blast
next
  assume "command_body U body name args"
  then obtain ws cmd after where b: "body = ws @ CHR ''/'' # cmd @ after" "list_all is_blank ws"
    "length cmd = length name" "ToLower U cmd = ToLower U name"
    "after = [] \<and> args = [] \<or> after \<noteq> [] \<and> is_blank (hd after) \<and> args = Fields U after"
    unfolding command_body_def by blast
  have r: "is_ascii (cmd @ after)" using assms(1) b(1) by (simp add: is_ascii_def)
  have t: "TrimLeft_blanks body = CHR ''/'' # cmd @ after"
    unfolding b(1) by (rule TrimLeft_blanks_append [OF b(2)])
  show "parseCommand U body name = Some args"
    unfolding parseCommand_trimmed [OF r assms(2) t] using b(3,4,5) by (simp add: Let_def)
qed

section \<open>Properties\<close>

text \<open>
  C39. Scope filters are sound and complete: a message handler fires only for messages that pass
  every filter that was chained on its builder, for the three thread filters, the sender, the
  group list and the stage, and a message that passes them all and whose body matches does
  fire. \<open>Group().InGroups(ids)\<close> admits exactly the messages of the listed groups; a plain
  \<open>InGroups\<close> also admits every direct message.
\<close>

theorem match_scope:
  "(matcher_match U m ev st = Some args) =
     (thread_ok (mt_dmOnly m) (mt_groupOnly m) (mt_fromACI m) (mt_allowedGroupIDs m)
        (me_Sender ev) (me_GroupID ev) \<and>
      (if mt_stageAny m then convo_Stage st (msg_ConvoKey ev) \<noteq> [] else True) \<and>
      (mt_stage m = [] \<or> convo_Stage st (msg_ConvoKey ev) = mt_stage m) \<and>
      bodyMatch U m (me_Body ev) = Some args) \<and>
   (scopeOK (match_InGroups ids (match_Group (OnCommand name))) ev st =
      (me_GroupID ev \<noteq> [] \<and> me_GroupID ev \<in> set ids)) \<and>
   (scopeOK (match_InGroups ids (OnCommand name)) ev st =
      (me_GroupID ev = [] \<or> me_GroupID ev \<in> set ids)) \<and>
   (scopeOK (match_Stage s (match_AnyStage (match_From aci (match_DM OnAnyText)))) ev st =
      (me_GroupID ev = [] \<and> (aci = [] \<or> me_Sender ev = aci) \<and>
       (s = [] \<or> convo_Stage st (msg_ConvoKey ev) = s)))"
  by (auto simp: matcher_match_def scopeOK_iff thread_ok_def builder_defs)

text \<open>
  Reactions and edits use the same thread filter as messages; a reaction handler skips
  removals unless IncludeRemovals was chained, and \<open>OnAnyReaction\<close> accepts every emoji.
\<close>

theorem reaction_edit_scope:
  "reaction_match m ev =
     (thread_ok (rm_dmOnly m) (rm_groupOnly m) (rm_fromACI m) (rm_allowedGroupIDs m)
        (re_Sender ev) (re_GroupID ev) \<and>
      (if re_Remove ev then rm_includeRm m else True) \<and> (rm_emoji m = [] \<or> re_Emoji ev = rm_emoji m)) \<and>
   edit_match em ee =
     thread_ok (em_dmOnly em) (em_groupOnly em) (em_fromACI em) (em_allowedGroupIDs em)
       (ed_Sender ee) (ed_GroupID ee) \<and>
   reaction_match OnAnyReaction ev = (\<not> re_Remove ev) \<and>
   reaction_match (reaction_IncludeRemovals (OnReaction emoji)) ev =
     (emoji = [] \<or> re_Emoji ev = emoji)"
  by (auto simp: reaction_match_iff edit_match_iff thread_ok_def reaction_builder_defs)

text \<open>
  parseCommand on ASCII bodies and names: it matches exactly the bodies made of blanks, a
  slash, the command name up to case, and then nothing or a blank and arguments; the
  arguments are the whitespace-separated, non-empty fields after the name.
\<close>

theorem parse_command_spec:
  assumes "is_ascii body" "is_ascii name"
  shows "(parseCommand U body name = Some args) = command_body U body name args \<and>
    (parseCommand U body name \<noteq> Some args \<or>
     list_all (\<lambda>f. f \<noteq> [] \<and> list_all (\<lambda>c. \<not> is_space c) f) args)"
proof -
  have "list_all (\<lambda>f. f \<noteq> [] \<and> list_all (\<lambda>c. \<not> is_space c) f) args"
    if c: "command_body U body name args"
  proof -
    obtain after where a: "is_ascii after" "args = [] \<or> args = Fields U after"
      using c assms(1) by (auto simp: command_body_def is_ascii_def)
    then have "args = [] \<or> args = split_fields after []" by (simp add: Fields_def)
    then show ?thesis using split_fields_no_space [of "[]" _ after] by (auto simp: list_all_iff)
  qed
  then show ?thesis using parseCommand_iff [OF assms] by blast
qed

theorem parse_command_spec_witness:
  "parseCommand plain_unicode ''  /HELP  me  now'' ''help'' = Some [''me'', ''now''] \<and>
   command_body plain_unicode ''  /HELP  me  now'' ''help'' [''me'', ''now'']"
proof -
  have "is_ascii ''  /HELP  me  now''" "is_ascii ''help''" by (simp_all add: is_ascii_def)
  note spec = parse_command_spec [OF this, of plain_unicode "[''me'', ''now'']"]
  have "parseCommand plain_unicode ''  /HELP  me  now'' ''help'' = Some [''me'', ''now'']" by code_simp
  then show ?thesis using spec by simp
qed

end
