(* ===== verification/BotDispatch.thy ===== *)
theory BotDispatch
  imports BotMatch
begin

text \<open>
  The dispatcher of the bot package: pkg/bot/bot.go, with the wizard of pkg/bot/wizard.go and
  the retry middleware of pkg/bot/middleware_ratelimit.go. Handlers are functions on a world:
  a record with the conversation store that the matchers read, extended by whatever else the
  handlers change. A handler returns nil, an error that wraps ErrPass, or another error.
  Handlers that register further handlers while an event is dispatched are not modelled (the
  code dispatches over a copy of the lists).
\<close>

record world =
  w_convo :: "memory_store option"

datatype 'e hres = HNil | HPass | HErr 'e

type_synonym ('x, 'e) HandlerFunc =
  "'x world_scheme \<Rightarrow> MessageEvent \<Rightarrow> string list \<Rightarrow> 'x world_scheme \<times> 'e hres"
type_synonym ('x, 'e) MiddlewareFunc = "('x, 'e) HandlerFunc \<Rightarrow> ('x, 'e) HandlerFunc"
type_synonym ('x, 'e) ReactionHandlerFunc =
  "'x world_scheme \<Rightarrow> ReactionEvent \<Rightarrow> 'x world_scheme \<times> 'e hres"
type_synonym ('x, 'e) EditHandlerFunc =
  "'x world_scheme \<Rightarrow> EditMessageEvent \<Rightarrow> 'x world_scheme \<times> 'e hres"
type_synonym ('x, 'e) GroupUpdateHandlerFunc =
  "'x world_scheme \<Rightarrow> GroupUpdateEvent \<Rightarrow> 'x world_scheme \<times> 'e hres"
type_synonym ('x, 'e) ErrorHandler = "'x world_scheme \<Rightarrow> Event \<Rightarrow> 'e \<Rightarrow> 'x world_scheme"

record ('x, 'e) textHandler =
  th_matcher :: matcher
  th_run :: "('x, 'e) HandlerFunc"
  th_middleware :: "('x, 'e) MiddlewareFunc list"

record ('x, 'e) reactionHandler =
  rh_matcher :: reactionMatcher
  rh_run :: "('x, 'e) ReactionHandlerFunc"

record ('x, 'e) editHandler =
  eh_matcher :: editMatcher
  eh_run :: "('x, 'e) EditHandlerFunc"

record ('x, 'e) Bot =
  b_middleware :: "('x, 'e) MiddlewareFunc list"
  b_textHandlers :: "('x, 'e) textHandler list"
  b_reactionHandlers :: "('x, 'e) reactionHandler list"
  b_editHandlers :: "('x, 'e) editHandler list"
  b_groupUpdateHandlers :: "('x, 'e) GroupUpdateHandlerFunc list"
  b_closed :: bool
  b_onError :: "('x, 'e) ErrorHandler option"

section \<open>Registration\<close>

definition wrap_bot :: "('x, 'e) Bot" where
  "wrap_bot = \<lparr> b_middleware = [], b_textHandlers = [], b_reactionHandlers = [],
     b_editHandlers = [], b_groupUpdateHandlers = [], b_closed = False, b_onError = None \<rparr>"

definition bot_Use :: "('x, 'e) MiddlewareFunc \<Rightarrow> ('x, 'e) Bot \<Rightarrow> ('x, 'e) Bot" where
  "bot_Use mw b = b\<lparr> b_middleware := b_middleware b @ [mw] \<rparr>"

definition bot_OnError :: "('x, 'e) ErrorHandler option \<Rightarrow> ('x, 'e) Bot \<Rightarrow> ('x, 'e) Bot" where
  "bot_OnError h b = b\<lparr> b_onError := h \<rparr>"

text \<open>\<open>Match.Use\<close> copies before it appends; \<open>Match.Do\<close> registers.\<close>

definition match_Use ::
  "('x, 'e) MiddlewareFunc \<Rightarrow> ('x, 'e) MiddlewareFunc list \<Rightarrow> ('x, 'e) MiddlewareFunc list" where
  "match_Use mw mws = mws @ [mw]"

definition match_Do ::
  "matcher \<Rightarrow> ('x, 'e) MiddlewareFunc list \<Rightarrow> ('x, 'e) HandlerFunc \<Rightarrow> ('x, 'e) Bot \<Rightarrow> ('x, 'e) Bot" where
  "match_Do m mw handler b = b\<lparr> b_textHandlers := b_textHandlers b @
     [\<lparr> th_matcher = m, th_run = handler, th_middleware = mw \<rparr>] \<rparr>"

definition reaction_Do ::
  "reactionMatcher \<Rightarrow> ('x, 'e) ReactionHandlerFunc \<Rightarrow> ('x, 'e) Bot \<Rightarrow> ('x, 'e) Bot" where
  "reaction_Do m handler b = b\<lparr> b_reactionHandlers := b_reactionHandlers b @
     [\<lparr> rh_matcher = m, rh_run = handler \<rparr>] \<rparr>"

definition edit_Do ::
  "editMatcher \<Rightarrow> ('x, 'e) EditHandlerFunc \<Rightarrow> ('x, 'e) Bot \<Rightarrow> ('x, 'e) Bot" where
  "edit_Do m handler b = b\<lparr> b_editHandlers := b_editHandlers b @
     [\<lparr> eh_matcher = m, eh_run = handler \<rparr>] \<rparr>"

definition bot_OnGroupUpdate ::
  "('x, 'e) GroupUpdateHandlerFunc \<Rightarrow> ('x, 'e) Bot \<Rightarrow> ('x, 'e) Bot" where
  "bot_OnGroupUpdate h b = b\<lparr> b_groupUpdateHandlers := b_groupUpdateHandlers b @ [h] \<rparr>"

text \<open>\<open>cliClose\<close> is the underlying client's Close; the second component tells whether it ran.\<close>

definition bot_Close :: "('w \<Rightarrow> 'w) \<Rightarrow> ('x, 'e) Bot \<Rightarrow> 'w \<Rightarrow> ('x, 'e) Bot \<times> 'w" where
  "bot_Close cliClose b w =
    (if b_closed b then (b, w) else (b\<lparr> b_closed := True \<rparr>, cliClose w))"

section \<open>Dispatch\<close>

text \<open>The loop \<open>for i := len(mws) - 1; i >= 0; i--\<close>.\<close>

fun applyMiddleware_loop ::
  "('x, 'e) HandlerFunc \<Rightarrow> ('x, 'e) MiddlewareFunc list \<Rightarrow> nat \<Rightarrow> ('x, 'e) HandlerFunc" where
  "applyMiddleware_loop h mws 0 = h"
| "applyMiddleware_loop h mws (Suc i) = applyMiddleware_loop ((mws ! i) h) mws i"

definition applyMiddleware ::
  "('x, 'e) HandlerFunc \<Rightarrow> ('x, 'e) MiddlewareFunc list \<Rightarrow> ('x, 'e) HandlerFunc" where
  "applyMiddleware h mws = applyMiddleware_loop h mws (length mws)"

definition handleErr ::
  "('x, 'e) ErrorHandler option \<Rightarrow> Event \<Rightarrow> 'e \<Rightarrow> 'x world_scheme \<Rightarrow> 'x world_scheme" where
  "handleErr onErr ev e w = (case onErr of None \<Rightarrow> w | Some h \<Rightarrow> h w ev e)"

fun dispatchMessage_loop ::
  "go_unicode \<Rightarrow> ('x, 'e) MiddlewareFunc list \<Rightarrow> ('x, 'e) ErrorHandler option \<Rightarrow> MessageEvent \<Rightarrow>
   ('x, 'e) textHandler list \<Rightarrow> 'x world_scheme \<Rightarrow> 'x world_scheme" where
  "dispatchMessage_loop U globalMW onErr ev [] w = w"
| "dispatchMessage_loop U globalMW onErr ev (h # hs) w =
    (case matcher_match U (th_matcher h) ev (w_convo w) of
       None \<Rightarrow> dispatchMessage_loop U globalMW onErr ev hs w
     | Some matches \<Rightarrow>
         let run = applyMiddleware (applyMiddleware (th_run h) (th_middleware h)) globalMW
         in case run w ev matches of
              (w', HPass) \<Rightarrow> dispatchMessage_loop U globalMW onErr ev hs w'
            | (w', HErr e) \<Rightarrow> handleErr onErr (EvMessage ev) e w'
            | (w', HNil) \<Rightarrow> w')"

fun dispatchReaction_loop ::
  "('x, 'e) ErrorHandler option \<Rightarrow> ReactionEvent \<Rightarrow> ('x, 'e) reactionHandler list \<Rightarrow>
   'x world_scheme \<Rightarrow> 'x world_scheme" where
  "dispatchReaction_loop onErr ev [] w = w"
| "dispatchReaction_loop onErr ev (h # hs) w =
    (if \<not> reaction_match (rh_matcher h) ev then dispatchReaction_loop onErr ev hs w
     else case rh_run h w ev of
            (w', HPass) \<Rightarrow> dispatchReaction_loop onErr ev hs w'
          | (w', HErr e) \<Rightarrow> handleErr onErr (EvReaction ev) e w'
          | (w', HNil) \<Rightarrow> w')"

fun dispatchEdit_loop ::
  "('x, 'e) ErrorHandler option \<Rightarrow> EditMessageEvent \<Rightarrow> ('x, 'e) editHandler list \<Rightarrow>
   'x world_scheme \<Rightarrow> 'x world_scheme" where
  "dispatchEdit_loop onErr ev [] w = w"
| "dispatchEdit_loop onErr ev (h # hs) w =
    (if \<not> edit_match (eh_matcher h) ev then dispatchEdit_loop onErr ev hs w
     else case eh_run h w ev of
            (w', HPass) \<Rightarrow> dispatchEdit_loop onErr ev hs w'
          | (w', HErr e) \<Rightarrow> handleErr onErr (EvEdit ev) e w'
          | (w', HNil) \<Rightarrow> w')"

fun dispatchGroupUpdate_loop ::
  "('x, 'e) ErrorHandler option \<Rightarrow> GroupUpdateEvent \<Rightarrow> ('x, 'e) GroupUpdateHandlerFunc list \<Rightarrow>
   'x world_scheme \<Rightarrow> 'x world_scheme" where
  "dispatchGroupUpdate_loop onErr ev [] w = w"
| "dispatchGroupUpdate_loop onErr ev (h # hs) w =
    (case h w ev of
       (w', HPass) \<Rightarrow> dispatchGroupUpdate_loop onErr ev hs w'
     | (w', HErr e) \<Rightarrow> handleErr onErr (EvGroupUpdate ev) e w'
     | (w', HNil) \<Rightarrow> w')"

definition dispatchMessage where
  "dispatchMessage U b ev w =
    dispatchMessage_loop U (b_middleware b) (b_onError b) ev (b_textHandlers b) w"
definition dispatchReaction where
  "dispatchReaction b ev w = dispatchReaction_loop (b_onError b) ev (b_reactionHandlers b) w"
definition dispatchEdit where
  "dispatchEdit b ev w = dispatchEdit_loop (b_onError b) ev (b_editHandlers b) w"
definition dispatchGroupUpdate where
  "dispatchGroupUpdate b ev w =
    dispatchGroupUpdate_loop (b_onError b) ev (b_groupUpdateHandlers b) w"

definition dispatch ::
  "go_unicode \<Rightarrow> ('x, 'e) Bot \<Rightarrow> Event \<Rightarrow> 'x world_scheme \<Rightarrow> 'x world_scheme" where
  "dispatch U b ev w =
    (case ev of
       EvMessage e \<Rightarrow> dispatchMessage U b e w
     | EvReaction e \<Rightarrow> dispatchReaction b e w
     | EvEdit e \<Rightarrow> dispatchEdit b e w
     | EvGroupUpdate e \<Rightarrow> dispatchGroupUpdate b e w
     | _ \<Rightarrow> w)"

text \<open>
  What the select in Run finds: a cancelled context, a closed channel, or an event. An
  exhausted list is a bot still waiting (None).
\<close>

datatype 'c run_input = CtxDone 'c | EventsClosed | GotEvent Event

fun bot_Run ::
  "go_unicode \<Rightarrow> ('x, 'e) Bot \<Rightarrow> 'c run_input list \<Rightarrow> 'x world_scheme \<Rightarrow>
   'x world_scheme \<times> 'c option option" where
  "bot_Run U b [] w = (w, None)"
| "bot_Run U b (i # is) w =
    (case i of
       CtxDone c \<Rightarrow> (w, Some (Some c))
     | EventsClosed \<Rightarrow> (w, Some None)
     | GotEvent ev \<Rightarrow> bot_Run U b is (dispatch U b ev w))"

section \<open>The contract of a handler chain\<close>

datatype 'w step = Next 'w | Stop 'w

fun chain_passes :: "('h \<Rightarrow> 'w \<Rightarrow> 'w step) \<Rightarrow> 'h list \<Rightarrow> 'w \<Rightarrow> 'w option" where
  "chain_passes attempt [] w = Some w"
| "chain_passes attempt (h # hs) w =
    (case attempt h w of Next w' \<Rightarrow> chain_passes attempt hs w' | Stop w' \<Rightarrow> None)"

text \<open>
  A dispatcher tries its handlers in order; each attempt either lets the next one try or ends
  the dispatch.
\<close>

locale handler_chain =
  fixes attempt :: "'h \<Rightarrow> 'w \<Rightarrow> 'w step" and run_loop :: "'h list \<Rightarrow> 'w \<Rightarrow> 'w"
  assumes loop_Nil: "run_loop [] w = w"
    and loop_Cons: "run_loop (h # hs) w =
      (case attempt h w of Next w' \<Rightarrow> run_loop hs w' | Stop w' \<Rightarrow> w')"
begin

lemma loop_append:
  "run_loop (xs @ ys) w =
    (case chain_passes attempt xs w of Some w' \<Rightarrow> run_loop ys w' | None \<Rightarrow> run_loop xs w)"
  by (induction xs arbitrary: w) (auto simp: loop_Cons split: step.splits option.splits)

lemma loop_all_pass: "chain_passes attempt hs w = Some w' \<Longrightarrow> run_loop hs w = w'"
  by (induction hs arbitrary: w) (auto simp: loop_Nil loop_Cons split: step.splits)

lemma loop_first_stop:
  "chain_passes attempt pre w = Some w1 \<Longrightarrow> attempt h w1 = Stop w2 \<Longrightarrow>
   run_loop (pre @ h # post) w = w2"
  by (simp add: loop_append loop_Cons)

lemma stop_exists:
  "chain_passes attempt hs w = None \<Longrightarrow>
   \<exists>pre h post w1 w2. hs = pre @ h # post \<and> chain_passes attempt pre w = Some w1 \<and>
     attempt h w1 = Stop w2"
proof (induction hs arbitrary: w)
  case (Cons a hs)
  show ?case
  proof (cases "attempt a w")
    case (Next w')
    then obtain pre h post w1 w2 where "hs = pre @ h # post"
      "chain_passes attempt pre w' = Some w1" "attempt h w1 = Stop w2"
      using Cons.IH [of w'] Cons.prems by auto
    then show ?thesis using Next
      by (intro exI [of _ "a # pre"] exI [of _ h] exI [of _ post]) auto
  next
    case (Stop w')
    then show ?thesis by (intro exI [of _ "[]"]) auto
  qed
qed simp

lemma outcome:
  "(\<exists>w'. chain_passes attempt hs w = Some w' \<and> run_loop hs w = w') \<or>
   (\<exists>pre h post w1 w2. hs = pre @ h # post \<and> chain_passes attempt pre w = Some w1 \<and>
      attempt h w1 = Stop w2 \<and> run_loop hs w = w2)"
proof (cases "chain_passes attempt hs w")
  case None
  then show ?thesis using stop_exists [OF None] loop_first_stop by metis
qed (simp add: loop_all_pass)

end

definition hres_step :: "('x, 'e) ErrorHandler option \<Rightarrow> Event \<Rightarrow>
    'x world_scheme \<times> 'e hres \<Rightarrow> 'x world_scheme step" where
  "hres_step onErr ev r =
    (case r of (w', HPass) \<Rightarrow> Next w' | (w', HErr e) \<Rightarrow> Stop (handleErr onErr ev e w')
     | (w', HNil) \<Rightarrow> Stop w')"

definition text_attempt where
  "text_attempt U globalMW onErr ev h w =
    (case matcher_match U (th_matcher h) ev (w_convo w) of
       None \<Rightarrow> Next w
     | Some matches \<Rightarrow> hres_step onErr (EvMessage ev)
         (applyMiddleware (th_run h) (globalMW @ th_middleware h) w ev matches))"

definition reaction_attempt where
  "reaction_attempt onErr ev h w =
    (if reaction_match (rh_matcher h) ev then hres_step onErr (EvReaction ev) (rh_run h w ev)
     else Next w)"

definition edit_attempt where
  "edit_attempt onErr ev h w =
    (if edit_match (eh_matcher h) ev then hres_step onErr (EvEdit ev) (eh_run h w ev) else Next w)"

definition group_update_attempt where
  "group_update_attempt onErr ev h w = hres_step onErr (EvGroupUpdate ev) (h w ev)"

section \<open>Middleware order\<close>

lemma applyMiddleware_loop_foldr:
  "i \<le> length mws \<Longrightarrow> applyMiddleware_loop h mws i = foldr (\<lambda>m f. m f) (take i mws) h"
  by (induction h mws i rule: applyMiddleware_loop.induct) (auto simp: take_Suc_conv_app_nth)

lemma applyMiddleware_foldr: "applyMiddleware h mws = foldr (\<lambda>m f. m f) mws h"
  by (simp add: applyMiddleware_def applyMiddleware_loop_foldr)

lemma applyMiddleware_compose:
  "applyMiddleware (applyMiddleware h inner) outer = applyMiddleware h (outer @ inner)"
  by (simp add: applyMiddleware_foldr)

interpretation text_chain: handler_chain
  "text_attempt U globalMW onErr ev" "dispatchMessage_loop U globalMW onErr ev"
  for U globalMW onErr ev
  by unfold_locales
     (auto simp: text_attempt_def hres_step_def applyMiddleware_compose Let_def
       split: option.splits prod.splits hres.splits)

interpretation reaction_chain: handler_chain
  "reaction_attempt onErr ev" "dispatchReaction_loop onErr ev" for onErr ev
  by unfold_locales
     (auto simp: reaction_attempt_def hres_step_def split: prod.splits hres.splits)

interpretation edit_chain: handler_chain
  "edit_attempt onErr ev" "dispatchEdit_loop onErr ev" for onErr ev
  by unfold_locales
     (auto simp: edit_attempt_def hres_step_def split: prod.splits hres.splits)

interpretation group_update_chain: handler_chain
  "group_update_attempt onErr ev" "dispatchGroupUpdate_loop onErr ev" for onErr ev
  by unfold_locales
     (auto simp: group_update_attempt_def hres_step_def split: prod.splits hres.splits)

end
