(* ===== verification/BotFlow.thy ===== *)
theory BotFlow
  imports BotDispatch
begin

text \<open>
  Conversation flows over the dispatcher: the wizard of pkg/bot/wizard.go, the retry
  middleware of pkg/bot/middleware_ratelimit.go, and the reply helpers of pkg/bot/message.go
  and pkg/bot/group_update.go. The client the bot drives is a record of operations on the
  world; waiting is an operation that reports the context's error when it is cancelled first.
\<close>

section \<open>Wizard\<close>

record ('x, 'e) Wizard =
  wz_name :: string
  wz_steps :: "(string \<times> ('x, 'e) HandlerFunc) list"

text \<open>None is the panic on an empty name or step.\<close>

definition bot_Wizard :: "string \<Rightarrow> ('x, 'e) Wizard option" where
  "bot_Wizard name = (if name = [] then None else Some \<lparr> wz_name = name, wz_steps = [] \<rparr>)"

definition wizard_Step ::
  "string \<Rightarrow> ('x, 'e) HandlerFunc \<Rightarrow> ('x, 'e) Wizard \<Rightarrow> ('x, 'e) Wizard option" where
  "wizard_Step step fn wz =
    (if step = [] then None else Some (wz\<lparr> wz_steps := wz_steps wz @ [(step, fn)] \<rparr>))"

definition stageName :: "string \<Rightarrow> string \<Rightarrow> string" where
  "stageName name step = name @ '':'' @ step"

fun wizard_Register_loop ::
  "string \<Rightarrow> (string \<times> ('x, 'e) HandlerFunc) list \<Rightarrow> ('x, 'e) Bot \<Rightarrow> ('x, 'e) Bot" where
  "wizard_Register_loop name [] b = b"
| "wizard_Register_loop name ((step, fn) # ss) b =
    wizard_Register_loop name ss (match_Do (match_Stage (stageName name step) OnAnyText) [] fn b)"

definition wizard_Register :: "('x, 'e) Wizard \<Rightarrow> ('x, 'e) Bot \<Rightarrow> ('x, 'e) Bot" where
  "wizard_Register wz b = wizard_Register_loop (wz_name wz) (wz_steps wz) b"

definition world_SetStage :: "ConvoKey \<Rightarrow> string \<Rightarrow> 'x world_scheme \<Rightarrow> 'x world_scheme" where
  "world_SetStage key st w = w\<lparr> w_convo := convo_SetStage (w_convo w) key st \<rparr>"

text \<open>Begin: None is the error of a wizard without steps.\<close>

definition wizard_Begin ::
  "('x, 'e) Wizard \<Rightarrow> MessageEvent \<Rightarrow> string \<Rightarrow> 'x world_scheme \<Rightarrow> 'x world_scheme option" where
  "wizard_Begin wz m step w =
    (if length (wz_steps wz) = 0 then None
     else
       let step' = (if step = [] then fst (wz_steps wz ! 0) else step)
       in Some (world_SetStage (msg_ConvoKey m) (stageName (wz_name wz) step') w))"

definition wizard_Advance ::
  "('x, 'e) Wizard \<Rightarrow> MessageEvent \<Rightarrow> string \<Rightarrow> 'x world_scheme \<Rightarrow> 'x world_scheme" where
  "wizard_Advance wz m step w =
    world_SetStage (msg_ConvoKey m) (stageName (wz_name wz) step) w"

definition wizard_Clear :: "('x, 'e) Wizard \<Rightarrow> MessageEvent \<Rightarrow> 'x world_scheme \<Rightarrow> 'x world_scheme" where
  "wizard_Clear wz m w =
    (let current = convo_Stage (w_convo w) (msg_ConvoKey m); prefix = wz_name wz @ '':'' in
     if HasPrefix current prefix
     then w\<lparr> w_convo := convo_ClearStage (w_convo w) (msg_ConvoKey m) \<rparr> else w)"

lemma Register_handlers:
  "b_textHandlers (wizard_Register_loop name ss b) = b_textHandlers b @
     map (\<lambda>(step, fn). \<lparr> th_matcher = match_Stage (stageName name step) OnAnyText,
                          th_run = fn, th_middleware = [] \<rparr>) ss \<and>
   b_middleware (wizard_Register_loop name ss b) = b_middleware b \<and>
   b_onError (wizard_Register_loop name ss b) = b_onError b"
  by (induction name ss b rule: wizard_Register_loop.induct) (auto simp: match_Do_def)

lemma stage_matcher:
  "matcher_match U (match_Stage (stageName name step) OnAnyText) ev st =
    (if convo_Stage st (msg_ConvoKey ev) = stageName name step then Some [] else None)"
  by (simp add: matcher_match_def scopeOK_iff thread_ok_def builder_defs bodyMatch_def stageName_def)

lemma stageName_inj [simp]: "stageName n s = stageName n s' \<longleftrightarrow> s = s'"
  by (simp add: stageName_def)

lemma other_steps_pass:
  "convo_Stage (w_convo w) (msg_ConvoKey ev) = stageName name s \<Longrightarrow> s \<notin> fst ` set ss \<Longrightarrow>
   chain_passes (text_attempt U mw onErr ev)
     (map (\<lambda>(step, fn). \<lparr> th_matcher = match_Stage (stageName name step) OnAnyText,
                          th_run = fn, th_middleware = [] \<rparr>) ss) w = Some w"
  by (induction ss) (auto simp: text_attempt_def stage_matcher split: prod.splits)

lemma no_stage_passes:
  "(\<And>s. convo_Stage (w_convo w) (msg_ConvoKey ev) \<noteq> stageName name s) \<Longrightarrow>
   chain_passes (text_attempt U mw onErr ev)
     (map (\<lambda>(step, fn). \<lparr> th_matcher = match_Stage (stageName name step) OnAnyText,
                          th_run = fn, th_middleware = [] \<rparr>) ss) w = Some w"
  by (induction ss) (auto simp: text_attempt_def stage_matcher split: prod.splits)

section \<open>Rate-limit retries\<close>

text \<open>
  Errors as the middleware sees them: a web error in the chain with its status and its
  Retry-After in nanoseconds, or any other error with its message.
\<close>

datatype go_err = WebErr int int | OtherErr string

definition rateLimitRetryAfter :: "go_unicode \<Rightarrow> go_err \<Rightarrow> int option" where
  "rateLimitRetryAfter U err =
    (case err of
       WebErr status retryAfter \<Rightarrow> if status = 429 then Some retryAfter else None
     | OtherErr text \<Rightarrow>
         let msg = ToLower U text in
         if Contains msg ''http 429'' \<or> Contains msg ''too many requests'' then Some 0 else None)"

text \<open>\<open>left\<close> is \<open>maxRetries - attempt\<close>.\<close>

fun retry_loop ::
  "go_unicode \<Rightarrow> ('x world_scheme \<Rightarrow> int \<Rightarrow> 'x world_scheme \<times> go_err option) \<Rightarrow> int \<Rightarrow>
   ('x, go_err) HandlerFunc \<Rightarrow> nat \<Rightarrow> ('x, go_err) HandlerFunc" where
  "retry_loop U sleep defaultDelay next left w m args =
    (case next w m args of
       (w', HNil) \<Rightarrow> (w', HNil)
     | (w', HPass) \<Rightarrow> (w', HPass)
     | (w', HErr e) \<Rightarrow>
         (case rateLimitRetryAfter U e of
            None \<Rightarrow> (w', HErr e)
          | Some retryAfter \<Rightarrow>
              (case left of
                 0 \<Rightarrow> (w', HErr e)
               | Suc left' \<Rightarrow>
                   (case sleep w' (if retryAfter \<le> 0 then defaultDelay else retryAfter) of
                      (w'', Some ctxErr) \<Rightarrow> (w'', HErr ctxErr)
                    | (w'', None) \<Rightarrow> retry_loop U sleep defaultDelay next left' w'' m args))))"

declare retry_loop.simps [simp del]

definition RateLimitRetryMiddleware ::
  "go_unicode \<Rightarrow> ('x world_scheme \<Rightarrow> int \<Rightarrow> 'x world_scheme \<times> go_err option) \<Rightarrow> int \<Rightarrow> int \<Rightarrow>
   ('x, go_err) MiddlewareFunc" where
  "RateLimitRetryMiddleware U sleep MaxRetries DefaultDelay =
    (let maxRetries = (if MaxRetries \<le> 0 then 1 else MaxRetries);
         defaultDelay = (if DefaultDelay \<le> 0 then 2000000000 else DefaultDelay)
     in (\<lambda>next w m args. retry_loop U sleep defaultDelay next (nat maxRetries) w m args))"

text \<open>Every call of the wrapped handler adds one to \<open>cnt\<close>; waiting does not.\<close>

lemma retry_loop_calls:
  assumes "\<And>w. cnt (fst (next w m args)) = Suc (cnt w)" "\<And>w d. cnt (fst (sleep w d)) = cnt w"
  shows "Suc (cnt w) \<le> cnt (fst (retry_loop U sleep dd next left w m args)) \<and>
    cnt (fst (retry_loop U sleep dd next left w m args)) \<le> cnt w + Suc left"
proof (induction left arbitrary: w)
  case 0
  have "fst (retry_loop U sleep dd next 0 w m args) = fst (next w m args)"
    by (subst retry_loop.simps) (auto split: prod.splits hres.splits option.splits)
  then show ?case using assms(1) [of w] by simp
next
  case (Suc left)
  obtain w' r where n: "next w m args = (w', r)" by (cases "next w m args")
  have c: "cnt w' = Suc (cnt w)" using assms(1) [of w] n by simp
  show ?case
  proof (cases "\<exists>e ra. r = HErr e \<and> rateLimitRetryAfter U e = Some ra")
    case False
    then have "fst (retry_loop U sleep dd next (Suc left) w m args) = w'"
      by (subst retry_loop.simps) (auto simp: n split: hres.splits option.splits)
    then show ?thesis using c by simp
  next
    case True
    then obtain e ra where r: "r = HErr e" "rateLimitRetryAfter U e = Some ra" by blast
    obtain w'' ce where s: "sleep w' (if ra \<le> 0 then dd else ra) = (w'', ce)"
      by (cases "sleep w' (if ra \<le> 0 then dd else ra)")
    have c2: "cnt w'' = Suc (cnt w)" using assms(2) [of w' "if ra \<le> 0 then dd else ra"] s c by simp
    have "retry_loop U sleep dd next (Suc left) w m args =
        (case ce of Some x \<Rightarrow> (w'', HErr x) | None \<Rightarrow> retry_loop U sleep dd next left w'' m args)"
      by (subst retry_loop.simps) (simp add: n r s)
    then show ?thesis using c2 Suc.IH [of w''] by (auto split: option.splits)
  qed
qed

lemma retry_loop_no_rate_limit:
  "next w m args = (w', r) \<Longrightarrow> (\<And>e. r = HErr e \<Longrightarrow> rateLimitRetryAfter U e = None) \<Longrightarrow>
   retry_loop U sleep dd next left w m args = (w', r)"
  by (subst retry_loop.simps) (auto split: hres.splits option.splits)

lemma retry_loop_passthrough:
  "case next w m args of
       (w', HErr e) \<Rightarrow> rateLimitRetryAfter U e \<noteq> None \<or>
         retry_loop U sleep dd next left w m args = (w', HErr e)
     | r \<Rightarrow> retry_loop U sleep dd next left w m args = r"
proof -
  obtain w' r where n: "next w m args = (w', r)" by (cases "next w m args")
  show ?thesis
    using retry_loop_no_rate_limit [where r = r and w' = w' and ?next = "next" and w = w and m = m
        and args = args and U = U and sleep = sleep and dd = dd and left = left] n
    by (cases r) auto
qed

section \<open>Reply helpers\<close>

datatype bot_error =
    BotGroupID hex_error
  | BotGroupKeyLen
  | BotClient string
  | BotContext string
  | BotNoSyncer

definition decodeGroupMasterKey :: "string \<Rightarrow> bot_error + bytes" where
  "decodeGroupMasterKey groupIDHex =
    (case hexDecode groupIDHex of
       Inl e \<Rightarrow> Inl (BotGroupID e)
     | Inr masterKey \<Rightarrow> if length masterKey \<noteq> 32 then Inl BotGroupKeyLen else Inr masterKey)"

text \<open>The client surface, each call returning the error's message when it fails.\<close>

record 'w Client =
  cl_Send :: "'w \<Rightarrow> string \<Rightarrow> string \<Rightarrow> 'w \<times> string option"
  cl_SendGroup :: "'w \<Rightarrow> bytes \<Rightarrow> string \<Rightarrow> 'w \<times> string option"
  cl_SendGroupReaction :: "'w \<Rightarrow> bytes \<Rightarrow> string \<Rightarrow> string \<Rightarrow> time \<Rightarrow> bool \<Rightarrow> 'w \<times> string option"
  cl_SendGroupTyping :: "'w \<Rightarrow> bytes \<Rightarrow> TypingAction \<Rightarrow> 'w \<times> string option"
  cl_SendReceipt :: "'w \<Rightarrow> string \<Rightarrow> ReceiptType \<Rightarrow> time list \<Rightarrow> 'w \<times> string option"
  cl_SendTyping :: "'w \<Rightarrow> string \<Rightarrow> TypingAction \<Rightarrow> 'w \<times> string option"
  cl_SendReaction :: "'w \<Rightarrow> string \<Rightarrow> string \<Rightarrow> string \<Rightarrow> time \<Rightarrow> bool \<Rightarrow> 'w \<times> string option"
  cl_SendAttachment :: "'w \<Rightarrow> string \<Rightarrow> bytes \<Rightarrow> string \<Rightarrow> 'w \<times> string option"
  cl_SendGroupAttachment :: "'w \<Rightarrow> bytes \<Rightarrow> bytes \<Rightarrow> string \<Rightarrow> 'w \<times> string option"
  cl_SyncGroup :: "('w \<Rightarrow> bytes \<Rightarrow> u32 \<Rightarrow> 'w \<times> string option) option"
  cl_wait :: "'w \<Rightarrow> int \<Rightarrow> 'w \<times> string option"

definition client_result :: "'w \<times> string option \<Rightarrow> 'w \<times> bot_error option" where
  "client_result r = (fst r, map_option BotClient (snd r))"

text \<open>A helper that acts on the group thread or on the direct thread.\<close>

definition on_thread ::
  "MessageEvent \<Rightarrow> ('w \<Rightarrow> bytes \<Rightarrow> 'w \<times> bot_error option) \<Rightarrow> ('w \<Rightarrow> 'w \<times> bot_error option) \<Rightarrow>
   'w \<Rightarrow> 'w \<times> bot_error option" where
  "on_thread m grp direct w =
    (if msg_IsGroup m then
       (case decodeGroupMasterKey (me_GroupID m) of
          Inl e \<Rightarrow> (w, Some e)
        | Inr masterKey \<Rightarrow> grp w masterKey)
     else direct w)"

definition sendTypingForThread ::
  "'w Client \<Rightarrow> MessageEvent \<Rightarrow> TypingAction \<Rightarrow> 'w \<Rightarrow> 'w \<times> bot_error option" where
  "sendTypingForThread C m action =
    on_thread m (\<lambda>w mk. client_result (cl_SendGroupTyping C w mk action))
      (\<lambda>w. client_result (cl_SendTyping C w (me_Sender m) action))"


definition helper_cleanup :: "bool \<Rightarrow> 'w Client \<Rightarrow> MessageEvent \<Rightarrow> 'w \<Rightarrow> 'w" where
  "helper_cleanup autoTyping C m w =
    (if \<not> autoTyping then w else fst (sendTypingForThread C m TypingStopped w))"

definition prepareHelperReply ::
  "bool \<Rightarrow> int \<Rightarrow> 'w Client \<Rightarrow> MessageEvent \<Rightarrow> 'w \<Rightarrow> 'w \<times> bot_error option" where
  "prepareHelperReply autoTyping sendDelay C m w =
    (let w1 = (if autoTyping then fst (sendTypingForThread C m TypingStarted w) else w) in
     if sendDelay > 0 then
       (case cl_wait C w1 sendDelay of
          (w2, Some e) \<Rightarrow> (helper_cleanup autoTyping C m w2, Some (BotContext e))
        | (w2, None) \<Rightarrow> (w2, None))
     else (w1, None))"



definition msg_ReplyAttachment ::
  "bool \<Rightarrow> int \<Rightarrow> 'w Client \<Rightarrow> MessageEvent \<Rightarrow> bytes \<Rightarrow> string \<Rightarrow> 'w \<Rightarrow> 'w \<times> bot_error option" where
  "msg_ReplyAttachment autoTyping sendDelay C m data contentType w =
    (case prepareHelperReply autoTyping sendDelay C m w of
       (w1, Some e) \<Rightarrow> (w1, Some e)
     | (w1, None) \<Rightarrow>
         let (w2, r) = on_thread m
               (\<lambda>w mk. client_result (cl_SendGroupAttachment C w mk data contentType))
               (\<lambda>w. client_result (cl_SendAttachment C w (me_Sender m) data contentType)) w1
         in (helper_cleanup autoTyping C m w2, r))"

definition msg_react ::
  "'w Client \<Rightarrow> MessageEvent \<Rightarrow> string \<Rightarrow> bool \<Rightarrow> 'w \<Rightarrow> 'w \<times> bot_error option" where
  "msg_react C m emoji remove =
    on_thread m
      (\<lambda>w mk. client_result
        (cl_SendGroupReaction C w mk emoji (me_Sender m) (me_Timestamp m) remove))
      (\<lambda>w. client_result
        (cl_SendReaction C w (me_Sender m) emoji (me_Sender m) (me_Timestamp m) remove))"

definition msg_React where "msg_React C m emoji = msg_react C m emoji False"
definition msg_Unreact where "msg_Unreact C m emoji = msg_react C m emoji True"

definition msg_Typing ::
  "'w Client \<Rightarrow> MessageEvent \<Rightarrow> TypingAction \<Rightarrow> 'w \<Rightarrow> 'w \<times> bot_error option" where
  "msg_Typing C m action =
    on_thread m (\<lambda>w mk. client_result (cl_SendGroupTyping C w mk action))
      (\<lambda>w. client_result (cl_SendTyping C w (me_Sender m) action))"

definition msg_MarkRead :: "'w Client \<Rightarrow> MessageEvent \<Rightarrow> 'w \<Rightarrow> 'w \<times> bot_error option" where
  "msg_MarkRead C m w =
    client_result (cl_SendReceipt C w (me_Sender m) ReceiptRead [me_Timestamp m])"

definition msg_MarkViewed :: "'w Client \<Rightarrow> MessageEvent \<Rightarrow> 'w \<Rightarrow> 'w \<times> bot_error option" where
  "msg_MarkViewed C m w =
    client_result (cl_SendReceipt C w (me_Sender m) ReceiptViewed [me_Timestamp m])"

definition group_update_Sync ::
  "'w Client \<Rightarrow> GroupUpdateEvent \<Rightarrow> 'w \<Rightarrow> 'w \<times> bot_error option" where
  "group_update_Sync C u w =
    (case cl_SyncGroup C of
       None \<Rightarrow> (w, Some BotNoSyncer)
     | Some syncer \<Rightarrow>
         (case decodeGroupMasterKey (gu_GroupID u) of
            Inl e \<Rightarrow> (w, Some e)
          | Inr masterKey \<Rightarrow>
              let from = gu_Revision u; from' = (if from > 0 then from - 1 else from)
              in client_result (syncer w masterKey from')))"

lemma decodeGroupMasterKey_hexEncode:
  "length mk = 32 \<Longrightarrow> decodeGroupMasterKey (hexEncode mk) = Inr mk"
  by (simp add: decodeGroupMasterKey_def)

lemma decodeGroupMasterKey_length: "decodeGroupMasterKey s = Inr mk \<Longrightarrow> length mk = 32 \<and> length s = 64"
  by (auto simp: decodeGroupMasterKey_def split: sum.splits if_splits dest: length_hexDecode)

section \<open>Properties\<close>

text \<open>
  C38. Dispatch stops at the first handler that takes the event: for messages, reactions, edits
  and group updates, either every registered handler declined (its matcher did not match, or
  it returned ErrPass) in order and the world is what they left, or the handlers before some
  handler declined, that handler took the event, and no later handler ran. Other events
  change nothing.
\<close>

theorem dispatch_first_taker:
  "((\<exists>w'. chain_passes (text_attempt U (b_middleware b) (b_onError b) m) (b_textHandlers b) w = Some w'
       \<and> dispatch U b (EvMessage m) w = w') \<or>
    (\<exists>pre h post w1 w2. b_textHandlers b = pre @ h # post \<and>
       chain_passes (text_attempt U (b_middleware b) (b_onError b) m) pre w = Some w1 \<and>
       text_attempt U (b_middleware b) (b_onError b) m h w1 = Stop w2 \<and>
       dispatch U b (EvMessage m) w = w2)) \<and>
   ((\<exists>w'. chain_passes (reaction_attempt (b_onError b) r) (b_reactionHandlers b) w = Some w'
       \<and> dispatch U b (EvReaction r) w = w') \<or>
    (\<exists>pre h post w1 w2. b_reactionHandlers b = pre @ h # post \<and>
       chain_passes (reaction_attempt (b_onError b) r) pre w = Some w1 \<and>
       reaction_attempt (b_onError b) r h w1 = Stop w2 \<and> dispatch U b (EvReaction r) w = w2)) \<and>
   ((\<exists>w'. chain_passes (edit_attempt (b_onError b) e) (b_editHandlers b) w = Some w'
       \<and> dispatch U b (EvEdit e) w = w') \<or>
    (\<exists>pre h post w1 w2. b_editHandlers b = pre @ h # post \<and>
       chain_passes (edit_attempt (b_onError b) e) pre w = Some w1 \<and>
       edit_attempt (b_onError b) e h w1 = Stop w2 \<and> dispatch U b (EvEdit e) w = w2)) \<and>
   ((\<exists>w'. chain_passes (group_update_attempt (b_onError b) g) (b_groupUpdateHandlers b) w = Some w'
       \<and> dispatch U b (EvGroupUpdate g) w = w') \<or>
    (\<exists>pre h post w1 w2. b_groupUpdateHandlers b = pre @ h # post \<and>
       chain_passes (group_update_attempt (b_onError b) g) pre w = Some w1 \<and>
       group_update_attempt (b_onError b) g h w1 = Stop w2 \<and>
       dispatch U b (EvGroupUpdate g) w = w2)) \<and>
   dispatch U b (EvReceipt rc) w = w \<and> dispatch U b (EvTyping ty) w = w"
proof (intro conjI)
  show "dispatch U b (EvReceipt rc) w = w" "dispatch U b (EvTyping ty) w = w"
    by (simp_all add: dispatch_def)
qed (simp_all only: dispatch_def Event.case dispatchMessage_def dispatchReaction_def
    dispatchEdit_def dispatchGroupUpdate_def text_chain.outcome reaction_chain.outcome
    edit_chain.outcome group_update_chain.outcome)

text \<open>
  Middleware order: registering global middleware with Use and per-handler middleware with
  Match.Use makes the handler of a message run inside all of them, the first registered
  outermost and every global one outside every per-handler one.
\<close>

theorem middleware_order:
  "b_middleware (bot_Use g2 (bot_Use g1 b)) = b_middleware b @ [g1, g2] \<and>
   applyMiddleware (applyMiddleware h (match_Use m2 (match_Use m1 []))) [g1, g2] =
     g1 (g2 (m1 (m2 h))) \<and>
   applyMiddleware (applyMiddleware h inner) outer =
     foldr (\<lambda>m f. m f) outer (foldr (\<lambda>m f. m f) inner h)"
  by (simp add: bot_Use_def match_Use_def applyMiddleware_foldr)

text \<open>
  C39. Wizard routing: after a conversation was advanced to a registered step, the next message
  of that conversation runs exactly that step's handler, whatever its body, and a
  conversation whose stage is not one of the wizard's runs none. Clear leaves foreign stages
  alone and removes the wizard's own.
\<close>

theorem wizard_routes:
  assumes "(s, h) \<in> set (wz_steps wz)" "distinct (map fst (wz_steps wz))"
    and "w_convo w0 = Some st" "me_Sender ev = me_Sender m" "me_GroupID ev = me_GroupID m"
    and "h (wizard_Advance wz m s w0) ev [] = (w', HNil)"
  shows "dispatch U (wizard_Register wz wrap_bot) (EvMessage ev) (wizard_Advance wz m s w0) = w' \<and>
    dispatch U (wizard_Register wz wrap_bot) (EvMessage ev)
      (wizard_Clear wz m (wizard_Advance wz m s w0)) =
      wizard_Clear wz m (wizard_Advance wz m s w0) \<and>
    convo_Stage (w_convo (wizard_Clear wz m (wizard_Advance wz m s w0))) (msg_ConvoKey m) = []"
proof -
  let ?w = "wizard_Advance wz m s w0"
  let ?b = "wizard_Register wz wrap_bot :: ('a, 'b) Bot"
  let ?mk = "\<lambda>(step, fn). \<lparr> th_matcher = match_Stage (stageName (wz_name wz) step) OnAnyText,
                             th_run = fn, th_middleware = [] \<rparr>"
  let ?att = "text_attempt U [] None ev"
  have key: "msg_ConvoKey ev = msg_ConvoKey m" using assms(4,5) by (simp add: msg_ConvoKey_def)
  have b: "b_textHandlers ?b = map ?mk (wz_steps wz)" "b_middleware ?b = []" "b_onError ?b = None"
    using Register_handlers [of "wz_name wz" "wz_steps wz" "wrap_bot :: ('a, 'b) Bot"]
    by (simp_all add: wizard_Register_def wrap_bot_def)
  have stage: "convo_Stage (w_convo ?w) (msg_ConvoKey ev) = stageName (wz_name wz) s"
    using assms(3) by (simp add: wizard_Advance_def world_SetStage_def convo_Stage_SetStage key)
  obtain pre post where split: "wz_steps wz = pre @ (s, h) # post"
    using assms(1) by (meson split_list)
  have "s \<notin> fst ` set pre" using assms(2) by (auto simp: split)
  then have pass: "chain_passes ?att (map ?mk pre) ?w = Some ?w"
    using other_steps_pass [OF stage] by blast
  have "?att (?mk (s, h)) ?w = Stop w'"
    using assms(6) by (simp add: text_attempt_def stage_matcher stage hres_step_def applyMiddleware_def)
  then have 1: "dispatch U ?b (EvMessage ev) ?w = w'"
    using text_chain.loop_first_stop [OF pass]
    by (simp add: dispatch_def dispatchMessage_def b split)
  let ?c = "wizard_Clear wz m ?w"
  have cs: "convo_Stage (w_convo ?c) (msg_ConvoKey m) = []"
    using assms(3) stage
    by (auto simp: wizard_Clear_def key HasPrefix_iff stageName_def wizard_Advance_def
        world_SetStage_def convo_Stage_ClearStage convo_SetStage_def convo_Set_def)
  then have "chain_passes ?att (map ?mk (wz_steps wz)) ?c = Some ?c"
    by (intro no_stage_passes) (simp add: key stageName_def)
  then have "dispatch U ?b (EvMessage ev) ?c = ?c"
    using text_chain.loop_all_pass [of U "[]" None ev "map ?mk (wz_steps wz)" ?c ?c]
    by (simp add: dispatch_def dispatchMessage_def b)
  with 1 cs show ?thesis by blast
qed

text \<open>
  The retry middleware calls the handler at least once and at most MaxRetries + 1 times
  (twice when MaxRetries is not positive), for any handler and any way of waiting, and
  passes the result of a call that does not end in a rate-limit error through unchanged.
\<close>

theorem rate_limit_retry_bound:
  assumes "\<And>w. cnt (fst (next w m args)) = Suc (cnt w)" "\<And>w d. cnt (fst (sleep w d)) = cnt w"
  shows "Suc (cnt w) \<le> cnt (fst (RateLimitRetryMiddleware U sleep n d next w m args)) \<and>
    cnt (fst (RateLimitRetryMiddleware U sleep n d next w m args)) \<le>
      cnt w + (if n \<le> 0 then 2 else nat n + 1) \<and>
    (case next w m args of
       (w', HErr e) \<Rightarrow> rateLimitRetryAfter U e \<noteq> None \<or>
         RateLimitRetryMiddleware U sleep n d next w m args = (w', HErr e)
     | r \<Rightarrow> RateLimitRetryMiddleware U sleep n d next w m args = r)"
proof -
  have "Suc (cnt w) \<le> cnt (fst (RateLimitRetryMiddleware U sleep n d next w m args)) \<and>
    cnt (fst (RateLimitRetryMiddleware U sleep n d next w m args)) \<le>
      cnt w + (if n \<le> 0 then 2 else nat n + 1)"
    using retry_loop_calls [of cnt "next" m args sleep w U _ "nat n", OF assms]
      retry_loop_calls [of cnt "next" m args sleep w U _ 1, OF assms]
    by (auto simp: RateLimitRetryMiddleware_def Let_def)
  moreover have "case next w m args of
       (w', HErr e) \<Rightarrow> rateLimitRetryAfter U e \<noteq> None \<or>
         RateLimitRetryMiddleware U sleep n d next w m args = (w', HErr e)
     | r \<Rightarrow> RateLimitRetryMiddleware U sleep n d next w m args = r"
    unfolding RateLimitRetryMiddleware_def Let_def by (rule retry_loop_passthrough)
  ultimately show ?thesis by blast
qed

record counted_world = world +
  calls :: nat

definition sample_msg :: MessageEvent where
  "sample_msg = \<lparr> me_Sender = ''alice'', me_SenderDevice = 1, me_Timestamp = 5,
     me_ServerTimestamp = 6, me_Body = ''hello'', me_Attachments = [], me_GroupID = [],
     me_ExpiresIn = 0 \<rparr>"

definition sample_world :: counted_world where
  "sample_world = \<lparr> w_convo = Some [], calls = 0 \<rparr>"

theorem wizard_routes_witness:
  "let wz = \<lparr> wz_name = ''order'',
       wz_steps = [(''size'', (\<lambda>w m args. (w\<lparr> calls := calls w + 1 \<rparr>, HNil))),
                   (''color'', (\<lambda>w m args. (w\<lparr> calls := calls w + 10 \<rparr>, HNil)))] \<rparr>
   in calls (dispatch plain_unicode (wizard_Register wz (wrap_bot :: (_, unit) Bot)) (EvMessage sample_msg)
        (wizard_Advance wz sample_msg ''color'' sample_world)) = 10"
  unfolding Let_def
  by (subst wizard_routes [THEN conjunct1, of _ _ _ _ "[]"])
     (auto simp: sample_world_def wizard_Advance_def world_SetStage_def)

theorem rate_limit_retry_bound_witness:
  "calls (fst (RateLimitRetryMiddleware plain_unicode (\<lambda>w d. (w, None)) 3 0
     (\<lambda>w m args. (w\<lparr> calls := calls w + 1 \<rparr>, HErr (WebErr 429 0))) sample_world sample_msg []))
   \<le> 4"
proof -
  have a: "\<And>w :: counted_world. calls (fst ((\<lambda>w m args. (w\<lparr> calls := calls w + 1 \<rparr>,
      HErr (WebErr 429 0) :: go_err hres)) w sample_msg [])) = Suc (calls w)" by simp
  have b: "\<And>(w :: counted_world) (d :: int). calls (fst ((\<lambda>w d. (w, None :: go_err option)) w d))
      = calls w" by simp
  show ?thesis
    using rate_limit_retry_bound [where cnt = calls and w = sample_world and U = plain_unicode and n = 3
        and d = 0, OF a b]
    by (simp add: sample_world_def)
qed









end
