(* ===== verification/Varint.thy ===== *)
theory Varint
  imports Encoding
begin

text \<open>
  Length-delimited frames of a message backup: internal/backup/frames.go. The reader is the
  list of the bytes not yet read. Lengths are accumulated in 64-bit words with the code's
  shifts; \<open>int\<close> is 64 bits.
\<close>

datatype varint_error = VarintEOF | VarintOverflow | VarintTooLong

section \<open>Reading\<close>

text \<open>An error carries the number of bytes read so far, as the second result of the code.\<close>

fun readVarint_loop ::
  "bytes \<Rightarrow> u64 \<Rightarrow> nat \<Rightarrow> nat \<Rightarrow> (varint_error \<times> nat) + (nat \<times> nat \<times> bytes)" where
  "readVarint_loop [] result shift count = Inl (VarintEOF, count)"
| "readVarint_loop (b # r) result shift count =
    (let result' = result OR push_bit shift (ucast (b AND 0x7f)) in
     if b AND 0x80 = 0 then
       if result' > 0x7FFFFFFFFFFFFFFF then Inl (VarintOverflow, count + 1)
       else Inr (unat result', count + 1, r)
     else if shift + 7 \<ge> 64 then Inl (VarintTooLong, count + 1)
     else readVarint_loop r result' (shift + 7) (count + 1))"

definition readVarintCounted ::
  "bytes \<Rightarrow> (varint_error \<times> nat) + (nat \<times> nat \<times> bytes)" where
  "readVarintCounted r = readVarint_loop r 0 0 0"

definition readVarint :: "bytes \<Rightarrow> varint_error + (nat \<times> bytes)" where
  "readVarint r =
    (case readVarintCounted r of
       Inl (e, count) \<Rightarrow> Inl e
     | Inr (val, count, r') \<Rightarrow> Inr (val, r'))"

text \<open>
  \<open>make([]byte, n)\<close> panics above the address space of the Go runtime (48 bits on the
  64-bit platforms); whether a smaller buffer fits in memory is not modelled.
\<close>

definition maxAlloc :: nat where "maxAlloc = 2 ^ 48"

datatype frame_error =
    FrameEOF
  | FrameVarint varint_error
  | FrameTruncated
  | FrameAllocPanic

text \<open>The loop that fills the buffer byte by byte.\<close>

fun readBytes :: "nat \<Rightarrow> bytes \<Rightarrow> frame_error + (bytes \<times> bytes)" where
  "readBytes 0 r = Inr ([], r)"
| "readBytes (Suc n) [] = Inl FrameTruncated"
| "readBytes (Suc n) (b # r) = bindR (readBytes n r) (\<lambda>(buf, r'). Inr (b # buf, r'))"

definition ReadVarintFrame :: "bytes \<Rightarrow> frame_error + (bytes \<times> bytes)" where
  "ReadVarintFrame r =
    (case readVarint r of
       Inl e \<Rightarrow> if e = VarintEOF then Inl FrameEOF else Inl (FrameVarint e)
     | Inr (len, r') \<Rightarrow>
         if len = 0 then Inr ([], r')
         else if len > maxAlloc then Inl FrameAllocPanic
         else readBytes len r')"

section \<open>Writing\<close>

text \<open>\<open>binary.PutUvarint\<close> of the standard library.\<close>

fun putUvarint :: "nat \<Rightarrow> bytes" where
  "putUvarint x =
    (if x \<ge> 0x80 then (of_nat x OR 0x80) # putUvarint (x div 128) else [of_nat x])"

declare putUvarint.simps [simp del]

text \<open>None is the panic on a negative length.\<close>

definition VarintEncodeLength :: "int \<Rightarrow> bytes option" where
  "VarintEncodeLength len = (if len < 0 then None else Some (putUvarint (nat len)))"

section \<open>Facts\<close>

lemma readBytes_eq:
  "readBytes n r = (if n \<le> length r then Inr (take n r, drop n r) else Inl FrameTruncated)"
  by (induction n r rule: readBytes.induct) auto

lemma readVarint_loop_progress:
  "readVarint_loop r acc s c = Inr (v, n, r') \<Longrightarrow>
     c < n \<and> n \<le> c + length r \<and> r' = drop (n - c) r \<and> v < 2 ^ 63"
proof (induction r acc s c rule: readVarint_loop.induct)
  case (2 b r acc s c)
  let ?a = "acc OR push_bit s (ucast (b AND 0x7f))"
  show ?case
  proof (cases "b AND 0x80 = 0")
    case True
    then have "?a \<le> 0x7FFFFFFFFFFFFFFF" "v = unat ?a" "n = c + 1" "r' = r"
      using 2(2) by (auto simp: Let_def not_less split: if_splits)
    moreover from this have "unat ?a \<le> unat (0x7FFFFFFFFFFFFFFF :: u64)"
      by (simp only: word_le_nat_alt)
    ultimately show ?thesis by simp
  next
    case False
    then have s: "\<not> s + 7 \<ge> 64" and "readVarint_loop r ?a (s + 7) (c + 1) = Inr (v, n, r')"
      using 2(2) by (auto simp: Let_def split: if_splits)
    from 2(1) [OF refl False s this(2)] show ?thesis by (auto simp: drop_Cons')
  qed
qed simp

lemma readVarint_loop_count:
  "readVarint_loop r acc s c = Inr (v, n, r') \<Longrightarrow> s < 64 \<Longrightarrow> 7 * (n - c) \<le> 70 - s"
proof (induction r acc s c rule: readVarint_loop.induct)
  case (2 b r acc s c)
  show ?case
  proof (cases "b AND 0x80 = 0")
    case True
    then have "n = c + 1" using 2(2) by (auto simp: Let_def split: if_splits)
    then show ?thesis using 2(3) by simp
  next
    case False
    let ?a = "acc OR push_bit s (ucast (b AND 0x7f))"
    have s: "\<not> s + 7 \<ge> 64" and rd: "readVarint_loop r ?a (s + 7) (c + 1) = Inr (v, n, r')"
      using 2(2) False by (auto simp: Let_def split: if_splits)
    from 2(1) [OF refl False s rd] s readVarint_loop_progress [OF rd] show ?thesis by auto
  qed
qed simp

lemma take_bit_small: "unat (a :: 'n::len word) < 2 ^ s \<Longrightarrow> take_bit s a = a"
  by (simp add: word_unat_eq_iff unsigned_take_bit_eq take_bit_nat_eq_self)

lemma unat_push_bit_small: "unat (w::u64) * 2^s < 2^64 \<Longrightarrow> unat (push_bit s w) = unat w * 2^s"
  by (subst unsigned_push_bit_eq) (simp add: push_bit_eq_mult [where 'a = nat] take_bit_nat_eq_self)

lemma high_bit_clear: "x < 128 \<Longrightarrow> (of_nat x AND 0x80 :: byte) = 0"
proof -
  assume "x < 128"
  then have t: "take_bit 7 (of_nat x :: byte) = of_nat x"
    by (intro take_bit_small) (simp add: unat_of_nat)
  have e: "(0x80 :: byte) = push_bit 7 1" by simp
  have "(take_bit 7 (of_nat x) AND 0x80 :: byte) = 0"
    by (rule bit_word_eqI) (simp only: e bit_and_iff bit_take_bit_iff bit_push_bit_iff bit_0_eq, auto)
  then show ?thesis by (simp only: t)
qed
lemma high_bit_set:  "((w OR 0x80) AND 0x80 :: byte) = 0x80" 
  "((w OR 0x80) AND 0x7f :: byte) = w AND 0x7f"
  by (simp_all add: bit.conj_disj_distrib2)
lemma unat_ucast_byte: "unat (ucast (b::byte) :: u64) = unat b"
proof -
  have "unat b < 2 ^ 64" using unat_byte_less [of b] by (rule less_trans) simp
  then show ?thesis by (simp add: unsigned_ucast_eq take_bit_nat_eq_self)
qed
lemma low7: "unat (of_nat x AND 0x7f :: byte) = x mod 128"
proof -
  have "(of_nat x AND 0x7f :: byte) = take_bit 7 (of_nat x)"
    by (simp add: take_bit_eq_mask mask_eq_exp_minus_1)
  moreover have "x mod 256 mod 128 = x mod 128" by (rule mod_mod_cancel) simp
  ultimately show ?thesis
    by (simp add: unsigned_take_bit_eq unat_of_nat take_bit_eq_mod [where 'a = nat])
qed

lemma or_push_bit_add:
  assumes "unat (a :: u64) < 2 ^ s"
  shows "a OR push_bit s w = a + push_bit s w"
proof -
  have "\<not> bit a i" if "s \<le> i" for i
    using that take_bit_small [OF assms] by (metis bit_take_bit_iff not_less)
  then show ?thesis
    by (intro disjunctive_add [symmetric]) (auto simp: bit_push_bit_iff not_le)
qed

lemma acc_step:
  assumes a: "unat (acc :: u64) < 2 ^ s" and x: "unat acc + x * 2 ^ s < 2 ^ 63"
  shows "unat (acc OR push_bit s (ucast (of_nat x AND 0x7f :: byte))) =
           unat acc + (x mod 128) * 2 ^ s"
    and "unat acc + (x mod 128) * 2 ^ s < 2 ^ (s + 7)"
    and "unat acc + (x mod 128) * 2 ^ s \<le> unat acc + x * 2 ^ s"
proof -
  let ?w = "ucast (of_nat x AND 0x7f :: byte) :: u64"
  have le: "(x mod 128) * 2 ^ s \<le> x * 2 ^ s" by simp
  then have "(x mod 128) * 2 ^ s < 2 ^ 63" using x by linarith
  then have "(x mod 128) * 2 ^ s < 2 ^ 64" by (rule less_trans) simp
  then have "unat ?w * 2 ^ s < 2 ^ 64" by (simp add: low7 unat_ucast_byte)
  then have p: "unat (push_bit s ?w) = (x mod 128) * 2 ^ s"
    by (simp add: unat_push_bit_small low7 unat_ucast_byte)
  have "unat acc + unat (push_bit s ?w) < 2 ^ 63" using x le p by linarith
  then have "unat acc + unat (push_bit s ?w) < 2 ^ 64" by (rule less_trans) simp
  then show "unat (acc OR push_bit s ?w) = unat acc + (x mod 128) * 2 ^ s"
    using p by (simp add: or_push_bit_add [OF a] unat_word_ariths)
  have "(x mod 128) * 2 ^ s \<le> 127 * 2 ^ s" by (intro mult_le_mono1) simp
  then have "unat acc + (x mod 128) * 2 ^ s < 128 * 2 ^ s" using a by linarith
  then show "unat acc + (x mod 128) * 2 ^ s < 2 ^ (s + 7)" by (simp add: power_add mult.commute)
  show "unat acc + (x mod 128) * 2 ^ s \<le> unat acc + x * 2 ^ s" by simp
qed


lemma shift_bound: "x * 2 ^ s < 2 ^ 63 \<Longrightarrow> 128 \<le> (x::nat) \<Longrightarrow> s + 7 < 64"
proof -
  assume a: "x * 2 ^ s < 2 ^ 63" "128 \<le> x"
  have "2 ^ (7 + s) = 128 * (2 ^ s :: nat)" by (simp add: power_add)
  also have "\<dots> \<le> x * 2 ^ s" using a by simp
  finally have "2 ^ (7 + s) < (2 ^ 63 :: nat)" using a by linarith
  then show ?thesis by (simp del: power_numeral)
qed

lemma readVarint_loop_putUvarint:
  "unat acc < 2 ^ s \<Longrightarrow> unat acc + x * 2 ^ s < 2 ^ 63 \<Longrightarrow>
   readVarint_loop (putUvarint x @ rest) acc s c =
     Inr (unat acc + x * 2 ^ s, c + length (putUvarint x), rest)"
proof (induction x arbitrary: acc s c rule: putUvarint.induct)
  case (1 x)
  let ?acc = "acc OR push_bit s (ucast (of_nat x AND 0x7f :: byte))"
  note st = acc_step [OF "1.prems"]
  show ?case
  proof (cases "x \<ge> 128")
    case False
    then have small: "unat ?acc = unat acc + x * 2 ^ s" using st(1) by simp
    then have "\<not> ?acc > 0x7FFFFFFFFFFFFFFF"
      using "1.prems"(2) by (simp only: word_less_nat_alt) simp
    then show ?thesis using False small
      by (simp add: putUvarint.simps [of x] high_bit_clear Let_def)
  next
    case True
    have e: "x mod 128 * 2 ^ s + x div 128 * 2 ^ (s + 7) = x * 2 ^ s"
    proof -
      have "x mod 128 * 2 ^ s + x div 128 * 2 ^ (s + 7) = (x mod 128 + x div 128 * 128) * 2 ^ s"
        by (simp only: power_add distrib_right mult.assoc) simp
      also have "x mod 128 + x div 128 * 128 = x" by simp
      finally show ?thesis .
    qed
    have a: "unat ?acc < 2 ^ (s + 7)" "unat ?acc + x div 128 * 2 ^ (s + 7) < 2 ^ 63"
      using st e "1.prems"(2) by (simp_all only: st(1))
    have s: "\<not> s + 7 \<ge> 64"
      using shift_bound [of x s] "1.prems"(2) True by linarith
    have "readVarint_loop (putUvarint x @ rest) acc s c =
        readVarint_loop (putUvarint (x div 128) @ rest) ?acc (s + 7) (c + 1)"
      using True s by (simp add: putUvarint.simps [of x] high_bit_set Let_def)
    also have "\<dots> = Inr (unat ?acc + x div 128 * 2 ^ (s + 7),
        c + 1 + length (putUvarint (x div 128)), rest)"
      using "1.IH" [OF True a] by simp
    finally show ?thesis using True e st(1)
      by (simp add: putUvarint.simps [of x])
  qed
qed

lemma readVarintCounted_putUvarint:
  "x < 2 ^ 63 \<Longrightarrow> readVarintCounted (putUvarint x @ rest) = Inr (x, length (putUvarint x), rest)"
  using readVarint_loop_putUvarint [of 0 0 x rest 0] by (simp add: readVarintCounted_def)

lemma readVarint_putUvarint:
  "x < 2 ^ 63 \<Longrightarrow> readVarint (putUvarint x @ rest) = Inr (x, rest)"
  by (simp add: readVarint_def readVarintCounted_putUvarint)

lemma length_putUvarint_pos: "0 < length (putUvarint x)"
  by (subst putUvarint.simps) simp

lemma ReadVarintFrame_encoded:
  "length f \<le> maxAlloc \<Longrightarrow> ReadVarintFrame (putUvarint (length f) @ f @ rest) = Inr (f, rest)"
  by (simp add: ReadVarintFrame_def maxAlloc_def readVarint_putUvarint readBytes_eq)

lemma ReadVarintFrame_progress:
  "ReadVarintFrame r = Inr (f, r') \<Longrightarrow> length r' + length f < length r"
  by (auto simp: ReadVarintFrame_def readVarint_def readVarintCounted_def readBytes_eq
      split: sum.splits if_splits prod.splits dest!: readVarint_loop_progress)

text \<open>
  Varint frames (ReadVarintFrame, VarintEncodeLength): a length-prefixed frame reads back
  exactly, leaving the reader at the byte after it; every decoded length is below 2^63 and
  is read from at most ten bytes, and the counted number of bytes is what was consumed.
\<close>

theorem frame_round_trip:
  assumes "length f \<le> maxAlloc"
  shows "\<exists>pre. VarintEncodeLength (int (length f)) = Some pre \<and>
     ReadVarintFrame (pre @ f @ rest) = Inr (f, rest) \<and>
     readVarintCounted (pre @ f @ rest) = Inr (length f, length pre, f @ rest) \<and>
     1 \<le> length pre \<and> length pre \<le> 10"
proof -
  have x: "length f < 2 ^ 63" using assms by (simp add: maxAlloc_def)
  have rd: "readVarint_loop (putUvarint (length f) @ f @ rest) 0 0 0 =
      Inr (length f, length (putUvarint (length f)), f @ rest)"
    using readVarintCounted_putUvarint [OF x] by (simp add: readVarintCounted_def)
  show ?thesis
    using ReadVarintFrame_encoded [OF assms] readVarint_loop_count [OF rd]
      readVarintCounted_putUvarint [OF x] length_putUvarint_pos [of "length f"]
    by (simp add: VarintEncodeLength_def Suc_le_eq)
qed

theorem frame_round_trip_witness:
  "\<exists>pre. VarintEncodeLength 300 = Some pre \<and>
     ReadVarintFrame (pre @ replicate 300 7 @ [1, 2]) = Inr (replicate 300 7, [1, 2])"
  using frame_round_trip [of "replicate 300 7" "[1, 2]"] by (auto simp: maxAlloc_def)

end
