(* ===== verification/Backup.thy ===== *)
theory Backup
  imports Varint Crypto
begin

text \<open>
  Decryption of message-backup archives: internal/backup/decrypt.go. Go's \<open>int\<close> is the
  64-bit two's complement \<open>wrap64\<close> of the mathematical result; a slice expression out of
  range is the result \<open>ArchPanic\<close>. gzip decompression is a parameter.
\<close>

section \<open>64-bit int arithmetic\<close>

definition wrap64 :: "int \<Rightarrow> int" where
  "wrap64 x = (x + 2 ^ 63) mod 2 ^ 64 - 2 ^ 63"

lemma wrap64_id: "- (2 ^ 63) \<le> x \<Longrightarrow> x < 2 ^ 63 \<Longrightarrow> wrap64 x = x"
  by (simp add: wrap64_def)

lemma wrap64_over: "2 ^ 63 \<le> x \<Longrightarrow> x < 2 ^ 64 \<Longrightarrow> wrap64 x = x - 2 ^ 64"
proof -
  assume x: "2 ^ 63 \<le> x" "x < 2 ^ 64"
  have "(x + 2 ^ 63) mod 2 ^ 64 = (x + 2 ^ 63 - 2 ^ 64) mod 2 ^ 64"
    by (rule minus_mod_self2 [symmetric])
  also have "\<dots> = x + 2 ^ 63 - 2 ^ 64" using x by (intro mod_pos_pos_trivial) simp_all
  finally show ?thesis by (simp add: wrap64_def)
qed

datatype archive_error =
    ArchTooShort
  | ArchTruncatedHeader
  | ArchMetadataLength varint_error
  | ArchSkipMetadata
  | ArchLegacyHeader
  | ArchOuterHMAC
  | ArchMissingIV
  | ArchInnerHMAC
  | ArchNotAligned
  | ArchPadding pad_error
  | ArchGzip string
  | ArchPanic

text \<open>\<open>"SBACKUP\x01"\<close>\<close>

definition magicNumber :: bytes where
  "magicNumber = [0x53, 0x42, 0x41, 0x43, 0x4B, 0x55, 0x50, 0x01]"

lemma length_magicNumber [simp]: "length magicNumber = 8"
  by (simp add: magicNumber_def)

text \<open>\<open>bytes.Reader.Seek(offset, io.SeekCurrent)\<close>: an error when the position is negative.\<close>

definition seek_current :: "int \<Rightarrow> int \<Rightarrow> int option" where
  "seek_current pos offset =
    (let new = wrap64 (pos + offset) in if new < 0 then None else Some new)"

definition parseHeaderPrefix :: "bytes \<Rightarrow> archive_error + (bytes \<times> int)" where
  "parseHeaderPrefix ciphertext =
    (if length ciphertext < length magicNumber then Inl ArchTruncatedHeader
     else if take (length magicNumber) ciphertext = magicNumber then
       case readVarintCounted (drop (length magicNumber) ciphertext) of
         Inl (e, count) \<Rightarrow> Inl (ArchMetadataLength e)
       | Inr (metaLen, varintLen, r) \<Rightarrow>
           (case seek_current (int varintLen) (int metaLen) of
              None \<Rightarrow> Inl ArchSkipMetadata
            | Some _ \<Rightarrow>
                let start = wrap64 (wrap64 (int (length magicNumber) + int varintLen) + int metaLen)
                in Inr ([], start))
     else if length ciphertext \<ge> 8 then Inr (take 8 ciphertext, 0)
     else Inl ArchLegacyHeader)"

text \<open>\<open>payload[encStart:]\<close>\<close>

definition slice_from :: "bytes \<Rightarrow> int \<Rightarrow> bytes option" where
  "slice_from xs i = (if i < 0 \<or> i > int (length xs) then None else Some (drop (nat i) xs))"

text \<open>The bytes written to the outer HMAC; None when the slice expression panics.\<close>

definition outer_mac_input :: "bytes \<Rightarrow> int \<Rightarrow> bytes \<Rightarrow> bytes option" where
  "outer_mac_input extraPrefix encStart payload =
    (if length extraPrefix > 0 \<and> encStart = 0 then
       Some (extraPrefix @ (if length extraPrefix < length payload
                            then drop (length extraPrefix) payload else []))
     else
       let pre = (if length extraPrefix > 0 then extraPrefix else []) in
       if encStart < int (length payload)
       then map_option (\<lambda>s. pre @ s) (slice_from payload encStart)
       else Some pre)"

definition DecryptArchive ::
  "crypto \<Rightarrow> (bytes \<Rightarrow> string + bytes) \<Rightarrow> bytes \<Rightarrow> bytes \<Rightarrow> bytes \<Rightarrow> archive_error + bytes" where
  "DecryptArchive C gunzip ciphertext aesKey hmacKey =
    (if length ciphertext < 32 + 16 + 16 then Inl ArchTooShort
     else case parseHeaderPrefix ciphertext of
       Inl e \<Rightarrow> Inl e
     | Inr (extraPrefix, encStart) \<Rightarrow>
       let payload = take (length ciphertext - 32) ciphertext;
           storedHMAC = drop (length ciphertext - 32) ciphertext
       in case outer_mac_input extraPrefix encStart payload of
         None \<Rightarrow> Inl ArchPanic
       | Some macInput \<Rightarrow>
         if constantTimeCompare storedHMAC (hmac C hmacKey macInput) \<noteq> 1
         then Inl ArchOuterHMAC
         else case (if encStart > 0 then slice_from payload encStart else Some payload) of
           None \<Rightarrow> Inl ArchPanic
         | Some encBody \<Rightarrow>
           if length encBody < 16 then Inl ArchMissingIV
           else if constantTimeCompare storedHMAC (hmac C hmacKey encBody) \<noteq> 1
           then Inl ArchInnerHMAC
           else
             let iv = take 16 encBody; cbcCiphertext = drop 16 encBody
             in if length cbcCiphertext mod 16 \<noteq> 0 then Inl ArchNotAligned
             else case backup_pkcs7Unpad (cbc_decrypt C aesKey iv cbcCiphertext) 16 of
               Inl e \<Rightarrow> Inl (ArchPadding e)
             | Inr plain \<Rightarrow> wrapR ArchGzip (gunzip plain))"

section \<open>Facts\<close>

text \<open>Where the encrypted part begins, when the header parses without wrap-around.\<close>

lemma parse_legacy:
  "length ct \<ge> 8 \<Longrightarrow> take 8 ct \<noteq> magicNumber \<Longrightarrow> parseHeaderPrefix ct = Inr (take 8 ct, 0)"
  by (simp add: parseHeaderPrefix_def)

lemma parse_forward_secrecy:
  assumes "length meta < 2 ^ 62"
  shows "parseHeaderPrefix (magicNumber @ putUvarint (length meta) @ meta @ rest) =
    Inr ([], int (8 + length (putUvarint (length meta)) + length meta))"
proof -
  let ?n = "length (putUvarint (length meta))"
  have "length meta < 2 ^ 63" using assms by simp
  note rd = readVarintCounted_putUvarint [OF this, of "meta @ rest"]
  have "readVarint_loop (putUvarint (length meta) @ meta @ rest) 0 0 0 = Inr (length meta, ?n, meta @ rest)"
    using rd by (simp add: readVarintCounted_def)
  from readVarint_loop_count [OF this] have n: "?n \<le> 10" by simp
  have "wrap64 (int ?n + int (length meta)) = int ?n + int (length meta)"
    "wrap64 (8 + int ?n) = 8 + int ?n"
    "wrap64 (8 + int ?n + int (length meta)) = 8 + int ?n + int (length meta)"
    using assms n by (auto intro!: wrap64_id)
  then show ?thesis
    using rd by (simp add: parseHeaderPrefix_def seek_current_def Let_def)
qed

lemma legacy_mac_input:
  "length payload \<ge> 8 \<Longrightarrow> outer_mac_input (take 8 payload) 0 payload = Some payload"
  by (auto simp: outer_mac_input_def)

lemma DecryptArchive_body:
  assumes len: "length ct \<ge> 64" and ct: "ct = payload @ tag" "length tag = 32"
    and p: "parseHeaderPrefix ct = Inr (pre, s)"
    and m: "outer_mac_input pre s payload = Some body"
    and b: "(if s > 0 then slice_from payload s else Some payload) = Some body"
  shows "DecryptArchive C gunzip ct aesKey hmacKey =
    (if tag \<noteq> hmac C hmacKey body then Inl ArchOuterHMAC
     else if length body < 16 then Inl ArchMissingIV
     else if length (drop 16 body) mod 16 \<noteq> 0 then Inl ArchNotAligned
     else case backup_pkcs7Unpad (cbc_decrypt C aesKey (take 16 body) (drop 16 body)) 16 of
         Inl e \<Rightarrow> Inl (ArchPadding e)
       | Inr plain \<Rightarrow> wrapR ArchGzip (gunzip plain))"
proof -
  have "take (length ct - 32) ct = payload" "drop (length ct - 32) ct = tag"
    using ct by simp_all
  then show ?thesis
    using len p m b by (simp add: DecryptArchive_def Let_def guard_simps)
qed

text \<open>The two layouts of the format, as its writers produce them.\<close>

definition sealed_body :: "crypto \<Rightarrow> bytes \<Rightarrow> bytes \<Rightarrow> bytes \<Rightarrow> bytes \<Rightarrow> bytes" where
  "sealed_body C aesKey hmacKey iv gz =
    (let body = iv @ cbc_encrypt C aesKey iv (pkcs7Pad gz 16) in body @ hmac C hmacKey body)"

definition archive_header :: "bytes option \<Rightarrow> bytes" where
  "archive_header metadata =
    (case metadata of None \<Rightarrow> []
     | Some m \<Rightarrow> magicNumber @ putUvarint (length m) @ m)"

lemma outer_mac_input_skip:
  assumes "body \<noteq> []" "0 < s" "s = int (length hdr)"
  shows "outer_mac_input [] s (hdr @ body) = Some body"
    and "slice_from (hdr @ body) s = Some body"
  using assms by (simp_all add: outer_mac_input_def slice_from_def)

lemma sealed_body_opens:
  assumes "block_cipher_ok C" "hash_ok C" "length iv = 16" "gunzip gz = Inr data"
    and body: "body = iv @ cbc_encrypt C aesKey iv (pkcs7Pad gz 16)"
    and hdr: "hdr = archive_header metadata"
    and m: "metadata = None \<and> take 8 iv \<noteq> magicNumber \<or>
            (\<exists>m. metadata = Some m \<and> length m < 2 ^ 62)"
  shows "DecryptArchive C gunzip (hdr @ body @ hmac C hmacKey body) aesKey hmacKey = Inr data"
proof -
  let ?ct = "hdr @ body @ hmac C hmacKey body"
  have lc: "length (cbc_encrypt C aesKey iv (pkcs7Pad gz 16)) = (length gz div 16 + 1) * 16"
    using assms(1,3) by (simp add: length_cbc_encrypt pkcs7Pad_aligned length_pkcs7Pad)
  have l32: "length body \<ge> 32" "length (drop 16 body) mod 16 = 0"
    using lc assms(3) by (simp_all add: body)
  have dec: "backup_pkcs7Unpad (cbc_decrypt C aesKey (take 16 body) (drop 16 body)) 16 = Inr gz"
    using assms(1,3) by (simp add: body cbc_round_trip pkcs7Pad_aligned backup16.unpad_pad)
  have ne: "body \<noteq> []" using l32 by auto
  have len: "length ?ct \<ge> 64" using l32 assms(2) by (simp add: length_hmac)
  have "\<exists>pre s. parseHeaderPrefix ?ct = Inr (pre, s) \<and> outer_mac_input pre s (hdr @ body) = Some body \<and>
      (if s > 0 then slice_from (hdr @ body) s else Some (hdr @ body)) = Some body"
  proof (cases metadata)
    case None
    then have h: "hdr = []" "take 8 iv \<noteq> magicNumber" using m hdr by (auto simp: archive_header_def)
    have "take 8 ?ct = take 8 iv" using h assms(3) by (simp add: body)
    then have "parseHeaderPrefix ?ct = Inr (take 8 body, 0)"
      using h l32 parse_legacy [of ?ct] by simp
    then show ?thesis using h l32 legacy_mac_input [of body] by auto
  next
    case (Some mt)
    then have h: "hdr = magicNumber @ putUvarint (length mt) @ mt" and b: "length mt < 2 ^ 62"
      using m hdr by (auto simp: archive_header_def)
    let ?s = "int (8 + length (putUvarint (length mt)) + length mt)"
    have p: "parseHeaderPrefix ?ct = Inr ([], ?s)"
      using parse_forward_secrecy [OF b, of "body @ hmac C hmacKey body"] by (simp add: h)
    have "?s = int (length hdr)" by (simp add: h)
    note o = outer_mac_input_skip [OF ne _ this]
    have "?s > 0" by simp
    then show ?thesis using p o by auto
  qed
  then obtain pre s where p: "parseHeaderPrefix ?ct = Inr (pre, s)"
    "outer_mac_input pre s (hdr @ body) = Some body"
    "(if s > 0 then slice_from (hdr @ body) s else Some (hdr @ body)) = Some body" by blast
  have "?ct = (hdr @ body) @ hmac C hmacKey body" by simp
  from DecryptArchive_body [OF len this length_hmac [OF assms(2)] p]
  show ?thesis using l32 dec assms(4) by simp
qed

text \<open>
  Archive round trip (DecryptArchive, parseHeaderPrefix): an archive sealed in either of the
  two header formats, legacy or with forward-secrecy metadata of any size, decrypts and
  decompresses to the data that was sealed, under the same keys.
\<close>

theorem archive_round_trip:
  assumes "block_cipher_ok C" "hash_ok C" "length iv = 16" "gunzip gz = Inr data"
    and "metadata = None \<and> take 8 iv \<noteq> magicNumber \<or>
         (\<exists>m. metadata = Some m \<and> length m < 2 ^ 62)"
  shows "DecryptArchive C gunzip
    (archive_header metadata @ sealed_body C aesKey hmacKey iv gz) aesKey hmacKey = Inr data"
  unfolding sealed_body_def Let_def
  by (rule sealed_body_opens) (use assms in auto)

theorem archive_round_trip_witness:
  "DecryptArchive sum_crypto Inr (archive_header (Some [9, 9, 9]) @
     sealed_body sum_crypto [1] [2] (replicate 16 5) [1, 2, 3, 4]) [1] [2] = Inr [1, 2, 3, 4] \<and>
   DecryptArchive sum_crypto Inr (archive_header None @
     sealed_body sum_crypto [1] [2] (replicate 16 5) [1, 2, 3, 4]) [1] [2] = Inr [1, 2, 3, 4]"
proof (intro conjI archive_round_trip sum_crypto_ok)
  have "take 8 (replicate 16 5) = 5 # 5 # replicate 6 (5 :: byte)"
    by (simp add: eval_nat_numeral)
  then show "(None :: bytes option) = None \<and> take 8 (replicate 16 5) \<noteq> magicNumber \<or>
      (\<exists>m. (None :: bytes option) = Some m \<and> length m < 2 ^ 62)"
    by (simp add: magicNumber_def)
qed simp_all

lemma outer_mac_input_None_iff: "outer_mac_input pre s payload = None \<longleftrightarrow> s < 0"
  by (auto simp: outer_mac_input_def slice_from_def Let_def)

lemma outer_mac_input_neg: "s < 0 \<Longrightarrow> outer_mac_input pre s payload = None"
  by (simp add: outer_mac_input_None_iff)

lemma parseHeaderPrefix_start:
  assumes "parseHeaderPrefix ct = Inr (pre, s)"
  shows "(s = 0 \<and> pre = take 8 ct \<and> take 8 ct \<noteq> magicNumber) \<or>
    (\<exists>m v r. take 8 ct = magicNumber \<and> pre = [] \<and>
      readVarintCounted (drop 8 ct) = Inr (m, v, r) \<and> m + v < 2 ^ 63 \<and> 0 < v \<and>
      s = (if 8 + v + m < 2 ^ 63 then int (8 + v + m) else int (8 + v + m) - 2 ^ 64))"
proof (cases "take 8 ct = magicNumber")
  case False
  then show ?thesis using assms by (auto simp: parseHeaderPrefix_def split: if_splits)
next
  case True
  then obtain m v r where rd: "readVarintCounted (drop 8 ct) = Inr (m, v, r)"
    and sk: "seek_current (int v) (int m) \<noteq> None"
    and s: "s = wrap64 (wrap64 (8 + int v) + int m)" "pre = []"
    using assms by (auto simp: parseHeaderPrefix_def Let_def split: if_splits sum.splits option.splits)
  have v: "0 < v" "m < 2 ^ 63"
    using rd readVarint_loop_progress unfolding readVarintCounted_def by blast+
  have v10: "v \<le> 10" using rd readVarint_loop_count [of "drop 8 ct" 0 0 0 m v r]
    by (simp add: readVarintCounted_def)
  have mv: "m + v < 2 ^ 63"
  proof (rule ccontr)
    assume "\<not> m + v < 2 ^ 63"
    then have "2 ^ 63 \<le> int v + int m" "int v + int m < 2 ^ 64" using v v10 by simp_all
    then have "wrap64 (int v + int m) < 0" by (simp add: wrap64_over)
    then show False using sk by (simp add: seek_current_def Let_def)
  qed
  have i: "wrap64 (8 + int v) = 8 + int v" using v10 by (simp add: wrap64_id)
  have "s = (if 8 + v + m < 2 ^ 63 then int (8 + v + m) else int (8 + v + m) - 2 ^ 64)"
  proof (cases "8 + v + m < 2 ^ 63")
    case True
    then have "wrap64 (8 + int v + int m) = 8 + int v + int m" by (intro wrap64_id) simp_all
    then show ?thesis using True s i by simp
  next
    case False
    then have "wrap64 (8 + int v + int m) = 8 + int v + int m - 2 ^ 64"
      using mv v10 by (intro wrap64_over) simp_all
    then show ?thesis using False s i by simp
  qed
  then show ?thesis using True rd mv v s by blast
qed

text \<open>
  C1. Authenticity of archives: whenever DecryptArchive returns data, the archive is a header
  followed by a body and its HMAC under the archive's key, the body decrypts to a correctly
  padded plaintext, and the data is its decompression. The header is empty or the
  forward-secrecy header whose announced metadata length gives exactly the start of the body.
\<close>

theorem archive_authentic:
  assumes "DecryptArchive C gunzip ct aesKey hmacKey = Inr out"
  shows "\<exists>hdr iv enc plain. ct = hdr @ iv @ enc @ hmac C hmacKey (iv @ enc) \<and>
    length iv = 16 \<and> cbc_decrypt C aesKey iv enc = pkcs7Pad plain 16 \<and> gunzip plain = Inr out \<and>
    (hdr = [] \<and> take 8 ct \<noteq> magicNumber \<or>
     (\<exists>m v r. take 8 ct = magicNumber \<and> readVarintCounted (drop 8 ct) = Inr (m, v, r) \<and>
        length hdr = 8 + v + m))"
proof -
  obtain pre s where p: "parseHeaderPrefix ct = Inr (pre, s)" and len: "64 \<le> length ct"
    using assms by (auto simp: DecryptArchive_def split: if_splits sum.splits)
  let ?payload = "take (length ct - 32) ct" and ?tag = "drop (length ct - 32) ct"
  obtain body where b: "(if s > 0 then slice_from ?payload s else Some ?payload) = Some body"
    and m: "outer_mac_input pre s ?payload \<noteq> None"
    and body: "16 \<le> length body" "?tag = hmac C hmacKey body"
    and pad: "\<exists>plain. backup_pkcs7Unpad (cbc_decrypt C aesKey (take 16 body) (drop 16 body)) 16
        = Inr plain \<and> gunzip plain = Inr out"
    using assms p len
    by (auto simp: DecryptArchive_def Let_def guard_simps split: if_splits sum.splits option.splits)
  then obtain plain where plain: "gunzip plain = Inr out"
    "cbc_decrypt C aesKey (take 16 body) (drop 16 body) = pkcs7Pad plain 16"
    using backup16.unpad_canonical by blast
  have ct: "ct = ?payload @ ?tag" by simp
  have split: "body = take 16 body @ drop 16 body" by simp
  consider "s > 0" | "s \<le> 0" by linarith
  then show ?thesis
  proof cases
    case 1
    then have "body = drop (nat s) ?payload" "nat s \<le> length ?payload"
      using b by (auto simp: slice_from_def split: if_splits)
    then have s: "?payload = take (nat s) ?payload @ body" "length (take (nat s) ?payload) = nat s"
      by (simp_all only: append_take_drop_id length_take min_absorb2)
    obtain m v r where h: "take 8 ct = magicNumber" "readVarintCounted (drop 8 ct) = Inr (m, v, r)"
      "m + v < 2 ^ 63" "s = (if 8 + v + m < 2 ^ 63 then int (8 + v + m) else int (8 + v + m) - 2 ^ 64)"
      using parseHeaderPrefix_start [OF p] 1 by auto
    have "nat s = 8 + v + m" using h(3,4) 1 by (auto split: if_splits)
    then show ?thesis
      using h plain body s ct by (metis append_assoc append_take_drop_id length_take min_absorb2)
  next
    case 2
    then have "body = ?payload" using b by simp
    moreover have "0 \<le> s" using m outer_mac_input_neg [of s pre ?payload] by force
    then have "take 8 ct \<noteq> magicNumber"
      using 2 parseHeaderPrefix_start [OF p] by (auto split: if_splits)
    moreover have "ct = body @ hmac C hmacKey body"
      using ct calculation(1) body(2) by simp
    then have "ct = [] @ take 16 body @ drop 16 body @
        hmac C hmacKey (take 16 body @ drop 16 body)"
      by (metis append_Nil append_assoc append_take_drop_id)
    moreover have "length (take 16 body) = 16" using body(1) by simp
    ultimately show ?thesis using plain by blast
  qed
qed

theorem archive_authentic_witness:
  "\<exists>hdr iv enc plain. archive_header (Some [9, 9, 9]) @
     sealed_body sum_crypto [1] [2] (replicate 16 5) [1, 2, 3, 4] =
       hdr @ iv @ enc @ hmac sum_crypto [2] (iv @ enc) \<and> length iv = 16 \<and>
     cbc_decrypt sum_crypto [1] iv enc = pkcs7Pad plain 16 \<and> Inr plain = (Inr [1, 2, 3, 4] :: string + bytes)"
proof -
  have "DecryptArchive sum_crypto Inr (archive_header (Some [9, 9, 9]) @
     sealed_body sum_crypto [1] [2] (replicate 16 5) [1, 2, 3, 4]) [1] [2] = Inr [1, 2, 3, 4]"
    unfolding sealed_body_def Let_def
    by (rule sealed_body_opens [where metadata = "Some [9, 9, 9]"]) (simp_all add: sum_crypto_ok)
  from archive_authentic [OF this] show ?thesis by blast
qed

lemma parse_not_panic: "parseHeaderPrefix ct \<noteq> Inl ArchPanic"
  by (auto simp: parseHeaderPrefix_def Let_def split: sum.splits option.splits)

lemma parse_magic:
  assumes "take 8 ct = magicNumber" "readVarintCounted (drop 8 ct) = Inr (m, v, r)"
    "m + v < 2 ^ 63" "64 \<le> length ct"
  shows "parseHeaderPrefix ct = Inr ([],
    if 8 + v + m < 2 ^ 63 then int (8 + v + m) else int (8 + v + m) - 2 ^ 64)"
proof -
  have "wrap64 (int v + int m) = int v + int m"
    using assms(3) by (intro wrap64_id) simp_all
  then have "\<exists>ps. parseHeaderPrefix ct = Inr ps"
    using assms by (simp add: parseHeaderPrefix_def seek_current_def Let_def)
  then obtain pre s where p: "parseHeaderPrefix ct = Inr (pre, s)" by auto
  then show ?thesis using parseHeaderPrefix_start [OF p] assms by auto
qed

lemma panic_start:
  assumes len: "64 \<le> length ct" and p: "parseHeaderPrefix ct = Inr (pre, s)"
  shows "DecryptArchive C gunzip ct aesKey hmacKey = Inl ArchPanic \<longleftrightarrow>
    s < 0 \<or> int (length ct - 32) < s \<and> drop (length ct - 32) ct = hmac C hmacKey []"
proof -
  let ?payload = "take (length ct - 32) ct"
  have pre: "s \<noteq> 0 \<Longrightarrow> pre = []" using parseHeaderPrefix_start [OF p] by auto
  have g: "wrapR ArchGzip x \<noteq> Inl ArchPanic" for x :: "string + bytes" by (cases x) auto
  consider "s < 0" | "0 \<le> s" "s \<le> int (length ct - 32)" | "int (length ct - 32) < s" by linarith
  then show ?thesis
  proof cases
    case 1
    then show ?thesis using len p by (simp add: DecryptArchive_def outer_mac_input_neg)
  next
    case 2
    then have "outer_mac_input pre s ?payload \<noteq> None" by (simp add: outer_mac_input_None_iff)
    then obtain mi where mi: "outer_mac_input pre s ?payload = Some mi" by auto
    obtain b where b: "(if s > 0 then slice_from ?payload s else Some ?payload) = Some b"
      using 2 len by (cases "s > 0") (simp_all add: slice_from_def)
    have "DecryptArchive C gunzip ct aesKey hmacKey \<noteq> Inl ArchPanic"
      using len by (simp add: DecryptArchive_def p mi b Let_def g split: sum.split)
    then show ?thesis using 2 by simp
  next
    case 3
    then have "outer_mac_input pre s ?payload = Some []" "slice_from ?payload s = None"
      using pre by (auto simp: outer_mac_input_def slice_from_def)
    then show ?thesis using len p 3
      by (auto simp: DecryptArchive_def Let_def guard_simps)
  qed
qed

text \<open>
  C21. When DecryptArchive panics: exactly on a forward-secrecy header whose announced metadata
  length either wraps the 64-bit start offset to a negative number, which is reached before
  any HMAC is checked and hence without knowing a key, or points past the payload while the
  stored tag is the HMAC of the empty string. Legacy archives and every archive whose
  metadata fits never panic.
\<close>

theorem archive_panic_iff:
  "DecryptArchive C gunzip ct aesKey hmacKey = Inl ArchPanic \<longleftrightarrow>
    64 \<le> length ct \<and> take 8 ct = magicNumber \<and>
    (\<exists>m v r. readVarintCounted (drop 8 ct) = Inr (m, v, r) \<and> m + v < 2 ^ 63 \<and>
       (2 ^ 63 \<le> 8 + v + m \<or>
        length ct - 32 < 8 + v + m \<and> drop (length ct - 32) ct = hmac C hmacKey []))"
    (is "?l \<longleftrightarrow> ?r")
proof (cases "64 \<le> length ct \<and> take 8 ct = magicNumber \<and>
    (\<exists>m v r. readVarintCounted (drop 8 ct) = Inr (m, v, r) \<and> m + v < 2 ^ 63)")
  case True
  then obtain m v r where h: "64 \<le> length ct" "take 8 ct = magicNumber"
    "readVarintCounted (drop 8 ct) = Inr (m, v, r)" "m + v < 2 ^ 63" by blast
  define s where "s = (if 8 + v + m < 2 ^ 63 then int (8 + v + m) else int (8 + v + m) - 2 ^ 64)"
  have p: "parseHeaderPrefix ct = Inr ([], s)"
    using parse_magic [OF h(2,3,4)] h(1) by (simp add: s_def)
  have s: "s < 0 \<longleftrightarrow> 2 ^ 63 \<le> 8 + v + m" "s \<noteq> 0" "0 < s \<longrightarrow> s = int (8 + v + m)"
    using h(4) by (auto simp: s_def)
  have "int (length ct - 32) < s \<longleftrightarrow> s = int (8 + v + m) \<and> length ct - 32 < 8 + v + m"
    using s(3) by auto
  then show ?thesis using panic_start [OF h(1) p] s h by auto
next
  case False
  have "\<not> ?l"
  proof
    assume l: ?l
    then have len: "64 \<le> length ct" by (auto simp: DecryptArchive_def split: if_splits)
    obtain pre s where p: "parseHeaderPrefix ct = Inr (pre, s)"
      using l parse_not_panic by (auto simp: DecryptArchive_def split: if_splits sum.splits)
    then have "s = 0" using parseHeaderPrefix_start [OF p] False len by blast
    then show False using panic_start [OF len p] l by auto
  qed
  then show ?thesis using False by blast
qed

end
