(* ===== verification/Stores.thy ===== *)
theory Stores
  imports GoStrings "HOL-Library.AList"
begin

text \<open>
  The libsignal-facing stores: the interfaces of internal/store/signal_stores.go, the in-memory
  implementation of internal/store/memstore/signal_stores.go and the SQLite implementation of
  internal/store/sqlstore/signal_stores.go. Go maps and SQL tables are association lists;
  an INSERT ... ON CONFLICT DO UPDATE is an update of the row. \<open>sq_fault\<close> is the error that
  the database returns for every statement while it is Some (disk full, locked, closed).
  Records are non-null blobs; the driver's treatment of nil slices is not modelled.
\<close>

section \<open>Addresses\<close>

record Address =
  ad_ServiceID :: string
  ad_DeviceID :: u32

text \<open>Decimal rendering of the \<open>%d\<close> verb.\<close>

function dec_digits :: "nat \<Rightarrow> string" where
  "dec_digits n =
    (if n < 10 then [char_of (48 + n)] else dec_digits (n div 10) @ [char_of (48 + n mod 10)])"
  by auto
termination by (relation "measure id") auto

declare dec_digits.simps [simp del]

definition Address_String :: "Address \<Rightarrow> string" where
  "Address_String a = ad_ServiceID a @ ''.'' @ dec_digits (unat (ad_DeviceID a))"

lemma of_char_digit: "n < 10 \<Longrightarrow> (of_char (char_of (48 + n) :: char) :: nat) = 48 + n"
  by simp

lemma dec_digits_range:
  "c \<in> set (dec_digits n) \<Longrightarrow> 48 \<le> (of_char c :: nat) \<and> (of_char c :: nat) \<le> 57"
proof (induction n rule: dec_digits.induct)
  case (1 n)
  then show ?case
    by (subst (asm) (2) dec_digits.simps) (auto split: if_splits)
qed

lemma dec_digits_inj: "dec_digits m = dec_digits n \<Longrightarrow> m = n"
proof (induction m arbitrary: n rule: dec_digits.induct)
  case (1 m)
  have d: "(char_of (48 + a mod 10) :: char) = char_of (48 + b mod 10) \<longleftrightarrow> a mod 10 = b mod 10" for a b :: nat
    by (metis of_char_digit add_left_cancel mod_less_divisor zero_less_numeral)
  have ne: "dec_digits k \<noteq> []" for k by (subst dec_digits.simps) simp
  have e: "dec_digits k = (if k < 10 then [char_of (48 + k mod 10)]
      else dec_digits (k div 10) @ [char_of (48 + k mod 10)])" for k
    by (subst dec_digits.simps) simp
  from "1.prems" have eq: "(if m < 10 then [char_of (48 + m mod 10)]
      else dec_digits (m div 10) @ [char_of (48 + m mod 10)]) =
    (if n < 10 then [char_of (48 + n mod 10)] else dec_digits (n div 10) @ [char_of (48 + n mod 10)])"
    by (simp only: e [symmetric])
  then have m: "m mod 10 = n mod 10" using d by (auto split: if_splits)
  show ?case
  proof (cases "m < 10")
    case True
    then show ?thesis using eq ne m by (auto split: if_splits)
  next
    case False
    then have "\<not> n < 10" "dec_digits (m div 10) = dec_digits (n div 10)"
      using eq ne by (auto split: if_splits)
    then have "m div 10 = n div 10" using "1.IH" [OF False] by blast
    then show ?thesis using m by (metis mult_div_mod_eq)
  qed
qed

lemma split_last_dot:
  "CHR ''.'' \<notin> set d \<Longrightarrow> CHR ''.'' \<notin> set d' \<Longrightarrow>
   s @ CHR ''.'' # d = s' @ CHR ''.'' # d' \<Longrightarrow> s = s' \<and> d = d'"
proof (induction s arbitrary: s')
  case Nil
  then show ?case by (cases s') auto
next
  case (Cons c s)
  show ?case
  proof (cases s')
    case Nil
    then have "d' = s @ CHR ''.'' # d" using Cons.prems(3) by simp
    then show ?thesis using Cons.prems(2) by simp
  next
    case s': (Cons c' t)
    then show ?thesis using Cons.IH [of t] Cons.prems by simp
  qed
qed

lemma Address_String_inj: "Address_String a = Address_String b \<Longrightarrow> a = b"
proof -
  assume eq: "Address_String a = Address_String b"
  have dot: "(of_char (CHR ''.'') :: nat) = 46" by simp
  have nd: "CHR ''.'' \<notin> set (dec_digits n)" for n
    using dec_digits_range [of _ n] dot by fastforce
  from split_last_dot [OF nd nd] eq
  have "ad_ServiceID a = ad_ServiceID b" "dec_digits (unat (ad_DeviceID a)) = dec_digits (unat (ad_DeviceID b))"
    unfolding Address_String_def by simp_all
  then show "a = b" using dec_digits_inj by (simp add: word_unat_eq_iff)
qed

section \<open>Results and operations\<close>

datatype store_err = ErrRecordNotFound | SqlError string

datatype SaveIdentityResult = IdentityUnchanged | IdentityReplaced

section \<open>memstore\<close>

record mem_stores =
  ms_identityPub :: "bytes option"
  ms_identityPriv :: bytes
  ms_regID :: u32
  ms_sessions :: "(string \<times> bytes) list"
  ms_identities :: "(string \<times> bytes) list"
  ms_preKeys :: "(u32 \<times> bytes) list"
  ms_signedKeys :: "(u32 \<times> bytes) list"
  ms_kyberKeys :: "(u32 \<times> bytes) list"
  ms_usedKyber :: "u32 list"
  ms_senderKeys :: "((string \<times> string) \<times> bytes) list"

definition mem_NewSignalStores :: mem_stores where
  "mem_NewSignalStores = \<lparr> ms_identityPub = None, ms_identityPriv = [], ms_regID = 0,
     ms_sessions = [], ms_identities = [], ms_preKeys = [], ms_signedKeys = [],
     ms_kyberKeys = [], ms_usedKyber = [], ms_senderKeys = [] \<rparr>"

text \<open>A lookup with the \<open>v, ok\<close> idiom.\<close>

definition found :: "bytes option \<Rightarrow> store_err + bytes" where
  "found v = (case v of None \<Rightarrow> Inl ErrRecordNotFound | Some b \<Rightarrow> Inr b)"

text \<open>\<open>append([]byte(nil), pub...)\<close> is nil for an empty key.\<close>

definition mem_SetLocalIdentity :: "mem_stores \<Rightarrow> bytes \<Rightarrow> bytes \<Rightarrow> u32 \<Rightarrow> mem_stores" where
  "mem_SetLocalIdentity s pub priv regID =
    s\<lparr> ms_identityPub := (if pub = [] then None else Some pub), ms_identityPriv := priv,
       ms_regID := regID \<rparr>"

definition mem_LocalIdentityKey :: "mem_stores \<Rightarrow> store_err + (bytes \<times> bytes)" where
  "mem_LocalIdentityKey s =
    (case ms_identityPub s of
       None \<Rightarrow> Inl ErrRecordNotFound
     | Some pub \<Rightarrow> Inr (pub, ms_identityPriv s))"

definition mem_LocalRegistrationID :: "mem_stores \<Rightarrow> store_err + u32" where
  "mem_LocalRegistrationID s = Inr (ms_regID s)"

definition mem_LoadIdentity :: "mem_stores \<Rightarrow> Address \<Rightarrow> store_err + bytes" where
  "mem_LoadIdentity s addr = found (map_of (ms_identities s) (Address_String addr))"

definition mem_SaveIdentity ::
  "mem_stores \<Rightarrow> Address \<Rightarrow> bytes \<Rightarrow> mem_stores \<times> (store_err + SaveIdentityResult)" where
  "mem_SaveIdentity s addr pub =
    (let key = Address_String addr; prev = map_of (ms_identities s) key;
         s' = s\<lparr> ms_identities := AList.update key pub (ms_identities s) \<rparr>
     in if prev = None \<or> prev = Some pub then (s', Inr IdentityUnchanged)
        else (s', Inr IdentityReplaced))"

definition mem_IsTrustedIdentity :: "mem_stores \<Rightarrow> Address \<Rightarrow> bytes \<Rightarrow> store_err + bool" where
  "mem_IsTrustedIdentity s addr pub =
    (case map_of (ms_identities s) (Address_String addr) of
       None \<Rightarrow> Inr True
     | Some v \<Rightarrow> Inr (v = pub))"

definition mem_LoadSession :: "mem_stores \<Rightarrow> Address \<Rightarrow> store_err + bytes" where
  "mem_LoadSession s addr = found (map_of (ms_sessions s) (Address_String addr))"
definition mem_StoreSession :: "mem_stores \<Rightarrow> Address \<Rightarrow> bytes \<Rightarrow> mem_stores" where
  "mem_StoreSession s addr rcd =
    s\<lparr> ms_sessions := AList.update (Address_String addr) rcd (ms_sessions s) \<rparr>"
definition mem_DeleteSession :: "mem_stores \<Rightarrow> Address \<Rightarrow> mem_stores" where
  "mem_DeleteSession s addr = s\<lparr> ms_sessions := AList.delete (Address_String addr) (ms_sessions s) \<rparr>"

definition mem_LoadPreKey :: "mem_stores \<Rightarrow> u32 \<Rightarrow> store_err + bytes" where
  "mem_LoadPreKey s kid = found (map_of (ms_preKeys s) kid)"
definition mem_StorePreKey :: "mem_stores \<Rightarrow> u32 \<Rightarrow> bytes \<Rightarrow> mem_stores" where
  "mem_StorePreKey s kid rcd = s\<lparr> ms_preKeys := AList.update kid rcd (ms_preKeys s) \<rparr>"
definition mem_RemovePreKey :: "mem_stores \<Rightarrow> u32 \<Rightarrow> mem_stores" where
  "mem_RemovePreKey s kid = s\<lparr> ms_preKeys := AList.delete kid (ms_preKeys s) \<rparr>"

definition mem_LoadSignedPreKey :: "mem_stores \<Rightarrow> u32 \<Rightarrow> store_err + bytes" where
  "mem_LoadSignedPreKey s kid = found (map_of (ms_signedKeys s) kid)"
definition mem_StoreSignedPreKey :: "mem_stores \<Rightarrow> u32 \<Rightarrow> bytes \<Rightarrow> mem_stores" where
  "mem_StoreSignedPreKey s kid rcd = s\<lparr> ms_signedKeys := AList.update kid rcd (ms_signedKeys s) \<rparr>"

definition mem_LoadKyberPreKey :: "mem_stores \<Rightarrow> u32 \<Rightarrow> store_err + bytes" where
  "mem_LoadKyberPreKey s kid = found (map_of (ms_kyberKeys s) kid)"
definition mem_StoreKyberPreKey :: "mem_stores \<Rightarrow> u32 \<Rightarrow> bytes \<Rightarrow> mem_stores" where
  "mem_StoreKyberPreKey s kid rcd = s\<lparr> ms_kyberKeys := AList.update kid rcd (ms_kyberKeys s) \<rparr>"
definition mem_MarkKyberPreKeyUsed :: "mem_stores \<Rightarrow> u32 \<Rightarrow> mem_stores" where
  "mem_MarkKyberPreKeyUsed s kid = s\<lparr> ms_usedKyber := List.insert kid (ms_usedKyber s) \<rparr>"
definition mem_KyberPreKeyUsed :: "mem_stores \<Rightarrow> u32 \<Rightarrow> bool" where
  "mem_KyberPreKeyUsed s kid \<longleftrightarrow> kid \<in> set (ms_usedKyber s)"

definition mem_LoadSenderKey :: "mem_stores \<Rightarrow> Address \<times> string \<Rightarrow> store_err + bytes" where
  "mem_LoadSenderKey s k = found (map_of (ms_senderKeys s) (Address_String (fst k), snd k))"
definition mem_StoreSenderKey :: "mem_stores \<Rightarrow> Address \<times> string \<Rightarrow> bytes \<Rightarrow> mem_stores" where
  "mem_StoreSenderKey s k rcd =
    s\<lparr> ms_senderKeys := AList.update (Address_String (fst k), snd k) rcd (ms_senderKeys s) \<rparr>"

definition mem_CountAvailable :: "mem_stores \<Rightarrow> u32 \<Rightarrow> nat \<times> nat" where
  "mem_CountAvailable s lastResortKyberID =
    (let ec = length (ms_preKeys s);
         kem = length (filter (\<lambda>kid. kid \<noteq> lastResortKyberID \<and> kid \<notin> set (ms_usedKyber s))
                        (map fst (ms_kyberKeys s)))
     in (ec, kem))"

section \<open>sqlstore\<close>

record sql_stores =
  sq_fault :: "string option"
  sq_localIdentity :: "(bytes \<times> bytes \<times> u32) option"
  sq_sessions :: "(string \<times> bytes) list"
  sq_identities :: "(string \<times> bytes) list"
  sq_prekeys :: "(u32 \<times> bytes) list"
  sq_signedPrekeys :: "(u32 \<times> bytes) list"
  sq_kyberPrekeys :: "(u32 \<times> (bytes \<times> bool)) list"
  sq_senderKeys :: "((string \<times> string) \<times> bytes) list"

definition sql_empty :: sql_stores where
  "sql_empty = \<lparr> sq_fault = None, sq_localIdentity = None, sq_sessions = [], sq_identities = [],
     sq_prekeys = [], sq_signedPrekeys = [], sq_kyberPrekeys = [], sq_senderKeys = [] \<rparr>"

text \<open>QueryRow(...).Scan: no rows becomes ErrRecordNotFound, a fault is wrapped.\<close>

definition sql_row :: "sql_stores \<Rightarrow> 'a option \<Rightarrow> store_err + 'a" where
  "sql_row s row =
    (case sq_fault s of
       Some e \<Rightarrow> Inl (SqlError e)
     | None \<Rightarrow> (case row of None \<Rightarrow> Inl ErrRecordNotFound | Some r \<Rightarrow> Inr r))"

text \<open>Exec: the statement takes effect unless the database fails.\<close>

definition sql_exec :: "(sql_stores \<Rightarrow> sql_stores) \<Rightarrow> sql_stores \<Rightarrow> sql_stores \<times> (store_err + unit)" where
  "sql_exec stmt s =
    (case sq_fault s of Some e \<Rightarrow> (s, Inl (SqlError e)) | None \<Rightarrow> (stmt s, Inr ()))"

definition sql_SetLocalIdentity where
  "sql_SetLocalIdentity s pub priv regID =
    sql_exec (\<lambda>s. s\<lparr> sq_localIdentity := Some (pub, priv, regID) \<rparr>) s"

definition sql_LocalIdentityKey :: "sql_stores \<Rightarrow> store_err + (bytes \<times> bytes)" where
  "sql_LocalIdentityKey s =
    sql_row s (map_option (\<lambda>(pub, priv, regID). (pub, priv)) (sq_localIdentity s))"

definition sql_LocalRegistrationID :: "sql_stores \<Rightarrow> store_err + u32" where
  "sql_LocalRegistrationID s =
    sql_row s (map_option (\<lambda>(pub, priv, regID). regID) (sq_localIdentity s))"

definition sql_LoadIdentity :: "sql_stores \<Rightarrow> Address \<Rightarrow> store_err + bytes" where
  "sql_LoadIdentity s addr = sql_row s (map_of (sq_identities s) (Address_String addr))"

text \<open>One transaction: a failure anywhere leaves the table as it was.\<close>

definition sql_SaveIdentity ::
  "sql_stores \<Rightarrow> Address \<Rightarrow> bytes \<Rightarrow> sql_stores \<times> (store_err + SaveIdentityResult)" where
  "sql_SaveIdentity s addr pub =
    (case sq_fault s of
       Some e \<Rightarrow> (s, Inl (SqlError e))
     | None \<Rightarrow>
         let key = Address_String addr; prev = map_of (sq_identities s) key;
             s' = s\<lparr> sq_identities := AList.update key pub (sq_identities s) \<rparr>
         in if prev = None \<or> prev = Some pub then (s', Inr IdentityUnchanged)
            else (s', Inr IdentityReplaced))"

definition sql_IsTrustedIdentity :: "sql_stores \<Rightarrow> Address \<Rightarrow> bytes \<Rightarrow> store_err + bool" where
  "sql_IsTrustedIdentity s addr pub =
    (case sql_LoadIdentity s addr of
       Inl ErrRecordNotFound \<Rightarrow> Inr True
     | Inl e \<Rightarrow> Inl e
     | Inr stored \<Rightarrow> Inr (stored = pub))"

definition sql_LoadSession :: "sql_stores \<Rightarrow> Address \<Rightarrow> store_err + bytes" where
  "sql_LoadSession s addr = sql_row s (map_of (sq_sessions s) (Address_String addr))"
definition sql_StoreSession where
  "sql_StoreSession s addr rcd =
    sql_exec (\<lambda>s. s\<lparr> sq_sessions := AList.update (Address_String addr) rcd (sq_sessions s) \<rparr>) s"
definition sql_DeleteSession where
  "sql_DeleteSession s addr =
    sql_exec (\<lambda>s. s\<lparr> sq_sessions := AList.delete (Address_String addr) (sq_sessions s) \<rparr>) s"

definition sql_LoadPreKey :: "sql_stores \<Rightarrow> u32 \<Rightarrow> store_err + bytes" where
  "sql_LoadPreKey s kid = sql_row s (map_of (sq_prekeys s) kid)"
definition sql_StorePreKey where
  "sql_StorePreKey s kid rcd =
    sql_exec (\<lambda>s. s\<lparr> sq_prekeys := AList.update kid rcd (sq_prekeys s) \<rparr>) s"
definition sql_RemovePreKey where
  "sql_RemovePreKey s kid = sql_exec (\<lambda>s. s\<lparr> sq_prekeys := AList.delete kid (sq_prekeys s) \<rparr>) s"

definition sql_LoadSignedPreKey :: "sql_stores \<Rightarrow> u32 \<Rightarrow> store_err + bytes" where
  "sql_LoadSignedPreKey s kid = sql_row s (map_of (sq_signedPrekeys s) kid)"
definition sql_StoreSignedPreKey where
  "sql_StoreSignedPreKey s kid rcd =
    sql_exec (\<lambda>s. s\<lparr> sq_signedPrekeys := AList.update kid rcd (sq_signedPrekeys s) \<rparr>) s"

definition sql_LoadKyberPreKey :: "sql_stores \<Rightarrow> u32 \<Rightarrow> store_err + bytes" where
  "sql_LoadKyberPreKey s kid = sql_row s (map_option fst (map_of (sq_kyberPrekeys s) kid))"
definition sql_StoreKyberPreKey where
  "sql_StoreKyberPreKey s kid rcd =
    sql_exec (\<lambda>s. s\<lparr> sq_kyberPrekeys := AList.update kid (rcd, False) (sq_kyberPrekeys s) \<rparr>) s"

text \<open>UPDATE changes nothing when no row has the id.\<close>

definition sql_MarkKyberPreKeyUsed where
  "sql_MarkKyberPreKeyUsed s kid =
    sql_exec (\<lambda>s. s\<lparr> sq_kyberPrekeys :=
      map (\<lambda>(i, r, u). if i = kid then (i, r, True) else (i, r, u)) (sq_kyberPrekeys s) \<rparr>) s"

definition sql_LoadSenderKey :: "sql_stores \<Rightarrow> Address \<times> string \<Rightarrow> store_err + bytes" where
  "sql_LoadSenderKey s k = sql_row s (map_of (sq_senderKeys s) (Address_String (fst k), snd k))"
definition sql_StoreSenderKey where
  "sql_StoreSenderKey s k rcd =
    sql_exec (\<lambda>s. s\<lparr> sq_senderKeys :=
      AList.update (Address_String (fst k), snd k) rcd (sq_senderKeys s) \<rparr>) s"

definition sql_CountAvailable :: "sql_stores \<Rightarrow> u32 \<Rightarrow> store_err + (nat \<times> nat)" where
  "sql_CountAvailable s lastResortKyberID =
    (case sq_fault s of
       Some e \<Rightarrow> Inl (SqlError e)
     | None \<Rightarrow> Inr (length (sq_prekeys s),
         length (filter (\<lambda>(kid, r, used). kid \<noteq> lastResortKyberID \<and> \<not> used) (sq_kyberPrekeys s))))"

end
