(* ===== verification/PreKeys.thy ===== *)
theory PreKeys
  imports Stores
begin

text \<open>
  Prekey generation: internal/prekeys/prekeys.go and internal/prekeys/persist.go, and the
  account state of internal/account/account.go. Key generation, signing and record
  serialisation of libsignal are the fields of \<open>keygen\<close>; each generation consumes the random
  source \<open>'r\<close>.
\<close>

definition MaxID :: u32 where "MaxID = 0x3FFE"

record SignedPreKey =
  spk_ID :: u32
  spk_PublicKey :: bytes
  spk_PrivateKey :: bytes
  spk_Signature :: bytes

record LastResortKyberPreKey =
  lrk_ID :: u32
  lrk_PublicKey :: bytes
  lrk_SecretKey :: bytes
  lrk_Signature :: bytes
  lrk_RecordBlob :: bytes

record PreKey =
  pk_ID :: u32
  pk_PublicKey :: bytes
  pk_PrivateKey :: bytes

record KyberPreKey =
  kpk_ID :: u32
  kpk_PublicKey :: bytes
  kpk_SecretKey :: bytes
  kpk_Signature :: bytes

record 'r keygen =
  kg_ec :: "'r \<Rightarrow> (string + (bytes \<times> bytes)) \<times> 'r"
  kg_kyber :: "'r \<Rightarrow> (string + (bytes \<times> bytes)) \<times> 'r"
  kg_sign :: "bytes \<Rightarrow> bytes \<Rightarrow> string + bytes"
  kg_ec_record :: "u32 \<Rightarrow> bytes \<Rightarrow> bytes \<Rightarrow> string + bytes"
  kg_kyber_record :: "u32 \<Rightarrow> u64 \<Rightarrow> bytes \<times> bytes \<Rightarrow> bytes \<Rightarrow> string + bytes"

datatype prekey_err =
    CountNotPositive
  | IDOutOfRange u32
  | LibsignalErr string
  | PairMismatch
  | StoreErr store_err
  | UploadErr string
  | NilWebClient

definition validateID :: "u32 \<Rightarrow> prekey_err + unit" where
  "validateID kid = (if kid = 0 \<or> kid > MaxID then Inl (IDOutOfRange kid) else Inr ())"

lemma validateID_ok [guard_simps]: "validateID kid = Inr () \<longleftrightarrow> kid \<noteq> 0 \<and> kid \<le> MaxID"
  by (auto simp: validateID_def not_less)

section \<open>Generation\<close>

text \<open>Public and private bytes of a fresh Curve25519 key, then the signature over the public.\<close>

definition GenerateSignedPreKey ::
  "'r keygen \<Rightarrow> bytes \<Rightarrow> u32 \<Rightarrow> 'r \<Rightarrow> (prekey_err + SignedPreKey) \<times> 'r" where
  "GenerateSignedPreKey K identityPriv kid r =
    (case validateID kid of
       Inl e \<Rightarrow> (Inl e, r)
     | Inr _ \<Rightarrow>
         (case kg_ec K r of
            (Inl e, r') \<Rightarrow> (Inl (LibsignalErr e), r')
          | (Inr (pub, priv), r') \<Rightarrow>
              (case kg_sign K identityPriv pub of
                 Inl e \<Rightarrow> (Inl (LibsignalErr e), r')
               | Inr sig \<Rightarrow> (Inr \<lparr> spk_ID = kid, spk_PublicKey = pub, spk_PrivateKey = priv,
                                  spk_Signature = sig \<rparr>, r'))))"

definition GenerateLastResortKyberPreKey ::
  "'r keygen \<Rightarrow> u64 \<Rightarrow> bytes \<Rightarrow> u32 \<Rightarrow> 'r \<Rightarrow> (prekey_err + LastResortKyberPreKey) \<times> 'r" where
  "GenerateLastResortKyberPreKey K now identityPriv kid r =
    (case validateID kid of
       Inl e \<Rightarrow> (Inl e, r)
     | Inr _ \<Rightarrow>
         (case kg_kyber K r of
            (Inl e, r') \<Rightarrow> (Inl (LibsignalErr e), r')
          | (Inr (pub, sec), r') \<Rightarrow>
              (case kg_sign K identityPriv pub of
                 Inl e \<Rightarrow> (Inl (LibsignalErr e), r')
               | Inr sig \<Rightarrow>
                   (case kg_kyber_record K kid now (pub, sec) sig of
                      Inl e \<Rightarrow> (Inl (LibsignalErr e), r')
                    | Inr blob \<Rightarrow> (Inr \<lparr> lrk_ID = kid, lrk_PublicKey = pub, lrk_SecretKey = sec,
                                        lrk_Signature = sig, lrk_RecordBlob = blob \<rparr>, r')))))"

text \<open>\<open>left\<close> is \<open>count - i\<close>; the id is computed in uint32.\<close>

fun one_time_loop ::
  "'r keygen \<Rightarrow> u32 \<Rightarrow> nat \<Rightarrow> nat \<Rightarrow> PreKey list \<Rightarrow> 'r \<Rightarrow> (prekey_err + PreKey list) \<times> 'r" where
  "one_time_loop K startID i 0 out r = (Inr out, r)"
| "one_time_loop K startID i (Suc left) out r =
    (let kid = startID + of_nat i in
     case validateID kid of
       Inl e \<Rightarrow> (Inl e, r)
     | Inr _ \<Rightarrow>
         (case kg_ec K r of
            (Inl e, r') \<Rightarrow> (Inl (LibsignalErr e), r')
          | (Inr (pub, priv), r') \<Rightarrow>
              one_time_loop K startID (i + 1) left
                (out @ [\<lparr> pk_ID = kid, pk_PublicKey = pub, pk_PrivateKey = priv \<rparr>]) r'))"

definition GenerateOneTimePreKeys ::
  "'r keygen \<Rightarrow> u32 \<Rightarrow> int \<Rightarrow> 'r \<Rightarrow> (prekey_err + PreKey list) \<times> 'r" where
  "GenerateOneTimePreKeys K startID count r =
    (if count \<le> 0 then (Inl CountNotPositive, r)
     else one_time_loop K startID 0 (nat count) [] r)"

fun one_time_kyber_loop ::
  "'r keygen \<Rightarrow> bytes \<Rightarrow> u32 \<Rightarrow> nat \<Rightarrow> nat \<Rightarrow> KyberPreKey list \<Rightarrow> 'r \<Rightarrow>
   (prekey_err + KyberPreKey list) \<times> 'r" where
  "one_time_kyber_loop K identityPriv startID i 0 out r = (Inr out, r)"
| "one_time_kyber_loop K identityPriv startID i (Suc left) out r =
    (let kid = startID + of_nat i in
     case validateID kid of
       Inl e \<Rightarrow> (Inl e, r)
     | Inr _ \<Rightarrow>
         (case kg_kyber K r of
            (Inl e, r') \<Rightarrow> (Inl (LibsignalErr e), r')
          | (Inr (pub, sec), r') \<Rightarrow>
              (case kg_sign K identityPriv pub of
                 Inl e \<Rightarrow> (Inl (LibsignalErr e), r')
               | Inr sig \<Rightarrow>
                   one_time_kyber_loop K identityPriv startID (i + 1) left
                     (out @ [\<lparr> kpk_ID = kid, kpk_PublicKey = pub, kpk_SecretKey = sec,
                               kpk_Signature = sig \<rparr>]) r')))"

definition GenerateOneTimeKyberPreKeys ::
  "'r keygen \<Rightarrow> bytes \<Rightarrow> u32 \<Rightarrow> int \<Rightarrow> 'r \<Rightarrow> (prekey_err + KyberPreKey list) \<times> 'r" where
  "GenerateOneTimeKyberPreKeys K identityPriv startID count r =
    (if count \<le> 0 then (Inl CountNotPositive, r)
     else one_time_kyber_loop K identityPriv startID 0 (nat count) [] r)"

text \<open>
  The random source as the 32-bit words that successive reads deliver; None when it ends (the
  read error).
\<close>

fun NewRegistrationID :: "u32 list \<Rightarrow> u32 option" where
  "NewRegistrationID [] = None"
| "NewRegistrationID (b # bs) =
    (let rid = b AND 0x3FFF in
     if rid \<noteq> 0 \<and> rid \<le> MaxID then Some rid else NewRegistrationID bs)"

section \<open>Persisting\<close>

fun persist_ec ::
  "'r keygen \<Rightarrow> PreKey list \<Rightarrow> sql_stores \<Rightarrow> sql_stores \<times> (prekey_err + unit)" where
  "persist_ec K [] s = (s, Inr ())"
| "persist_ec K (p # ps) s =
    (case kg_ec_record K (pk_ID p) (pk_PrivateKey p) (pk_PublicKey p) of
       Inl e \<Rightarrow> (s, Inl (LibsignalErr e))
     | Inr blob \<Rightarrow>
         (case sql_StorePreKey s (pk_ID p) blob of
            (s', Inl e) \<Rightarrow> (s', Inl (StoreErr e))
          | (s', Inr _) \<Rightarrow> persist_ec K ps s'))"

fun persist_kem ::
  "'r keygen \<Rightarrow> u64 \<Rightarrow> KyberPreKey list \<Rightarrow> (bytes \<times> bytes) list \<Rightarrow> sql_stores \<Rightarrow>
   sql_stores \<times> (prekey_err + unit)" where
  "persist_kem K ts (p # ps) (pr # prs) s =
    (case kg_kyber_record K (kpk_ID p) ts pr (kpk_Signature p) of
       Inl e \<Rightarrow> (s, Inl (LibsignalErr e))
     | Inr blob \<Rightarrow>
         (case sql_StoreKyberPreKey s (kpk_ID p) blob of
            (s', Inl e) \<Rightarrow> (s', Inl (StoreErr e))
          | (s', Inr _) \<Rightarrow> persist_kem K ts ps prs s'))"
| "persist_kem K ts _ _ s = (s, Inr ())"

definition PersistOneTimePreKeys ::
  "'r keygen \<Rightarrow> u64 \<Rightarrow> sql_stores option \<Rightarrow> PreKey list \<Rightarrow> KyberPreKey list \<Rightarrow>
   (bytes \<times> bytes) list \<Rightarrow> sql_stores option \<times> (prekey_err + unit)" where
  "PersistOneTimePreKeys K ts stores ec kem pairs =
    (case stores of
       None \<Rightarrow> (None, Inr ())
     | Some s \<Rightarrow>
         if length kem \<noteq> length pairs then (Some s, Inl PairMismatch)
         else
           (case persist_ec K ec s of
              (s1, Inl e) \<Rightarrow> (Some s1, Inl e)
            | (s1, Inr _) \<Rightarrow> map_prod Some (\<lambda>x. x) (persist_kem K ts kem pairs s1)))"

section \<open>Accounts\<close>

record Identity =
  id_PublicKey :: bytes
  id_PrivateKey :: bytes
  id_RegistrationID :: u32
  id_SignedPreKey :: SignedPreKey
  id_LastResort :: LastResortKyberPreKey
  id_NextPreKeyID :: u32
  id_NextKyberPreKeyID :: u32

record Account =
  ac_ACI :: string
  ac_PNI :: string
  ac_Number :: string
  ac_DeviceID :: u32
  ac_Password :: string
  ac_ProfileKey :: bytes
  ac_AccountEntropyPool :: string
  ac_ReadReceipts :: bool
  ac_ACIIdentity :: Identity
  ac_PNIIdentity :: Identity

datatype account_err =
    AccNil | AccMissingACI | AccMissingNumber | AccDeviceZero | AccMissingPassword
  | AccPublicKeyLen nat | AccPrivateKeyLen nat | AccRegistrationID u32
  | AccSignedPreKey | AccLastResort
  | AccACIIdentity account_err | AccPNIIdentity account_err

definition Identity_Validate :: "Identity \<Rightarrow> account_err + unit" where
  "Identity_Validate i =
    (if length (id_PublicKey i) \<noteq> 33 then Inl (AccPublicKeyLen (length (id_PublicKey i)))
     else if length (id_PrivateKey i) \<noteq> 32 then Inl (AccPrivateKeyLen (length (id_PrivateKey i)))
     else if id_RegistrationID i = 0 \<or> id_RegistrationID i > MaxID
     then Inl (AccRegistrationID (id_RegistrationID i))
     else if length (spk_PublicKey (id_SignedPreKey i)) \<noteq> 33 \<or>
             length (spk_Signature (id_SignedPreKey i)) \<noteq> 64 then Inl AccSignedPreKey
     else if length (lrk_PublicKey (id_LastResort i)) < 1000 \<or>
             length (lrk_Signature (id_LastResort i)) \<noteq> 64 then Inl AccLastResort
     else Inr ())"

definition Account_Validate :: "Account option \<Rightarrow> account_err + unit" where
  "Account_Validate acc =
    (case acc of
       None \<Rightarrow> Inl AccNil
     | Some a \<Rightarrow>
         if ac_ACI a = [] then Inl AccMissingACI
         else if ac_Number a = [] then Inl AccMissingNumber
         else if ac_DeviceID a = 0 then Inl AccDeviceZero
         else if ac_Password a = [] then Inl AccMissingPassword
         else case Identity_Validate (ac_ACIIdentity a) of
             Inl e \<Rightarrow> Inl (AccACIIdentity e)
           | Inr _ \<Rightarrow> wrapR AccPNIIdentity (Identity_Validate (ac_PNIIdentity a)))"

section \<open>Redacted logging\<close>

datatype log_value =
    LNil | LStr string | LNum nat | LBool bool | LGroup "(string \<times> log_value) list"

definition redactBytes :: "bytes \<Rightarrow> string" where
  "redactBytes b = (if length b = 0 then ''[empty]''
     else ''[REDACTED '' @ dec_digits (length b) @ '' bytes]'')"

definition redactString :: "string \<Rightarrow> string" where
  "redactString s = (if s = [] then ''[empty]''
     else ''[REDACTED '' @ dec_digits (length s) @ '' chars]'')"

definition redactNumber :: "string \<Rightarrow> string" where
  "redactNumber num =
    (if num = [] then [] else if length num \<le> 4 then ''[REDACTED]''
     else take 4 num @ ''[REDACTED]'')"

definition Identity_LogValue :: "Identity option \<Rightarrow> log_value" where
  "Identity_LogValue idt =
    (case idt of
       None \<Rightarrow> LNil
     | Some i \<Rightarrow> LGroup [(''publicKey'', LStr (redactBytes (id_PublicKey i))),
         (''privateKey'', LStr ''[REDACTED]''),
         (''registrationId'', LNum (unat (id_RegistrationID i)))])"

definition Account_LogValue :: "Account option \<Rightarrow> log_value" where
  "Account_LogValue acc =
    (case acc of
       None \<Rightarrow> LNil
     | Some a \<Rightarrow> LGroup
        [(''aci'', LStr (ac_ACI a)), (''pni'', LStr (ac_PNI a)),
         (''number'', LStr (redactNumber (ac_Number a))),
         (''deviceId'', LNum (unat (ac_DeviceID a))),
         (''password'', LStr ''[REDACTED]''),
         (''profileKey'', LStr (redactBytes (ac_ProfileKey a))),
         (''accountEntropyPool'', LStr (redactString (ac_AccountEntropyPool a))),
         (''readReceipts'', LBool (ac_ReadReceipts a)),
         (''aciIdentity'', Identity_LogValue (Some (ac_ACIIdentity a))),
         (''pniIdentity'', Identity_LogValue (Some (ac_PNIIdentity a)))])"

section \<open>Facts\<close>

lemma one_time_loop_ok:
  "one_time_loop K s i left out r = (Inr ps, r') \<Longrightarrow>
   \<exists>qs. ps = out @ qs \<and> map pk_ID qs = map (\<lambda>j. s + of_nat j) [i..<i + left] \<and>
     list_all (\<lambda>p. pk_ID p \<noteq> 0 \<and> pk_ID p \<le> MaxID) qs"
proof (induction left arbitrary: i out r)
  case (Suc left)
  then obtain pub priv r1 where v: "validateID (s + of_nat i) = Inr ()"
    and l: "one_time_loop K s (i + 1) left
      (out @ [\<lparr> pk_ID = s + of_nat i, pk_PublicKey = pub, pk_PrivateKey = priv \<rparr>]) r1 = (Inr ps, r')"
    by (auto simp: Let_def split: sum.splits prod.splits)
  from Suc.IH [OF l] obtain qs where
    q: "ps = (out @ [\<lparr> pk_ID = s + of_nat i, pk_PublicKey = pub, pk_PrivateKey = priv \<rparr>]) @ qs"
      "map pk_ID qs = map (\<lambda>j. s + of_nat j) [i + 1..<i + 1 + left]"
      "list_all (\<lambda>p. pk_ID p \<noteq> 0 \<and> pk_ID p \<le> MaxID) qs" by blast
  have "[i..<i + Suc left] = i # [i + 1..<i + 1 + left]" by (simp add: upt_rec)
  then show ?case using q v
    by (intro exI [of _ "\<lparr> pk_ID = s + of_nat i, pk_PublicKey = pub, pk_PrivateKey = priv \<rparr> # qs"])
       (simp add: guard_simps)
qed simp

text \<open>The ids never wrap: a batch that would leave the range fails.\<close>

lemma one_time_loop_range:
  "unat s + i + left > 0x3FFF \<Longrightarrow> unat s + i < 0x3FFF \<Longrightarrow> 0 < unat s \<Longrightarrow>
   \<not> is_ok (fst (one_time_loop K s i left out r))"
proof (induction left arbitrary: i out r)
  case (Suc left)
  have u: "unat (s + of_nat i) = unat s + i"
    using Suc.prems(2) by (simp add: unat_word_ariths unat_of_nat)
  show ?case
  proof (cases "kg_ec K r")
    case (Pair res r1)
    show ?thesis
    proof (cases res)
      case (Inl e)
      then show ?thesis using Pair by (auto simp: Let_def split: sum.splits)
    next
      case (Inr kp)
      obtain pub priv where kp: "kp = (pub, priv)" by (cases kp)
      show ?thesis
      proof (cases "unat s + (i + 1) < 0x3FFF")
        case True
        then show ?thesis using Suc.IH [of "i + 1"] Suc.prems Pair Inr kp
          by (auto simp: Let_def split: sum.splits)
      next
        case False
        then have e: "unat s + i = 0x3FFE" using Suc.prems by simp
        then have "left \<noteq> 0" using Suc.prems by simp
        then obtain l where l: "left = Suc l" by (cases left) auto
        have "unat (s + of_nat (Suc i)) = 0x3FFF"
          using e by (simp add: unat_word_ariths unat_of_nat del: of_nat_Suc)
        then have "s + of_nat (Suc i) > MaxID" by (simp add: word_less_nat_alt MaxID_def del: of_nat_Suc)
        then show ?thesis using Pair Inr kp l
          by (auto simp: Let_def validateID_def simp del: of_nat_Suc)
      qed
    qed
  qed
qed simp

lemma NewRegistrationID_range: "NewRegistrationID bs = Some x \<Longrightarrow> x \<noteq> 0 \<and> x \<le> MaxID"
  by (induction bs) (auto simp: Let_def split: if_splits)

text \<open>Consecutive ids of a batch shorter than the id space do not repeat.\<close>

lemma word_upto_distinct:
  "n < 2 ^ 32 \<Longrightarrow> distinct (map (\<lambda>j. (s :: u32) + of_nat j) [0..<n])"
proof -
  assume n: "n < 2 ^ 32"
  have "j = k" if "(of_nat j :: u32) = of_nat k" "j < n" "k < n" for j k
  proof -
    have b: "j < 2 ^ 32" "k < 2 ^ 32" using that(2,3) n by (blast intro: less_trans)+
    have "j mod 2 ^ 32 = k mod 2 ^ 32"
      using arg_cong [OF that(1), of unat] by (simp add: unat_of_nat)
    then show ?thesis using b by simp
  qed
  then show ?thesis by (auto simp: distinct_map inj_on_def)
qed

lemma validateID_nat: "validateID kid = Inr () \<longleftrightarrow> 0 < unat kid \<and> unat kid \<le> 0x3FFE"
  by (auto simp: guard_simps MaxID_def word_le_nat_alt unat_gt_0)

lemma one_time_loop_total:
  assumes K: "\<And>r. is_ok (fst (kg_ec K r))"
  shows "0 < unat s \<Longrightarrow> unat s + i + left \<le> 0x3FFF \<Longrightarrow> is_ok (fst (one_time_loop K s i left out r))"
proof (induction left arbitrary: i out r)
  case (Suc left)
  have "unat (s + of_nat i) = unat s + i"
    using Suc.prems(2) by (simp add: unat_word_ariths unat_of_nat)
  then have "validateID (s + of_nat i) = Inr ()" using Suc.prems by (simp add: validateID_nat)
  then show ?case
    using Suc.IH [of "i + 1"] Suc.prems K [of r]
    by (auto simp: Let_def split: prod.splits sum.splits)
qed simp

lemma one_time_batch_fits:
  assumes g: "is_ok (fst (GenerateOneTimePreKeys K s count r))"
  shows "0 < count \<and> 0 < unat s \<and> unat s + nat count \<le> 0x3FFF"
proof -
  have c: "0 < count" using g by (auto simp: GenerateOneTimePreKeys_def split: if_splits)
  then obtain n where n: "nat count = Suc n" using gr0_implies_Suc by fastforce
  have l: "is_ok (fst (one_time_loop K s 0 (nat count) [] r))"
    using g c by (simp add: GenerateOneTimePreKeys_def)
  then have "validateID s = Inr ()"
    by (auto simp: n Let_def split: sum.splits)
  then have s: "0 < unat s" "unat s \<le> 0x3FFE" by (simp_all add: validateID_nat)
  with l one_time_loop_range [of s 0 "nat count" K "[]" r] show ?thesis
    using c by force
qed

section \<open>Properties\<close>

text \<open>
  A batch of one-time prekeys. When key generation works, GenerateOneTimePreKeys succeeds
  exactly when the count is positive and the whole batch lies in the id range 1..0x3FFE (ids
  never wrap round to a fresh start), and a batch it returns, with any key generation, has
  count keys with consecutive, distinct ids.
\<close>

theorem one_time_batch_spec:
  assumes K: "\<And>r. is_ok (fst (kg_ec K r))"
  shows "(is_ok (fst (GenerateOneTimePreKeys K s count r)) \<longleftrightarrow>
      0 < count \<and> 0 < unat s \<and> unat s + nat count \<le> 0x3FFF) \<and>
    (\<forall>ps r'. GenerateOneTimePreKeys K s count r = (Inr ps, r') \<longrightarrow>
      map (unat \<circ> pk_ID) ps = [unat s..<unat s + nat count] \<and> distinct (map pk_ID ps))"
proof (intro conjI allI impI)
  show "is_ok (fst (GenerateOneTimePreKeys K s count r)) \<longleftrightarrow>
      0 < count \<and> 0 < unat s \<and> unat s + nat count \<le> 0x3FFF"
    using one_time_batch_fits [of K s count r] one_time_loop_total [OF K, of s 0 "nat count" "[]" r]
    by (auto simp: GenerateOneTimePreKeys_def)
next
  fix ps r' assume g: "GenerateOneTimePreKeys K s count r = (Inr ps, r')"
  then have b: "0 < count" "unat s + nat count \<le> 0x3FFF"
    using one_time_batch_fits [of K s count r] by simp_all
  then have m: "map pk_ID ps = map (\<lambda>j. s + of_nat j) [0..<nat count]"
    using one_time_loop_ok [of K s 0 "nat count" "[]" r ps r'] g
    by (auto simp: GenerateOneTimePreKeys_def)
  have "map (unat \<circ> pk_ID) ps = map unat (map pk_ID ps)" by simp
  also have "\<dots> = map (\<lambda>j. unat s + j) [0..<nat count]"
    using b unfolding m by (auto simp: unat_word_ariths unat_of_nat)
  also have "\<dots> = [unat s..<unat s + nat count]"
    using map_add_upt [of "unat s" "nat count"] by (simp add: add.commute)
  finally show "map (unat \<circ> pk_ID) ps = [unat s..<unat s + nat count]" .
  show "distinct (map pk_ID ps)" unfolding m using b by (intro word_upto_distinct) simp
qed

definition sample_keygen :: "nat keygen" where
  "sample_keygen = \<lparr> kg_ec = (\<lambda>r. (Inr ([word_of_nat r], [word_of_nat (r + 1)]), r + 1)),
     kg_kyber = (\<lambda>r. (Inr ([word_of_nat r], [word_of_nat (r + 2)]), r + 1)),
     kg_sign = (\<lambda>priv m. Inr (priv @ m)), kg_ec_record = (\<lambda>k priv pub. Inr (priv @ pub)),
     kg_kyber_record = (\<lambda>k ts kp sig. Inr (fst kp @ sig)) \<rparr>"

lemma sample_ec: "is_ok (fst (kg_ec sample_keygen r))"
  by (simp add: sample_keygen_def)

text \<open>The last batch that fits, and the first that does not.\<close>

theorem one_time_batch_spec_witness:
  "is_ok (fst (GenerateOneTimePreKeys sample_keygen 0x3FFD 2 0)) \<and>
   \<not> is_ok (fst (GenerateOneTimePreKeys sample_keygen 0x3FFD 3 0))"
  using one_time_batch_spec [of sample_keygen "0x3FFD" 2 0, OF sample_ec]
    one_time_batch_spec [of sample_keygen "0x3FFD" 3 0, OF sample_ec] by simp

lemma and_14_bits: "unat v < 2 ^ 14 \<Longrightarrow> (v :: u32) AND 0x3FFF = v"
proof -
  assume "unat v < 2 ^ 14"
  then have "unat (take_bit 14 v) = unat v" by (simp add: unsigned_take_bit_eq take_bit_nat_eq_self)
  then have "take_bit 14 v = v" by (rule unsigned_word_eqI)
  moreover have "(0x3FFF :: u32) = mask 14" by (simp add: mask_eq_exp_minus_1)
  ultimately show ?thesis by (simp only: take_bit_eq_mask)
qed

lemma MaxID_range: "x \<noteq> 0 \<and> x \<le> MaxID \<longleftrightarrow> unat (x :: u32) \<in> {1..0x3FFE}"
  using validateID_nat [of x] validateID_ok [of x] by auto

text \<open>
  NewRegistrationID draws until the low 14 bits of a word are a valid id: its result is the
  first of the masked words that lies in 1..0x3FFE, it fails only when the random source ends
  before one does, and every valid id can be drawn.
\<close>

theorem registration_id_spec:
  "NewRegistrationID bs = List.find (\<lambda>x. unat x \<in> {1..0x3FFE}) (map (\<lambda>b. b AND 0x3FFF) bs) \<and>
   (unat v \<in> {1..0x3FFE} \<longrightarrow> NewRegistrationID (v # bs) = Some v)"
proof
  show "NewRegistrationID bs = List.find (\<lambda>x. unat x \<in> {1..0x3FFE}) (map (\<lambda>b. b AND 0x3FFF) bs)"
    by (induction bs) (simp_all add: Let_def MaxID_range)
  show "unat v \<in> {1..0x3FFE} \<longrightarrow> NewRegistrationID (v # bs) = Some v"
    using MaxID_range [of v] by (auto simp: Let_def and_14_bits)
qed

text \<open>Both namespaces draw 0x3FFF from the first word and reject it.\<close>

theorem registration_id_spec_witness:
  "NewRegistrationID [0x3FFF, 0x8000, 0x8001] = Some 1"
  using registration_id_spec [of "[0x3FFF, 0x8000, 0x8001]" 1] by simp

section \<open>Account properties\<close>

definition identity_well_formed :: "Identity \<Rightarrow> bool" where
  "identity_well_formed i \<longleftrightarrow> length (id_PublicKey i) = 33 \<and> length (id_PrivateKey i) = 32 \<and>
     validateID (id_RegistrationID i) = Inr () \<and>
     length (spk_PublicKey (id_SignedPreKey i)) = 33 \<and> length (spk_Signature (id_SignedPreKey i)) = 64 \<and>
     1000 \<le> length (lrk_PublicKey (id_LastResort i)) \<and> length (lrk_Signature (id_LastResort i)) = 64"

lemma Identity_Validate_ok: "is_ok (Identity_Validate i) \<longleftrightarrow> identity_well_formed i"
  by (auto simp: Identity_Validate_def identity_well_formed_def guard_simps not_less)

text \<open>
  Account.Validate accepts exactly the accounts whose required fields are present and whose
  two identities have a 33-byte public and 32-byte private key, a registration id in the range
  that prekey ids and registration ids share, and well-sized signed prekeys; a nil account is
  refused.
\<close>

theorem account_validate_iff:
  "is_ok (Account_Validate acc) \<longleftrightarrow>
     (\<exists>a. acc = Some a \<and> ac_ACI a \<noteq> [] \<and> ac_Number a \<noteq> [] \<and> ac_DeviceID a \<noteq> 0 \<and>
       ac_Password a \<noteq> [] \<and> identity_well_formed (ac_ACIIdentity a) \<and>
       identity_well_formed (ac_PNIIdentity a))"
  by (cases acc) (auto simp: Account_Validate_def Identity_Validate_ok [symmetric] is_ok_iff split: sum.splits)

lemma redactBytes_eq: "redactBytes b = redactBytes c \<longleftrightarrow> length b = length c"
  by (auto simp: redactBytes_def dec_digits_inj)

lemma redactString_eq: "redactString b = redactString c \<longleftrightarrow> length b = length c"
  by (auto simp: redactString_def dec_digits_inj)

lemma redactNumber_eq:
  "redactNumber m = redactNumber n \<longleftrightarrow>
     (m = [] \<longleftrightarrow> n = []) \<and> (4 < length m \<longleftrightarrow> 4 < length n) \<and>
     (if 4 < length m then take 4 m = take 4 n else True)"
proof -
  have l: "length (redactNumber k) = (if k = [] then 0 else if length k \<le> 4 then 10 else 14)" for k
    by (simp add: redactNumber_def)
  consider "m = [] \<or> n = []" | "m \<noteq> []" "n \<noteq> []" "length m \<le> 4 \<or> length n \<le> 4"
    | "4 < length m" "4 < length n" by fastforce
  then show ?thesis
  proof cases
    case 1
    then show ?thesis using l [of m] l [of n] by (auto split: if_splits)
  next
    case 2
    then show ?thesis
      using l [of m] l [of n] by (cases "length m \<le> 4"; cases "length n \<le> 4") (auto simp: redactNumber_def)
  next
    case 3
    then show ?thesis by (auto simp: redactNumber_def)
  qed
qed

text \<open>
  What logging an account can reveal. Two accounts have the same log value exactly when they
  agree on the ACI, the PNI, the device id, the read-receipt setting, the registration ids, the
  first four characters of a longer phone number, and the lengths of the profile key, of the
  entropy pool and of the public keys: no log value depends on the password, the private keys,
  the prekeys or the contents of the profile key and the entropy pool.
\<close>

theorem account_log_leakage:
  "Account_LogValue (Some a) = Account_LogValue (Some b) \<longleftrightarrow>
     ac_ACI a = ac_ACI b \<and> ac_PNI a = ac_PNI b \<and> ac_DeviceID a = ac_DeviceID b \<and>
     ac_ReadReceipts a = ac_ReadReceipts b \<and>
     id_RegistrationID (ac_ACIIdentity a) = id_RegistrationID (ac_ACIIdentity b) \<and>
     id_RegistrationID (ac_PNIIdentity a) = id_RegistrationID (ac_PNIIdentity b) \<and>
     (ac_Number a = [] \<longleftrightarrow> ac_Number b = []) \<and>
     (4 < length (ac_Number a) \<longleftrightarrow> 4 < length (ac_Number b)) \<and>
     (if 4 < length (ac_Number a) then take 4 (ac_Number a) = take 4 (ac_Number b) else True) \<and>
     length (ac_ProfileKey a) = length (ac_ProfileKey b) \<and>
     length (ac_AccountEntropyPool a) = length (ac_AccountEntropyPool b) \<and>
     length (id_PublicKey (ac_ACIIdentity a)) = length (id_PublicKey (ac_ACIIdentity b)) \<and>
     length (id_PublicKey (ac_PNIIdentity a)) = length (id_PublicKey (ac_PNIIdentity b))"
  by (auto simp: Account_LogValue_def Identity_LogValue_def redactBytes_eq redactString_eq redactNumber_eq
      intro: unsigned_word_eqI)

end
