(* ===== verification/StoreLaws.thy ===== *)
theory StoreLaws
  imports Stores
begin

text \<open>
  What the clients of the stores rely on, as locales, and the two implementations as their
  interpretations; then the SQLite store as a refinement of the in-memory one: operation
  sequences give the same results on both, except in the cases \<open>op_ok\<close> excludes, where they
  differ.
\<close>

lemma map_of_update [simp]: "map_of (AList.update k v al) k' = (if k' = k then Some v else map_of al k')"
  by (simp add: update_conv')

lemma map_of_delete [simp]: "map_of (AList.delete k al) k' = (if k' = k then None else map_of al k')"
  by (simp add: delete_conv')

lemma Address_String_eq [simp]: "Address_String a = Address_String b \<longleftrightarrow> a = b"
  using Address_String_inj by blast

section \<open>Record stores\<close>

locale record_store =
  fixes load :: "'s \<Rightarrow> 'k \<Rightarrow> store_err + bytes"
    and put :: "'s \<Rightarrow> 'k \<Rightarrow> bytes \<Rightarrow> 's"
    and ready :: "'s \<Rightarrow> bool"
  assumes load_put: "ready s \<Longrightarrow> load (put s k r) k' = (if k' = k then Inr r else load s k')"
    and ready_put: "ready s \<Longrightarrow> ready (put s k r)"
begin

lemma last_write_wins: "ready s \<Longrightarrow> load (put (put s k r) k r') k = Inr r'"
  by (simp add: load_put ready_put)

lemma put_commutes:
  "ready s \<Longrightarrow> k1 \<noteq> k2 \<Longrightarrow> load (put (put s k1 r1) k2 r2) k = load (put (put s k2 r2) k1 r1) k"
  by (simp add: load_put ready_put)

lemma load_writes:
  "ready s \<Longrightarrow> load (foldl (\<lambda>s (k, r). put s k r) s ws) k =
     (case map_of (rev ws) k of Some r \<Rightarrow> Inr r | None \<Rightarrow> load s k)"
proof (induction ws arbitrary: s)
  case (Cons kr ws)
  obtain k' r where "kr = (k', r)" by (cases kr)
  then show ?case
    using Cons.IH [of "put s k' r"] Cons.prems
    by (auto simp: load_put ready_put map_add_def split: option.splits)
qed simp

end

locale deletable_store = record_store +
  fixes remove :: "'a \<Rightarrow> 'b \<Rightarrow> 'a"
  assumes load_remove: "ready s \<Longrightarrow> load (remove s k) k' =
      (if k' = k then Inl ErrRecordNotFound else load s k')"
    and ready_remove: "ready s \<Longrightarrow> ready (remove s k)"
begin

lemma remove_idempotent: "ready s \<Longrightarrow> load (remove (remove s k) k) k' = load (remove s k) k'"
  by (simp add: load_remove ready_remove)

lemma put_remove: "ready s \<Longrightarrow> load (remove (put s k r) k) k = Inl ErrRecordNotFound"
  by (simp add: load_remove ready_put)

end

definition sql_ready :: "sql_stores \<Rightarrow> bool" where
  "sql_ready s \<longleftrightarrow> sq_fault s = None"

lemmas mem_defs = found_def mem_LoadSession_def mem_StoreSession_def mem_DeleteSession_def
  mem_LoadPreKey_def mem_StorePreKey_def mem_RemovePreKey_def mem_LoadSignedPreKey_def
  mem_StoreSignedPreKey_def mem_LoadKyberPreKey_def mem_StoreKyberPreKey_def
  mem_LoadSenderKey_def mem_StoreSenderKey_def

lemmas sql_defs = sql_ready_def sql_row_def sql_exec_def sql_LoadSession_def sql_StoreSession_def
  sql_DeleteSession_def sql_LoadPreKey_def sql_StorePreKey_def sql_RemovePreKey_def
  sql_LoadSignedPreKey_def sql_StoreSignedPreKey_def sql_LoadKyberPreKey_def
  sql_StoreKyberPreKey_def sql_LoadSenderKey_def sql_StoreSenderKey_def

interpretation mem_sessions: deletable_store mem_LoadSession mem_StoreSession "\<lambda>_. True"
  mem_DeleteSession
  by unfold_locales (auto simp: mem_defs split: option.splits)

interpretation mem_prekeys: deletable_store mem_LoadPreKey mem_StorePreKey "\<lambda>_. True"
  mem_RemovePreKey
  by unfold_locales (auto simp: mem_defs split: option.splits)

interpretation mem_signed: record_store mem_LoadSignedPreKey mem_StoreSignedPreKey "\<lambda>_. True"
  by unfold_locales (auto simp: mem_defs split: option.splits)

interpretation mem_kyber: record_store mem_LoadKyberPreKey mem_StoreKyberPreKey "\<lambda>_. True"
  by unfold_locales (auto simp: mem_defs split: option.splits)

interpretation mem_sender: record_store mem_LoadSenderKey mem_StoreSenderKey "\<lambda>_. True"
  by unfold_locales (auto simp: mem_defs prod_eq_iff split: option.splits)

interpretation sql_sessions: deletable_store sql_LoadSession
  "\<lambda>s a r. fst (sql_StoreSession s a r)" sql_ready "\<lambda>s a. fst (sql_DeleteSession s a)"
  by unfold_locales (auto simp: sql_defs split: option.splits)

interpretation sql_prekeys: deletable_store sql_LoadPreKey
  "\<lambda>s k r. fst (sql_StorePreKey s k r)" sql_ready "\<lambda>s k. fst (sql_RemovePreKey s k)"
  by unfold_locales (auto simp: sql_defs split: option.splits)

interpretation sql_signed: record_store sql_LoadSignedPreKey
  "\<lambda>s k r. fst (sql_StoreSignedPreKey s k r)" sql_ready
  by unfold_locales (auto simp: sql_defs split: option.splits)

interpretation sql_kyber: record_store sql_LoadKyberPreKey
  "\<lambda>s k r. fst (sql_StoreKyberPreKey s k r)" sql_ready
  by unfold_locales (auto simp: sql_defs split: option.splits)

interpretation sql_sender: record_store sql_LoadSenderKey
  "\<lambda>s k r. fst (sql_StoreSenderKey s k r)" sql_ready
  by unfold_locales (auto simp: sql_defs prod_eq_iff split: option.splits)

section \<open>Identity stores: trust on first use\<close>

locale identity_store =
  fixes load :: "'s \<Rightarrow> Address \<Rightarrow> store_err + bytes"
    and save :: "'s \<Rightarrow> Address \<Rightarrow> bytes \<Rightarrow> 's \<times> (store_err + SaveIdentityResult)"
    and trusted :: "'s \<Rightarrow> Address \<Rightarrow> bytes \<Rightarrow> store_err + bool"
    and ready :: "'s \<Rightarrow> bool"
  assumes load_save: "ready s \<Longrightarrow> load (fst (save s a k)) b = (if b = a then Inr k else load s b)"
    and ready_save: "ready s \<Longrightarrow> ready (fst (save s a k))"
    and trusted_load: "ready s \<Longrightarrow>
      trusted s a k = (case load s a of Inl _ \<Rightarrow> Inr True | Inr k' \<Rightarrow> Inr (k' = k))"
    and save_result: "ready s \<Longrightarrow> snd (save s a k) =
      (case load s a of Inl _ \<Rightarrow> Inr IdentityUnchanged
       | Inr k' \<Rightarrow> Inr (if k' = k then IdentityUnchanged else IdentityReplaced))"
begin

lemma trusted_after_save:
  "ready s \<Longrightarrow> trusted (fst (save s a k)) b k' = (if b = a then Inr (k = k') else trusted s b k')"
  by (simp add: trusted_load ready_save load_save)

lemma replaced_iff_untrusted:
  "ready s \<Longrightarrow> snd (save s a k) = Inr IdentityReplaced \<longleftrightarrow> trusted s a k = Inr False"
  by (simp add: save_result trusted_load split: sum.splits)

lemma first_use: "ready s \<Longrightarrow> load s a = Inl e \<Longrightarrow> trusted s a k = Inr True"
  by (simp add: trusted_load)

end

interpretation mem_ident: identity_store mem_LoadIdentity mem_SaveIdentity mem_IsTrustedIdentity
  "\<lambda>_. True"
  by unfold_locales
     (auto simp: mem_LoadIdentity_def mem_SaveIdentity_def mem_IsTrustedIdentity_def found_def
       Let_def split: option.splits)

interpretation sql_ident: identity_store sql_LoadIdentity sql_SaveIdentity sql_IsTrustedIdentity
  sql_ready
  by unfold_locales
     (auto simp: sql_LoadIdentity_def sql_SaveIdentity_def sql_IsTrustedIdentity_def sql_row_def
       sql_ready_def Let_def split: option.splits)

lemma empty_stores_trust:
  "mem_IsTrustedIdentity mem_NewSignalStores a k = Inr True"
  "sql_IsTrustedIdentity sql_empty a k = Inr True"
  by (simp_all add: mem_IsTrustedIdentity_def mem_NewSignalStores_def sql_IsTrustedIdentity_def
      sql_LoadIdentity_def sql_row_def sql_empty_def)

text \<open>
  C25. Trust on first use in both stores: an address without a stored key trusts every key;
  after SaveIdentity it trusts exactly the saved key and other addresses are unaffected;
  IdentityReplaced is reported exactly when the new key was not trusted before.
\<close>

theorem identity_tofu:
  assumes "sq_fault q = None"
  shows "mem_IsTrustedIdentity (fst (mem_SaveIdentity m a k)) b k' =
      (if b = a then Inr (k = k') else mem_IsTrustedIdentity m b k') \<and>
    (snd (mem_SaveIdentity m a k) = Inr IdentityReplaced) = (mem_IsTrustedIdentity m a k = Inr False) \<and>
    mem_IsTrustedIdentity mem_NewSignalStores a k = Inr True \<and>
    sql_IsTrustedIdentity (fst (sql_SaveIdentity q a k)) b k' =
      (if b = a then Inr (k = k') else sql_IsTrustedIdentity q b k') \<and>
    (snd (sql_SaveIdentity q a k) = Inr IdentityReplaced) = (sql_IsTrustedIdentity q a k = Inr False) \<and>
    sql_IsTrustedIdentity sql_empty a k = Inr True"
  using assms
  by (simp add: mem_ident.trusted_after_save mem_ident.replaced_iff_untrusted
      sql_ident.trusted_after_save sql_ident.replaced_iff_untrusted sql_ready_def
      empty_stores_trust)

theorem identity_tofu_witness:
  "sql_IsTrustedIdentity (fst (sql_SaveIdentity sql_empty \<lparr> ad_ServiceID = ''a'', ad_DeviceID = 1 \<rparr>
     [5])) \<lparr> ad_ServiceID = ''a'', ad_DeviceID = 1 \<rparr> [6] = Inr False"
proof -
  have "sq_fault sql_empty = None" by (simp add: sql_empty_def)
  from identity_tofu [OF this, of undefined "\<lparr> ad_ServiceID = ''a'', ad_DeviceID = 1 \<rparr>" "[5]"
      "\<lparr> ad_ServiceID = ''a'', ad_DeviceID = 1 \<rparr>" "[6]"]
  show ?thesis by simp
qed

section \<open>The SQLite store refines the in-memory store\<close>

datatype store_op =
    OpSetLocalIdentity bytes bytes u32
  | OpLocalIdentityKey
  | OpLocalRegistrationID
  | OpLoadIdentity Address
  | OpSaveIdentity Address bytes
  | OpIsTrustedIdentity Address bytes
  | OpLoadSession Address
  | OpStoreSession Address bytes
  | OpDeleteSession Address
  | OpLoadPreKey u32
  | OpStorePreKey u32 bytes
  | OpRemovePreKey u32
  | OpLoadSignedPreKey u32
  | OpStoreSignedPreKey u32 bytes
  | OpLoadKyberPreKey u32
  | OpStoreKyberPreKey u32 bytes
  | OpMarkKyberPreKeyUsed u32
  | OpLoadSenderKey "Address \<times> string"
  | OpStoreSenderKey "Address \<times> string" bytes
  | OpCountAvailable u32

datatype store_res =
    RUnit | RBytes bytes | RPair "bytes \<times> bytes" | RNum u32 | RBool bool
  | RSave SaveIdentityResult | RCount "nat \<times> nat" | RErr store_err

fun res :: "('a \<Rightarrow> store_res) \<Rightarrow> store_err + 'a \<Rightarrow> store_res" where
  "res f (Inl e) = RErr e"
| "res f (Inr a) = f a"

fun mem_step :: "store_op \<Rightarrow> mem_stores \<Rightarrow> mem_stores \<times> store_res" where
  "mem_step (OpSetLocalIdentity p v r) s = (mem_SetLocalIdentity s p v r, RUnit)"
| "mem_step OpLocalIdentityKey s = (s, res RPair (mem_LocalIdentityKey s))"
| "mem_step OpLocalRegistrationID s = (s, res RNum (mem_LocalRegistrationID s))"
| "mem_step (OpLoadIdentity a) s = (s, res RBytes (mem_LoadIdentity s a))"
| "mem_step (OpSaveIdentity a k) s = map_prod (\<lambda>s. s) (res RSave) (mem_SaveIdentity s a k)"
| "mem_step (OpIsTrustedIdentity a k) s = (s, res RBool (mem_IsTrustedIdentity s a k))"
| "mem_step (OpLoadSession a) s = (s, res RBytes (mem_LoadSession s a))"
| "mem_step (OpStoreSession a r) s = (mem_StoreSession s a r, RUnit)"
| "mem_step (OpDeleteSession a) s = (mem_DeleteSession s a, RUnit)"
| "mem_step (OpLoadPreKey k) s = (s, res RBytes (mem_LoadPreKey s k))"
| "mem_step (OpStorePreKey k r) s = (mem_StorePreKey s k r, RUnit)"
| "mem_step (OpRemovePreKey k) s = (mem_RemovePreKey s k, RUnit)"
| "mem_step (OpLoadSignedPreKey k) s = (s, res RBytes (mem_LoadSignedPreKey s k))"
| "mem_step (OpStoreSignedPreKey k r) s = (mem_StoreSignedPreKey s k r, RUnit)"
| "mem_step (OpLoadKyberPreKey k) s = (s, res RBytes (mem_LoadKyberPreKey s k))"
| "mem_step (OpStoreKyberPreKey k r) s = (mem_StoreKyberPreKey s k r, RUnit)"
| "mem_step (OpMarkKyberPreKeyUsed k) s = (mem_MarkKyberPreKeyUsed s k, RUnit)"
| "mem_step (OpLoadSenderKey k) s = (s, res RBytes (mem_LoadSenderKey s k))"
| "mem_step (OpStoreSenderKey k r) s = (mem_StoreSenderKey s k r, RUnit)"
| "mem_step (OpCountAvailable k) s = (s, RCount (mem_CountAvailable s k))"

definition unit_res :: "sql_stores \<times> (store_err + unit) \<Rightarrow> sql_stores \<times> store_res" where
  "unit_res = map_prod (\<lambda>s. s) (res (\<lambda>_. RUnit))"

fun sql_step :: "store_op \<Rightarrow> sql_stores \<Rightarrow> sql_stores \<times> store_res" where
  "sql_step (OpSetLocalIdentity p v r) s = unit_res (sql_SetLocalIdentity s p v r)"
| "sql_step OpLocalIdentityKey s = (s, res RPair (sql_LocalIdentityKey s))"
| "sql_step OpLocalRegistrationID s = (s, res RNum (sql_LocalRegistrationID s))"
| "sql_step (OpLoadIdentity a) s = (s, res RBytes (sql_LoadIdentity s a))"
| "sql_step (OpSaveIdentity a k) s = map_prod (\<lambda>s. s) (res RSave) (sql_SaveIdentity s a k)"
| "sql_step (OpIsTrustedIdentity a k) s = (s, res RBool (sql_IsTrustedIdentity s a k))"
| "sql_step (OpLoadSession a) s = (s, res RBytes (sql_LoadSession s a))"
| "sql_step (OpStoreSession a r) s = unit_res (sql_StoreSession s a r)"
| "sql_step (OpDeleteSession a) s = unit_res (sql_DeleteSession s a)"
| "sql_step (OpLoadPreKey k) s = (s, res RBytes (sql_LoadPreKey s k))"
| "sql_step (OpStorePreKey k r) s = unit_res (sql_StorePreKey s k r)"
| "sql_step (OpRemovePreKey k) s = unit_res (sql_RemovePreKey s k)"
| "sql_step (OpLoadSignedPreKey k) s = (s, res RBytes (sql_LoadSignedPreKey s k))"
| "sql_step (OpStoreSignedPreKey k r) s = unit_res (sql_StoreSignedPreKey s k r)"
| "sql_step (OpLoadKyberPreKey k) s = (s, res RBytes (sql_LoadKyberPreKey s k))"
| "sql_step (OpStoreKyberPreKey k r) s = unit_res (sql_StoreKyberPreKey s k r)"
| "sql_step (OpMarkKyberPreKeyUsed k) s = unit_res (sql_MarkKyberPreKeyUsed s k)"
| "sql_step (OpLoadSenderKey k) s = (s, res RBytes (sql_LoadSenderKey s k))"
| "sql_step (OpStoreSenderKey k r) s = unit_res (sql_StoreSenderKey s k r)"
| "sql_step (OpCountAvailable k) s = (s, res RCount (sql_CountAvailable s k))"

text \<open>Where the two implementations are meant to agree.\<close>

fun op_ok :: "store_op \<Rightarrow> mem_stores \<Rightarrow> bool" where
  "op_ok (OpSetLocalIdentity p v r) s = (p \<noteq> [])"
| "op_ok OpLocalRegistrationID s = (ms_identityPub s \<noteq> None)"
| "op_ok (OpStoreKyberPreKey k r) s = (k \<notin> set (ms_usedKyber s))"
| "op_ok (OpMarkKyberPreKeyUsed k) s = (k \<in> set (map fst (ms_kyberKeys s)))"
| "op_ok _ s = True"

fun ops_ok :: "store_op list \<Rightarrow> mem_stores \<Rightarrow> bool" where
  "ops_ok [] s = True"
| "ops_ok (p # ops) s = (op_ok p s \<and> ops_ok ops (fst (mem_step p s)))"

fun run_ops :: "(store_op \<Rightarrow> 's \<Rightarrow> 's \<times> store_res) \<Rightarrow> store_op list \<Rightarrow> 's \<Rightarrow> store_res list" where
  "run_ops step [] s = []"
| "run_ops step (p # ops) s = snd (step p s) # run_ops step ops (fst (step p s))"

text \<open>The coupling invariant.\<close>

definition sim :: "mem_stores \<Rightarrow> sql_stores \<Rightarrow> bool" where
  "sim m q \<longleftrightarrow> sq_fault q = None \<and>
     (case sq_localIdentity q of
        None \<Rightarrow> ms_identityPub m = None
      | Some (p, v, r) \<Rightarrow> ms_identityPub m = Some p \<and> ms_identityPriv m = v \<and> ms_regID m = r) \<and>
     sq_sessions q = ms_sessions m \<and> sq_identities q = ms_identities m \<and>
     sq_prekeys q = ms_preKeys m \<and> sq_signedPrekeys q = ms_signedKeys m \<and>
     sq_senderKeys q = ms_senderKeys m \<and>
     map (\<lambda>(k, r, u). (k, r)) (sq_kyberPrekeys q) = ms_kyberKeys m \<and>
     list_all (\<lambda>(k, r, u). u = (k \<in> set (ms_usedKyber m))) (sq_kyberPrekeys q) \<and>
     distinct (map fst (sq_kyberPrekeys q))"

lemma sim_init: "sim mem_NewSignalStores sql_empty"
  by (simp add: sim_def mem_NewSignalStores_def sql_empty_def)

lemma kyber_update_map:
  "map (\<lambda>(k, r, u). (k, r)) (AList.update k (r, u) al) = AList.update k r (map (\<lambda>(k, r, u). (k, r)) al)"
  by (induction al) auto

lemma kyber_map_of:
  "map_option fst (map_of al k) = map_of (map (\<lambda>(k, r, u). (k, r)) al) k"
  by (induction al) auto

lemma list_all_AList_update:
  "list_all P al \<Longrightarrow> P (k, v) \<Longrightarrow> list_all P (AList.update k v al)"
  by (induction al) auto

lemma kyber_count:
  "list_all (\<lambda>(k, r, u). u = (k \<in> U)) al \<Longrightarrow>
   length (filter (\<lambda>(k, r, u). k \<noteq> lr \<and> \<not> u) al) =
   length (filter (\<lambda>k. k \<noteq> lr \<and> k \<notin> U) (map fst (map (\<lambda>(k, r, u). (k, r)) al)))"
  by (induction al) auto

lemma kyber_mark:
  "list_all (\<lambda>(k, r, u). u = (k \<in> U)) al \<Longrightarrow>
   list_all (\<lambda>(k, r, u). u = (k \<in> insert x U))
      (map (\<lambda>(i, r, u). if i = x then (i, r, True) else (i, r, u)) al)"
  by (induction al) (simp_all split: prod.splits)

lemma kyber_mark_records:
  "map (\<lambda>(k, r, u). (k, r)) (map (\<lambda>(i, r, u). if i = x then (i, r, True) else (i, r, u)) al) =
      map (\<lambda>(k, r, u). (k, r)) al"
  "map fst (map (\<lambda>(i, r, u). if i = x then (i, r, True) else (i, r, u)) al) = map fst al"
  by (induction al) (simp_all split: prod.splits)

lemma sim_step:
  assumes "sim m q" "op_ok p m"
  shows "snd (mem_step p m) = snd (sql_step p q) \<and> sim (fst (mem_step p m)) (fst (sql_step p q))"
proof (cases p)
  case (OpStoreKyberPreKey k r)
  then show ?thesis using assms
    by (auto simp: sim_def unit_res_def sql_StoreKyberPreKey_def sql_exec_def
        mem_StoreKyberPreKey_def kyber_update_map distinct_update
        intro!: list_all_AList_update split: option.splits)
next
  case (OpMarkKyberPreKeyUsed k)
  then show ?thesis using assms kyber_mark [of "set (ms_usedKyber m)" "sq_kyberPrekeys q" k]
    by (simp add: sim_def unit_res_def sql_MarkKyberPreKeyUsed_def sql_exec_def
        mem_MarkKyberPreKeyUsed_def kyber_mark_records del: map_map split: option.splits prod.splits)
next
  case (OpCountAvailable k)
  then show ?thesis using assms kyber_count [of "set (ms_usedKyber m)" "sq_kyberPrekeys q" k]
    by (auto simp: sim_def sql_CountAvailable_def mem_CountAvailable_def Let_def)
next
  case (OpLoadKyberPreKey k)
  then show ?thesis using assms
    by (auto simp: sim_def sql_LoadKyberPreKey_def mem_LoadKyberPreKey_def sql_row_def found_def
        kyber_map_of)
next
  case (OpLocalIdentityKey)
  then show ?thesis using assms
    by (auto simp: sim_def sql_LocalIdentityKey_def mem_LocalIdentityKey_def sql_row_def
        split: option.splits)
next
  case (OpLocalRegistrationID)
  then show ?thesis using assms
    by (auto simp: sim_def sql_LocalRegistrationID_def mem_LocalRegistrationID_def sql_row_def
        split: option.splits)
next
  case (OpSetLocalIdentity pb v r)
  then show ?thesis using assms
    by (auto simp: sim_def sql_SetLocalIdentity_def mem_SetLocalIdentity_def sql_exec_def unit_res_def)
qed (use assms in \<open>auto simp: sim_def mem_defs sql_defs unit_res_def sql_LoadIdentity_def
    mem_LoadIdentity_def sql_SaveIdentity_def mem_SaveIdentity_def Let_def
    sql_IsTrustedIdentity_def mem_IsTrustedIdentity_def split: option.splits\<close>)

lemma sim_run: "sim m q \<Longrightarrow> ops_ok ops m \<Longrightarrow> run_ops mem_step ops m = run_ops sql_step ops q"
proof (induction ops arbitrary: m q)
  case (Cons p ops)
  then show ?case using sim_step [of m q p] by simp
qed simp

text \<open>
  C24. The two implementations of SignalStores agree: any sequence of operations from empty
  stores returns the same results, errors included, from the in-memory and from the SQLite
  store, as long as the database does not fail, a Kyber prekey is marked only when stored
  and not stored again once used, the identity is not empty, and the registration id is not
  read before the identity was set.
\<close>

theorem stores_agree:
  assumes "ops_ok ops mem_NewSignalStores"
  shows "run_ops mem_step ops mem_NewSignalStores = run_ops sql_step ops sql_empty"
  using sim_run [OF sim_init assms] .

theorem stores_agree_witness:
  "run_ops sql_step [OpStoreKyberPreKey 7 [1], OpStorePreKey 3 [2], OpMarkKyberPreKeyUsed 7,
     OpCountAvailable 0, OpLoadKyberPreKey 7] sql_empty =
   [RUnit, RUnit, RUnit, RCount (1, 0), RBytes [1]]"
proof -
  let ?ops = "[OpStoreKyberPreKey 7 [1], OpStorePreKey 3 [2], OpMarkKyberPreKeyUsed 7,
     OpCountAvailable 0, OpLoadKyberPreKey 7]"
  have "ops_ok ?ops mem_NewSignalStores" 
    by (simp add: mem_NewSignalStores_def mem_defs)
  from stores_agree [OF this] show ?thesis
    by (simp add: mem_NewSignalStores_def mem_defs mem_MarkKyberPreKeyUsed_def
        mem_CountAvailable_def)
qed

text \<open>
  Where they differ: storing a Kyber prekey again after it was used makes it available in
  the SQLite store but not in memory; marking an id that is not stored yet uses it up in
  memory only; and the registration id of an empty store is 0 in memory and
  ErrRecordNotFound in SQLite.
\<close>

theorem stores_diverge:
  "run_ops mem_step [OpStoreKyberPreKey 7 [1], OpMarkKyberPreKeyUsed 7, OpStoreKyberPreKey 7 [1],
     OpCountAvailable 0] mem_NewSignalStores = [RUnit, RUnit, RUnit, RCount (0, 0)] \<and>
   run_ops sql_step [OpStoreKyberPreKey 7 [1], OpMarkKyberPreKeyUsed 7, OpStoreKyberPreKey 7 [1],
     OpCountAvailable 0] sql_empty = [RUnit, RUnit, RUnit, RCount (0, 1)] \<and>
   run_ops mem_step [OpMarkKyberPreKeyUsed 7, OpStoreKyberPreKey 7 [1], OpCountAvailable 0]
     mem_NewSignalStores = [RUnit, RUnit, RCount (0, 0)] \<and>
   run_ops sql_step [OpMarkKyberPreKeyUsed 7, OpStoreKyberPreKey 7 [1], OpCountAvailable 0]
     sql_empty = [RUnit, RUnit, RCount (0, 1)] \<and>
   run_ops mem_step [OpLocalRegistrationID] mem_NewSignalStores = [RNum 0] \<and>
   run_ops sql_step [OpLocalRegistrationID] sql_empty = [RErr ErrRecordNotFound]"
  by (simp add: mem_NewSignalStores_def sql_empty_def mem_defs sql_defs unit_res_def
      mem_MarkKyberPreKeyUsed_def sql_MarkKyberPreKeyUsed_def mem_CountAvailable_def
      sql_CountAvailable_def mem_LocalRegistrationID_def sql_LocalRegistrationID_def)

end
