(* ===== verification/PreKeyMaint.thy ===== *)
theory PreKeyMaint
  imports PreKeys StoreLaws
begin

text \<open>
  One-time prekey maintenance: internal/prekeymaint/upload.go and maintain.go. The server is a
  state \<open>'v\<close> with an upload operation that may report an error; the account store's
  SaveAccount may fail too. Base64 of the request is left out: the request carries raw bytes.
\<close>

definition DefaultMinAvailable :: int where "DefaultMinAvailable = 10"
definition DefaultTopUpBatch :: int where "DefaultTopUpBatch = 100"

record UploadIdentity =
  ui_PublicKey :: bytes
  ui_PrivateKey :: bytes
  ui_NextPreKeyID :: u32
  ui_NextKyberPreKeyID :: u32

record upload_req =
  ur_IdentityKey :: bytes
  ur_PreKeys :: "(u32 \<times> bytes) list"
  ur_PqPreKeys :: "(u32 \<times> bytes \<times> bytes) list"

text \<open>The parts outside the package: libsignal, the web client, the account store, the clock.\<close>

record ('r, 'v) maint_env =
  me_webc_nil :: bool
  me_keygen :: "'r keygen"
  me_priv_ok :: "bytes \<Rightarrow> string option"
  me_upload :: "'v \<Rightarrow> upload_req \<Rightarrow> 'v \<times> string option"
  me_save :: "Account \<Rightarrow> string option"
  me_now :: u64

record ('r, 'v) maint_state =
  mt_stores :: sql_stores
  mt_rand :: 'r
  mt_server :: 'v
  mt_saved :: "Account option"

fun kyber_pairs_loop ::
  "'r keygen \<Rightarrow> bytes \<Rightarrow> u32 \<Rightarrow> nat \<Rightarrow> nat \<Rightarrow> KyberPreKey list \<Rightarrow> (bytes \<times> bytes) list \<Rightarrow> 'r \<Rightarrow>
   (prekey_err + KyberPreKey list \<times> (bytes \<times> bytes) list) \<times> 'r" where
  "kyber_pairs_loop K priv startID i 0 out pairs r = (Inr (out, pairs), r)"
| "kyber_pairs_loop K priv startID i (Suc left) out pairs r =
    (let kid = startID + of_nat i in
     case kg_kyber K r of
       (Inl e, r') \<Rightarrow> (Inl (LibsignalErr e), r')
     | (Inr (pub, sec), r') \<Rightarrow>
         (case kg_sign K priv pub of
            Inl e \<Rightarrow> (Inl (LibsignalErr e), r')
          | Inr sig \<Rightarrow> kyber_pairs_loop K priv startID (i + 1) left
              (out @ [\<lparr> kpk_ID = kid, kpk_PublicKey = pub, kpk_SecretKey = sec,
                        kpk_Signature = sig \<rparr>]) (pairs @ [(pub, sec)]) r'))"

definition generateOneTimeKyberWithPairs where
  "generateOneTimeKyberWithPairs K priv startID count r =
    (if count \<le> 0 then (Inl CountNotPositive, r)
     else kyber_pairs_loop K priv startID 0 (nat count) [] [] r)"

text \<open>The stores are always given by the maintainer; the code also accepts nil ones.\<close>

definition UploadOneTimeBatch ::
  "('r, 'v) maint_env \<Rightarrow> UploadIdentity \<Rightarrow> int \<Rightarrow> ('r, 'v) maint_state \<Rightarrow>
   ('r, 'v) maint_state \<times> (prekey_err + UploadIdentity)" where
  "UploadOneTimeBatch E ident count st =
    (if me_webc_nil E then (st, Inl NilWebClient)
     else if count \<le> 0 then (st, Inl CountNotPositive)
     else case me_priv_ok E (ui_PrivateKey ident) of
       Some e \<Rightarrow> (st, Inl (LibsignalErr e))
     | None \<Rightarrow>
       (case GenerateOneTimePreKeys (me_keygen E) (ui_NextPreKeyID ident) count (mt_rand st) of
          (Inl e, r1) \<Rightarrow> (st\<lparr> mt_rand := r1 \<rparr>, Inl e)
        | (Inr ecBatch, r1) \<Rightarrow>
          (case generateOneTimeKyberWithPairs (me_keygen E) (ui_PrivateKey ident)
                  (ui_NextKyberPreKeyID ident) count r1 of
             (Inl e, r2) \<Rightarrow> (st\<lparr> mt_rand := r2 \<rparr>, Inl e)
           | (Inr (kemBatch, kemPairs), r2) \<Rightarrow>
             (case PersistOneTimePreKeys (me_keygen E) (me_now E) (Some (mt_stores st)) ecBatch
                     kemBatch kemPairs of
                (s', Inl e) \<Rightarrow> (st\<lparr> mt_rand := r2, mt_stores := the s' \<rparr>, Inl e)
              | (s', Inr _) \<Rightarrow>
                let req = \<lparr> ur_IdentityKey = ui_PublicKey ident,
                      ur_PreKeys = map (\<lambda>p. (pk_ID p, pk_PublicKey p)) ecBatch,
                      ur_PqPreKeys = map (\<lambda>p. (kpk_ID p, kpk_PublicKey p, kpk_Signature p)) kemBatch \<rparr>
                in (case me_upload E (mt_server st) req of
                      (v', Some e) \<Rightarrow>
                        (st\<lparr> mt_rand := r2, mt_stores := the s', mt_server := v' \<rparr>,
                         Inl (UploadErr e))
                    | (v', None) \<Rightarrow>
                        (st\<lparr> mt_rand := r2, mt_stores := the s', mt_server := v' \<rparr>,
                         Inr (ident\<lparr> ui_NextPreKeyID := ui_NextPreKeyID ident + of_int count,
                                      ui_NextKyberPreKeyID :=
                                        ui_NextKyberPreKeyID ident + of_int count \<rparr>)))))))"

datatype topup_err = TopUpCount store_err | TopUpUpload prekey_err | TopUpSave string

text \<open>\<open>mn_wired\<close>: the maintainer and its account store, signal stores and web client are not nil.\<close>

record maintainer =
  mn_wired :: bool
  mn_MinAvailable :: int
  mn_TopUpBatch :: int

definition minAvailable :: "maintainer \<Rightarrow> int" where
  "minAvailable m = (if mn_MinAvailable m > 0 then mn_MinAvailable m else DefaultMinAvailable)"

definition topUpBatch :: "maintainer \<Rightarrow> int" where
  "topUpBatch m = (if mn_TopUpBatch m > 0 then mn_TopUpBatch m else DefaultTopUpBatch)"

text \<open>
  MaybeTopUp of an account that is not nil; the returned account is the caller's, whose next
  ids the code updates in place before it saves it.
\<close>

definition MaybeTopUp ::
  "('r, 'v) maint_env \<Rightarrow> maintainer \<Rightarrow> Account \<Rightarrow> ('r, 'v) maint_state \<Rightarrow>
   ('r, 'v) maint_state \<times> Account \<times> topup_err option" where
  "MaybeTopUp E m acct st =
    (if \<not> mn_wired m then (st, acct, None)
     else case sql_CountAvailable (mt_stores st) (lrk_ID (id_LastResort (ac_ACIIdentity acct))) of
       Inl e \<Rightarrow> (st, acct, Some (TopUpCount e))
     | Inr (ec, kem) \<Rightarrow>
       let threshold = minAvailable m in
       if int ec \<ge> threshold \<and> int kem \<ge> threshold then (st, acct, None)
       else
         let idt = ac_ACIIdentity acct;
             upload = \<lparr> ui_PublicKey = id_PublicKey idt, ui_PrivateKey = id_PrivateKey idt,
                        ui_NextPreKeyID = id_NextPreKeyID idt,
                        ui_NextKyberPreKeyID = id_NextKyberPreKeyID idt \<rparr>
         in case UploadOneTimeBatch E upload (topUpBatch m) st of
              (st1, Inl e) \<Rightarrow> (st1, acct, Some (TopUpUpload e))
            | (st1, Inr up) \<Rightarrow>
              let acct' = acct\<lparr> ac_ACIIdentity := idt\<lparr> id_NextPreKeyID := ui_NextPreKeyID up,
                                  id_NextKyberPreKeyID := ui_NextKyberPreKeyID up \<rparr> \<rparr>
              in (case me_save E acct' of
                    Some e \<Rightarrow> (st1, acct', Some (TopUpSave e))
                  | None \<Rightarrow> (st1\<lparr> mt_saved := Some acct' \<rparr>, acct', None)))"

section \<open>What persisting does to the tables\<close>

lemma set_keys_update: "fst ` set (AList.update k v al) = insert k (fst ` set al)"
  by (induction al) auto

lemma length_ge_card_keys:
  assumes "set ks \<subseteq> fst ` set al" "distinct ks"
  shows "length ks \<le> length al"
proof -
  have "length ks = card (set ks)" using assms(2) by (simp add: distinct_card)
  also have "\<dots> \<le> card (fst ` set al)" using assms(1) by (simp add: card_mono)
  also have "\<dots> \<le> length al" by (metis card_image_le card_length finite_set le_trans)
  finally show ?thesis .
qed

lemma persist_ec_ok:
  "persist_ec K ps s = (s', Inr u) \<Longrightarrow>
   pk_ID ` set ps \<union> fst ` set (sq_prekeys s) \<subseteq> fst ` set (sq_prekeys s') \<and>
   sq_kyberPrekeys s' = sq_kyberPrekeys s \<and> sq_fault s' = sq_fault s"
proof (induction ps arbitrary: s)
  case (Cons p ps)
  from Cons.prems obtain blob where f: "sq_fault s = None" and
    r: "persist_ec K ps (s\<lparr> sq_prekeys := AList.update (pk_ID p) blob (sq_prekeys s) \<rparr>) = (s', Inr u)"
    by (auto simp: sql_StorePreKey_def sql_exec_def split: sum.splits option.splits)
  from Cons.IH [OF r] show ?case by (auto simp: set_keys_update f)
qed simp

lemma persist_kem_ok:
  "persist_kem K ts ps prs s = (s', Inr u) \<Longrightarrow> length ps = length prs \<Longrightarrow>
   distinct (map kpk_ID ps) \<Longrightarrow>
   (\<forall>k. if k \<in> kpk_ID ` set ps then \<exists>b. map_of (sq_kyberPrekeys s') k = Some (b, False)
       else map_of (sq_kyberPrekeys s') k = map_of (sq_kyberPrekeys s) k) \<and>
   kpk_ID ` set ps \<union> fst ` set (sq_kyberPrekeys s) \<subseteq> fst ` set (sq_kyberPrekeys s') \<and>
   sq_prekeys s' = sq_prekeys s \<and> sq_fault s' = sq_fault s"
proof (induction K ts ps prs s rule: persist_kem.induct)
  case (1 K ts p ps pr prs s)
  from "1.prems" obtain blob where b: "kg_kyber_record K (kpk_ID p) ts pr (kpk_Signature p) = Inr blob"
    and f: "sq_fault s = None" and
    r: "persist_kem K ts ps prs (s\<lparr> sq_kyberPrekeys :=
      AList.update (kpk_ID p) (blob, False) (sq_kyberPrekeys s) \<rparr>) = (s', Inr u)"
    by (auto simp: sql_StoreKyberPreKey_def sql_exec_def split: sum.splits option.splits)
  have e: "sql_StoreKyberPreKey s (kpk_ID p) blob =
    (s\<lparr> sq_kyberPrekeys := AList.update (kpk_ID p) (blob, False) (sq_kyberPrekeys s) \<rparr>, Inr ())"
    by (simp add: sql_StoreKyberPreKey_def sql_exec_def f)
  have ih: "\<forall>k. if k \<in> kpk_ID ` set ps then \<exists>b. map_of (sq_kyberPrekeys s') k = Some (b, False)
       else map_of (sq_kyberPrekeys s') k =
         (if k = kpk_ID p then Some (blob, False) else map_of (sq_kyberPrekeys s) k)"
    "kpk_ID ` set ps \<union> insert (kpk_ID p) (fst ` set (sq_kyberPrekeys s))
        \<subseteq> fst ` set (sq_kyberPrekeys s')"
    "sq_prekeys s' = sq_prekeys s \<and> sq_fault s' = sq_fault s"
    using "1.IH" [OF b e [symmetric] refl r] "1.prems" by (simp_all add: set_keys_update)
  from ih(1) have "\<forall>k. if k \<in> kpk_ID ` set (p # ps)
       then \<exists>b. map_of (sq_kyberPrekeys s') k = Some (b, False)
       else map_of (sq_kyberPrekeys s') k = map_of (sq_kyberPrekeys s) k"
  proof (intro allI)
    fix k
    have a: "if k \<in> kpk_ID ` set ps then \<exists>b. map_of (sq_kyberPrekeys s') k = Some (b, False)
       else map_of (sq_kyberPrekeys s') k =
         (if k = kpk_ID p then Some (blob, False) else map_of (sq_kyberPrekeys s) k)"
      using ih(1) by (rule spec)
    show "if k \<in> kpk_ID ` set (p # ps)
       then \<exists>b. map_of (sq_kyberPrekeys s') k = Some (b, False)
       else map_of (sq_kyberPrekeys s') k = map_of (sq_kyberPrekeys s) k"
      using a by (cases "k \<in> kpk_ID ` set ps"; cases "k = kpk_ID p") simp_all
  qed
  then show ?case using ih(2,3) by simp
qed auto

lemma kem_count_ge:
  assumes d: "distinct ks" and s: "\<And>k. k \<in> set ks \<Longrightarrow> \<exists>b. map_of al k = Some (b, False)"
  shows "length ks \<le> Suc (length (filter (\<lambda>(kid, r, used). kid \<noteq> lr \<and> \<not> used) al))"
proof -
  let ?al = "filter (\<lambda>(kid, r, used). kid \<noteq> lr \<and> \<not> used) al"
  have "set (remove1 lr ks) \<subseteq> fst ` set ?al"
  proof
    fix k assume k: "k \<in> set (remove1 lr ks)"
    then have "k \<noteq> lr" "k \<in> set ks" using d by (auto dest: notin_set_remove1)
    then obtain b where "(k, b, False) \<in> set al" using s map_of_SomeD by fastforce
    then show "k \<in> fst ` set ?al" using \<open>k \<noteq> lr\<close> by force
  qed
  then have "length (remove1 lr ks) \<le> length ?al"
    using d by (intro length_ge_card_keys) (simp_all add: distinct_remove1)
  then show ?thesis by (auto simp: length_remove1 split: if_splits)
qed

lemma kyber_pairs_loop_ok:
  "kyber_pairs_loop K priv s i left out pairs r = (Inr (ks, prs), r') \<Longrightarrow> length out = length pairs \<Longrightarrow>
   length ks = length prs \<and> (\<exists>qs. ks = out @ qs \<and> map kpk_ID qs = map (\<lambda>j. s + of_nat j) [i..<i + left])"
proof (induction left arbitrary: i out pairs r)
  case (Suc left)
  then obtain pub sec sig r1 where
    l: "kyber_pairs_loop K priv s (i + 1) left (out @ [\<lparr> kpk_ID = s + of_nat i, kpk_PublicKey = pub,
      kpk_SecretKey = sec, kpk_Signature = sig \<rparr>]) (pairs @ [(pub, sec)]) r1 = (Inr (ks, prs), r')"
    by (auto simp: Let_def split: sum.splits prod.splits)
  have "[i..<i + Suc left] = i # [i + 1..<i + 1 + left]" by (simp add: upt_rec)
  then show ?case using Suc.IH [OF l] Suc.prems(2) by auto
qed auto

text \<open>Only the upload itself reports an upload error.\<close>

lemma no_upload_err_ec: "fst (one_time_loop K s i left out r) \<noteq> Inl (UploadErr e)"
  by (induction K s i left out r rule: one_time_loop.induct)
     (auto simp: Let_def validateID_def split: sum.splits prod.splits if_splits)

lemma no_upload_err_kem: "fst (kyber_pairs_loop K priv s i left out pairs r) \<noteq> Inl (UploadErr e)"
  by (induction K priv s i left out pairs r rule: kyber_pairs_loop.induct)
     (auto simp: Let_def split: sum.splits prod.splits)

lemma no_upload_err_persist_ec: "snd (persist_ec K ps q) \<noteq> Inl (UploadErr e)"
  by (induction ps arbitrary: q) (auto split: sum.splits prod.splits)

lemma no_upload_err_persist_kem: "snd (persist_kem K ts ks prs q) \<noteq> Inl (UploadErr e)"
  by (induction K ts ks prs q rule: persist_kem.induct) (auto split: sum.splits prod.splits)

lemma no_upload_err_persist: "snd (PersistOneTimePreKeys K ts q ps ks prs) \<noteq> Inl (UploadErr e)"
proof (cases q)
  case (Some s)
  obtain s1 x where p: "persist_ec K ps s = (s1, x)" by (cases "persist_ec K ps s")
  show ?thesis
    using no_upload_err_persist_ec [of K ps s e] no_upload_err_persist_kem [of K ts ks prs s1 e]
    by (cases x) (auto simp: PersistOneTimePreKeys_def Some p)
qed (simp add: PersistOneTimePreKeys_def)

definition batch_req :: "UploadIdentity \<Rightarrow> PreKey list \<Rightarrow> KyberPreKey list \<Rightarrow> upload_req" where
  "batch_req ident ecB kemB = \<lparr> ur_IdentityKey = ui_PublicKey ident,
     ur_PreKeys = map (\<lambda>p. (pk_ID p, pk_PublicKey p)) ecB,
     ur_PqPreKeys = map (\<lambda>p. (kpk_ID p, kpk_PublicKey p, kpk_Signature p)) kemB \<rparr>"

lemma Upload_reached:
  assumes up: "UploadOneTimeBatch E ident count st = (st', out)"
    and r: "(\<exists>i. out = Inr i) \<or> (\<exists>e. out = Inl (UploadErr e))"
  obtains ecB r1 kemB prs r2 q where "0 < count"
    "GenerateOneTimePreKeys (me_keygen E) (ui_NextPreKeyID ident) count (mt_rand st) = (Inr ecB, r1)"
    "generateOneTimeKyberWithPairs (me_keygen E) (ui_PrivateKey ident)
       (ui_NextKyberPreKeyID ident) count r1 = (Inr (kemB, prs), r2)"
    "PersistOneTimePreKeys (me_keygen E) (me_now E) (Some (mt_stores st)) ecB kemB prs = (q, Inr ())"
    "mt_stores st' = the q" "fst (me_upload E (mt_server st) (batch_req ident ecB kemB)) = mt_server st'"
    "(snd (me_upload E (mt_server st) (batch_req ident ecB kemB)) = None) = is_ok out"
    "\<And>i. out = Inr i \<Longrightarrow> ui_NextPreKeyID i = ui_NextPreKeyID ident + of_int count \<and>
        ui_NextKyberPreKeyID i = ui_NextKyberPreKeyID ident + of_int count"
proof -
  let ?K = "me_keygen E"
  let ?g1 = "GenerateOneTimePreKeys ?K (ui_NextPreKeyID ident) count (mt_rand st)"
  have wn: "\<not> me_webc_nil E" and pos: "0 < count" and pv: "me_priv_ok E (ui_PrivateKey ident) = None"
    using up r by (auto simp: UploadOneTimeBatch_def split: if_splits option.splits)
  obtain x r1 where g1: "?g1 = (x, r1)" by (cases ?g1)
  have "fst ?g1 \<noteq> Inl (UploadErr e)" for e
    using pos no_upload_err_ec by (simp add: GenerateOneTimePreKeys_def)
  then obtain ecB where x: "x = Inr ecB"
    using up r g1 wn pos pv by (cases x) (auto simp: UploadOneTimeBatch_def)
  let ?g2 = "generateOneTimeKyberWithPairs ?K (ui_PrivateKey ident) (ui_NextKyberPreKeyID ident) count r1"
  obtain y r2 where g2: "?g2 = (y, r2)" by (cases ?g2)
  have "fst ?g2 \<noteq> Inl (UploadErr e)" for e
    using pos no_upload_err_kem by (simp add: generateOneTimeKyberWithPairs_def)
  then obtain kemB prs where y: "y = Inr (kemB, prs)"
    using up r g1 x g2 wn pos pv by (cases y) (auto simp: UploadOneTimeBatch_def)
  let ?p = "PersistOneTimePreKeys ?K (me_now E) (Some (mt_stores st)) ecB kemB prs"
  obtain q z where p: "?p = (q, z)" by (cases ?p)
  then obtain u where z: "z = Inr u"
    using up r g1 x g2 y wn pos pv no_upload_err_persist [of ?K "me_now E" "Some (mt_stores st)" ecB kemB prs]
    by (cases z) (auto simp: UploadOneTimeBatch_def)
  obtain v' w where u: "me_upload E (mt_server st) (batch_req ident ecB kemB) = (v', w)"
    by (cases "me_upload E (mt_server st) (batch_req ident ecB kemB)")
  have "(st', out) = (case w of
      Some e \<Rightarrow> (st\<lparr> mt_rand := r2, mt_stores := the q, mt_server := v' \<rparr>, Inl (UploadErr e))
    | None \<Rightarrow> (st\<lparr> mt_rand := r2, mt_stores := the q, mt_server := v' \<rparr>,
        Inr (ident\<lparr> ui_NextPreKeyID := ui_NextPreKeyID ident + of_int count,
          ui_NextKyberPreKeyID := ui_NextKyberPreKeyID ident + of_int count \<rparr>)))"
    using up g1 x g2 y p z wn pos pv u by (simp add: UploadOneTimeBatch_def Let_def batch_req_def)
  then show thesis
    using pos g1 x g2 y p z u
    by (intro that [of ecB r1 kemB prs r2 q]) (auto split: option.splits)
qed


text \<open>What a persisted batch leaves in the tables.\<close>

lemma batch_persisted:
  assumes g1: "GenerateOneTimePreKeys K n1 count r = (Inr ecB, r1)"
    and g2: "generateOneTimeKyberWithPairs K priv n2 count r1 = (Inr (kemB, prs), r2)"
    and p: "PersistOneTimePreKeys K ts (Some s) ecB kemB prs = (q, Inr ())"
    and c: "0 < count" "count < 2 ^ 32"
  shows "map pk_ID ecB = map (\<lambda>j. n1 + of_nat j) [0..<nat count]"
    and "map kpk_ID kemB = map (\<lambda>j. n2 + of_nat j) [0..<nat count]"
    and "list_all (\<lambda>p. pk_ID p \<noteq> 0 \<and> pk_ID p \<le> MaxID) ecB"
    and "pk_ID ` set ecB \<subseteq> fst ` set (sq_prekeys (the q))"
    and "\<And>k. k \<in> kpk_ID ` set kemB \<Longrightarrow> \<exists>b. map_of (sq_kyberPrekeys (the q)) k = Some (b, False)"
    and "sq_fault (the q) = sq_fault s"
    and "distinct (map pk_ID ecB)" and "distinct (map kpk_ID kemB)"
proof -
  have n: "nat count < 2 ^ 32" using c by (simp add: nat_less_iff)
  show m1: "map pk_ID ecB = map (\<lambda>j. n1 + of_nat j) [0..<nat count]"
    and "list_all (\<lambda>p. pk_ID p \<noteq> 0 \<and> pk_ID p \<le> MaxID) ecB"
    using one_time_loop_ok [of K n1 0 "nat count" "[]" r ecB r1] g1 c
    by (simp_all add: GenerateOneTimePreKeys_def)
  have g2': "kyber_pairs_loop K priv n2 0 (nat count) [] [] r1 = (Inr (kemB, prs), r2)"
    using g2 c by (simp add: generateOneTimeKyberWithPairs_def)
  then have len: "length kemB = length prs"
    and m2: "map kpk_ID kemB = map (\<lambda>j. n2 + of_nat j) [0..<nat count]"
    using kyber_pairs_loop_ok [OF g2'] by auto
  show "map kpk_ID kemB = map (\<lambda>j. n2 + of_nat j) [0..<nat count]" by (rule m2)
  show d1: "distinct (map pk_ID ecB)" unfolding m1 by (rule word_upto_distinct [OF n])
  show d2: "distinct (map kpk_ID kemB)" unfolding m2 by (rule word_upto_distinct [OF n])
  obtain s1 where e: "persist_ec K ecB s = (s1, Inr ())"
    and k: "persist_kem K ts kemB prs s1 = (the q, Inr ())"
    using p len by (auto simp: PersistOneTimePreKeys_def map_prod_def split: prod.splits sum.splits)
  note ec = persist_ec_ok [OF e] and kem = persist_kem_ok [OF k len d2]
  show "pk_ID ` set ecB \<subseteq> fst ` set (sq_prekeys (the q))" using ec kem by auto
  show "\<exists>b. map_of (sq_kyberPrekeys (the q)) k = Some (b, False)" if "k \<in> kpk_ID ` set kemB" for k
    using kem that by (metis (no_types, lifting))
  show "sq_fault (the q) = sq_fault s" using ec kem by simp
qed


section \<open>The maintainer\<close>

definition upload_of :: "Account \<Rightarrow> UploadIdentity" where
  "upload_of acct = \<lparr> ui_PublicKey = id_PublicKey (ac_ACIIdentity acct),
     ui_PrivateKey = id_PrivateKey (ac_ACIIdentity acct),
     ui_NextPreKeyID = id_NextPreKeyID (ac_ACIIdentity acct),
     ui_NextKyberPreKeyID = id_NextKyberPreKeyID (ac_ACIIdentity acct) \<rparr>"

lemma upload_of_simps [simp]:
  "ui_PublicKey (upload_of acct) = id_PublicKey (ac_ACIIdentity acct)"
  "ui_NextPreKeyID (upload_of acct) = id_NextPreKeyID (ac_ACIIdentity acct)"
  "ui_NextKyberPreKeyID (upload_of acct) = id_NextKyberPreKeyID (ac_ACIIdentity acct)"
  by (simp_all add: upload_of_def)


lemma MaybeTopUp_upload_failed:
  assumes t: "MaybeTopUp E m acct st = (st', acct', Some (TopUpUpload e))"
    and w: "mn_wired m"
  obtains "UploadOneTimeBatch E (upload_of acct) (topUpBatch m) st = (st', Inl e)"
    "acct' = acct" "sq_fault (mt_stores st) = None"
proof -
  obtain ec kem where cnt: "sql_CountAvailable (mt_stores st)
      (lrk_ID (id_LastResort (ac_ACIIdentity acct))) = Inr (ec, kem)"
    using t w by (auto simp: MaybeTopUp_def split: sum.splits)
  then have "sq_fault (mt_stores st) = None"
    by (auto simp: sql_CountAvailable_def split: option.splits)
  then show thesis
    using t w cnt
    by (intro that)
       (auto simp: MaybeTopUp_def Let_def upload_of_def [symmetric] split: option.splits sum.splits prod.splits if_splits)
qed

section \<open>A sample maintainer\<close>

definition sample_identity :: Identity where
  "sample_identity = \<lparr> id_PublicKey = [5], id_PrivateKey = [6], id_RegistrationID = 7,
     id_SignedPreKey = \<lparr> spk_ID = 1, spk_PublicKey = [], spk_PrivateKey = [], spk_Signature = [] \<rparr>,
     id_LastResort = \<lparr> lrk_ID = 1, lrk_PublicKey = [], lrk_SecretKey = [], lrk_Signature = [],
       lrk_RecordBlob = [] \<rparr>,
     id_NextPreKeyID = 2, id_NextKyberPreKeyID = 3 \<rparr>"

definition sample_account :: Account where
  "sample_account = \<lparr> ac_ACI = ''a'', ac_PNI = ''p'', ac_Number = ''+1'', ac_DeviceID = 2,
     ac_Password = ''x'', ac_ProfileKey = [], ac_AccountEntropyPool = [], ac_ReadReceipts = True,
     ac_ACIIdentity = sample_identity, ac_PNIIdentity = sample_identity \<rparr>"

text \<open>The server counts the requests; \<open>up\<close> says whether it accepts them.\<close>

definition sample_env :: "bool \<Rightarrow> (nat, nat) maint_env" where
  "sample_env up = \<lparr> me_webc_nil = False, me_keygen = sample_keygen, me_priv_ok = (\<lambda>k. None),
     me_upload = (\<lambda>v req. (v + 1, if up then None else Some ''503'')), me_save = (\<lambda>a. None),
     me_now = 0 \<rparr>"

definition sample_state :: "(nat, nat) maint_state" where
  "sample_state = \<lparr> mt_stores = sql_empty, mt_rand = 0, mt_server = 0, mt_saved = None \<rparr>"

definition sample_maintainer :: maintainer where
  "sample_maintainer = \<lparr> mn_wired = True, mn_MinAvailable = 1, mn_TopUpBatch = 2 \<rparr>"


definition sample_run :: "bool \<Rightarrow> (nat, nat) maint_state \<times> Account \<times> topup_err option" where
  "sample_run up = MaybeTopUp (sample_env up) sample_maintainer sample_account sample_state"


lemma sample_run_failed: "snd (snd (sample_run False)) = Some (TopUpUpload (UploadErr ''503''))"
  by code_simp


lemma sample_maintainer_simps: "mn_wired sample_maintainer" "minAvailable sample_maintainer = 1"
  "topUpBatch sample_maintainer = 2"
  by (simp_all add: sample_maintainer_def minAvailable_def topUpBatch_def)



text \<open>
  C22. A top-up whose upload fails is not tried again. The batch is in the local tables although
  the server never got it, the account keeps its next ids, and when the batch is larger than the
  threshold every later call of MaybeTopUp, whatever the server would now answer, finds enough
  keys and does nothing.
\<close>

theorem failed_topup_not_retried:
  assumes t: "MaybeTopUp E m acct st = (st', acct', Some (TopUpUpload (UploadErr e)))"
    and w: "mn_wired m"
    and b: "minAvailable m < topUpBatch m" "topUpBatch m < 2 ^ 32"
  shows "acct' = acct \<and> (\<forall>E'. MaybeTopUp E' m acct' st' = (st', acct', None))"
proof -
  let ?lr = "lrk_ID (id_LastResort (ac_ACIIdentity acct))"
  have u: "UploadOneTimeBatch E (upload_of acct) (topUpBatch m) st = (st', Inl (UploadErr e))"
    and ac: "acct' = acct" and nf: "sq_fault (mt_stores st) = None"
    by (rule MaybeTopUp_upload_failed [OF t w], assumption)+
  obtain ecB r1 kemB prs r2 q where c: "0 < topUpBatch m"
    and g1: "GenerateOneTimePreKeys (me_keygen E) (ui_NextPreKeyID (upload_of acct)) (topUpBatch m) (mt_rand st) = (Inr ecB, r1)"
    and g2: "generateOneTimeKyberWithPairs (me_keygen E) (ui_PrivateKey (upload_of acct))
       (ui_NextKyberPreKeyID (upload_of acct)) (topUpBatch m) r1 = (Inr (kemB, prs), r2)"
    and p: "PersistOneTimePreKeys (me_keygen E) (me_now E) (Some (mt_stores st)) ecB kemB prs = (q, Inr ())"
    and q: "mt_stores st' = the q"
    by (rule Upload_reached [OF u]) auto
  note f = batch_persisted [OF g1 g2 p c b(2)]
  have l: "length ecB = nat (topUpBatch m)" "length kemB = nat (topUpBatch m)"
    using f(1,2) by (metis length_map length_upt minus_nat.diff_0)+
  have e: "nat (topUpBatch m) \<le> length (sq_prekeys (the q))"
    using length_ge_card_keys [of "map pk_ID ecB" "sq_prekeys (the q)"] f(4,7) l by simp
  have k: "nat (topUpBatch m)
      \<le> Suc (length (filter (\<lambda>(kid, r, used). kid \<noteq> ?lr \<and> \<not> used) (sq_kyberPrekeys (the q))))"
    using kem_count_ge [of "map kpk_ID kemB" "sq_kyberPrekeys (the q)" ?lr] f(5,8) l by simp
  have "sq_fault (the q) = None"
    using f(6) nf by simp
  then show ?thesis
    using e k q ac b(1) by (auto simp: MaybeTopUp_def sql_CountAvailable_def Let_def)
qed

text \<open>The server is down once; when it is back, the maintainer still does nothing.\<close>

theorem failed_topup_not_retried_witness:
  "MaybeTopUp (sample_env True) sample_maintainer sample_account (fst (sample_run False)) =
     (fst (sample_run False), sample_account, None)"
proof -
  have r: "MaybeTopUp (sample_env False) sample_maintainer sample_account sample_state =
      (fst (sample_run False), fst (snd (sample_run False)), Some (TopUpUpload (UploadErr ''503'')))"
    using sample_run_failed by (simp add: sample_run_def prod_eq_iff)
  from failed_topup_not_retried [OF r sample_maintainer_simps(1)]
  show ?thesis unfolding sample_maintainer_simps by auto
qed

end
