(* ===== verification/Envelope.thy ===== *)
theory Envelope
  imports PreKeyMaint Events
begin

text \<open>
  Envelope decryption: internal/cipher/envelope.go with the Go part of the sealed-sender path
  in internal/libsignal (decrypt.go, decrypt_sealed.go, messages.go). The C library is the
  record \<open>libsignal\<close>: every operation that may touch the stores takes and returns them. An error
  is its text.
\<close>

datatype env_type = EnvUnknown | EnvDoubleRatchet | EnvPreKeyMessage | EnvServerDeliveryReceipt
  | EnvUnidentifiedSender | EnvPlaintextContent | EnvOther nat

fun env_type_String :: "env_type \<Rightarrow> string" where
  "env_type_String EnvUnknown = ''UNKNOWN''"
| "env_type_String EnvDoubleRatchet = ''DOUBLE_RATCHET''"
| "env_type_String EnvPreKeyMessage = ''PREKEY_MESSAGE''"
| "env_type_String EnvServerDeliveryReceipt = ''SERVER_DELIVERY_RECEIPT''"
| "env_type_String EnvUnidentifiedSender = ''UNIDENTIFIED_SENDER''"
| "env_type_String EnvPlaintextContent = ''PLAINTEXT_CONTENT''"
| "env_type_String (EnvOther n) = dec_digits n"

record Envelope =
  en_Type :: env_type
  en_SourceServiceId :: string
  en_SourceDeviceId :: u32
  en_ClientTimestamp :: u64
  en_ServerTimestamp :: u64
  en_Content :: bytes

datatype ciphertext_type = CtWhisper | CtPreKey | CtSenderKey | CtPlaintext | CtOther nat

record sender_cert =
  ct_validate :: "time \<Rightarrow> string + bool"
  ct_uuid :: "string + string"
  ct_device :: "string + u32"

record usmc =
  us_contents :: "string + bytes"
  us_type :: "string + ciphertext_type"
  us_cert :: "string + sender_cert"

record libsignal =
  ls_address :: "Address \<Rightarrow> string option"
  ls_single :: "bytes \<Rightarrow> string + bytes"
  ls_usmc :: "bytes \<Rightarrow> sql_stores \<Rightarrow> sql_stores \<times> (string + usmc)"
  ls_parse_whisper :: "bytes \<Rightarrow> string option"
  ls_parse_prekey :: "bytes \<Rightarrow> string option"
  ls_parse_plaintext :: "bytes \<Rightarrow> string option"
  ls_whisper :: "bytes \<Rightarrow> Address \<Rightarrow> Address \<Rightarrow> sql_stores \<Rightarrow> sql_stores \<times> (string + bytes)"
  ls_prekey :: "bytes \<Rightarrow> Address \<Rightarrow> Address \<Rightarrow> sql_stores \<Rightarrow> sql_stores \<times> (string + bytes)"
  ls_plaintext :: "bytes \<Rightarrow> string + bytes"
  ls_group :: "bytes \<Rightarrow> Address \<Rightarrow> sql_stores \<Rightarrow> sql_stores \<times> (string + bytes)"
  ls_skdm_parse :: "bytes \<Rightarrow> string option"
  ls_skdm :: "Address \<Rightarrow> bytes \<Rightarrow> sql_stores \<Rightarrow> sql_stores \<times> string option"
  ls_self_send :: string

definition NewAddress :: "libsignal \<Rightarrow> string \<Rightarrow> u32 \<Rightarrow> string + Address" where
  "NewAddress L serviceID deviceID =
    (if serviceID = [] then Inl ''libsignal.NewAddress: empty service id''
     else let a = \<lparr> ad_ServiceID = serviceID, ad_DeviceID = deviceID \<rparr>
          in case ls_address L a of Some e \<Rightarrow> Inl e | None \<Rightarrow> Inr a)"

text \<open>The three deserialisers refuse empty input before they call the library.\<close>

definition deserialize :: "string \<Rightarrow> (bytes \<Rightarrow> string option) \<Rightarrow> bytes \<Rightarrow> string + bytes" where
  "deserialize name parse data =
    (if length data = 0 then Inl (''libsignal.'' @ name @ '': empty input'')
     else case parse data of Some e \<Rightarrow> Inl e | None \<Rightarrow> Inr data)"

definition StripVersionByte :: "bytes \<Rightarrow> bytes \<times> bool" where
  "StripVersionByte content =
    (if length content \<le> 1 then (content, False) else (drop 1 content, True))"

section \<open>Sealed sender\<close>

definition validateSenderCert :: "usmc \<Rightarrow> time \<Rightarrow> string + (string \<times> u32)" where
  "validateSenderCert u now =
    (case us_cert u of
       Inl e \<Rightarrow> Inl (''libsignal.DecryptSealedSender: sender cert: '' @ e)
     | Inr cert \<Rightarrow>
       (case ct_validate cert now of
          Inl e \<Rightarrow> Inl (''libsignal.DecryptSealedSender: validate cert: '' @ e)
        | Inr False \<Rightarrow> Inl ''libsignal.DecryptSealedSender: sender certificate not trusted''
        | Inr True \<Rightarrow>
          bindR (ct_uuid cert) (\<lambda>uuid. bindR (ct_device cert) (\<lambda>dev. Inr (uuid, dev)))))"

definition decryptUSMCInner ::
  "libsignal \<Rightarrow> usmc \<Rightarrow> Address \<Rightarrow> Address \<Rightarrow> sql_stores \<Rightarrow> sql_stores \<times> (string + bytes \<times> bool)" where
  "decryptUSMCInner L u senderAddr localAddr s =
    (case us_contents u of
       Inl e \<Rightarrow> (s, Inl e)
     | Inr inner \<Rightarrow>
       (case us_type u of
          Inl e \<Rightarrow> (s, Inl e)
        | Inr CtWhisper \<Rightarrow>
            (case deserialize ''DeserializeSignalMessage'' (ls_parse_whisper L) inner of
               Inl e \<Rightarrow> (s, Inl e)
             | Inr m \<Rightarrow> map_prod (\<lambda>s. s) (map_sum (\<lambda>e. e) (\<lambda>pt. (pt, False)))
                          (ls_whisper L m senderAddr localAddr s))
        | Inr CtPreKey \<Rightarrow>
            (case deserialize ''DeserializePreKeySignalMessage'' (ls_parse_prekey L) inner of
               Inl e \<Rightarrow> (s, Inl e)
             | Inr m \<Rightarrow> map_prod (\<lambda>s. s) (map_sum (\<lambda>e. e) (\<lambda>pt. (pt, True)))
                          (ls_prekey L m senderAddr localAddr s))
        | Inr CtPlaintext \<Rightarrow>
            (case deserialize ''DeserializePlaintextContent'' (ls_parse_plaintext L) inner of
               Inl e \<Rightarrow> (s, Inl e)
             | Inr m \<Rightarrow> (s, map_sum (\<lambda>e. e) (\<lambda>pt. (pt, False)) (ls_plaintext L m)))
        | Inr CtSenderKey \<Rightarrow>
            map_prod (\<lambda>s. s) (map_sum (\<lambda>e. e) (\<lambda>pt. (pt, False))) (ls_group L inner senderAddr s)
        | Inr (CtOther n) \<Rightarrow>
            (s, Inl (''libsignal.DecryptSealedSender: unsupported inner type '' @ dec_digits n))))"

text \<open>Plaintext, sender, device, and whether a one-time prekey was used up.\<close>

definition DecryptSealedSender ::
  "libsignal \<Rightarrow> string \<Rightarrow> u32 \<Rightarrow> time \<Rightarrow> bytes \<Rightarrow> sql_stores \<Rightarrow>
   sql_stores \<times> (string + bytes \<times> string \<times> u32 \<times> bool)" where
  "DecryptSealedSender L localID localDevice now ctext s =
    (if localID = [] then (s, Inl ''libsignal.DecryptSealedSender: empty local service id'')
     else case ls_usmc L ctext s of
       (s1, Inl e) \<Rightarrow> (s1, Inl (''libsignal.DecryptSealedSender: unwrap: '' @ e))
     | (s1, Inr u) \<Rightarrow>
       (case validateSenderCert u now of
          Inl e \<Rightarrow> (s1, Inl e)
        | Inr (senderUUID, senderDevice) \<Rightarrow>
          if senderUUID = localID \<and> senderDevice = localDevice then (s1, Inl (ls_self_send L))
          else (case NewAddress L senderUUID senderDevice of
            Inl e \<Rightarrow> (s1, Inl e)
          | Inr senderAddr \<Rightarrow>
            (case NewAddress L localID localDevice of
               Inl e \<Rightarrow> (s1, Inl e)
             | Inr localAddr \<Rightarrow>
               (case decryptUSMCInner L u senderAddr localAddr s1 of
                  (s2, Inl e) \<Rightarrow> (s2, Inl (''libsignal.DecryptSealedSender: inner decrypt: '' @ e))
                | (s2, Inr (pt, consumed)) \<Rightarrow> (s2, Inr (pt, senderUUID, senderDevice, consumed)))))))"

section \<open>The envelope decryptor\<close>

record ('r, 'v) EnvelopeDecryptor =
  ed_localServiceID :: string
  ed_localDeviceID :: u32
  ed_preKeyMaint :: "maintainer option"
  ed_env :: "('r, 'v) maint_env"
  ed_libsignal :: libsignal
  ed_now :: time

text \<open>The decryptor's mutable state: the maintained stores and the account it shares.\<close>

type_synonym ('r, 'v) dec_state = "('r, 'v) maint_state \<times> Account"

definition with_stores ::
  "('r, 'v) dec_state \<Rightarrow> sql_stores \<times> 'a \<Rightarrow> ('r, 'v) dec_state \<times> 'a" where
  "with_stores d r = (((fst d)\<lparr> mt_stores := fst r \<rparr>, snd d), snd r)"

definition bootstrapStores :: "Account \<Rightarrow> sql_stores \<Rightarrow> sql_stores \<times> (string + unit)" where
  "bootstrapStores acct s =
    (case sql_LocalIdentityKey s of
       Inr _ \<Rightarrow> (s, Inr ())
     | Inl _ \<Rightarrow>
       (case sql_SetLocalIdentity s (id_PublicKey (ac_ACIIdentity acct))
               (id_PrivateKey (ac_ACIIdentity acct)) (id_RegistrationID (ac_ACIIdentity acct)) of
          (s', Inl e) \<Rightarrow> (s', Inl ''cipher: bootstrap local identity'')
        | (s', Inr _) \<Rightarrow> (s', Inr ())))"

text \<open>\<open>roots\<close> is what loading the production trust roots returns; nil arguments are None.\<close>

definition NewEnvelopeDecryptor ::
  "('r, 'v) maint_env \<Rightarrow> libsignal \<Rightarrow> time \<Rightarrow> string option \<Rightarrow> Account option \<Rightarrow> sql_stores option \<Rightarrow>
   sql_stores option \<times> (string + ('r, 'v) EnvelopeDecryptor)" where
  "NewEnvelopeDecryptor M L now roots acct stores =
    (case acct of
       None \<Rightarrow> (stores, Inl ''cipher.NewEnvelopeDecryptor: nil account'')
     | Some a \<Rightarrow>
       (case stores of
          None \<Rightarrow> (None, Inl ''cipher.NewEnvelopeDecryptor: nil stores'')
        | Some s \<Rightarrow>
          (case bootstrapStores a s of
             (s', Inl e) \<Rightarrow> (Some s', Inl e)
           | (s', Inr _) \<Rightarrow>
             (case roots of
                Some e \<Rightarrow> (Some s', Inl (''cipher.NewEnvelopeDecryptor: '' @ e))
              | None \<Rightarrow> (Some s', Inr \<lparr> ed_localServiceID = ac_ACI a, ed_localDeviceID = ac_DeviceID a,
                  ed_preKeyMaint = None, ed_env = M, ed_libsignal = L, ed_now = now \<rparr>)))))"

definition SetPreKeyMaintainer ::
  "maintainer option \<Rightarrow> ('r, 'v) EnvelopeDecryptor \<Rightarrow> ('r, 'v) EnvelopeDecryptor" where
  "SetPreKeyMaintainer m D = D\<lparr> ed_preKeyMaint := m \<rparr>"

definition maintainPreKeys ::
  "('r, 'v) EnvelopeDecryptor \<Rightarrow> ('r, 'v) dec_state \<Rightarrow> ('r, 'v) dec_state" where
  "maintainPreKeys D d =
    (case ed_preKeyMaint D of
       None \<Rightarrow> d
     | Some m \<Rightarrow> (case MaybeTopUp (ed_env D) m (snd d) (fst d) of (st, acct, _) \<Rightarrow> (st, acct)))"

definition decryptPlaintext :: "bytes \<Rightarrow> Envelope \<Rightarrow> string + bytes \<times> string \<times> u32" where
  "decryptPlaintext content env =
    (if length content < 2 then Inl ''cipher: plaintext content too short''
     else Inr (drop 1 content, en_SourceServiceId env, en_SourceDeviceId env))"

definition decryptSealed ::
  "('r, 'v) EnvelopeDecryptor \<Rightarrow> bytes \<Rightarrow> ('r, 'v) dec_state \<Rightarrow>
   ('r, 'v) dec_state \<times> (string + bytes \<times> string \<times> u32)" where
  "decryptSealed D content d =
    (let L = ed_libsignal D;
         payload = (if length content = 0 then content
                    else case ls_single L content of Inl _ \<Rightarrow> content | Inr single \<Rightarrow> single)
     in case with_stores d (DecryptSealedSender L (ed_localServiceID D) (ed_localDeviceID D)
               (ed_now D) payload (mt_stores (fst d))) of
          (d1, Inl e) \<Rightarrow> (d1, Inl e)
        | (d1, Inr (pt, sender, device, consumed)) \<Rightarrow>
            (if consumed then maintainPreKeys D d1 else d1, Inr (pt, sender, device)))"

definition decryptMessage ::
  "('r, 'v) EnvelopeDecryptor \<Rightarrow> string \<Rightarrow> (bytes \<Rightarrow> string option) \<Rightarrow>
   (bytes \<Rightarrow> Address \<Rightarrow> Address \<Rightarrow> sql_stores \<Rightarrow> sql_stores \<times> (string + bytes)) \<Rightarrow>
   bytes \<Rightarrow> Envelope \<Rightarrow> ('r, 'v) dec_state \<Rightarrow> ('r, 'v) dec_state \<times> (string + bytes \<times> string \<times> u32)" where
  "decryptMessage D name parse decrypt payload env d =
    (let L = ed_libsignal D in
     case deserialize name parse payload of
       Inl e \<Rightarrow> (d, Inl e)
     | Inr msg \<Rightarrow>
       (case NewAddress L (en_SourceServiceId env) (en_SourceDeviceId env) of
          Inl e \<Rightarrow> (d, Inl e)
        | Inr sender \<Rightarrow>
          (case NewAddress L (ed_localServiceID D) (ed_localDeviceID D) of
             Inl e \<Rightarrow> (d, Inl e)
           | Inr loc \<Rightarrow>
             (case with_stores d (decrypt msg sender loc (mt_stores (fst d))) of
                (d1, Inl e) \<Rightarrow> (d1, Inl e)
              | (d1, Inr ptext) \<Rightarrow>
                  (d1, Inr (ptext, en_SourceServiceId env, en_SourceDeviceId env))))))"

definition decryptWhisper where
  "decryptWhisper D = decryptMessage D ''DeserializeSignalMessage''
     (ls_parse_whisper (ed_libsignal D)) (ls_whisper (ed_libsignal D))"

definition decryptPreKey where
  "decryptPreKey D = decryptMessage D ''DeserializePreKeySignalMessage''
     (ls_parse_prekey (ed_libsignal D)) (ls_prekey (ed_libsignal D))"

definition EnvelopeDecryptor_Decrypt ::
  "('r, 'v) EnvelopeDecryptor \<Rightarrow> Envelope \<Rightarrow> ('r, 'v) dec_state \<Rightarrow>
   ('r, 'v) dec_state \<times> (string + bytes \<times> string \<times> u32)" where
  "EnvelopeDecryptor_Decrypt D env d =
    (let content = en_Content env in
     if length content = 0 then (d, Inl ''cipher: empty envelope content'')
     else case en_Type env of
       EnvPlaintextContent \<Rightarrow> (d, decryptPlaintext content env)
     | EnvUnidentifiedSender \<Rightarrow> decryptSealed D content d
     | EnvDoubleRatchet \<Rightarrow> decryptWhisper D (fst (StripVersionByte content)) env d
     | EnvPreKeyMessage \<Rightarrow>
         (case decryptPreKey D (fst (StripVersionByte content)) env d of
            (d1, Inl e) \<Rightarrow> (d1, Inl e)
          | (d1, Inr r) \<Rightarrow> (maintainPreKeys D d1, Inr r))
     | EnvServerDeliveryReceipt \<Rightarrow> (d, Inl ''cipher: server delivery receipt has no content'')
     | t \<Rightarrow> (d, Inl (''cipher: unsupported envelope type '' @ env_type_String t)))"

text \<open>passthroughDecryptor (pkg/signal/client.go).\<close>

definition passthrough_Decrypt :: "Envelope \<Rightarrow> string + bytes \<times> string \<times> u32" where
  "passthrough_Decrypt env =
    (let content = en_Content env in
     if length content = 0 then Inl ''empty envelope content''
     else if en_Type env = EnvPlaintextContent then
       (if length content < 2 then Inl ''plaintext content too short''
        else Inr (drop 1 content, en_SourceServiceId env, en_SourceDeviceId env))
     else Inr (content, en_SourceServiceId env, en_SourceDeviceId env))"

end
