(* ===== verification/Inbound.thy ===== *)
theory Inbound
  imports Envelope Padding
begin

text \<open>
  The receive path of the client: pkg/signal/client.go (processEnvelope, handleInbound, emit,
  the expire timers), pkg/signal/dispatch.go, and the parts of profile.go, storage.go,
  group_revision.go and attachment.go it calls. The protobuf parsers are parameters; a message
  is a record of the fields the code reads, with the getters' defaults. Goroutines that the
  code starts are recorded in the list of tasks; what they send is not part of this path.
\<close>

section \<open>Wire messages\<close>

record AttachmentPointer =
  ap_ContentType :: string
  ap_FileName :: string
  ap_Size :: u32
  ap_CdnKey :: string
  ap_CdnId :: u64
  ap_CdnNumber :: u32
  ap_Key :: bytes
  ap_Digest :: bytes
  ap_IncrementalMac :: bytes
  ap_ChunkSize :: u32
  ap_UploadTimestamp :: u64

record GroupContextV2 =
  gc_MasterKey :: bytes
  gc_Revision :: u32
  gc_GroupChange :: bytes

record Reaction =
  rx_Emoji :: string
  rx_Remove :: bool
  rx_TargetAuthorAci :: string
  rx_TargetSentTimestamp :: u64

record DataMessage =
  dm_Timestamp :: u64
  dm_GroupV2 :: "GroupContextV2 option"
  dm_Reaction :: "Reaction option"
  dm_Body :: string
  dm_Attachments :: "AttachmentPointer option list"
  dm_ExpireTimer :: "u32 option"
  dm_ProfileKey :: bytes

record EditMessage =
  em_TargetSentTimestamp :: u64
  em_DataMessage :: "DataMessage option"

datatype receipt_kind = RkDelivery | RkRead | RkViewed | RkOther

record ReceiptMessage =
  rm_Type :: receipt_kind
  rm_Timestamp :: "u64 list"

datatype typing_kind = TkStarted | TkStopped | TkOther

record TypingMessage =
  tm_Timestamp :: u64
  tm_Action :: typing_kind
  tm_GroupId :: "bytes option"

datatype fetch_kind = FkStorageManifest | FkOther

record SyncSent =
  ss_Message :: "DataMessage option"
  ss_DestinationServiceId :: string

record SyncMessage =
  sm_Sent :: "SyncSent option"
  sm_Read :: "u64 list"
  sm_FetchLatest :: "fetch_kind option"
  sm_Keys :: "string option"

text \<open>The oneof of Content.\<close>

datatype content_body =
    CbData DataMessage
  | CbReceipt ReceiptMessage
  | CbTyping TypingMessage
  | CbSync SyncMessage
  | CbEdit EditMessage
  | CbDecryptionError
  | CbOther

record Content =
  cn_body :: content_body
  cn_SenderKeyDistributionMessage :: bytes

section \<open>The client\<close>

datatype task =
    TaskMarkRead string time
  | TaskSyncStorage
  | TaskFetchGroup bytes
  | TaskSyncGroup bytes u32

text \<open>Contact and group list entries (storage.go).\<close>

record StoredContact =
  sc_StorageID :: string
  sc_ACI :: string
  sc_E164 :: string
  sc_PNI :: string
  sc_ProfileKey :: bytes
  sc_GivenName :: string
  sc_FamilyName :: string
  sc_Blocked :: bool
  sc_Archived :: bool

record StoredGroup =
  sg_StorageID :: string
  sg_ID :: string
  sg_MasterKey :: bytes
  sg_Blocked :: bool
  sg_Archived :: bool

record ('r, 'v) client =
  cl_acct :: Account
  cl_maint :: "('r, 'v) maint_state"
  cl_events :: "Event list"
  cl_expireTimers :: "(string \<times> u32) list"
  cl_profileKeys :: "(string \<times> bytes) list"
  cl_uaks :: "(string \<times> bytes) list"
  cl_groupRevision :: "(string \<times> u32) list"
  cl_tasks :: "task list"
  cl_storageVersion :: u64
  cl_storedContacts :: "StoredContact list"
  cl_storedGroups :: "StoredGroup list"

record ('r, 'v) client_env =
  ce_eventBufferSize :: nat
  ce_autoMarkRead :: bool
  ce_autoSyncStorage :: bool
  ce_autoSyncGroupUpdates :: bool
  ce_has_storageWebc :: bool
  ce_has_accountStore :: bool
  ce_unmarshal_Envelope :: "bytes \<Rightarrow> string + Envelope"
  ce_unmarshal_Content :: "bytes \<Rightarrow> string + Content"
  ce_deriveAccessKey :: "bytes \<Rightarrow> string + bytes"
  ce_Decrypt :: "Envelope \<Rightarrow> ('r, 'v) dec_state \<Rightarrow>
    ('r, 'v) dec_state \<times> (string + bytes \<times> string \<times> u32)"
  ce_libsignal :: libsignal
  ce_saveAccount :: "Account \<Rightarrow> string option"

definition eventBufferSize :: "int \<Rightarrow> nat" where
  "eventBufferSize n = (if n > 0 then nat n else 256)"

text \<open>A send on the buffered channel; when it is full the event is dropped with a warning.\<close>

definition emit :: "('r, 'v) client_env \<Rightarrow> Event \<Rightarrow> ('r, 'v) client \<Rightarrow> ('r, 'v) client" where
  "emit E ev c =
    (if length (cl_events c) < ce_eventBufferSize E
     then c\<lparr> cl_events := cl_events c @ [ev] \<rparr> else c)"

definition spawn :: "task \<Rightarrow> ('r, 'v) client \<Rightarrow> ('r, 'v) client" where
  "spawn t c = c\<lparr> cl_tasks := cl_tasks c @ [t] \<rparr>"

definition setExpireTimer :: "string \<Rightarrow> u32 \<Rightarrow> ('r, 'v) client \<Rightarrow> ('r, 'v) client" where
  "setExpireTimer chatID seconds c =
    c\<lparr> cl_expireTimers := AList.update chatID seconds (cl_expireTimers c) \<rparr>"

definition expireTimerSeconds :: "('r, 'v) client \<Rightarrow> string \<Rightarrow> u32" where
  "expireTimerSeconds c chatID =
    (case map_of (cl_expireTimers c) chatID of None \<Rightarrow> 0 | Some s \<Rightarrow> s)"

text \<open>
  SetExpireTimer takes nanoseconds. \<open>uint32(d.Seconds())\<close> truncates a float64; the integer
  division is exact for multiples of a millisecond below 2^32 seconds.
\<close>

definition SetExpireTimer :: "string \<Rightarrow> int \<Rightarrow> ('r, 'v) client \<Rightarrow> ('r, 'v) client" where
  "SetExpireTimer chatID d c =
    setExpireTimer chatID (if d > 0 then of_int (d div 1000000000) else 0) c"

definition SetRecipientUAK :: "string \<Rightarrow> bytes \<Rightarrow> ('r, 'v) client \<Rightarrow> ('r, 'v) client" where
  "SetRecipientUAK aci uak c =
    (if length uak = 0 then c\<lparr> cl_uaks := AList.delete aci (cl_uaks c) \<rparr>
     else c\<lparr> cl_uaks := AList.update aci uak (cl_uaks c) \<rparr>)"

definition storeRecipientProfileKey ::
  "('r, 'v) client_env \<Rightarrow> string \<Rightarrow> bytes \<Rightarrow> ('r, 'v) client \<Rightarrow> ('r, 'v) client" where
  "storeRecipientProfileKey E aci profileKey c =
    (if length profileKey \<noteq> 32 then c
     else case ce_deriveAccessKey E profileKey of
       Inl e \<Rightarrow> c
     | Inr uak \<Rightarrow>
         c\<lparr> cl_profileKeys := AList.update aci profileKey (cl_profileKeys c),
            cl_uaks := AList.update aci uak (cl_uaks c) \<rparr>)"

definition SetRecipientProfileKey ::
  "('r, 'v) client_env \<Rightarrow> string \<Rightarrow> bytes \<Rightarrow> ('r, 'v) client \<Rightarrow> ('r, 'v) client" where
  "SetRecipientProfileKey E aci profileKey c =
    (if length profileKey = 0
     then c\<lparr> cl_profileKeys := AList.delete aci (cl_profileKeys c),
             cl_uaks := AList.delete aci (cl_uaks c) \<rparr>
     else storeRecipientProfileKey E aci profileKey c)"

definition ensureRecipientUAK ::
  "('r, 'v) client_env \<Rightarrow> string \<Rightarrow> ('r, 'v) client \<Rightarrow> ('r, 'v) client" where
  "ensureRecipientUAK E aci c =
    (let hasUAK = (case map_of (cl_uaks c) aci of None \<Rightarrow> False | Some u \<Rightarrow> length u > 0);
         profileKey = (case map_of (cl_profileKeys c) aci of None \<Rightarrow> [] | Some k \<Rightarrow> k)
     in if hasUAK \<or> length profileKey = 0 then c else storeRecipientProfileKey E aci profileKey c)"

definition maybeAutoSyncStorage :: "('r, 'v) client_env \<Rightarrow> ('r, 'v) client \<Rightarrow> ('r, 'v) client" where
  "maybeAutoSyncStorage E c = (if \<not> ce_autoSyncStorage E then c else spawn TaskSyncStorage c)"

definition updateAccountEntropyPool ::
  "('r, 'v) client_env \<Rightarrow> string \<Rightarrow> ('r, 'v) client \<Rightarrow> ('r, 'v) client" where
  "updateAccountEntropyPool E pool c =
    (if pool = [] \<or> pool = ac_AccountEntropyPool (cl_acct c) then c
     else
       let acct = (cl_acct c)\<lparr> ac_AccountEntropyPool := pool \<rparr>; c1 = c\<lparr> cl_acct := acct \<rparr>
       in if \<not> ce_has_accountStore E then c1
          else case ce_saveAccount E acct of
            Some e \<Rightarrow> c1
          | None \<Rightarrow> c1\<lparr> cl_maint := (cl_maint c1)\<lparr> mt_saved := Some acct \<rparr> \<rparr>)"

definition cachedGroupRevision :: "('r, 'v) client \<Rightarrow> string \<Rightarrow> u32" where
  "cachedGroupRevision c mkHex = (case map_of (cl_groupRevision c) mkHex of None \<Rightarrow> 0 | Some r \<Rightarrow> r)"

definition storeGroupRevision :: "string \<Rightarrow> u32 \<Rightarrow> ('r, 'v) client \<Rightarrow> ('r, 'v) client" where
  "storeGroupRevision mkHex revision c =
    (if revision > cachedGroupRevision c mkHex
     then c\<lparr> cl_groupRevision := AList.update mkHex revision (cl_groupRevision c) \<rparr> else c)"

definition deleteGroupRevision :: "string \<Rightarrow> ('r, 'v) client \<Rightarrow> ('r, 'v) client" where
  "deleteGroupRevision mkHex c = c\<lparr> cl_groupRevision := AList.delete mkHex (cl_groupRevision c) \<rparr>"

definition maybeAutoSyncGroupUpdate ::
  "('r, 'v) client_env \<Rightarrow> bytes \<Rightarrow> u32 \<Rightarrow> ('r, 'v) client \<Rightarrow> ('r, 'v) client" where
  "maybeAutoSyncGroupUpdate E masterKey advertised c =
    (if \<not> ce_autoSyncGroupUpdates E \<or> \<not> ce_has_storageWebc E then c
     else
       let from0 = cachedGroupRevision c (hexEncode masterKey);
           from = (if from0 = 0 \<and> advertised > 0 then advertised - 1 else from0)
       in spawn (if from = 0 then TaskFetchGroup masterKey else TaskSyncGroup masterKey from) c)"

section \<open>Dispatch of a decrypted content\<close>

text \<open>The eight big-endian bytes of a CDN id.\<close>

definition cdn_id_bytes :: "u64 \<Rightarrow> bytes" where
  "cdn_id_bytes i = map (\<lambda>k. ucast (drop_bit k i)) [56, 48, 40, 32, 24, 16, 8, 0]"

definition attachmentFromPointer :: "AttachmentPointer option \<Rightarrow> AttachmentMeta" where
  "attachmentFromPointer po =
    (case po of
       None \<Rightarrow> \<lparr> am_ContentType = [], am_FileName = [], am_Size = 0, am_CDNKey = [], am_CDNNumber = 0,
                 am_Key = [], am_Digest = None, am_IncrementalMAC = [], am_ChunkSize = 0,
                 am_UploadTimestamp = 0 \<rparr>
     | Some p \<Rightarrow>
         \<lparr> am_ContentType = ap_ContentType p, am_FileName = ap_FileName p, am_Size = ap_Size p,
           am_CDNKey = (if ap_CdnKey p \<noteq> [] then ap_CdnKey p
                        else if ap_CdnId p \<noteq> 0 then hexEncode (cdn_id_bytes (ap_CdnId p)) else []),
           am_CDNNumber = ap_CdnNumber p, am_Key = ap_Key p,
           am_Digest = (if ap_Digest p = [] then None else Some (ap_Digest p)),
           am_IncrementalMAC = ap_IncrementalMac p, am_ChunkSize = ap_ChunkSize p,
           am_UploadTimestamp = ap_UploadTimestamp p \<rparr>)"

definition groupID_of :: "DataMessage \<Rightarrow> string" where
  "groupID_of dm =
    (case dm_GroupV2 dm of
       None \<Rightarrow> []
     | Some g \<Rightarrow> if length (gc_MasterKey g) > 0 then hexEncode (gc_MasterKey g) else [])"

definition processSenderKeyDistribution ::
  "('r, 'v) client_env \<Rightarrow> string \<Rightarrow> u32 \<Rightarrow> bytes \<Rightarrow> ('r, 'v) client \<Rightarrow> ('r, 'v) client \<times> string option" where
  "processSenderKeyDistribution E sender senderDevice skdm c =
    (let L = ce_libsignal E in
     case deserialize ''DeserializeSenderKeyDistributionMessage'' (ls_skdm_parse L) skdm of
       Inl e \<Rightarrow> (c, Some (''deserialize SKDM: '' @ e))
     | Inr m \<Rightarrow>
       (case NewAddress L sender senderDevice of
          Inl e \<Rightarrow> (c, Some e)
        | Inr addr \<Rightarrow>
          (case ls_skdm L addr m (mt_stores (cl_maint c)) of
             (s', r) \<Rightarrow> (c\<lparr> cl_maint := (cl_maint c)\<lparr> mt_stores := s' \<rparr> \<rparr>,
                        map_option (\<lambda>e. ''process SKDM: '' @ e) r))))"

text \<open>The message event and what goes with it, after reactions and group changes were handled.\<close>

definition message_event ::
  "string \<Rightarrow> u32 \<Rightarrow> time \<Rightarrow> time \<Rightarrow> DataMessage \<Rightarrow> MessageEvent" where
  "message_event sender senderDevice ts srvTS dm =
    \<lparr> me_Sender = sender, me_SenderDevice = senderDevice, me_Timestamp = ts,
      me_ServerTimestamp = srvTS, me_Body = dm_Body dm,
      me_Attachments = map attachmentFromPointer (dm_Attachments dm), me_GroupID = groupID_of dm,
      me_ExpiresIn = (case dm_ExpireTimer dm of None \<Rightarrow> 0 | Some t \<Rightarrow> uint t * 1000000000) \<rparr>"

definition handleMessageBody ::
  "('r, 'v) client_env \<Rightarrow> string \<Rightarrow> u32 \<Rightarrow> time \<Rightarrow> time \<Rightarrow> DataMessage \<Rightarrow>
   ('r, 'v) client \<Rightarrow> ('r, 'v) client" where
  "handleMessageBody E sender senderDevice ts srvTS dm c =
    (let c1 = (case dm_ExpireTimer dm of
           None \<Rightarrow> c
         | Some t \<Rightarrow> setExpireTimer (if groupID_of dm \<noteq> [] then groupID_of dm else sender) t c);
         c2 = (if length (dm_ProfileKey dm) = 32
               then storeRecipientProfileKey E sender (dm_ProfileKey dm) c1 else c1);
         c3 = emit E (EvMessage (message_event sender senderDevice ts srvTS dm)) c2
     in if ce_autoMarkRead E \<and> sender \<noteq> [] then spawn (TaskMarkRead sender ts) c3 else c3)"

definition handleDataMessage ::
  "('r, 'v) client_env \<Rightarrow> string \<Rightarrow> u32 \<Rightarrow> time \<Rightarrow> time \<Rightarrow> DataMessage \<Rightarrow>
   ('r, 'v) client \<Rightarrow> ('r, 'v) client" where
  "handleDataMessage E sender senderDevice envTS srvTS dm c =
    (let ts0 = msToTime (dm_Timestamp dm);
         ts = (if IsZero ts0 then envTS else ts0);
         groupID = groupID_of dm;
         message = handleMessageBody E sender senderDevice ts srvTS dm
     in case dm_Reaction dm of
       Some r \<Rightarrow> emit E (EvReaction \<lparr> re_Sender = sender, re_SenderDevice = senderDevice,
           re_Timestamp = ts, re_ServerTimestamp = srvTS, re_Emoji = rx_Emoji r,
           re_Remove = rx_Remove r, re_TargetAuthorACI = rx_TargetAuthorAci r,
           re_TargetTimestamp = msToTime (rx_TargetSentTimestamp r), re_GroupID = groupID \<rparr>) c
     | None \<Rightarrow>
       (case dm_GroupV2 dm of
          None \<Rightarrow> message c
        | Some g \<Rightarrow>
          if length (gc_GroupChange g) > 0 then
            (let c1 = emit E (EvGroupUpdate \<lparr> gu_Sender = sender, gu_SenderDevice = senderDevice,
                   gu_Timestamp = ts, gu_ServerTimestamp = srvTS, gu_GroupID = groupID,
                   gu_Revision = gc_Revision g, gu_GroupChange = gc_GroupChange g \<rparr>) c;
                 c2 = (if length (gc_MasterKey g) > 0
                       then maybeAutoSyncGroupUpdate E (gc_MasterKey g) (gc_Revision g) c1 else c1)
             in if dm_Body dm = [] then c2 else message c2)
          else message c))"

definition handleEditMessage ::
  "('r, 'v) client_env \<Rightarrow> string \<Rightarrow> u32 \<Rightarrow> time \<Rightarrow> time \<Rightarrow> EditMessage \<Rightarrow>
   ('r, 'v) client \<Rightarrow> ('r, 'v) client" where
  "handleEditMessage E sender senderDevice envTS srvTS em c =
    (let (ts, groupID, body) =
       (case em_DataMessage em of
          None \<Rightarrow> (envTS, [], [])
        | Some dm \<Rightarrow>
            (let dmts = msToTime (dm_Timestamp dm)
             in (if \<not> IsZero dmts then dmts else envTS, groupID_of dm, dm_Body dm)))
     in emit E (EvEdit \<lparr> ed_Sender = sender, ed_SenderDevice = senderDevice, ed_Timestamp = ts,
          ed_ServerTimestamp = srvTS, ed_TargetTimestamp = msToTime (em_TargetSentTimestamp em),
          ed_NewBody = body, ed_GroupID = groupID \<rparr>) c)"

definition handleReceiptMessage ::
  "('r, 'v) client_env \<Rightarrow> string \<Rightarrow> u32 \<Rightarrow> ReceiptMessage \<Rightarrow> ('r, 'v) client \<Rightarrow> ('r, 'v) client" where
  "handleReceiptMessage E sender senderDevice rm c =
    (let go = (\<lambda>rt. emit E (EvReceipt \<lparr> rc_Sender = sender, rc_SenderDevice = senderDevice,
                 rc_Type = rt, rc_Timestamps = map msToTime (rm_Timestamp rm) \<rparr>) c)
     in case rm_Type rm of
       RkDelivery \<Rightarrow> go ReceiptDelivery
     | RkRead \<Rightarrow> go ReceiptRead
     | RkViewed \<Rightarrow> go ReceiptViewed
     | RkOther \<Rightarrow> c)"

definition handleTypingMessage ::
  "('r, 'v) client_env \<Rightarrow> string \<Rightarrow> u32 \<Rightarrow> TypingMessage \<Rightarrow> ('r, 'v) client \<Rightarrow> ('r, 'v) client" where
  "handleTypingMessage E sender senderDevice tm c =
    (let go = (\<lambda>action. emit E (EvTyping \<lparr> ty_Sender = sender, ty_SenderDevice = senderDevice,
                 ty_Action = action, ty_Timestamp = msToTime (tm_Timestamp tm),
                 ty_GroupID = (case tm_GroupId tm of None \<Rightarrow> [] | Some g \<Rightarrow> hexEncode g) \<rparr>) c)
     in case tm_Action tm of
       TkStarted \<Rightarrow> go TypingStarted
     | TkStopped \<Rightarrow> go TypingStopped
     | TkOther \<Rightarrow> c)"

definition storageManifestFetchLatest :: "SyncMessage \<Rightarrow> bool" where
  "storageManifestFetchLatest sm \<longleftrightarrow> sm_FetchLatest sm = Some FkStorageManifest"

text \<open>The sender is not an argument of this handler.\<close>

definition handleSyncMessage ::
  "('r, 'v) client_env \<Rightarrow> u32 \<Rightarrow> time \<Rightarrow> SyncMessage \<Rightarrow> ('r, 'v) client \<Rightarrow> ('r, 'v) client" where
  "handleSyncMessage E senderDevice envTS sm c =
    (let ev = \<lparr> sy_SenderDevice = senderDevice, sy_Timestamp = envTS,
           sy_SentBody = (case sm_Sent sm of None \<Rightarrow> []
             | Some s \<Rightarrow> (case ss_Message s of None \<Rightarrow> [] | Some dm \<Rightarrow> dm_Body dm)),
           sy_SentTo = (case sm_Sent sm of None \<Rightarrow> [] | Some s \<Rightarrow> ss_DestinationServiceId s),
           sy_ReadTimestamps = map msToTime (sm_Read sm) \<rparr>;
         c1 = (if storageManifestFetchLatest sm then maybeAutoSyncStorage E c else c);
         c2 = (case sm_Keys sm of
                 None \<Rightarrow> c1
               | Some pool \<Rightarrow> if pool \<noteq> [] then updateAccountEntropyPool E pool c1 else c1)
     in emit E (EvSync ev) c2)"

definition handleDecryptionErrorMessage ::
  "('r, 'v) client_env \<Rightarrow> string \<Rightarrow> u32 \<Rightarrow> time \<Rightarrow> ('r, 'v) client \<Rightarrow> ('r, 'v) client" where
  "handleDecryptionErrorMessage E sender senderDevice envTS c =
    emit E (EvDecryptionError \<lparr> de_Sender = sender, de_SenderDevice = senderDevice,
      de_Timestamp = envTS, de_Err = ''signal: peer reported decryption error'' \<rparr>) c"

definition dispatchContent ::
  "('r, 'v) client_env \<Rightarrow> string \<Rightarrow> u32 \<Rightarrow> time \<Rightarrow> time \<Rightarrow> Content \<Rightarrow>
   ('r, 'v) client \<Rightarrow> ('r, 'v) client" where
  "dispatchContent E sender senderDevice envTS srvTS content c0 =
    (let skdm = cn_SenderKeyDistributionMessage content;
         c = (if length skdm > 0
              then fst (processSenderKeyDistribution E sender senderDevice skdm c0) else c0)
     in case cn_body content of
       CbData dm \<Rightarrow> handleDataMessage E sender senderDevice envTS srvTS dm c
     | CbReceipt rm \<Rightarrow> handleReceiptMessage E sender senderDevice rm c
     | CbTyping tm \<Rightarrow> handleTypingMessage E sender senderDevice tm c
     | CbSync sm \<Rightarrow> handleSyncMessage E senderDevice envTS sm c
     | CbEdit em \<Rightarrow> handleEditMessage E sender senderDevice envTS srvTS em c
     | CbDecryptionError \<Rightarrow> handleDecryptionErrorMessage E sender senderDevice envTS c
     | CbOther \<Rightarrow> c)"

section \<open>Envelopes and requests\<close>

definition processEnvelope ::
  "('r, 'v) client_env \<Rightarrow> bytes \<Rightarrow> ('r, 'v) client \<Rightarrow> ('r, 'v) client" where
  "processEnvelope E data c =
    (case ce_unmarshal_Envelope E data of
       Inl e \<Rightarrow> c
     | Inr env \<Rightarrow>
       if en_Type env = EnvServerDeliveryReceipt then c
       else
         let envTS = msToTime (en_ClientTimestamp env); srvTS = msToTime (en_ServerTimestamp env)
         in (case ce_Decrypt E env (cl_maint c, cl_acct c) of
           ((mt, acct), Inl e) \<Rightarrow>
             emit E (EvDecryptionError \<lparr> de_Sender = en_SourceServiceId env,
               de_SenderDevice = en_SourceDeviceId env, de_Timestamp = envTS,
               de_Err = ''signal: decrypt '' @ env_type_String (en_Type env) @ '': '' @ e \<rparr>)
               (c\<lparr> cl_maint := mt, cl_acct := acct \<rparr>)
         | ((mt, acct), Inr (contentBytes, decSender, decDevice)) \<Rightarrow>
             (let c1 = c\<lparr> cl_maint := mt, cl_acct := acct \<rparr>;
                  sender = (if decSender \<noteq> [] then decSender else en_SourceServiceId env);
                  senderDevice = (if decDevice \<noteq> 0 then decDevice else en_SourceDeviceId env)
              in case ce_unmarshal_Content E (stripContentPadding contentBytes) of
                   Inl e \<Rightarrow>
                     emit E (EvDecryptionError \<lparr> de_Sender = sender, de_SenderDevice = senderDevice,
                       de_Timestamp = envTS, de_Err = ''signal: unmarshal Content: '' @ e \<rparr>) c1
                 | Inr content \<Rightarrow> dispatchContent E sender senderDevice envTS srvTS content c1)))"

record InboundRequest =
  ir_Verb :: string
  ir_Path :: string
  ir_Body :: bytes

definition handleInbound ::
  "('r, 'v) client_env \<Rightarrow> InboundRequest \<Rightarrow> ('r, 'v) client \<Rightarrow> ('r, 'v) client" where
  "handleInbound E req c =
    (if ir_Verb req = ''PUT'' \<and> ir_Path req = ''/api/v1/message'' then processEnvelope E (ir_Body req) c
     else if ir_Verb req = ''PUT'' \<and> ir_Path req = ''/api/v1/queue/empty''
     then emit E (EvQueueEmpty zeroTime) c
     else c)"

end
