(* ===== verification/BackupImport.thy ===== *)
theory BackupImport
  imports Backup Inbound "HOL-Library.List_Lexorder" "HOL-Library.Char_ord"
begin

text \<open>
  Importing a transfer archive: internal/backup/import.go, pkg/signal/backup_import.go and
  backup_import_load.go, and the two import stores of internal/store/memstore and
  internal/store/sqlstore. The target's stores live in a world \<open>'w\<close>; libsignal's validator is a
  state \<open>'x\<close>; the protobuf parser of frames is a parameter.
\<close>

section \<open>Frames\<close>

record BkContact =
  bc_Aci :: bytes
  bc_Pni :: bytes
  bc_E164 :: u64
  bc_ProfileKey :: bytes
  bc_ProfileGivenName :: string
  bc_ProfileFamilyName :: string
  bc_Nickname :: "(string \<times> string) option"
  bc_Blocked :: bool
  bc_IdentityKey :: bytes

text \<open>\<open>bg_Title\<close> is the title blob of the snapshot when both are present.\<close>

record BkGroup =
  bg_MasterKey :: bytes
  bg_Title :: "string option"
  bg_Blocked :: bool

datatype Destination = DestContact "BkContact option" | DestGroup "BkGroup option" | DestOther

record Frame =
  fr_ChatItem :: "bytes option"
  fr_Recipient :: "Destination option"

record ImportedContact =
  ic_ACI :: string
  ic_PNI :: string
  ic_E164 :: string
  ic_ProfileKey :: bytes
  ic_GivenName :: string
  ic_FamilyName :: string
  ic_Blocked :: bool

record ImportedGroup =
  ig_MasterKey :: bytes
  ig_Title :: string
  ig_Blocked :: bool

record 'w import_target =
  it_SaveIdentity :: "('w \<Rightarrow> Address \<Rightarrow> bytes \<Rightarrow> 'w \<times> string option) option"
  it_SaveContact :: "('w \<Rightarrow> ImportedContact \<Rightarrow> 'w \<times> string option) option"
  it_SaveGroup :: "'w \<Rightarrow> ImportedGroup \<Rightarrow> 'w \<times> string option"
  it_OnChatItem :: "('w \<Rightarrow> bytes \<Rightarrow> 'w \<times> string option) option"

record ImportStats =
  st_Contacts :: nat
  st_Groups :: nat
  st_Identities :: nat
  st_Frames :: nat
  st_ChatItems :: nat

record 'x import_lib =
  il_unmarshal :: "bytes \<Rightarrow> string + Frame"
  il_marshal_ChatItem :: "bytes \<Rightarrow> string + bytes"
  il_parse_pub :: "bytes \<Rightarrow> string + bytes"
  il_serialize_pub :: "bytes \<Rightarrow> string + bytes"
  il_validator :: "bytes \<Rightarrow> nat \<Rightarrow> string + 'x"
  il_add :: "'x \<Rightarrow> bytes \<Rightarrow> 'x \<times> string option"
  il_finalize :: "'x \<Rightarrow> string option"

datatype import_err =
    ImpNilKey | ImpEmpty | ImpAesKey string | ImpHmacKey string | ImpDecrypt archive_error
  | ImpInfo frame_error | ImpValidator string | ImpReadFrame frame_error | ImpValidate string
  | ImpUnmarshal string | ImpMarshal string | ImpOnChatItem string | ImpSaveContact string
  | ImpIdentityKey string | ImpSerializeKey string | ImpSaveIdentity string | ImpSaveGroup string
  | ImpFinalize string

section \<open>One frame\<close>

definition rawUUIDString :: "bytes \<Rightarrow> string" where
  "rawUUIDString b = (if length b \<noteq> 16 then [] else FormatRawUUID b)"

fun firstNonEmpty :: "string list \<Rightarrow> string" where
  "firstNonEmpty [] = []"
| "firstNonEmpty (v # vs) = (if v \<noteq> [] then v else firstNonEmpty vs)"

definition nicknameField :: "(string \<times> string) option \<Rightarrow> bool \<Rightarrow> string" where
  "nicknameField n given = (case n of None \<Rightarrow> [] | Some (g, f) \<Rightarrow> if given then g else f)"

text \<open>The entry that a contact becomes; the address book number is printed in decimal.\<close>

definition contact_entry :: "BkContact \<Rightarrow> ImportedContact" where
  "contact_entry c =
    \<lparr> ic_ACI = rawUUIDString (bc_Aci c), ic_PNI = rawUUIDString (bc_Pni c),
      ic_E164 = (if bc_E164 c \<noteq> 0 then dec_digits (unat (bc_E164 c)) else []),
      ic_ProfileKey = bc_ProfileKey c,
      ic_GivenName = firstNonEmpty [bc_ProfileGivenName c, nicknameField (bc_Nickname c) True],
      ic_FamilyName = firstNonEmpty [bc_ProfileFamilyName c, nicknameField (bc_Nickname c) False],
      ic_Blocked = bc_Blocked c \<rparr>"

definition importIdentity ::
  "'x import_lib \<Rightarrow> 'w import_target \<Rightarrow> string \<Rightarrow> BkContact \<Rightarrow> ImportStats \<Rightarrow> 'w \<Rightarrow>
   'w \<times> (import_err + ImportStats)" where
  "importIdentity L T aci c stats w =
    (case it_SaveIdentity T of
       None \<Rightarrow> (w, Inr stats)
     | Some save \<Rightarrow>
       if aci \<noteq> [] \<and> length (bc_IdentityKey c) > 0 then
         (case il_parse_pub L (bc_IdentityKey c) of
            Inl e \<Rightarrow> (w, Inl (ImpIdentityKey e))
          | Inr pub \<Rightarrow>
            (case il_serialize_pub L pub of
               Inl e \<Rightarrow> (w, Inl (ImpSerializeKey e))
             | Inr pubBytes \<Rightarrow>
               (case save w \<lparr> ad_ServiceID = aci, ad_DeviceID = 1 \<rparr> pubBytes of
                  (w', Some e) \<Rightarrow> (w', Inl (ImpSaveIdentity e))
                | (w', None) \<Rightarrow> (w', Inr (stats\<lparr> st_Identities := st_Identities stats + 1 \<rparr>)))))
       else (w, Inr stats))"

definition importContact ::
  "'x import_lib \<Rightarrow> 'w import_target \<Rightarrow> BkContact option \<Rightarrow> ImportStats \<Rightarrow> 'w \<Rightarrow>
   'w \<times> (import_err + ImportStats)" where
  "importContact L T co stats w =
    (case co of
       None \<Rightarrow> (w, Inr stats)
     | Some c \<Rightarrow>
       let entry = contact_entry c; aci = ic_ACI entry in
       if aci = [] \<and> ic_E164 entry = [] \<and> ic_PNI entry = [] then (w, Inr stats)
       else
         (case (if aci \<noteq> [] then it_SaveContact T else None) of
            None \<Rightarrow> importIdentity L T aci c stats w
          | Some save \<Rightarrow>
            (case save w entry of
               (w', Some e) \<Rightarrow> (w', Inl (ImpSaveContact e))
             | (w', None) \<Rightarrow>
                 importIdentity L T aci c (stats\<lparr> st_Contacts := st_Contacts stats + 1 \<rparr>) w')))"

definition importGroup ::
  "'w import_target \<Rightarrow> BkGroup option \<Rightarrow> ImportStats \<Rightarrow> 'w \<Rightarrow> 'w \<times> (import_err + ImportStats)" where
  "importGroup T go stats w =
    (case go of
       None \<Rightarrow> (w, Inr stats)
     | Some g \<Rightarrow>
       if it_SaveContact T = None then (w, Inr stats)
       else if length (bg_MasterKey g) \<noteq> 32 then (w, Inr stats)
       else
         (case it_SaveGroup T w \<lparr> ig_MasterKey = bg_MasterKey g,
                 ig_Title = (case bg_Title g of None \<Rightarrow> [] | Some t \<Rightarrow> t), ig_Blocked = bg_Blocked g \<rparr> of
            (w', Some e) \<Rightarrow> (w', Inl (ImpSaveGroup e))
          | (w', None) \<Rightarrow> (w', Inr (stats\<lparr> st_Groups := st_Groups stats + 1 \<rparr>))))"

definition importFrame ::
  "'x import_lib \<Rightarrow> 'w import_target \<Rightarrow> bytes \<Rightarrow> ImportStats \<Rightarrow> 'w \<Rightarrow> 'w \<times> (import_err + ImportStats)" where
  "importFrame L T frameBytes stats w =
    (case il_unmarshal L frameBytes of
       Inl e \<Rightarrow> (w, Inl (ImpUnmarshal e))
     | Inr frame \<Rightarrow>
       (case fr_ChatItem frame of
          Some ci \<Rightarrow>
            (case it_OnChatItem T of
               None \<Rightarrow> (w, Inr (stats\<lparr> st_ChatItems := st_ChatItems stats + 1 \<rparr>))
             | Some on \<Rightarrow>
               (case il_marshal_ChatItem L ci of
                  Inl e \<Rightarrow> (w, Inl (ImpMarshal e))
                | Inr wire \<Rightarrow>
                  (case on w wire of
                     (w', Some e) \<Rightarrow> (w', Inl (ImpOnChatItem e))
                   | (w', None) \<Rightarrow> (w', Inr (stats\<lparr> st_ChatItems := st_ChatItems stats + 1 \<rparr>)))))
        | None \<Rightarrow>
          (case fr_Recipient frame of
             None \<Rightarrow> (w, Inr stats)
           | Some (DestContact c) \<Rightarrow> importContact L T c stats w
           | Some (DestGroup g) \<Rightarrow> importGroup T g stats w
           | Some DestOther \<Rightarrow> (w, Inr stats))))"

section \<open>The frame loop\<close>

text \<open>
  \<open>errors.Is(err, io.EOF)\<close>: the error of a buffer that could not be filled wraps the reader's
  io.EOF, so it counts as the end too.
\<close>

definition is_EOF :: "frame_error \<Rightarrow> bool" where
  "is_EOF e \<longleftrightarrow> e = FrameEOF \<or> e = FrameTruncated"

definition empty_stats :: ImportStats where
  "empty_stats = \<lparr> st_Contacts = 0, st_Groups = 0, st_Identities = 0, st_Frames = 0, st_ChatItems = 0 \<rparr>"

definition AddFrame :: "'x import_lib \<Rightarrow> 'x \<Rightarrow> bytes \<Rightarrow> 'x \<times> string option" where
  "AddFrame L v f =
    (if length f = 0 then (v, Some ''libsignal.OnlineBackupValidator.AddFrame: empty frame'')
     else il_add L v f)"

function import_loop ::
  "'x import_lib \<Rightarrow> 'w import_target \<Rightarrow> bytes \<Rightarrow> 'x \<Rightarrow> ImportStats \<Rightarrow> 'w \<Rightarrow>
   'w \<times> (import_err + 'x \<times> ImportStats)" where
  "import_loop L T r v stats w =
    (case ReadVarintFrame r of
       Inl e \<Rightarrow> if is_EOF e then (w, Inr (v, stats)) else (w, Inl (ImpReadFrame e))
     | Inr (frameBytes, r') \<Rightarrow>
       if length frameBytes = 0 then import_loop L T r' v stats w
       else
         (case AddFrame L v frameBytes of
            (v', Some e) \<Rightarrow> (w, Inl (ImpValidate e))
          | (v', None) \<Rightarrow>
            (case importFrame L T frameBytes (stats\<lparr> st_Frames := st_Frames stats + 1 \<rparr>) w of
               (w', Inl e) \<Rightarrow> (w', Inl e)
             | (w', Inr stats') \<Rightarrow> import_loop L T r' v' stats' w')))"
  by pat_completeness auto
termination
  by (relation "measure (\<lambda>(L, T, r, v, stats, w). length r)")
     (auto dest: ReadVarintFrame_progress)

declare import_loop.simps [simp del]

definition importPlaintext ::
  "'x import_lib \<Rightarrow> nat \<Rightarrow> 'w import_target \<Rightarrow> bytes \<Rightarrow> 'w \<Rightarrow> 'w \<times> (import_err + ImportStats)" where
  "importPlaintext L purpose T plain w =
    (case ReadVarintFrame plain of
       Inl e \<Rightarrow> (w, Inl (ImpInfo e))
     | Inr (info, r) \<Rightarrow>
       (case (if length info = 0 then Inl ''libsignal.NewOnlineBackupValidator: empty backup info frame''
              else il_validator L info purpose) of
          Inl e \<Rightarrow> (w, Inl (ImpValidator e))
        | Inr v \<Rightarrow>
          (case import_loop L T r v empty_stats w of
             (w', Inl e) \<Rightarrow> (w', Inl e)
           | (w', Inr (v', stats)) \<Rightarrow>
             (case il_finalize L v' of
                Some e \<Rightarrow> (w', Inl (ImpFinalize e))
              | None \<Rightarrow> (w', Inr stats)))))"

text \<open>A key is the pair of what AesKey and HmacKey return.\<close>

type_synonym backup_key = "(string + bytes) \<times> (string + bytes)"

definition ImportArchive ::
  "crypto \<Rightarrow> (bytes \<Rightarrow> string + bytes) \<Rightarrow> 'x import_lib \<Rightarrow> backup_key option \<Rightarrow> bytes \<Rightarrow> nat \<Rightarrow>
   'w import_target \<Rightarrow> 'w \<Rightarrow> 'w \<times> (import_err + ImportStats)" where
  "ImportArchive C gunzip L key ciphertext purpose T w =
    (case key of
       None \<Rightarrow> (w, Inl ImpNilKey)
     | Some (aesR, hmacR) \<Rightarrow>
       if length ciphertext = 0 then (w, Inl ImpEmpty)
       else (case aesR of
         Inl e \<Rightarrow> (w, Inl (ImpAesKey e))
       | Inr aesKey \<Rightarrow>
         (case hmacR of
            Inl e \<Rightarrow> (w, Inl (ImpHmacKey e))
          | Inr hmacKey \<Rightarrow>
            (case DecryptArchive C gunzip ciphertext aesKey hmacKey of
               Inl e \<Rightarrow> (w, Inl (ImpDecrypt e))
             | Inr plain \<Rightarrow> importPlaintext L purpose T plain w))))"

datatype transfer_err = TrEmpty | TrKeyLen | TrACI | TrNoTarget | TrDeriveKey string | TrImport import_err

text \<open>The default purpose, device transfer, is 0 as well.\<close>

definition ImportTransferArchive ::
  "crypto \<Rightarrow> (bytes \<Rightarrow> string + bytes) \<Rightarrow> 'x import_lib \<Rightarrow> (bytes \<Rightarrow> string \<Rightarrow> string + backup_key) \<Rightarrow>
   bytes \<Rightarrow> bytes \<Rightarrow> string \<Rightarrow> nat \<Rightarrow> 'w import_target \<Rightarrow> 'w \<Rightarrow> 'w \<times> (transfer_err + ImportStats)" where
  "ImportTransferArchive C gunzip L derive archive ephemeral aci purpose T w =
    (if length archive = 0 then (w, Inl TrEmpty)
     else if length ephemeral \<noteq> 32 then (w, Inl TrKeyLen)
     else if aci = [] then (w, Inl TrACI)
     else if it_SaveIdentity T = None \<and> it_SaveContact T = None \<and> it_OnChatItem T = None
     then (w, Inl TrNoTarget)
     else (case derive ephemeral aci of
       Inl e \<Rightarrow> (w, Inl (TrDeriveKey e))
     | Inr key \<Rightarrow>
       (case ImportArchive C gunzip L (Some key) archive purpose T w of
          (w', Inl e) \<Rightarrow> (w', Inl (TrImport e))
        | (w', Inr stats) \<Rightarrow> (w', Inr stats))))"

end
