(* ===== verification/InboundLaws.thy ===== *)
theory InboundLaws
  imports Inbound
begin

text \<open>
  What the receive path does: the events of a request as a pure function, and the effects on the
  rest of the client.
\<close>

section \<open>The bounded queue\<close>

definition queue_push :: "nat \<Rightarrow> Event list \<Rightarrow> Event list \<Rightarrow> Event list" where
  "queue_push cap q evs = q @ take (cap - length q) evs"

lemma queue_push_Nil [simp]: "queue_push cap q [] = q"
  by (simp add: queue_push_def)

lemma queue_push_append: "queue_push cap (queue_push cap q xs) ys = queue_push cap q (xs @ ys)"
  by (auto simp: queue_push_def min_def)

lemma length_queue_push: "length q \<le> cap \<Longrightarrow> length (queue_push cap q evs) \<le> cap"
  by (simp add: queue_push_def)

lemma emit_events [simp]: "cl_events (emit E ev c) = queue_push (ce_eventBufferSize E) (cl_events c) [ev]"
  by (simp add: emit_def queue_push_def)

lemma emit_frame [simp]:
  "cl_acct (emit E ev c) = cl_acct c" "cl_maint (emit E ev c) = cl_maint c"
  "cl_expireTimers (emit E ev c) = cl_expireTimers c" "cl_profileKeys (emit E ev c) = cl_profileKeys c"
  "cl_uaks (emit E ev c) = cl_uaks c" "cl_groupRevision (emit E ev c) = cl_groupRevision c"
  "cl_tasks (emit E ev c) = cl_tasks c"
  by (simp_all add: emit_def)

lemma helper_events [simp]:
  "cl_events (setExpireTimer ch secs c) = cl_events c"
  "cl_events (storeRecipientProfileKey E a k c) = cl_events c"
  "cl_events (maybeAutoSyncStorage E c) = cl_events c"
  "cl_events (updateAccountEntropyPool E p c) = cl_events c"
  "cl_events (maybeAutoSyncGroupUpdate E mk r c) = cl_events c"
  "cl_events (spawn tk c) = cl_events c"
  by (auto simp: setExpireTimer_def storeRecipientProfileKey_def maybeAutoSyncStorage_def spawn_def
      updateAccountEntropyPool_def maybeAutoSyncGroupUpdate_def Let_def split: sum.splits option.splits)

lemma skdm_events [simp]: "cl_events (fst (processSenderKeyDistribution E s d m c)) = cl_events c"
  by (auto simp: processSenderKeyDistribution_def Let_def split: sum.splits prod.splits)

section \<open>The events of a content\<close>

definition message_time :: "time \<Rightarrow> u64 \<Rightarrow> time" where
  "message_time envTS ms = (if ms = 0 \<or> msToTime ms = zeroTime then envTS else msToTime ms)"

definition has_group_change :: "DataMessage \<Rightarrow> bool" where
  "has_group_change dm \<longleftrightarrow> (\<exists>g. dm_GroupV2 dm = Some g \<and> gc_GroupChange g \<noteq> [])"

text \<open>A reaction is only a reaction; a group change comes before the message, if any.\<close>

definition data_events :: "string \<Rightarrow> u32 \<Rightarrow> time \<Rightarrow> time \<Rightarrow> DataMessage \<Rightarrow> Event list" where
  "data_events sender dev envTS srvTS dm =
    (let ts = message_time envTS (dm_Timestamp dm) in
     case dm_Reaction dm of
       Some r \<Rightarrow> [EvReaction \<lparr> re_Sender = sender, re_SenderDevice = dev, re_Timestamp = ts,
           re_ServerTimestamp = srvTS, re_Emoji = rx_Emoji r, re_Remove = rx_Remove r,
           re_TargetAuthorACI = rx_TargetAuthorAci r,
           re_TargetTimestamp = msToTime (rx_TargetSentTimestamp r), re_GroupID = groupID_of dm \<rparr>]
     | None \<Rightarrow>
       (if has_group_change dm then
          [EvGroupUpdate \<lparr> gu_Sender = sender, gu_SenderDevice = dev, gu_Timestamp = ts,
             gu_ServerTimestamp = srvTS, gu_GroupID = groupID_of dm,
             gu_Revision = gc_Revision (the (dm_GroupV2 dm)),
             gu_GroupChange = gc_GroupChange (the (dm_GroupV2 dm)) \<rparr>] else []) @
       (if has_group_change dm \<and> dm_Body dm = [] then []
        else [EvMessage (message_event sender dev ts srvTS dm)]))"

definition content_events :: "string \<Rightarrow> u32 \<Rightarrow> time \<Rightarrow> time \<Rightarrow> content_body \<Rightarrow> Event list" where
  "content_events sender dev envTS srvTS body =
    (case body of
       CbData dm \<Rightarrow> data_events sender dev envTS srvTS dm
     | CbReceipt rm \<Rightarrow>
         (let ev = (\<lambda>t. [EvReceipt \<lparr> rc_Sender = sender, rc_SenderDevice = dev, rc_Type = t,
                             rc_Timestamps = map msToTime (rm_Timestamp rm) \<rparr>])
          in case rm_Type rm of RkDelivery \<Rightarrow> ev ReceiptDelivery | RkRead \<Rightarrow> ev ReceiptRead
             | RkViewed \<Rightarrow> ev ReceiptViewed | RkOther \<Rightarrow> [])
     | CbTyping tm \<Rightarrow>
         (let ev = (\<lambda>a. [EvTyping \<lparr> ty_Sender = sender, ty_SenderDevice = dev, ty_Action = a,
                             ty_Timestamp = msToTime (tm_Timestamp tm),
                             ty_GroupID = hexEncode (case tm_GroupId tm of None \<Rightarrow> [] | Some g \<Rightarrow> g) \<rparr>])
          in case tm_Action tm of TkStarted \<Rightarrow> ev TypingStarted | TkStopped \<Rightarrow> ev TypingStopped
             | TkOther \<Rightarrow> [])
     | CbSync sm \<Rightarrow>
         [EvSync \<lparr> sy_SenderDevice = dev, sy_Timestamp = envTS,
            sy_SentBody = (case Option.bind (sm_Sent sm) ss_Message of Some dm \<Rightarrow> dm_Body dm | None \<Rightarrow> []),
            sy_SentTo = (case sm_Sent sm of Some s \<Rightarrow> ss_DestinationServiceId s | None \<Rightarrow> []),
            sy_ReadTimestamps = map msToTime (sm_Read sm) \<rparr>]
     | CbEdit em \<Rightarrow>
         [EvEdit \<lparr> ed_Sender = sender, ed_SenderDevice = dev,
            ed_Timestamp = (case em_DataMessage em of None \<Rightarrow> envTS
              | Some dm \<Rightarrow> message_time envTS (dm_Timestamp dm)),
            ed_ServerTimestamp = srvTS, ed_TargetTimestamp = msToTime (em_TargetSentTimestamp em),
            ed_NewBody = (case em_DataMessage em of None \<Rightarrow> [] | Some dm \<Rightarrow> dm_Body dm),
            ed_GroupID = (case em_DataMessage em of None \<Rightarrow> [] | Some dm \<Rightarrow> groupID_of dm) \<rparr>]
     | CbDecryptionError \<Rightarrow>
         [EvDecryptionError \<lparr> de_Sender = sender, de_SenderDevice = dev, de_Timestamp = envTS,
            de_Err = ''signal: peer reported decryption error'' \<rparr>]
     | CbOther \<Rightarrow> [])"

lemma message_time_eq:
  "message_time envTS ms = (if IsZero (msToTime ms) then envTS else msToTime ms)"
  by (auto simp: message_time_def IsZero_def msToTime_def)

lemma message_body_events [simp]:
  "cl_events (handleMessageBody E s d ts v dm c) =
    queue_push (ce_eventBufferSize E) (cl_events c) [EvMessage (message_event s d ts v dm)]"
  by (cases "dm_ExpireTimer dm") (simp_all add: handleMessageBody_def Let_def)

lemma data_message_events:
  "cl_events (handleDataMessage E s d e v dm c) =
    queue_push (ce_eventBufferSize E) (cl_events c) (data_events s d e v dm)"
  by (cases "dm_Reaction dm"; cases "dm_GroupV2 dm")
     (auto simp: handleDataMessage_def Let_def data_events_def message_time_eq has_group_change_def
       queue_push_append)

lemma dispatchContent_events:
  "cl_events (dispatchContent E s d e v content c) =
    queue_push (ce_eventBufferSize E) (cl_events c) (content_events s d e v (cn_body content))"
proof (cases "cn_body content")
  case (CbData dm)
  then show ?thesis by (simp add: dispatchContent_def content_events_def data_message_events Let_def)
next
  case (CbReceipt rm)
  then show ?thesis
    by (cases "rm_Type rm") (simp_all add: dispatchContent_def content_events_def handleReceiptMessage_def Let_def)
next
  case (CbTyping tm)
  then show ?thesis
    by (cases "tm_Action tm"; cases "tm_GroupId tm")
       (simp_all add: dispatchContent_def content_events_def handleTypingMessage_def Let_def)
next
  case (CbSync sm)
  then show ?thesis
    by (auto simp: dispatchContent_def content_events_def handleSyncMessage_def Let_def
        split: option.splits)
next
  case (CbEdit em)
  then show ?thesis
    by (cases "em_DataMessage em")
       (simp_all add: dispatchContent_def content_events_def handleEditMessage_def message_time_eq Let_def)
qed (simp_all add: dispatchContent_def content_events_def handleDecryptionErrorMessage_def Let_def)

lemma length_content_events: "length (content_events s d e v body) \<le> 2"
  by (auto simp: content_events_def data_events_def Let_def
      split: content_body.splits receipt_kind.splits typing_kind.splits option.splits)

section \<open>The events of a request\<close>

definition envelope_events ::
  "('r, 'v) client_env \<Rightarrow> bytes \<Rightarrow> ('r, 'v) dec_state \<Rightarrow> Event list" where
  "envelope_events E data d =
    (case ce_unmarshal_Envelope E data of
       Inl _ \<Rightarrow> []
     | Inr env \<Rightarrow>
       if en_Type env = EnvServerDeliveryReceipt then [] else
       let envTS = msToTime (en_ClientTimestamp env); srvTS = msToTime (en_ServerTimestamp env) in
       (case snd (ce_Decrypt E env d) of
          Inl e \<Rightarrow> [EvDecryptionError \<lparr> de_Sender = en_SourceServiceId env,
               de_SenderDevice = en_SourceDeviceId env, de_Timestamp = envTS,
               de_Err = ''signal: decrypt '' @ env_type_String (en_Type env) @ '': '' @ e \<rparr>]
        | Inr (b, s, dev) \<Rightarrow>
          (let sender = (if s \<noteq> [] then s else en_SourceServiceId env);
               device = (if dev \<noteq> 0 then dev else en_SourceDeviceId env)
           in case ce_unmarshal_Content E (stripContentPadding b) of
                Inl e \<Rightarrow> [EvDecryptionError \<lparr> de_Sender = sender, de_SenderDevice = device,
                   de_Timestamp = envTS, de_Err = ''signal: unmarshal Content: '' @ e \<rparr>]
              | Inr content \<Rightarrow> content_events sender device envTS srvTS (cn_body content))))"

definition request_events ::
  "('r, 'v) client_env \<Rightarrow> InboundRequest \<Rightarrow> ('r, 'v) dec_state \<Rightarrow> Event list" where
  "request_events E req d =
    (if ir_Verb req \<noteq> ''PUT'' then []
     else if ir_Path req = ''/api/v1/message'' then envelope_events E (ir_Body req) d
     else if ir_Path req = ''/api/v1/queue/empty'' then [EvQueueEmpty zeroTime] else [])"

lemma processEnvelope_events:
  "cl_events (processEnvelope E data c) =
    queue_push (ce_eventBufferSize E) (cl_events c) (envelope_events E data (cl_maint c, cl_acct c))"
  by (auto simp: processEnvelope_def envelope_events_def Let_def dispatchContent_events
      split: sum.splits prod.splits)

lemma length_envelope_events: "length (envelope_events E data d) \<le> 2"
  by (auto simp: envelope_events_def Let_def length_content_events split: sum.splits prod.splits)

text \<open>
  C3. The receive path as a refinement of its event specification. One websocket request appends
  to the event channel the events of its content, as given by request_events: at most two, a
  group update before its message, one error event for a failed decryption or an unparsable
  content, nothing for other requests and server receipts. Events already queued stay in order,
  the channel never exceeds its capacity, and only what does not fit is dropped.
\<close>

theorem inbound_refines_events:
  assumes "length (cl_events c) \<le> ce_eventBufferSize E"
  shows "cl_events (handleInbound E req c) = cl_events c @
      take (ce_eventBufferSize E - length (cl_events c)) (request_events E req (cl_maint c, cl_acct c)) \<and>
    length (request_events E req (cl_maint c, cl_acct c)) \<le> 2 \<and>
    length (cl_events (handleInbound E req c)) \<le> ce_eventBufferSize E"
proof -
  have "cl_events (handleInbound E req c) =
      queue_push (ce_eventBufferSize E) (cl_events c) (request_events E req (cl_maint c, cl_acct c))"
    by (simp add: handleInbound_def request_events_def processEnvelope_events)
  moreover have "length (request_events E req (cl_maint c, cl_acct c)) \<le> 2"
    by (simp add: request_events_def length_envelope_events)
  ultimately show ?thesis
    using length_queue_push [OF assms] by (metis queue_push_def)
qed

section \<open>Who sent it\<close>

lemma validateSenderCert_ok:
  "validateSenderCert u now = Inr (s, dev) \<longleftrightarrow>
     (\<exists>cert. us_cert u = Inr cert \<and> ct_validate cert now = Inr True \<and>
        ct_uuid cert = Inr s \<and> ct_device cert = Inr dev)"
  by (auto simp: validateSenderCert_def bindR_Inr_iff split: sum.splits bool.splits)

lemma DecryptSealedSender_ok:
  assumes "DecryptSealedSender L lid ldev now ctext st = (st', Inr (pt, s, dev, used))"
  shows "\<exists>u. snd (ls_usmc L ctext st) = Inr u \<and> validateSenderCert u now = Inr (s, dev) \<and>
    (s, dev) \<noteq> (lid, ldev) \<and> s \<noteq> []"
  using assms
  by (auto simp: DecryptSealedSender_def NewAddress_def Let_def
      split: if_splits sum.splits prod.splits option.splits)

lemma decryptSealed_ok:
  assumes "EnvelopeDecryptor_Decrypt D env d = (d', Inr (pt, s, dev))"
    and "en_Type env = EnvUnidentifiedSender"
  shows "\<exists>payload u cert. (payload = en_Content env \<or> ls_single (ed_libsignal D) (en_Content env) = Inr payload) \<and>
    snd (ls_usmc (ed_libsignal D) payload (mt_stores (fst d))) = Inr u \<and> us_cert u = Inr cert \<and>
    ct_validate cert (ed_now D) = Inr True \<and> ct_uuid cert = Inr s \<and> ct_device cert = Inr dev \<and>
    (s, dev) \<noteq> (ed_localServiceID D, ed_localDeviceID D) \<and> s \<noteq> []"
proof -
  let ?payload = "case ls_single (ed_libsignal D) (en_Content env) of Inl _ \<Rightarrow> en_Content env | Inr single \<Rightarrow> single"
  let ?dec = "DecryptSealedSender (ed_libsignal D) (ed_localServiceID D) (ed_localDeviceID D)
    (ed_now D) ?payload (mt_stores (fst d))"
  have "decryptSealed D (en_Content env) d = (d', Inr (pt, s, dev))" "en_Content env \<noteq> []"
    using assms by (auto simp: EnvelopeDecryptor_Decrypt_def Let_def split: if_splits)
  then obtain used where "snd ?dec = Inr (pt, s, dev, used)"
    by (auto simp: decryptSealed_def with_stores_def Let_def split: sum.splits prod.splits)
  then have "?dec = (fst ?dec, Inr (pt, s, dev, used))" by (simp add: prod_eq_iff)
  from DecryptSealedSender_ok [OF this] show ?thesis
    unfolding validateSenderCert_ok by (intro exI [of _ ?payload]) (auto split: sum.splits)
qed

lemma content_events_sender:
  "EvMessage m \<in> set (content_events s d e v body) \<Longrightarrow> me_Sender m = s"
  by (auto simp: content_events_def data_events_def message_event_def Let_def
      split: content_body.splits receipt_kind.splits typing_kind.splits option.splits if_splits)

definition put_message :: "bytes \<Rightarrow> InboundRequest" where
  "put_message data = \<lparr> ir_Verb = ''PUT'', ir_Path = ''/api/v1/message'', ir_Body = data \<rparr>"

text \<open>
  C4. Sealed-sender messages carry an authenticated sender. Every message event that a
  sealed-sender envelope gives rise to names as its sender the service id in a sender
  certificate that validated at the time of decryption, in the unsealed payload; the sender is
  not empty and not this device itself. The source that the envelope claims is never used.
\<close>

theorem sealed_sender_authenticated:
  assumes env: "ce_unmarshal_Envelope E data = Inr env" "en_Type env = EnvUnidentifiedSender"
    and dec: "ce_Decrypt E = EnvelopeDecryptor_Decrypt D"
    and ev: "EvMessage m \<in> set (request_events E (put_message data) d)"
  shows "\<exists>payload u cert dev. (payload = en_Content env \<or> ls_single (ed_libsignal D) (en_Content env) = Inr payload) \<and>
    snd (ls_usmc (ed_libsignal D) payload (mt_stores (fst d))) = Inr u \<and> us_cert u = Inr cert \<and>
    ct_validate cert (ed_now D) = Inr True \<and> ct_uuid cert = Inr (me_Sender m) \<and>
    ct_device cert = Inr dev \<and> me_Sender m \<noteq> [] \<and>
    (me_Sender m, dev) \<noteq> (ed_localServiceID D, ed_localDeviceID D)"
proof -
  have ne: "EvMessage m \<in> set (envelope_events E data d)"
    using ev by (simp add: request_events_def put_message_def)
  then obtain b s dev where sd: "snd (EnvelopeDecryptor_Decrypt D env d) = Inr (b, s, dev)"
    using env dec by (auto simp: envelope_events_def Let_def split: sum.splits prod.splits)
  have r: "EnvelopeDecryptor_Decrypt D env d = (fst (EnvelopeDecryptor_Decrypt D env d), Inr (b, s, dev))"
    using sd by (simp add: prod_eq_iff)
  note a = decryptSealed_ok [OF r env(2)]
  then have s: "s \<noteq> []" by blast
  have "me_Sender m = s"
    using ne env dec sd s
    by (auto simp: envelope_events_def Let_def dest: content_events_sender split: sum.splits prod.splits)
  then show ?thesis using a by blast
qed

text \<open>
  C5. A plaintext envelope is believed. The protocol lets plaintext envelopes carry encryption
  error receipts only; the client dispatches whatever content one holds as if the source that
  the envelope names had sent it, without any key: in particular a synchronisation message in
  it replaces the account entropy pool, for any source.
\<close>

theorem plaintext_envelope_believed:
  assumes env: "ce_unmarshal_Envelope E data = Inr env" "en_Type env = EnvPlaintextContent"
    and dec: "ce_Decrypt E = EnvelopeDecryptor_Decrypt D" "2 \<le> length (en_Content env)"
    and content: "ce_unmarshal_Content E (stripContentPadding (drop 1 (en_Content env))) = Inr content"
  shows "handleInbound E (put_message data) c =
      dispatchContent E (en_SourceServiceId env) (en_SourceDeviceId env)
        (msToTime (en_ClientTimestamp env)) (msToTime (en_ServerTimestamp env)) content c \<and>
    (\<forall>sm pool. cn_body content = CbSync sm \<and> sm_Keys sm = Some pool \<and> pool \<noteq> [] \<longrightarrow>
      ac_AccountEntropyPool (cl_acct (handleInbound E (put_message data) c)) = pool)"
proof -
  have c: "c\<lparr> cl_maint := cl_maint c, cl_acct := cl_acct c \<rparr> = c" by simp
  have "EnvelopeDecryptor_Decrypt D env (cl_maint c, cl_acct c) =
      ((cl_maint c, cl_acct c), Inr (drop 1 (en_Content env), en_SourceServiceId env, en_SourceDeviceId env))"
    using env(2) dec(2) by (auto simp: EnvelopeDecryptor_Decrypt_def decryptPlaintext_def Let_def)
  then have 1: "handleInbound E (put_message data) c =
      dispatchContent E (en_SourceServiceId env) (en_SourceDeviceId env)
        (msToTime (en_ClientTimestamp env)) (msToTime (en_ServerTimestamp env)) content c"
    using env dec(1) content by (simp add: handleInbound_def put_message_def processEnvelope_def Let_def)
  have "ac_AccountEntropyPool (cl_acct (dispatchContent E s d e v content c)) = pool"
    if "cn_body content = CbSync sm" "sm_Keys sm = Some pool" "pool \<noteq> []" for sm pool s d e v
    using that by (auto simp: dispatchContent_def handleSyncMessage_def updateAccountEntropyPool_def Let_def
        split: option.splits)
  with 1 show ?thesis by simp
qed

text \<open>
  C6. The sender of a synchronisation message is not looked at. Two sync messages that differ
  only in who sent them have the same effect, so one from any contact, not only from the
  account's own devices, replaces the account entropy pool, starts a storage sync and reports
  what the account is said to have sent.
\<close>

theorem sync_sender_unchecked:
  assumes "cn_body content = CbSync sm" "cn_SenderKeyDistributionMessage content = []"
  shows "dispatchContent E s d e v content c = dispatchContent E s' d e v content c \<and>
    (case sm_Keys sm of Some pool \<Rightarrow>
       if pool = [] then True
       else ac_AccountEntropyPool (cl_acct (dispatchContent E s d e v content c)) = pool
     | None \<Rightarrow> True) \<and>
    (if sm_FetchLatest sm = Some FkStorageManifest \<and> ce_autoSyncStorage E
     then cl_tasks (dispatchContent E s d e v content c) = cl_tasks c @ [TaskSyncStorage]
     else cl_tasks (dispatchContent E s d e v content c) = cl_tasks c)"
  using assms
  by (auto simp: dispatchContent_def handleSyncMessage_def updateAccountEntropyPool_def Let_def
      storageManifestFetchLatest_def maybeAutoSyncStorage_def spawn_def split: option.splits)

section \<open>Side effects of a message\<close>

definition group_task :: "('r, 'v) client_env \<Rightarrow> ('r, 'v) client \<Rightarrow> GroupContextV2 \<Rightarrow> task list" where
  "group_task E c g =
    (if ce_autoSyncGroupUpdates E \<and> ce_has_storageWebc E \<and> gc_MasterKey g \<noteq> [] then
       (let cached = cachedGroupRevision c (hexEncode (gc_MasterKey g)) in
        if cached \<noteq> 0 then [TaskSyncGroup (gc_MasterKey g) cached]
        else if 1 < gc_Revision g then [TaskSyncGroup (gc_MasterKey g) (gc_Revision g - 1)]
        else [TaskFetchGroup (gc_MasterKey g)])
     else [])"

lemma sub_1_zero: "(r :: u32) > 0 \<Longrightarrow> r - 1 = 0 \<longleftrightarrow> \<not> 1 < r"
proof -
  assume "r > 0"
  then have "unat (r - 1) = unat r - 1" "0 < unat r"
    by (simp_all add: unat_sub word_le_nat_alt word_less_nat_alt)
  moreover have "r - 1 = 0 \<longleftrightarrow> unat (r - 1) = 0" by (metis unsigned_0 unsigned_word_eqI)
  ultimately show ?thesis by (auto simp: word_less_nat_alt)
qed

lemma group_update_tasks:
  "cl_tasks (if length (gc_MasterKey g) > 0 then maybeAutoSyncGroupUpdate E (gc_MasterKey g) (gc_Revision g) c else c)
     = cl_tasks c @ group_task E c g"
  using sub_1_zero [of "gc_Revision g"] word_neq_0_conv [of "gc_Revision g"]
  by (auto simp: maybeAutoSyncGroupUpdate_def group_task_def Let_def spawn_def)

lemma storeKey_frame [simp]:
  "cl_tasks (storeRecipientProfileKey E a k c) = cl_tasks c"
  "cl_expireTimers (storeRecipientProfileKey E a k c) = cl_expireTimers c"
  by (auto simp: storeRecipientProfileKey_def split: sum.splits)

lemma sync_frame [simp]:
  "cl_expireTimers (maybeAutoSyncGroupUpdate E mk r c) = cl_expireTimers c"
  "cl_profileKeys (maybeAutoSyncGroupUpdate E mk r c) = cl_profileKeys c"
  "cl_uaks (maybeAutoSyncGroupUpdate E mk r c) = cl_uaks c"
  by (auto simp: maybeAutoSyncGroupUpdate_def spawn_def Let_def)

definition chat_of :: "string \<Rightarrow> DataMessage \<Rightarrow> string" where
  "chat_of sender dm = (if groupID_of dm \<noteq> [] then groupID_of dm else sender)"

text \<open>Whether the message part of a data message is processed at all.\<close>

definition carries_message :: "DataMessage \<Rightarrow> bool" where
  "carries_message dm \<longleftrightarrow> dm_Reaction dm = None \<and> (if has_group_change dm then dm_Body dm \<noteq> [] else True)"

definition new_key :: "('r, 'v) client_env \<Rightarrow> DataMessage \<Rightarrow> (bytes \<times> bytes) option" where
  "new_key E dm =
    (if carries_message dm \<and> length (dm_ProfileKey dm) = 32 then
       (case ce_deriveAccessKey E (dm_ProfileKey dm) of Inl _ \<Rightarrow> None | Inr uak \<Rightarrow> Some (dm_ProfileKey dm, uak))
     else None)"

lemma message_body_effects:
  "map_of (cl_expireTimers (handleMessageBody E s d ts v dm c)) =
     (if dm_ExpireTimer dm \<noteq> None then (map_of (cl_expireTimers c))(chat_of s dm := dm_ExpireTimer dm)
      else map_of (cl_expireTimers c))"
  "map_of (cl_profileKeys (handleMessageBody E s d ts v dm c)) =
     (if length (dm_ProfileKey dm) = 32 \<and> is_ok (ce_deriveAccessKey E (dm_ProfileKey dm))
      then (map_of (cl_profileKeys c))(s \<mapsto> dm_ProfileKey dm) else map_of (cl_profileKeys c))"
  "map_of (cl_uaks (handleMessageBody E s d ts v dm c)) =
     (if length (dm_ProfileKey dm) = 32
      then (case ce_deriveAccessKey E (dm_ProfileKey dm) of Inl _ \<Rightarrow> map_of (cl_uaks c)
            | Inr uak \<Rightarrow> (map_of (cl_uaks c))(s \<mapsto> uak)) else map_of (cl_uaks c))"
  "cl_tasks (handleMessageBody E s d ts v dm c) = cl_tasks c @
     (if ce_autoMarkRead E \<and> s \<noteq> [] then [TaskMarkRead s ts] else [])"
  by (auto simp: handleMessageBody_def Let_def setExpireTimer_def storeRecipientProfileKey_def
      chat_of_def spawn_def update_conv' split: option.splits sum.splits)

text \<open>
  The other effects of a data message. A message that is processed as one sets the
  disappearing-message timer of exactly its chat (the group for a group message, otherwise the
  sender) when it carries a timer, caches the sender's 32-byte profile key together with the
  access key derived from it, and asks for a read receipt when the client does so by itself; a
  reaction and a group change without text do none of this. A group change asks for one
  synchronisation of that group, from the cached revision or the one before the advertised.
\<close>

theorem data_message_effects:
  "map_of (cl_expireTimers (handleDataMessage E s d e v dm c)) =
     (if carries_message dm \<and> dm_ExpireTimer dm \<noteq> None
      then (map_of (cl_expireTimers c))(chat_of s dm := dm_ExpireTimer dm)
      else map_of (cl_expireTimers c)) \<and>
   map_of (cl_profileKeys (handleDataMessage E s d e v dm c)) =
     (case new_key E dm of None \<Rightarrow> map_of (cl_profileKeys c)
      | Some (k, uak) \<Rightarrow> (map_of (cl_profileKeys c))(s \<mapsto> k)) \<and>
   map_of (cl_uaks (handleDataMessage E s d e v dm c)) =
     (case new_key E dm of None \<Rightarrow> map_of (cl_uaks c)
      | Some (k, uak) \<Rightarrow> (map_of (cl_uaks c))(s \<mapsto> uak)) \<and>
   cl_tasks (handleDataMessage E s d e v dm c) = cl_tasks c @
     (if dm_Reaction dm = None \<and> has_group_change dm then group_task E c (the (dm_GroupV2 dm)) else []) @
     (if carries_message dm \<and> ce_autoMarkRead E \<and> s \<noteq> []
      then [TaskMarkRead s (message_time e (dm_Timestamp dm))] else [])"
proof (cases "dm_Reaction dm")
  case (Some r)
  then show ?thesis
    by (simp add: handleDataMessage_def Let_def carries_message_def new_key_def)
next
  case None
  let ?ts = "message_time e (dm_Timestamp dm)"
  have ts: "?ts = (if IsZero (msToTime (dm_Timestamp dm)) then e else msToTime (dm_Timestamp dm))"
    by (rule message_time_eq)
  show ?thesis
  proof (cases "has_group_change dm")
    case False
    then have "handleDataMessage E s d e v dm c = handleMessageBody E s d ?ts v dm c"
      using None by (auto simp: handleDataMessage_def Let_def ts has_group_change_def split: option.splits)
    then show ?thesis
      using None False
      by (simp add: message_body_effects carries_message_def new_key_def split: sum.splits)
  next
    case True
    then obtain g where g: "dm_GroupV2 dm = Some g" "gc_GroupChange g \<noteq> []"
      by (auto simp: has_group_change_def)
    define ev where "ev = EvGroupUpdate \<lparr> gu_Sender = s, gu_SenderDevice = d, gu_Timestamp = ?ts,
      gu_ServerTimestamp = v, gu_GroupID = groupID_of dm, gu_Revision = gc_Revision g,
      gu_GroupChange = gc_GroupChange g \<rparr>"
    have h: "handleDataMessage E s d e v dm c =
        (let c2 = (if length (gc_MasterKey g) > 0
             then maybeAutoSyncGroupUpdate E (gc_MasterKey g) (gc_Revision g) (emit E ev c) else emit E ev c)
         in if dm_Body dm = [] then c2 else handleMessageBody E s d ?ts v dm c2)"
      using None g by (simp add: handleDataMessage_def Let_def ts ev_def)
    have gt: "group_task E (emit E ev c) g = group_task E c g"
      by (simp add: group_task_def cachedGroupRevision_def)
    show ?thesis
      using None True g group_update_tasks [of g E "emit E ev c"]
      unfolding h Let_def gt
      by (simp add: message_body_effects carries_message_def new_key_def split: sum.splits)
  qed
qed

section \<open>Concrete runs\<close>

definition sample_libsignal :: libsignal where
  "sample_libsignal = \<lparr> ls_address = (\<lambda>a. None), ls_single = (\<lambda>b. Inl ''single''),
     ls_usmc = (\<lambda>b s. (s, Inr \<lparr> us_contents = Inr b, us_type = Inr CtWhisper,
       us_cert = Inr \<lparr> ct_validate = (\<lambda>t. Inr True), ct_uuid = Inr ''bob'', ct_device = Inr 2 \<rparr> \<rparr>)),
     ls_parse_whisper = (\<lambda>b. None), ls_parse_prekey = (\<lambda>b. None), ls_parse_plaintext = (\<lambda>b. None),
     ls_whisper = (\<lambda>b a l s. (s, Inr b)), ls_prekey = (\<lambda>b a l s. (s, Inr b)),
     ls_plaintext = Inr, ls_group = (\<lambda>b a s. (s, Inr b)), ls_skdm_parse = (\<lambda>b. None),
     ls_skdm = (\<lambda>a b s. (s, None)), ls_self_send = ''self'' \<rparr>"

definition sample_decryptor :: "(nat, nat) EnvelopeDecryptor" where
  "sample_decryptor = \<lparr> ed_localServiceID = ''me'', ed_localDeviceID = 1, ed_preKeyMaint = None,
     ed_env = sample_env True, ed_libsignal = sample_libsignal, ed_now = 0 \<rparr>"

text \<open>A parser that reads one envelope of the given type from mallory, with the given content.\<close>

definition sample_envelope :: "env_type \<Rightarrow> bytes \<Rightarrow> Envelope" where
  "sample_envelope t data = \<lparr> en_Type = t, en_SourceServiceId = ''mallory'', en_SourceDeviceId = 3,
     en_ClientTimestamp = 1000, en_ServerTimestamp = 2000, en_Content = data \<rparr>"

definition sample_client_env :: "env_type \<Rightarrow> content_body \<Rightarrow> (nat, nat) client_env" where
  "sample_client_env t body = \<lparr> ce_eventBufferSize = 1, ce_autoMarkRead = False,
     ce_autoSyncStorage = True, ce_autoSyncGroupUpdates = False, ce_has_storageWebc = False,
     ce_has_accountStore = True, ce_unmarshal_Envelope = (\<lambda>data. Inr (sample_envelope t data)),
     ce_unmarshal_Content = (\<lambda>b. Inr \<lparr> cn_body = body, cn_SenderKeyDistributionMessage = [] \<rparr>),
     ce_deriveAccessKey = (\<lambda>k. Inr (take 16 k)), ce_Decrypt = EnvelopeDecryptor_Decrypt sample_decryptor,
     ce_libsignal = sample_libsignal, ce_saveAccount = (\<lambda>a. None) \<rparr>"

definition sample_client :: "(nat, nat) client" where
  "sample_client = \<lparr> cl_acct = sample_account, cl_maint = sample_state, cl_events = [],
     cl_expireTimers = [], cl_profileKeys = [], cl_uaks = [], cl_groupRevision = [], cl_tasks = [],
     cl_storageVersion = 0, cl_storedContacts = [], cl_storedGroups = [] \<rparr>"

definition sample_dm :: DataMessage where
  "sample_dm = \<lparr> dm_Timestamp = 1000,
     dm_GroupV2 = Some \<lparr> gc_MasterKey = [1], gc_Revision = 2, gc_GroupChange = [9] \<rparr>,
     dm_Reaction = None, dm_Body = ''hi'', dm_Attachments = [], dm_ExpireTimer = None, dm_ProfileKey = [] \<rparr>"

definition sample_sync :: SyncMessage where
  "sample_sync = \<lparr> sm_Sent = None, sm_Read = [], sm_FetchLatest = None, sm_Keys = Some ''evil'' \<rparr>"

lemmas inbound_sample_defs = sample_client_env_def sample_client_def sample_decryptor_def
  sample_envelope_def sample_libsignal_def

text \<open>A group change with text gives two events; a channel of size one keeps the group update.\<close>

theorem inbound_refines_events_witness:
  "length (cl_events (handleInbound (sample_client_env EnvPlaintextContent (CbData sample_dm))
     (put_message [0, 1]) sample_client)) \<le> 1"
  using inbound_refines_events [of sample_client "sample_client_env EnvPlaintextContent (CbData sample_dm)"
      "put_message [0, 1]"]
  by (simp add: sample_client_env_def sample_client_def)

lemma sample_sealed_events:
  "request_events (sample_client_env EnvUnidentifiedSender (CbData sample_dm)) (put_message [5, 6])
     (sample_state, sample_account) =
   data_events ''bob'' 2 1000 2000 sample_dm"
  by (simp add: request_events_def envelope_events_def put_message_def inbound_sample_defs Let_def
      EnvelopeDecryptor_Decrypt_def decryptSealed_def DecryptSealedSender_def validateSenderCert_def
      decryptUSMCInner_def NewAddress_def deserialize_def with_stores_def content_events_def msToTime_def)

theorem sealed_sender_authenticated_witness:
  "\<exists>m. EvMessage m \<in> set (request_events (sample_client_env EnvUnidentifiedSender (CbData sample_dm))
         (put_message [5, 6]) (sample_state, sample_account)) \<and> me_Sender m = ''bob''"
proof -
  let ?E = "sample_client_env EnvUnidentifiedSender (CbData sample_dm)"
  let ?ev = "request_events ?E (put_message [5, 6]) (sample_state, sample_account)"
  have "\<exists>m. EvMessage m \<in> set ?ev"
    unfolding sample_sealed_events
    by (auto simp: data_events_def Let_def sample_dm_def has_group_change_def)
  then obtain m where m: "EvMessage m \<in> set ?ev" by blast
  have e: "ce_unmarshal_Envelope ?E [5, 6] = Inr (sample_envelope EnvUnidentifiedSender [5, 6])"
    "en_Type (sample_envelope EnvUnidentifiedSender [5, 6]) = EnvUnidentifiedSender"
    "ce_Decrypt ?E = EnvelopeDecryptor_Decrypt sample_decryptor"
    by (simp_all add: sample_client_env_def sample_envelope_def)
  have "me_Sender m = ''bob''"
    using sealed_sender_authenticated [OF e m]
    by (auto simp: sample_decryptor_def sample_libsignal_def)
  with m show ?thesis by blast
qed

theorem plaintext_envelope_believed_witness:
  "ac_AccountEntropyPool (cl_acct (handleInbound (sample_client_env EnvPlaintextContent (CbSync sample_sync))
     (put_message [0, 1]) sample_client)) = ''evil''"
proof -
  let ?E = "sample_client_env EnvPlaintextContent (CbSync sample_sync)"
  let ?env = "sample_envelope EnvPlaintextContent [0, 1]"
  have "ce_unmarshal_Envelope ?E [0, 1] = Inr ?env" "en_Type ?env = EnvPlaintextContent"
    "ce_Decrypt ?E = EnvelopeDecryptor_Decrypt sample_decryptor" "2 \<le> length (en_Content ?env)"
    "ce_unmarshal_Content ?E (stripContentPadding (drop 1 (en_Content ?env))) =
       Inr \<lparr> cn_body = CbSync sample_sync, cn_SenderKeyDistributionMessage = [] \<rparr>"
    by (simp_all add: sample_client_env_def sample_envelope_def)
  from plaintext_envelope_believed [OF this, of sample_client, THEN conjunct2]
  show ?thesis by (simp add: sample_sync_def)
qed

theorem sync_sender_unchecked_witness:
  "ac_AccountEntropyPool (cl_acct (dispatchContent (sample_client_env EnvUnidentifiedSender CbOther)
     ''mallory'' 1 0 0 \<lparr> cn_body = CbSync sample_sync, cn_SenderKeyDistributionMessage = [] \<rparr>
     sample_client)) = ''evil''"
  using sync_sender_unchecked [of "\<lparr> cn_body = CbSync sample_sync, cn_SenderKeyDistributionMessage = [] \<rparr>"
      sample_sync "sample_client_env EnvUnidentifiedSender CbOther" "''mallory''" 1 0 0 sample_client]
  by (simp add: sample_sync_def)

end
