(* ===== verification/ImportLaws.thy ===== *)
theory ImportLaws
  imports BackupImport StoreLaws InboundLaws
begin

text \<open>
  What an import leaves in the stores: the two import stores (internal/store/memstore and
  internal/store/sqlstore backup_import.go) as instances of one contract, the frames of a
  stream, and the loader of the client (pkg/signal/backup_import_load.go).
\<close>

section \<open>The import stores\<close>

record mem_import =
  mi_contacts :: "(string \<times> ImportedContact) list"
  mi_groups :: "(bytes \<times> ImportedGroup) list"

definition mem_SaveImportedContact :: "mem_import \<Rightarrow> ImportedContact \<Rightarrow> mem_import \<times> string option" where
  "mem_SaveImportedContact s c = (s\<lparr> mi_contacts := AList.update (ic_ACI c) c (mi_contacts s) \<rparr>, None)"

definition mem_SaveImportedGroup :: "mem_import \<Rightarrow> ImportedGroup \<Rightarrow> mem_import \<times> string option" where
  "mem_SaveImportedGroup s g = (s\<lparr> mi_groups := AList.update (ig_MasterKey g) g (mi_groups s) \<rparr>, None)"



text \<open>Rows with their nullable columns; the flag columns are integers.\<close>

record contact_row =
  cr_pni :: "string option"
  cr_e164 :: "string option"
  cr_profile_key :: "bytes option"
  cr_given_name :: "string option"
  cr_family_name :: "string option"
  cr_blocked :: int

record group_row =
  gr_master_key :: bytes
  gr_title :: "string option"
  gr_blocked :: int

record sql_import =
  si_fault :: "string option"
  si_contacts :: "(string \<times> contact_row) list"
  si_groups :: "(string \<times> group_row) list"

definition nullIfEmpty :: "string \<Rightarrow> string option" where
  "nullIfEmpty s = (if s = [] then None else Some s)"

definition bytesOrNil :: "bytes \<Rightarrow> bytes option" where
  "bytesOrNil b = (if length b = 0 then None else Some b)"

definition boolToInt :: "bool \<Rightarrow> int" where
  "boolToInt v = (if v then 1 else 0)"

text \<open>\<open>sql.NullString.String\<close>\<close>

definition null_string :: "'a list option \<Rightarrow> 'a list" where
  "null_string s = (case s of None \<Rightarrow> [] | Some x \<Rightarrow> x)"

definition sql_SaveImportedContact :: "sql_import \<Rightarrow> ImportedContact \<Rightarrow> sql_import \<times> string option" where
  "sql_SaveImportedContact s c =
    (if ic_ACI c = [] then (s, Some ''sqlstore: imported contact ACI required'')
     else case si_fault s of
       Some e \<Rightarrow> (s, Some (''sqlstore: save imported contact: '' @ e))
     | None \<Rightarrow>
         (s\<lparr> si_contacts := AList.update (ic_ACI c)
              \<lparr> cr_pni = nullIfEmpty (ic_PNI c), cr_e164 = nullIfEmpty (ic_E164 c),
                cr_profile_key = bytesOrNil (ic_ProfileKey c),
                cr_given_name = nullIfEmpty (ic_GivenName c),
                cr_family_name = nullIfEmpty (ic_FamilyName c),
                cr_blocked = boolToInt (ic_Blocked c) \<rparr> (si_contacts s) \<rparr>, None))"

definition sql_SaveImportedGroup :: "sql_import \<Rightarrow> ImportedGroup \<Rightarrow> sql_import \<times> string option" where
  "sql_SaveImportedGroup s g =
    (if length (ig_MasterKey g) = 0 then (s, Some ''sqlstore: imported group master key required'')
     else case si_fault s of
       Some e \<Rightarrow> (s, Some (''sqlstore: save imported group: '' @ e))
     | None \<Rightarrow>
         (s\<lparr> si_groups := AList.update (hexEncode (ig_MasterKey g))
              \<lparr> gr_master_key = ig_MasterKey g, gr_title = nullIfEmpty (ig_Title g),
                gr_blocked = boolToInt (ig_Blocked g) \<rparr> (si_groups s) \<rparr>, None))"

definition contact_of_row :: "string \<times> contact_row \<Rightarrow> ImportedContact" where
  "contact_of_row r =
    \<lparr> ic_ACI = fst r, ic_PNI = null_string (cr_pni (snd r)), ic_E164 = null_string (cr_e164 (snd r)),
      ic_ProfileKey = null_string (cr_profile_key (snd r)),
      ic_GivenName = null_string (cr_given_name (snd r)),
      ic_FamilyName = null_string (cr_family_name (snd r)), ic_Blocked = (cr_blocked (snd r) \<noteq> 0) \<rparr>"

definition group_of_row :: "string \<times> group_row \<Rightarrow> ImportedGroup" where
  "group_of_row r =
    \<lparr> ig_MasterKey = gr_master_key (snd r), ig_Title = null_string (gr_title (snd r)),
      ig_Blocked = (gr_blocked (snd r) \<noteq> 0) \<rparr>"



section \<open>The contract of an import target\<close>

type_synonym import_view = "(string \<Rightarrow> ImportedContact option) \<times> (bytes \<Rightarrow> ImportedGroup option)"

locale import_store =
  fixes T :: "'w import_target" and ready :: "'w \<Rightarrow> bool" and view :: "'w \<Rightarrow> import_view"
    and save :: "'w \<Rightarrow> ImportedContact \<Rightarrow> 'w \<times> string option"
  assumes saves: "it_SaveContact T = Some save"
    and contact_saved: "ready w \<Longrightarrow> ic_ACI c \<noteq> [] \<Longrightarrow> \<exists>w'. save w c = (w', None) \<and> ready w' \<and>
      view w' = ((fst (view w))(ic_ACI c \<mapsto> c), snd (view w))"
    and group_saved: "ready w \<Longrightarrow> ig_MasterKey g \<noteq> [] \<Longrightarrow> \<exists>w'. it_SaveGroup T w g = (w', None) \<and>
      ready w' \<and> view w' = (fst (view w), (snd (view w))(ig_MasterKey g \<mapsto> g))"
    and identity_frame: "it_SaveIdentity T = Some si \<Longrightarrow> ready w \<Longrightarrow> si w a b = (w', r) \<Longrightarrow>
      ready w' \<and> view w' = view w"
    and chat_frame: "it_OnChatItem T = Some oc \<Longrightarrow> ready w \<Longrightarrow> oc w i = (w', r) \<Longrightarrow>
      ready w' \<and> view w' = view w"

text \<open>What one frame means for the imported lists.\<close>

definition frame_contact :: "Frame \<Rightarrow> ImportedContact option" where
  "frame_contact fr =
    (case fr_ChatItem fr of
       Some _ \<Rightarrow> None
     | None \<Rightarrow>
       (case fr_Recipient fr of
          Some (DestContact (Some c)) \<Rightarrow>
            if ic_ACI (contact_entry c) \<noteq> [] then Some (contact_entry c) else None
        | _ \<Rightarrow> None))"

definition frame_group :: "Frame \<Rightarrow> ImportedGroup option" where
  "frame_group fr =
    (case fr_ChatItem fr of
       Some _ \<Rightarrow> None
     | None \<Rightarrow>
       (case fr_Recipient fr of
          Some (DestGroup (Some g)) \<Rightarrow>
            if length (bg_MasterKey g) = 32
            then Some \<lparr> ig_MasterKey = bg_MasterKey g, ig_Title = null_string (bg_Title g),
                        ig_Blocked = bg_Blocked g \<rparr>
            else None
        | _ \<Rightarrow> None))"

definition apply_frame :: "import_view \<Rightarrow> Frame \<Rightarrow> import_view" where
  "apply_frame v fr =
    ((case frame_contact fr of None \<Rightarrow> fst v | Some c \<Rightarrow> (fst v)(ic_ACI c \<mapsto> c)),
     (case frame_group fr of None \<Rightarrow> snd v | Some g \<Rightarrow> (snd v)(ig_MasterKey g \<mapsto> g)))"

text \<open>The counters one frame moves.\<close>

definition count_frame :: "ImportStats \<Rightarrow> Frame \<Rightarrow> ImportStats" where
  "count_frame s fr = s\<lparr>
     st_Contacts := st_Contacts s + (if frame_contact fr = None then 0 else 1),
     st_Groups := st_Groups s + (if frame_group fr = None then 0 else 1),
     st_ChatItems := st_ChatItems s + (if fr_ChatItem fr = None then 0 else 1) \<rparr>"

definition no_ids :: "ImportStats \<Rightarrow> ImportStats" where
  "no_ids s = s\<lparr> st_Identities := 0 \<rparr>"

text \<open>The frames of a stream, empty ones left out, up to where reading ends.\<close>

function frames_in :: "bytes \<Rightarrow> bytes list" where
  "frames_in r =
    (case ReadVarintFrame r of
       Inl e \<Rightarrow> []
     | Inr (f, r') \<Rightarrow> if f = [] then frames_in r' else f # frames_in r')"
  by pat_completeness auto
termination by (relation "measure length") (auto dest: ReadVarintFrame_progress)

declare frames_in.simps [simp del]

definition decode_frame :: "'x import_lib \<Rightarrow> bytes \<Rightarrow> Frame" where
  "decode_frame L f =
    (case il_unmarshal L f of Inr fr \<Rightarrow> fr | Inl _ \<Rightarrow> \<lparr> fr_ChatItem = None, fr_Recipient = None \<rparr>)"

context import_store
begin

lemma importIdentity_frame:
  assumes "importIdentity L T aci c stats w = (w', r)" "ready w"
  shows "ready w' \<and> view w' = view w \<and> (\<forall>st. r = Inr st \<longrightarrow> no_ids st = no_ids stats)"
  using assms
  by (auto simp: importIdentity_def no_ids_def split: option.splits if_splits sum.splits prod.splits
      dest: identity_frame)

lemma importContact_view:
  assumes i: "importContact L T (Some c) stats w = (w', Inr stats')" and w: "ready w"
  shows "ready w' \<and>
    view w' = (if ic_ACI (contact_entry c) \<noteq> []
      then ((fst (view w))(ic_ACI (contact_entry c) \<mapsto> contact_entry c), snd (view w)) else view w) \<and>
    no_ids stats' = (no_ids stats)\<lparr> st_Contacts := st_Contacts stats +
      (if ic_ACI (contact_entry c) \<noteq> [] then 1 else 0) \<rparr>"
proof (cases "ic_ACI (contact_entry c) = []")
  case True
  then show ?thesis
    using i w importIdentity_frame [of L "[]" c stats w w' "Inr stats'"]
    by (auto simp: importContact_def Let_def no_ids_def split: if_splits)
next
  case False
  obtain w1 where s: "save w (contact_entry c) = (w1, None)" and w1: "ready w1"
    "view w1 = ((fst (view w))(ic_ACI (contact_entry c) \<mapsto> contact_entry c), snd (view w))"
    using contact_saved [OF w False] by blast
  have "importIdentity L T (ic_ACI (contact_entry c)) c (stats\<lparr> st_Contacts := st_Contacts stats + 1 \<rparr>) w1
      = (w', Inr stats')"
    using i False s by (simp add: importContact_def saves Let_def)
  from importIdentity_frame [OF this w1(1)] show ?thesis
    using w1 False by (simp add: no_ids_def)
qed

lemma importGroup_view:
  assumes i: "importGroup T (Some g) stats w = (w', Inr stats')" and w: "ready w"
  shows "ready w' \<and>
    view w' = (if length (bg_MasterKey g) = 32
      then (fst (view w), (snd (view w))(bg_MasterKey g \<mapsto> \<lparr> ig_MasterKey = bg_MasterKey g,
          ig_Title = null_string (bg_Title g), ig_Blocked = bg_Blocked g \<rparr>)) else view w) \<and>
    no_ids stats' = (no_ids stats)\<lparr> st_Groups := st_Groups stats +
      (if length (bg_MasterKey g) = 32 then 1 else 0) \<rparr>"
proof (cases "length (bg_MasterKey g) = 32")
  case False
  then show ?thesis using i w by (auto simp: importGroup_def saves no_ids_def)
next
  case True
  let ?g = "\<lparr> ig_MasterKey = bg_MasterKey g, ig_Title = null_string (bg_Title g), ig_Blocked = bg_Blocked g \<rparr>"
  have "ig_MasterKey ?g \<noteq> []" using True by auto
  from group_saved [OF w this] obtain w1 where s: "it_SaveGroup T w ?g = (w1, None)" "ready w1"
    "view w1 = (fst (view w), (snd (view w))(bg_MasterKey g \<mapsto> ?g))" by auto
  then show ?thesis
    using i True by (auto simp: importGroup_def saves null_string_def no_ids_def)
qed

lemma importFrame_view:
  assumes i: "importFrame L T f stats w = (w', Inr stats')" and w: "ready w"
  shows "ready w' \<and> view w' = apply_frame (view w) (decode_frame L f) \<and>
    no_ids stats' = count_frame (no_ids stats) (decode_frame L f)"
proof -
  obtain fr where fr: "il_unmarshal L f = Inr fr" using i by (auto simp: importFrame_def split: sum.splits)
  show ?thesis
  proof (cases "fr_ChatItem fr")
    case (Some ci)
    then show ?thesis
      using i w fr
      by (auto simp: importFrame_def decode_frame_def apply_frame_def frame_contact_def frame_group_def
          count_frame_def no_ids_def split: option.splits sum.splits prod.splits dest: chat_frame)
  next
    case None
    note defs = decode_frame_def apply_frame_def frame_contact_def frame_group_def count_frame_def fr None
    show ?thesis
    proof (cases "fr_Recipient fr")
      case None
      then show ?thesis using i w by (auto simp: importFrame_def defs no_ids_def)
    next
      case (Some d)
      show ?thesis
      proof (cases d)
        case (DestContact co)
        show ?thesis
        proof (cases co)
          case (Some c)
          then show ?thesis
            using i importContact_view [of L c stats w w' stats', OF _ w] \<open>fr_Recipient fr = Some d\<close> DestContact
            by (simp add: importFrame_def defs no_ids_def)
        qed (use i w \<open>fr_Recipient fr = Some d\<close> DestContact in
              \<open>auto simp: importFrame_def importContact_def defs no_ids_def\<close>)
      next
        case (DestGroup go)
        show ?thesis
        proof (cases go)
          case (Some g)
          then show ?thesis
            using i importGroup_view [of g stats w w' stats', OF _ w] \<open>fr_Recipient fr = Some d\<close> DestGroup
            by (simp add: importFrame_def defs no_ids_def)
        qed (use i w \<open>fr_Recipient fr = Some d\<close> DestGroup in
              \<open>auto simp: importFrame_def importGroup_def defs no_ids_def\<close>)
      next
        case DestOther
        then show ?thesis using i w \<open>fr_Recipient fr = Some d\<close> by (auto simp: importFrame_def defs no_ids_def)
      qed
    qed
  qed
qed

lemma import_loop_view:
  assumes "import_loop L T r v stats w = (w', Inr (v', stats'))" "ready w"
  shows "ready w' \<and> view w' = foldl apply_frame (view w) (map (decode_frame L) (frames_in r)) \<and>
    no_ids stats' = foldl (\<lambda>s f. count_frame (s\<lparr> st_Frames := st_Frames s + 1 \<rparr>) f) (no_ids stats)
      (map (decode_frame L) (frames_in r))"
  using assms
proof (induction r arbitrary: v stats w rule: measure_induct_rule [of length])
  case (less r)
  show ?case
  proof (cases "ReadVarintFrame r")
    case (Inl e)
    then show ?thesis
      using less.prems import_loop.simps [of L T r v stats w]
      by (auto simp: frames_in.simps [of r] split: if_splits)
  next
    case (Inr p)
    obtain f r1 where p: "p = (f, r1)" by (cases p)
    then have rd: "ReadVarintFrame r = Inr (f, r1)" using Inr by simp
    then have sh: "length r1 < length r" using ReadVarintFrame_progress by fastforce
    show ?thesis
    proof (cases "f = []")
      case True
      then have "import_loop L T r1 v stats w = (w', Inr (v', stats'))"
        using less.prems(1) rd by (subst (asm) import_loop.simps) simp
      then show ?thesis
        using less.IH [OF sh _ less.prems(2)] True rd by (simp add: frames_in.simps [of r])
    next
      case False
      obtain v1 st1 w1 where
        fr: "importFrame L T f (stats\<lparr> st_Frames := st_Frames stats + 1 \<rparr>) w = (w1, Inr st1)"
        and lp: "import_loop L T r1 v1 st1 w1 = (w', Inr (v', stats'))"
        using less.prems(1) rd False
        by (subst (asm) import_loop.simps) (auto split: prod.splits sum.splits option.splits)
      from importFrame_view [OF fr less.prems(2)] have
        1: "ready w1" "view w1 = apply_frame (view w) (decode_frame L f)"
        "no_ids st1 = count_frame (no_ids (stats\<lparr> st_Frames := st_Frames stats + 1 \<rparr>)) (decode_frame L f)"
        by auto
      have "no_ids (stats\<lparr> st_Frames := st_Frames stats + 1 \<rparr>) =
          (no_ids stats)\<lparr> st_Frames := st_Frames (no_ids stats) + 1 \<rparr>" by (simp add: no_ids_def)
      with less.IH [OF sh lp 1(1)] 1 show ?thesis
        using False rd by (simp add: frames_in.simps [of r])
    qed
  qed
qed

end

section \<open>Streams\<close>

text \<open>A frame as an exporter writes it, and a whole stream.\<close>

definition frame_bytes :: "bytes \<Rightarrow> bytes" where
  "frame_bytes f = putUvarint (length f) @ f"

definition stream :: "bytes list \<Rightarrow> bytes" where
  "stream fs = concat (map frame_bytes fs)"

definition frame_ok :: "bytes \<Rightarrow> bool" where
  "frame_ok f \<longleftrightarrow> f \<noteq> [] \<and> length f \<le> maxAlloc"

lemma readVarint_loop_cut:
  "j < length (putUvarint x) \<Longrightarrow> s + 7 * j < 64 \<Longrightarrow>
    \<exists>n. readVarint_loop (take j (putUvarint x)) acc s c = Inl (VarintEOF, n)"
proof (induction j arbitrary: x acc s c)
  case (Suc j)
  have x: "x \<ge> 128"
  proof (rule ccontr)
    assume "\<not> x \<ge> 128"
    then show False using Suc.prems(1) by (simp add: putUvarint.simps [of x])
  qed
  have j: "j < length (putUvarint (x div 128))"
    using Suc.prems(1) x by (simp add: putUvarint.simps [of x])
  have s: "(s + 7) + 7 * j < 64" "\<not> s + 7 \<ge> 64" using Suc.prems(2) by simp_all
  show ?case
    using Suc.IH [OF j s(1)] x s(2) by (simp add: putUvarint.simps [of x] high_bit_set Let_def)
qed simp

lemma length_putUvarint_le: "x < 2 ^ 63 \<Longrightarrow> length (putUvarint x) \<le> 10"
  using readVarint_loop_putUvarint [of 0 0 x "[]" 0]
    readVarint_loop_count [of "putUvarint x" 0 0 0 x "length (putUvarint x)" "[]"] by simp

lemma ReadVarintFrame_cut:
  assumes k: "k < length (frame_bytes f)" and f: "length f \<le> maxAlloc"
  shows "\<exists>e. ReadVarintFrame (take k (frame_bytes f)) = Inl e \<and> is_EOF e"
proof -
  have x: "length f < 2 ^ 63" using f by (simp add: maxAlloc_def)
  show ?thesis
  proof (cases "k < length (putUvarint (length f))")
    case True
    then have "7 * k < 64" using length_putUvarint_le [OF x] by simp
    then obtain n where "readVarint_loop (take k (putUvarint (length f))) 0 0 0 = Inl (VarintEOF, n)"
      using readVarint_loop_cut [OF True, of 0 0 0] by auto
    then show ?thesis using True
      by (simp add: ReadVarintFrame_def readVarint_def readVarintCounted_def frame_bytes_def is_EOF_def)
  next
    case False
    then have t: "take k (frame_bytes f) = putUvarint (length f) @ take (k - length (putUvarint (length f))) f"
      by (simp add: frame_bytes_def)
    have "length f \<noteq> 0" "k - length (putUvarint (length f)) < length f"
      using k False by (auto simp: frame_bytes_def)
    then show ?thesis
      using f by (simp add: t ReadVarintFrame_def readVarint_putUvarint [OF x] readBytes_eq is_EOF_def)
  qed
qed

lemma ReadVarintFrame_nil: "ReadVarintFrame [] = Inl FrameEOF"
  by (simp add: ReadVarintFrame_def readVarint_def readVarintCounted_def)

text \<open>What may follow the last whole frame: nothing, or a part of a further frame.\<close>

definition cut_tail :: "bytes \<Rightarrow> bool" where
  "cut_tail t \<longleftrightarrow> t = [] \<or> (\<exists>f k. length f \<le> maxAlloc \<and> k < length (frame_bytes f) \<and> t = take k (frame_bytes f))"

lemma cut_tail_EOF: "cut_tail t \<Longrightarrow> \<exists>e. ReadVarintFrame t = Inl e \<and> is_EOF e"
  using ReadVarintFrame_cut by (auto simp: cut_tail_def ReadVarintFrame_nil is_EOF_def)

lemma frames_in_stream:
  "list_all frame_ok fs \<Longrightarrow> cut_tail t \<Longrightarrow> frames_in (stream fs @ t) = fs"
proof (induction fs)
  case Nil
  then show ?case using cut_tail_EOF [of t] by (auto simp: stream_def frames_in.simps [of t])
next
  case (Cons f fs)
  then have "ReadVarintFrame (stream (f # fs) @ t) = Inr (f, stream fs @ t)"
    by (simp add: stream_def frame_bytes_def frame_ok_def ReadVarintFrame_encoded)
  then show ?case using Cons by (subst frames_in.simps) (simp add: frame_ok_def)
qed

lemma import_loop_tail:
  "list_all frame_ok fs \<Longrightarrow> cut_tail t \<Longrightarrow>
    import_loop L T (stream fs @ t) v stats w = import_loop L T (stream fs) v stats w"
proof (induction fs arbitrary: v stats w)
  case Nil
  then show ?case
    using cut_tail_EOF [of t] import_loop.simps [of L T t v stats w] import_loop.simps [of L T "[]" v stats w]
    by (auto simp: stream_def ReadVarintFrame_nil is_EOF_def)
next
  case (Cons f fs)
  then have "ReadVarintFrame (stream (f # fs) @ t) = Inr (f, stream fs @ t)"
    "ReadVarintFrame (stream (f # fs)) = Inr (f, stream fs)"
    by (simp_all add: stream_def frame_bytes_def frame_ok_def ReadVarintFrame_encoded)
  then show ?case
    using Cons import_loop.simps [of L T "stream (f # fs) @ t" v stats w]
      import_loop.simps [of L T "stream (f # fs)" v stats w]
    by (simp add: frame_ok_def split: prod.splits option.splits sum.splits)
qed

text \<open>
  C19. A backup stream that ends inside a frame is imported as if it ended before that frame: for
  every validator, target and purpose, cutting the last frame anywhere, in its length or in its
  body, gives exactly the result of the stream without it, and no error is reported for the cut.
\<close>

theorem truncated_import_accepted:
  assumes "frame_ok info" "list_all frame_ok fs" "length f \<le> maxAlloc" "k < length (frame_bytes f)"
  shows "importPlaintext L purpose T (frame_bytes info @ stream fs @ take k (frame_bytes f)) w =
    importPlaintext L purpose T (frame_bytes info @ stream fs) w"
proof -
  have r: "ReadVarintFrame (frame_bytes info @ r) = Inr (info, r)" for r
    using assms(1) by (simp add: frame_bytes_def frame_ok_def ReadVarintFrame_encoded)
  have t: "cut_tail (take k (frame_bytes f))" using assms(3,4) by (auto simp: cut_tail_def)
  show ?thesis
    by (cases "il_validator L info purpose") (simp_all add: importPlaintext_def r import_loop_tail [OF assms(2) t])
qed

section \<open>The two stores\<close>

text \<open>Both targets also save the contacts' identities; the worlds are pairs of the two stores.\<close>

definition mem_target :: "(mem_stores \<times> mem_import) import_target" where
  "mem_target =
    \<lparr> it_SaveIdentity = Some (\<lambda>(s, i) addr pub. case mem_SaveIdentity s addr pub of
        (s', Inl e) \<Rightarrow> ((s', i), Some ''store'') | (s', Inr _) \<Rightarrow> ((s', i), None)),
      it_SaveContact = Some (\<lambda>(s, i) c. case mem_SaveImportedContact i c of (i', e) \<Rightarrow> ((s, i'), e)),
      it_SaveGroup = (\<lambda>(s, i) g. case mem_SaveImportedGroup i g of (i', e) \<Rightarrow> ((s, i'), e)),
      it_OnChatItem = None \<rparr>"

definition sql_target :: "(sql_stores \<times> sql_import) import_target" where
  "sql_target =
    \<lparr> it_SaveIdentity = Some (\<lambda>(s, i) addr pub. case sql_SaveIdentity s addr pub of
        (s', Inl e) \<Rightarrow> ((s', i), Some ''store'') | (s', Inr _) \<Rightarrow> ((s', i), None)),
      it_SaveContact = Some (\<lambda>(s, i) c. case sql_SaveImportedContact i c of (i', e) \<Rightarrow> ((s, i'), e)),
      it_SaveGroup = (\<lambda>(s, i) g. case sql_SaveImportedGroup i g of (i', e) \<Rightarrow> ((s, i'), e)),
      it_OnChatItem = None \<rparr>"

definition mem_view :: "mem_import \<Rightarrow> import_view" where
  "mem_view i = (map_of (mi_contacts i), map_of (mi_groups i))"

definition sql_view :: "sql_import \<Rightarrow> import_view" where
  "sql_view i =
    ((\<lambda>k. map_option (\<lambda>r. contact_of_row (k, r)) (map_of (si_contacts i) k)),
     (\<lambda>mk. map_option (\<lambda>r. group_of_row (hexEncode mk, r)) (map_of (si_groups i) (hexEncode mk))))"

lemma null_string_nullIfEmpty [simp]: "null_string (nullIfEmpty s) = s" "null_string (bytesOrNil b) = b"
  by (simp_all add: null_string_def nullIfEmpty_def bytesOrNil_def)

lemma boolToInt_nonzero [simp]: "(boolToInt b \<noteq> 0) = b"
  by (simp add: boolToInt_def)

lemma hexEncode_eq [simp]: "hexEncode a = hexEncode b \<longleftrightarrow> a = b"
  using hex.enc_inj [of a b] by auto

text \<open>Keys are unique and belong to their entries.\<close>

definition mem_import_wf :: "mem_import \<Rightarrow> bool" where
  "mem_import_wf i \<longleftrightarrow> distinct (map fst (mi_contacts i)) \<and> distinct (map fst (mi_groups i)) \<and>
     (\<forall>(k, c) \<in> set (mi_contacts i). ic_ACI c = k) \<and> (\<forall>(k, g) \<in> set (mi_groups i). ig_MasterKey g = k)"

definition sql_import_wf :: "sql_import \<Rightarrow> bool" where
  "sql_import_wf i \<longleftrightarrow> si_fault i = None \<and> distinct (map fst (si_contacts i)) \<and>
     distinct (map fst (si_groups i)) \<and>
     (\<forall>(k, r) \<in> set (si_groups i). k = hexEncode (gr_master_key r))"

lemma set_update: "set (AList.update k v al) \<subseteq> insert (k, v) (set al)"
  by (induction al) auto

lemma update_all:
  assumes "\<forall>(k, v) \<in> set al. P k v" "P k v"
  shows "\<forall>(k, v) \<in> set (AList.update k v al). P k v"
  using assms set_update [of k v al] by fastforce

lemma mem_contact_wf:
  "mem_import_wf i \<Longrightarrow> mem_import_wf (i\<lparr> mi_contacts := AList.update (ic_ACI c) c (mi_contacts i) \<rparr>)"
  using update_all [of "mi_contacts i" "\<lambda>k c. ic_ACI c = k" "ic_ACI c" c]
  by (simp add: mem_import_wf_def distinct_update)

lemma mem_group_wf:
  "mem_import_wf i \<Longrightarrow> mem_import_wf (i\<lparr> mi_groups := AList.update (ig_MasterKey g) g (mi_groups i) \<rparr>)"
  using update_all [of "mi_groups i" "\<lambda>k g. ig_MasterKey g = k" "ig_MasterKey g" g]
  by (simp add: mem_import_wf_def distinct_update)

lemma sql_contact_wf:
  "sql_import_wf i \<Longrightarrow> sql_import_wf (i\<lparr> si_contacts := AList.update k r (si_contacts i) \<rparr>)"
  by (simp add: sql_import_wf_def distinct_update)

lemma sql_group_wf:
  "sql_import_wf i \<Longrightarrow> sql_import_wf (i\<lparr> si_groups := AList.update (hexEncode (gr_master_key r)) r (si_groups i) \<rparr>)"
  using update_all [of "si_groups i" "\<lambda>k r. k = hexEncode (gr_master_key r)" "hexEncode (gr_master_key r)" r]
  by (simp add: sql_import_wf_def distinct_update)

interpretation mem_import: import_store mem_target "\<lambda>w. mem_import_wf (snd w)" "\<lambda>w. mem_view (snd w)"
    "\<lambda>(s, i) c. case mem_SaveImportedContact i c of (i', e) \<Rightarrow> ((s, i'), e)"
proof unfold_locales
  fix w :: "mem_stores \<times> mem_import" and a b w' r si
  assume "it_SaveIdentity mem_target = Some si" "si w a b = (w', r)" "mem_import_wf (snd w)"
  then show "mem_import_wf (snd w') \<and> mem_view (snd w') = mem_view (snd w)"
    by (cases w) (auto simp: mem_target_def split: prod.splits sum.splits)
qed (auto simp: mem_target_def mem_SaveImportedContact_def mem_SaveImportedGroup_def mem_view_def
    update_conv' mem_contact_wf mem_group_wf split: prod.splits)

interpretation sql_import: import_store sql_target "\<lambda>w. sql_import_wf (snd w)" "\<lambda>w. sql_view (snd w)"
    "\<lambda>(s, i) c. case sql_SaveImportedContact i c of (i', e) \<Rightarrow> ((s, i'), e)"
proof unfold_locales
  fix w :: "sql_stores \<times> sql_import" and a b w' r si
  assume "it_SaveIdentity sql_target = Some si" "si w a b = (w', r)" "sql_import_wf (snd w)"
  then show "sql_import_wf (snd w') \<and> sql_view (snd w') = sql_view (snd w)"
    by (cases w) (auto simp: sql_target_def split: prod.splits sum.splits)
next
  fix w :: "sql_stores \<times> sql_import" and c :: ImportedContact
  assume "sql_import_wf (snd w)" "ic_ACI c \<noteq> []"
  then show "\<exists>w'. (case w of (s, i) \<Rightarrow> \<lambda>c. case sql_SaveImportedContact i c of (i', e) \<Rightarrow> ((s, i'), e)) c
      = (w', None) \<and> sql_import_wf (snd w') \<and>
      sql_view (snd w') = ((fst (sql_view (snd w)))(ic_ACI c \<mapsto> c), snd (sql_view (snd w)))"
    using sql_contact_wf [of "snd w"]
    by (cases w) (auto simp: sql_import_wf_def sql_SaveImportedContact_def sql_view_def update_conv'
        contact_of_row_def fun_eq_iff)
next
  fix w :: "sql_stores \<times> sql_import" and g :: ImportedGroup
  assume wf: "sql_import_wf (snd w)" and g: "ig_MasterKey g \<noteq> []"
  let ?r = "\<lparr> gr_master_key = ig_MasterKey g, gr_title = nullIfEmpty (ig_Title g),
                gr_blocked = boolToInt (ig_Blocked g) \<rparr>"
  have "sql_import_wf (snd w\<lparr> si_groups := AList.update (hexEncode (ig_MasterKey g)) ?r (si_groups (snd w)) \<rparr>)"
    using sql_group_wf [OF wf, of ?r] by simp
  then show "\<exists>w'. it_SaveGroup sql_target w g = (w', None) \<and> sql_import_wf (snd w') \<and>
      sql_view (snd w') = (fst (sql_view (snd w)), (snd (sql_view (snd w)))(ig_MasterKey g \<mapsto> g))"
    using wf g
    by (cases w) (auto simp: sql_import_wf_def sql_target_def sql_SaveImportedGroup_def sql_view_def update_conv'
        group_of_row_def fun_eq_iff)
qed (simp_all add: sql_target_def)

lemma map_of_mem: "distinct (map fst al) \<Longrightarrow> map_of al k = Some v \<longleftrightarrow> (k, v) \<in> set al"
  by (simp add: map_of_eq_Some_iff)





section \<open>Loading what was imported\<close>

definition stored_contact :: "ImportedContact \<Rightarrow> StoredContact" where
  "stored_contact ct =
    \<lparr> sc_StorageID = [], sc_ACI = ic_ACI ct, sc_E164 = ic_E164 ct, sc_PNI = ic_PNI ct,
      sc_ProfileKey = ic_ProfileKey ct, sc_GivenName = ic_GivenName ct,
      sc_FamilyName = ic_FamilyName ct, sc_Blocked = ic_Blocked ct, sc_Archived = False \<rparr>"

definition stored_group :: "ImportedGroup \<Rightarrow> StoredGroup" where
  "stored_group g =
    \<lparr> sg_StorageID = [], sg_ID = hexEncode (ig_MasterKey g), sg_MasterKey = ig_MasterKey g,
      sg_Blocked = ig_Blocked g, sg_Archived = False \<rparr>"

text \<open>The results of the two loaders are arguments; None is the nil store.\<close>

definition loadImportedBackupData ::
  "('r, 'v) client_env \<Rightarrow> ((string + ImportedContact list) \<times> (string + ImportedGroup list)) option \<Rightarrow>
   ('r, 'v) client \<Rightarrow> ('r, 'v) client" where
  "loadImportedBackupData E s c =
    (case s of
       None \<Rightarrow> c
     | Some (Inl e, _) \<Rightarrow> c
     | Some (Inr contacts, Inl e) \<Rightarrow> c
     | Some (Inr contacts, Inr groups) \<Rightarrow>
       if contacts = [] \<and> groups = [] then c
       else
         (foldl (\<lambda>c ct. if ic_ACI ct \<noteq> [] \<and> length (ic_ProfileKey ct) = 32
              then SetRecipientProfileKey E (ic_ACI ct) (ic_ProfileKey ct) c else c) c contacts)
         \<lparr> cl_storedContacts := map stored_contact contacts,
           cl_storedGroups := map stored_group groups \<rparr>)"

text \<open>The map entry that the last frame about each key leaves.\<close>

definition imported_view :: "'x import_lib \<Rightarrow> bytes list \<Rightarrow> import_view" where
  "imported_view L fs = foldl apply_frame (\<lambda>_. None, \<lambda>_. None) (map (decode_frame L) fs)"

lemma foldl_count_frames:
  "st_Frames (foldl (\<lambda>s f. count_frame (s\<lparr> st_Frames := st_Frames s + 1 \<rparr>) f) s fs) = st_Frames s + length fs"
  by (induction fs arbitrary: s) (simp_all add: count_frame_def)

lemma importPlaintext_loop:
  assumes "importPlaintext L purpose T (frame_bytes info @ stream fs) w = (w', Inr stats)" "frame_ok info"
  shows "\<exists>v v'. import_loop L T (stream fs) v empty_stats w = (w', Inr (v', stats))"
proof -
  have "ReadVarintFrame (frame_bytes info @ stream fs) = Inr (info, stream fs)"
    using assms(2) by (simp add: frame_bytes_def frame_ok_def ReadVarintFrame_encoded)
  then show ?thesis
    using assms by (auto simp: importPlaintext_def frame_ok_def split: sum.splits prod.splits option.splits)
qed

context import_store
begin

lemma import_view:
  assumes "importPlaintext L purpose T (frame_bytes info @ stream fs) w = (w', Inr stats)"
    "frame_ok info" "list_all frame_ok fs" "ready w" "view w = (\<lambda>_. None, \<lambda>_. None)"
  shows "ready w' \<and> view w' = imported_view L fs \<and> st_Frames stats = length fs"
proof -
  obtain v v' where l: "import_loop L T (stream fs) v empty_stats w = (w', Inr (v', stats))"
    using importPlaintext_loop [OF assms(1,2)] by blast
  have "frames_in (stream fs) = fs"
    using frames_in_stream [OF assms(3), of "[]"] by (simp add: cut_tail_def)
  with import_loop_view [OF l assms(4)] have
    1: "ready w'" "view w' = imported_view L fs"
    and 2: "no_ids stats = foldl (\<lambda>s f. count_frame (s\<lparr> st_Frames := st_Frames s + 1 \<rparr>) f)
      (no_ids empty_stats) (map (decode_frame L) fs)"
    by (simp_all add: imported_view_def assms(5))
  have "st_Frames stats = st_Frames (no_ids empty_stats) + length (map (decode_frame L) fs)"
    using arg_cong [OF 2, of st_Frames] unfolding foldl_count_frames by (simp add: no_ids_def)
  then have "st_Frames stats = length fs" by (simp add: no_ids_def empty_stats_def)
  with 1 show ?thesis by simp
qed

end

definition mem_import_empty :: mem_import where
  "mem_import_empty = \<lparr> mi_contacts = [], mi_groups = [] \<rparr>"

definition sql_import_empty :: sql_import where
  "sql_import_empty = \<lparr> si_fault = None, si_contacts = [], si_groups = [] \<rparr>"



definition sample_import_lib :: "nat import_lib" where
  "sample_import_lib = \<lparr> il_unmarshal = (\<lambda>f. Inr \<lparr> fr_ChatItem = None, fr_Recipient =
       Some (if f = [3] then DestGroup (Some \<lparr> bg_MasterKey = replicate 32 7, bg_Title = None, bg_Blocked = False \<rparr>)
         else DestContact (Some \<lparr> bc_Aci = replicate 16 (hd f), bc_Pni = [], bc_E164 = 0, bc_ProfileKey = [],
           bc_ProfileGivenName = ''a'', bc_ProfileFamilyName = [], bc_Nickname = None, bc_Blocked = (length f = 2),
           bc_IdentityKey = [] \<rparr>)) \<rparr>),
     il_marshal_ChatItem = Inr, il_parse_pub = Inr, il_serialize_pub = Inr, il_validator = (\<lambda>i p. Inr 0),
     il_add = (\<lambda>v f. (v + 1, None)), il_finalize = (\<lambda>v. None) \<rparr>"

definition sample_frames :: "bytes list" where
  "sample_frames = [[2], [1], [3], [2, 9]]"

lemma sample_frames_ok: "frame_ok [9]" "list_all frame_ok sample_frames"
  by (simp_all add: frame_ok_def sample_frames_def maxAlloc_def)

text \<open>The loop on a complete stream is a fold over its frames.\<close>

fun import_frames ::
  "'x import_lib \<Rightarrow> 'w import_target \<Rightarrow> bytes list \<Rightarrow> 'x \<Rightarrow> ImportStats \<Rightarrow> 'w \<Rightarrow>
   'w \<times> (import_err + 'x \<times> ImportStats)" where
  "import_frames L T [] v stats w = (w, Inr (v, stats))"
| "import_frames L T (f # fs) v stats w =
    (case AddFrame L v f of
       (v', Some e) \<Rightarrow> (w, Inl (ImpValidate e))
     | (v', None) \<Rightarrow>
       (case importFrame L T f (stats\<lparr> st_Frames := st_Frames stats + 1 \<rparr>) w of
          (w', Inl e) \<Rightarrow> (w', Inl e)
        | (w', Inr stats') \<Rightarrow> import_frames L T fs v' stats' w'))"

lemma import_loop_stream:
  "list_all frame_ok fs \<Longrightarrow> import_loop L T (stream fs) v stats w = import_frames L T fs v stats w"
proof (induction fs arbitrary: v stats w)
  case Nil
  then show ?case using import_loop.simps [of L T "[]" v stats w]
    by (simp add: stream_def ReadVarintFrame_nil is_EOF_def)
next
  case (Cons f fs)
  then have "ReadVarintFrame (stream (f # fs)) = Inr (f, stream fs)"
    by (simp add: stream_def frame_bytes_def frame_ok_def ReadVarintFrame_encoded)
  then show ?case
    using Cons import_loop.simps [of L T "stream (f # fs)" v stats w]
    by (simp add: frame_ok_def split: prod.splits option.splits sum.splits)
qed

lemma importPlaintext_stream:
  assumes "frame_ok info" "list_all frame_ok fs"
  shows "importPlaintext L purpose T (frame_bytes info @ stream fs) w =
    (case il_validator L info purpose of
       Inl e \<Rightarrow> (w, Inl (ImpValidator e))
     | Inr v \<Rightarrow>
       (case import_frames L T fs v empty_stats w of
          (w', Inl e) \<Rightarrow> (w', Inl e)
        | (w', Inr (v', stats)) \<Rightarrow>
          (case il_finalize L v' of Some e \<Rightarrow> (w', Inl (ImpFinalize e)) | None \<Rightarrow> (w', Inr stats))))"
proof -
  have "ReadVarintFrame (frame_bytes info @ stream fs) = Inr (info, stream fs)"
    using assms(1) by (simp add: frame_bytes_def frame_ok_def ReadVarintFrame_encoded)
  moreover have "info \<noteq> []" using assms(1) by (simp add: frame_ok_def)
  ultimately show ?thesis
    by (simp add: importPlaintext_def import_loop_stream [OF assms(2)] split: sum.splits)
qed

lemma sample_imports:
  "\<exists>ms' mi st. importPlaintext sample_import_lib 0 mem_target (frame_bytes [9] @ stream sample_frames)
     (mem_NewSignalStores, mem_import_empty) = ((ms', mi), Inr st)"
  "\<exists>ss' si st. importPlaintext sample_import_lib 0 sql_target (frame_bytes [9] @ stream sample_frames)
     (sql_empty, sql_import_empty) = ((ss', si), Inr st)"
  unfolding importPlaintext_stream [OF sample_frames_ok]
  by (simp_all add: sample_frames_def sample_import_lib_def
      AddFrame_def importFrame_def importContact_def importGroup_def contact_entry_def rawUUIDString_def
      FormatRawUUID_def importIdentity_def mem_target_def sql_target_def mem_SaveImportedContact_def
      mem_SaveImportedGroup_def sql_SaveImportedContact_def sql_SaveImportedGroup_def Let_def
      sql_import_empty_def numeral_2_eq_2)


theorem truncated_import_accepted_witness:
  "\<not> isl (snd (importPlaintext sample_import_lib 0 sql_target
      (frame_bytes [9] @ stream sample_frames @ take 2 (frame_bytes [4, 4])) (sql_empty, sql_import_empty)))"
proof -
  have "length (frame_bytes [4, 4]) = 3" by (simp add: frame_bytes_def putUvarint.simps)
  then show ?thesis
    using truncated_import_accepted [OF sample_frames_ok, of "[4, 4]" 2 sample_import_lib 0 sql_target
        "(sql_empty, sql_import_empty)"] sample_imports(2)
    by (auto simp: maxAlloc_def)
qed

end
