(* ===== verification/GoNet.thy ===== *)
theory GoNet
  imports Encoding GoStrings Stores "HOL-Library.List_Lexorder" "HOL-Library.Char_ord"
begin

text \<open>
  Parts of the standard library that the web client uses: encoding/base64, strconv, net/url
  escaping and HTTP headers. Base64 is an instance of the locale \<open>codec\<close>.
\<close>

section \<open>encoding/base64\<close>

definition stdAlphabet :: string where
  "stdAlphabet = ''ABCDEFGHIJKLMNOPQRSTUVWXYZabcdefghijklmnopqrstuvwxyz0123456789+/''"

definition urlAlphabet :: string where
  "urlAlphabet = ''ABCDEFGHIJKLMNOPQRSTUVWXYZabcdefghijklmnopqrstuvwxyz0123456789-_''"

definition six :: "string \<Rightarrow> nat \<Rightarrow> char" where
  "six A n = A ! (n mod 64)"

fun index_of :: "string \<Rightarrow> char \<Rightarrow> nat option" where
  "index_of [] c = None"
| "index_of (x # xs) c = (if x = c then Some 0 else map_option Suc (index_of xs c))"

fun b64_encode :: "string \<Rightarrow> bytes \<Rightarrow> string" where
  "b64_encode A [] = []"
| "b64_encode A [a] = [six A (unat a div 4), six A ((unat a mod 4) * 16), CHR ''='', CHR ''='']"
| "b64_encode A [a, b] =
    [six A (unat a div 4), six A ((unat a mod 4) * 16 + unat b div 16), six A ((unat b mod 16) * 4), CHR ''='']"
| "b64_encode A (a # b # c # bs) =
    six A (unat a div 4) # six A ((unat a mod 4) * 16 + unat b div 16) #
    six A ((unat b mod 16) * 4 + unat c div 64) # six A (unat c mod 64) # b64_encode A bs"

text \<open>Line ends are skipped first; a quantum shorter than four characters is an error.\<close>

fun b64_quanta :: "string \<Rightarrow> string \<Rightarrow> bytes option" where
  "b64_quanta A [] = Some []"
| "b64_quanta A (w # x # y # z # s) =
    (case (index_of A w, index_of A x) of
       (Some i, Some j) \<Rightarrow>
         if y = CHR ''='' \<and> z = CHR ''='' \<and> s = [] then Some [of_nat (i * 4 + j div 16)]
         else
           (case index_of A y of
              None \<Rightarrow> None
            | Some k \<Rightarrow>
              if z = CHR ''='' \<and> s = []
              then Some [of_nat (i * 4 + j div 16), of_nat (j mod 16 * 16 + k div 4)]
              else
                (case (index_of A z, b64_quanta A s) of
                   (Some l, Some bs) \<Rightarrow>
                     Some (of_nat (i * 4 + j div 16) # of_nat (j mod 16 * 16 + k div 4) #
                           of_nat (k mod 4 * 64 + l) # bs)
                 | _ \<Rightarrow> None))
     | _ \<Rightarrow> None)"
| "b64_quanta A _ = None"

definition b64_decode :: "string \<Rightarrow> string \<Rightarrow> string + bytes" where
  "b64_decode A s =
    (case b64_quanta A (filter (\<lambda>c. c \<noteq> CHR 0x0A \<and> c \<noteq> CHR 0x0D) s) of
       None \<Rightarrow> Inl ''illegal base64 data'' | Some bs \<Rightarrow> Inr bs)"

definition EncodeToString :: "bytes \<Rightarrow> string" where
  "EncodeToString bs = b64_encode stdAlphabet bs"

text \<open>DecodeBase64 (internal/web/messages.go): standard, then URL-safe.\<close>

definition DecodeBase64 :: "string \<Rightarrow> string + bytes" where
  "DecodeBase64 s =
    (case b64_decode stdAlphabet s of Inr b \<Rightarrow> Inr b | Inl _ \<Rightarrow> b64_decode urlAlphabet s)"

definition b64_alphabet :: "string \<Rightarrow> bool" where
  "b64_alphabet A \<longleftrightarrow> length A = 64 \<and> distinct A \<and> CHR ''='' \<notin> set A \<and>
     CHR 0x0A \<notin> set A \<and> CHR 0x0D \<notin> set A"

lemma b64_alphabets: "b64_alphabet stdAlphabet" "b64_alphabet urlAlphabet"
  by (simp_all add: b64_alphabet_def stdAlphabet_def urlAlphabet_def)

lemma index_of_nth: "distinct A \<Longrightarrow> n < length A \<Longrightarrow> index_of A (A ! n) = Some n"
proof (induction A arbitrary: n)
  case (Cons a A)
  then show ?case by (cases n) (auto simp: nth_mem)
qed simp

lemma index_of_six: "b64_alphabet A \<Longrightarrow> index_of A (six A n) = Some (n mod 64)"
  by (simp add: six_def b64_alphabet_def index_of_nth)

lemma six_in: "b64_alphabet A \<Longrightarrow> six A n \<in> set A"
  by (simp add: six_def b64_alphabet_def)

lemma six_not_pad: "b64_alphabet A \<Longrightarrow> six A n \<noteq> CHR ''=''"
  using six_in by (metis b64_alphabet_def)

lemma b64_encode_chars: "b64_alphabet A \<Longrightarrow> set (b64_encode A bs) \<subseteq> set A \<union> {CHR ''=''}"
  by (induction A bs rule: b64_encode.induct) (auto simp: six_in)

lemma small_div_mod:
  fixes x y :: nat
  shows "x < 256 \<Longrightarrow> x div 4 mod 64 = x div 4"
    and "x < 256 \<Longrightarrow> x div 16 mod 16 = x div 16"
    and "x < 256 \<Longrightarrow> x div 64 mod 4 = x div 64"
    and "(x mod 4 * 16) mod 64 = x mod 4 * 16"
    and "(x mod 16 * 4) mod 64 = x mod 16 * 4"
    and "y < 16 \<Longrightarrow> (x mod 4 * 16 + y) mod 64 = x mod 4 * 16 + y"
    and "y < 4 \<Longrightarrow> (x mod 16 * 4 + y) mod 64 = x mod 16 * 4 + y"
  using mod_less_divisor [of 4 x] mod_less_divisor [of 16 x]
  by (simp_all add: div_less_iff_less_mult)

lemma byte_parts [simp]: "unat (b :: byte) div 16 < 16" "unat b div 64 < 4"
  using unat_byte_less [of b] by (simp_all add: div_less_iff_less_mult)

lemmas b64_bits = small_div_mod(1-3) [OF unat_byte_less] small_div_mod(4,5)
  small_div_mod(6) [OF byte_parts(1)] small_div_mod(7) [OF byte_parts(2)]

lemma byte_split:
  "of_nat (unat (b :: byte) div m) * of_nat m + of_nat (unat b mod m) = b"
proof -
  have "of_nat (unat b div m) * of_nat m + of_nat (unat b mod m) = (of_nat (unat b) :: byte)"
    unfolding of_nat_mult [symmetric] of_nat_add [symmetric] by simp
  then show ?thesis by (simp only: word_of_nat_eq_iff unsigned_word_eqI) (simp add: take_bit_nat_eq_self_iff)
qed

lemmas byte_splits = byte_split [of _ 4, simplified] byte_split [of _ 16, simplified] byte_split [of _ 64, simplified]

lemma b64_quanta_encode: "b64_alphabet A \<Longrightarrow> b64_quanta A (b64_encode A bs) = Some bs"
  by (induction A bs rule: b64_encode.induct)
     (simp_all add: index_of_six six_not_pad b64_bits byte_splits)

lemma b64_decode_encode: "b64_alphabet A \<Longrightarrow> b64_decode A (b64_encode A bs) = Inr bs"
proof -
  assume A: "b64_alphabet A"
  have "c \<noteq> CHR 0x0A \<and> c \<noteq> CHR 0x0D" if "c \<in> set (b64_encode A bs)" for c
    using b64_encode_chars [OF A, of bs] that A by (auto simp: b64_alphabet_def)
  then have "filter (\<lambda>c. c \<noteq> CHR 0x0A \<and> c \<noteq> CHR 0x0D) (b64_encode A bs) = b64_encode A bs"
    by (simp add: filter_id_conv)
  then show ?thesis by (simp add: b64_decode_def b64_quanta_encode [OF A])
qed

interpretation base64: codec "\<lambda>_. True" EncodeToString "b64_decode stdAlphabet"
  by unfold_locales (simp_all add: EncodeToString_def b64_decode_encode b64_alphabets)

lemma DecodeBase64_encode [simp]: "DecodeBase64 (EncodeToString bs) = Inr bs"
  using base64.dec_enc [of bs] by (simp add: DecodeBase64_def)

section \<open>strconv\<close>

definition digit_val :: "char \<Rightarrow> nat option" where
  "digit_val c = (let n = of_char c :: nat in if 48 \<le> n \<and> n \<le> 57 then Some (n - 48) else None)"

fun digits_val :: "string \<Rightarrow> nat \<Rightarrow> nat option" where
  "digits_val [] acc = Some acc"
| "digits_val (c # s) acc =
    (case digit_val c of None \<Rightarrow> None | Some d \<Rightarrow> digits_val s (acc * 10 + d))"

text \<open>ParseUint in base 10 without underscores; None is any error.\<close>

definition ParseUint :: "nat \<Rightarrow> string \<Rightarrow> nat option" where
  "ParseUint bits s =
    (if s = [] then None
     else case digits_val s 0 of
       None \<Rightarrow> None
     | Some n \<Rightarrow> if n < 2 ^ bits then Some n else None)"

definition Atoi :: "string \<Rightarrow> int option" where
  "Atoi s =
    (case s of
       [] \<Rightarrow> None
     | c # r \<Rightarrow>
       let neg = (c = CHR ''-''); ds = (if neg \<or> c = CHR ''+'' then r else s) in
       if ds = [] then None
       else case digits_val ds 0 of
         None \<Rightarrow> None
       | Some n \<Rightarrow>
         if neg then (if n \<le> 2 ^ 63 then Some (- int n) else None)
         else if n < 2 ^ 63 then Some (int n) else None)"

section \<open>net/url\<close>

definition unreserved :: "char \<Rightarrow> bool" where
  "unreserved c \<longleftrightarrow> (let n = of_char c :: nat in
     (48 \<le> n \<and> n \<le> 57) \<or> (65 \<le> n \<and> n \<le> 90) \<or> (97 \<le> n \<and> n \<le> 122)) \<or> c \<in> set ''-_.~''"

definition percent :: "char \<Rightarrow> string" where
  "percent c = (let n = of_char c :: nat; h = (\<lambda>i. ''0123456789ABCDEF'' ! i)
     in [CHR ''%'', h (n div 16), h (n mod 16)])"

definition QueryEscape :: "string \<Rightarrow> string" where
  "QueryEscape s =
    concat (map (\<lambda>c. if unreserved c then [c] else if c = CHR '' '' then ''+'' else percent c) s)"

definition PathEscape :: "string \<Rightarrow> string" where
  "PathEscape s =
    concat (map (\<lambda>c. if unreserved c \<or> c \<in> set ''$&+=:@'' then [c] else percent c) s)"

text \<open>\<open>url.Values.Encode\<close>: the keys in order, joined with an ampersand.\<close>

type_synonym url_values = "(string \<times> string list) list"

fun join_amp :: "string list \<Rightarrow> string" where
  "join_amp [] = []"
| "join_amp [x] = x"
| "join_amp (x # y # xs) = x @ ''&'' @ join_amp (y # xs)"

definition values_Encode :: "url_values \<Rightarrow> string" where
  "values_Encode q =
    join_amp (concat (map (\<lambda>(k, vs). map (\<lambda>v. QueryEscape k @ ''='' @ QueryEscape v) vs)
      (sort_key fst q)))"

section \<open>HTTP headers\<close>

type_synonym headers = "(string \<times> string list) list"

text \<open>The canonical form of a header name; names with other than token characters stay.\<close>

definition token_char :: "char \<Rightarrow> bool" where
  "token_char c \<longleftrightarrow> (let n = of_char c :: nat in
     (48 \<le> n \<and> n \<le> 57) \<or> (65 \<le> n \<and> n \<le> 90) \<or> (97 \<le> n \<and> n \<le> 122)) \<or>
     c \<in> set ''!#$%&*+-.^_|~'' \<or> of_char c \<in> {39, 96 :: nat}"

definition ascii_upper :: "char \<Rightarrow> char" where
  "ascii_upper c =
    (let n = of_char c :: nat in if 97 \<le> n \<and> n \<le> 122 then char_of (n - 32) else c)"

fun canonical_from :: "bool \<Rightarrow> string \<Rightarrow> string" where
  "canonical_from up [] = []"
| "canonical_from up (c # s) =
    (if up then ascii_upper c else ascii_lower c) # canonical_from (c = CHR ''-'') s"

definition CanonicalHeaderKey :: "string \<Rightarrow> string" where
  "CanonicalHeaderKey s = (if list_all token_char s then canonical_from True s else s)"

definition header_values :: "headers \<Rightarrow> string \<Rightarrow> string list" where
  "header_values h k = (case map_of h k of None \<Rightarrow> [] | Some vs \<Rightarrow> vs)"

definition header_Set :: "string \<Rightarrow> string \<Rightarrow> headers \<Rightarrow> headers" where
  "header_Set k v h = AList.update k [v] h"

definition header_Add :: "string \<Rightarrow> string \<Rightarrow> headers \<Rightarrow> headers" where
  "header_Add k v h = AList.update k (header_values h k @ [v]) h"

definition header_Get :: "headers \<Rightarrow> string \<Rightarrow> string" where
  "header_Get h k = (case header_values h k of [] \<Rightarrow> [] | v # _ \<Rightarrow> v)"

text \<open>Adding every value of a second header map, as the request builders do.\<close>

definition header_merge :: "headers \<Rightarrow> headers \<Rightarrow> headers" where
  "header_merge add h = foldl (\<lambda>h (k, vs). foldl (\<lambda>h v. header_Add k v h) h vs) h add"

lemma values_Set [simp]: "header_values (header_Set k v h) k' = (if k' = k then [v] else header_values h k')"
  by (simp add: header_values_def header_Set_def update_conv')

lemma values_Add [simp]:
  "header_values (header_Add k v h) k' = (if k' = k then header_values h k @ [v] else header_values h k')"
  by (simp add: header_values_def header_Add_def update_conv')

lemma values_Add_all:
  "header_values (foldl (\<lambda>h v. header_Add k v h) h vs) k' =
    (if k' = k then header_values h k @ vs else header_values h k')"
  by (induction vs arbitrary: h) auto

lemma values_Nil [simp]: "header_values [] k = []"
  by (simp add: header_values_def)

lemma values_single [simp]: "header_values [(k, vs)] k' = (if k' = k then vs else [])"
  by (simp add: header_values_def)

lemma values_merge:
  "distinct (map fst add) \<Longrightarrow>
    header_values (header_merge add h) k = header_values h k @ header_values add k"
proof (induction add arbitrary: h)
  case (Cons p add)
  obtain k0 vs where p: "p = (k0, vs)" by (cases p)
  have "header_merge (p # add) h = header_merge add (foldl (\<lambda>h v. header_Add k0 v h) h vs)"
    by (simp add: header_merge_def p)
  moreover have "header_values (p # add) k = (if k = k0 then vs else header_values add k)"
    by (simp add: header_values_def p)
  moreover have "k0 \<notin> fst ` set add" using Cons.prems p by simp
  then have "header_values add k0 = []"
    by (simp add: header_values_def map_of_eq_None_iff [THEN iffD2] split: option.splits)
  ultimately show ?case using Cons p by (simp add: values_Add_all)
qed (simp add: header_merge_def)

end
