(* ===== verification/Web.thy ===== *)
theory Web
  imports GoNet Events
begin

text \<open>
  The REST client, internal/web: client.go (Do, DoAbsolute, credentials, Retry-After) and the
  endpoints of messages.go, sender_cert.go, multi_recipient.go, profile.go and attachments.go.
  The network is the operation \<open>wc_transport\<close> on an outside world \<open>'v\<close>, which also has the clock;
  JSON marshalling, URL parsing and the date parser are operations of the same record. Instants
  and durations are in nanoseconds.
\<close>

section \<open>Requests and errors\<close>

record http_request =
  hr_Method :: string
  hr_URL :: string
  hr_Header :: headers
  hr_Body :: "bytes option"

record http_response =
  hs_StatusCode :: int
  hs_Status :: string
  hs_Header :: headers
  hs_Body :: bytes
  hs_BodyErr :: "string option"

record Credentials =
  cr_Username :: string
  cr_Password :: string

record web_Error =
  we_StatusCode :: int
  we_Status :: string
  we_Body :: bytes
  we_RetryAfter :: int

text \<open>The error values: the typed ones, a wrapped error, and plain texts.\<close>

datatype web_err =
    WError web_Error
  | WMismatched "u32 list" "u32 list"
  | WStale "u32 list"
  | WWrap string web_err
  | WText string

text \<open>\<open>errors.As\<close> for the three types.\<close>

fun as_Error :: "web_err \<Rightarrow> web_Error option" where
  "as_Error (WError e) = Some e"
| "as_Error (WWrap s e) = as_Error e"
| "as_Error e = None"

fun as_Mismatched :: "web_err \<Rightarrow> (u32 list \<times> u32 list) option" where
  "as_Mismatched (WMismatched m e) = Some (m, e)"
| "as_Mismatched (WWrap s e) = as_Mismatched e"
| "as_Mismatched e = None"

fun as_Stale :: "web_err \<Rightarrow> u32 list option" where
  "as_Stale (WStale d) = Some d"
| "as_Stale (WWrap s e) = as_Stale e"
| "as_Stale e = None"

record SignedPreKeySlot =
  sl_KeyID :: u32
  sl_PublicKey :: string
  sl_Signature :: string

record PreKeySlot =
  pl_KeyID :: u32
  pl_PublicKey :: string

record BundleDevice =
  bd_DeviceID :: u32
  bd_RegistrationID :: u32
  bd_SignedPreKey :: SignedPreKeySlot
  bd_PqPreKey :: "SignedPreKeySlot option"
  bd_PreKey :: "PreKeySlot option"

record FetchPreKeyResponse =
  fp_IdentityKey :: string
  fp_Devices :: "BundleDevice list"

record MessageEnvelope =
  mv_Type :: "8 word"
  mv_DestinationDeviceID :: u32
  mv_DestinationRegistrationID :: u32
  mv_Content :: string
  mv_Silent :: bool

record SendMessageRequest =
  sr_Timestamp :: u64
  sr_Online :: bool
  sr_Urgent :: bool
  sr_Messages :: "MessageEnvelope list"

record VersionedProfileResponse =
  vp_Name :: string
  vp_About :: string
  vp_AboutEmoji :: string
  vp_Avatar :: string
  vp_PaymentAddress :: string
  vp_PhoneNumberShare :: string
  vp_UnidentifiedAccess :: string
  vp_UnrestrictedUnidentifiedAccess :: bool

record AttachmentUploadForm =
  uf_CDN :: u32
  uf_Key :: string
  uf_Headers :: "(string \<times> string) list"
  uf_SignedUploadLocation :: string

text \<open>The JSON codecs the endpoints use.\<close>

record web_json =
  js_SendMessageRequest :: "SendMessageRequest \<Rightarrow> string + bytes"
  js_SendMessageResponse :: "bytes \<Rightarrow> string + bool"
  js_FetchPreKeyResponse :: "bytes \<Rightarrow> string + FetchPreKeyResponse"
  js_Mismatched :: "bytes \<Rightarrow> string + u32 list \<times> u32 list"
  js_Stale :: "bytes \<Rightarrow> string + u32 list"
  js_Certificate :: "bytes \<Rightarrow> string + string"
  js_Profile :: "bytes \<Rightarrow> string + VersionedProfileResponse"
  js_Credential :: "bytes \<Rightarrow> string + bytes"
  js_UploadForm :: "bytes \<Rightarrow> string + AttachmentUploadForm"
  js_Userpass :: "bytes \<Rightarrow> string + Credentials"

record 'v web_client =
  wc_BaseURL :: string
  wc_UserAgent :: string
  wc_CDNHosts :: "(u32 \<times> string) list"
  wc_transport :: "'v \<Rightarrow> http_request \<Rightarrow> 'v \<times> (string + http_response)"
  wc_now :: "'v \<Rightarrow> int"
  wc_parse_url :: "string \<Rightarrow> string \<Rightarrow> string + string"
  wc_request_err :: "string \<Rightarrow> string \<Rightarrow> string option"
  wc_parse_time :: "string \<Rightarrow> int option"
  wc_json :: web_json

text \<open>The body is the result of marshalling it, None the nil body.\<close>

record request =
  rq_Method :: string
  rq_Path :: string
  rq_Query :: url_values
  rq_Headers :: headers
  rq_Credentials :: Credentials
  rq_Body :: "(string + bytes) option"
  rq_RawBody :: bytes

definition no_creds :: Credentials where
  "no_creds = \<lparr> cr_Username = [], cr_Password = [] \<rparr>"

definition get_request :: "string \<Rightarrow> request" where
  "get_request path = \<lparr> rq_Method = ''GET'', rq_Path = path, rq_Query = [], rq_Headers = [],
     rq_Credentials = no_creds, rq_Body = None, rq_RawBody = [] \<rparr>"

section \<open>Do\<close>

definition string_bytes :: "string \<Rightarrow> bytes" where
  "string_bytes s = map of_char s"

definition Credentials_Header :: "Credentials \<Rightarrow> string" where
  "Credentials_Header c =
    (if cr_Username c = [] \<and> cr_Password c = [] then []
     else ''Basic '' @ EncodeToString (string_bytes (cr_Username c @ '':'' @ cr_Password c)))"

text \<open>\<open>time.Duration(secs) * time.Second\<close> wraps at 64 bits.\<close>

definition wrap_int64 :: "int \<Rightarrow> int" where
  "wrap_int64 n = sint (of_int n :: u64)"

definition parseRetryAfter :: "'v web_client \<Rightarrow> string \<Rightarrow> 'v \<Rightarrow> int" where
  "parseRetryAfter c value v =
    (if value = [] then 0
     else case Atoi value of
       Some secs \<Rightarrow>
         if secs \<ge> 0 then wrap_int64 (secs * 1000000000)
         else (case wc_parse_time c value of None \<Rightarrow> 0 | Some when \<Rightarrow> max 0 (when - wc_now c v))
     | None \<Rightarrow> (case wc_parse_time c value of None \<Rightarrow> 0 | Some when \<Rightarrow> max 0 (when - wc_now c v)))"

definition buildURL :: "'v web_client \<Rightarrow> string \<Rightarrow> url_values \<Rightarrow> web_err + string" where
  "buildURL c path query =
    (if path = [] \<or> hd path \<noteq> CHR ''/'' then Inl (WText ''web: path must start with /'')
     else case wc_parse_url c (wc_BaseURL c @ path) (values_Encode query) of
       Inl e \<Rightarrow> Inl (WText (''web: parse url: '' @ e))
     | Inr u \<Rightarrow> Inr u)"

text \<open>\<open>io.ReadAll(io.LimitReader(body, n))\<close>: a read error before the limit is an error.\<close>

definition read_limited :: "nat \<Rightarrow> http_response \<Rightarrow> string + bytes" where
  "read_limited n r =
    (case hs_BodyErr r of
       Some e \<Rightarrow> if length (hs_Body r) < n then Inl e else Inr (take n (hs_Body r))
     | None \<Rightarrow> Inr (take n (hs_Body r)))"

definition bodyLimit :: nat where "bodyLimit = 8388608"

text \<open>The body of a request: marshalled first, so that its error comes first.\<close>

definition request_body :: "request \<Rightarrow> string + bytes option" where
  "request_body req =
    (case rq_Body req of
       Some (Inl e) \<Rightarrow> Inl e
     | Some (Inr raw) \<Rightarrow> Inr (Some raw)
     | None \<Rightarrow> Inr (if length (rq_RawBody req) > 0 then Some (rq_RawBody req) else None))"

definition request_headers :: "'v web_client \<Rightarrow> request \<Rightarrow> headers" where
  "request_headers c req =
    (let h = header_Set ''X-Signal-Agent'' (wc_UserAgent c) (header_Set ''User-Agent'' (wc_UserAgent c) []);
         h = (if rq_Body req \<noteq> None then header_Set ''Content-Type'' ''application/json'' h else h);
         a = Credentials_Header (rq_Credentials req);
         h = (if a \<noteq> [] then header_Set ''Authorization'' a h else h)
     in header_merge (rq_Headers req) h)"

text \<open>The result of a 2xx response is its body; what Out does with it is \<open>decode_out\<close>.\<close>

definition Do :: "'v web_client \<Rightarrow> request \<Rightarrow> 'v \<Rightarrow> 'v \<times> (web_err + bytes)" where
  "Do c req v =
    (case buildURL c (rq_Path req) (rq_Query req) of
       Inl e \<Rightarrow> (v, Inl e)
     | Inr full \<Rightarrow>
       (case request_body req of
          Inl e \<Rightarrow> (v, Inl (WText (''web: marshal body: '' @ e)))
        | Inr body \<Rightarrow>
          (case wc_request_err c (rq_Method req) full of
             Some e \<Rightarrow> (v, Inl (WText (''web: build request: '' @ e)))
           | None \<Rightarrow>
             (case wc_transport c v \<lparr> hr_Method = rq_Method req, hr_URL = full,
                     hr_Header = request_headers c req, hr_Body = body \<rparr> of
                (v', Inl e) \<Rightarrow> (v', Inl (WText (''web: do: '' @ e)))
              | (v', Inr resp) \<Rightarrow>
                (case read_limited bodyLimit resp of
                   Inl e \<Rightarrow> (v', Inl (WText (''web: read body: '' @ e)))
                 | Inr bs \<Rightarrow>
                   if hs_StatusCode resp < 200 \<or> hs_StatusCode resp \<ge> 300
                   then (v', Inl (WError \<lparr> we_StatusCode = hs_StatusCode resp, we_Status = hs_Status resp,
                               we_Body = bs,
                               we_RetryAfter = parseRetryAfter c (header_Get (hs_Header resp) ''Retry-After'') v' \<rparr>))
                   else (v', Inr bs))))))"

text \<open>Decoding into \<open>Out\<close>: an empty body leaves the zero value.\<close>

definition decode_out :: "(bytes \<Rightarrow> string + 'o) \<Rightarrow> 'o \<Rightarrow> 'v \<times> (web_err + bytes) \<Rightarrow> 'v \<times> (web_err + 'o)" where
  "decode_out dec zero r =
    (case r of
       (v, Inl e) \<Rightarrow> (v, Inl e)
     | (v, Inr bs) \<Rightarrow>
       if length bs = 0 then (v, Inr zero)
       else (case dec bs of Inl e \<Rightarrow> (v, Inl (WText (''web: decode response: '' @ e))) | Inr x \<Rightarrow> (v, Inr x)))"

text \<open>An absolute URL; the request is built before its body, and Retry-After is not read.\<close>

definition DoAbsolute :: "'v web_client \<Rightarrow> string \<Rightarrow> request \<Rightarrow> 'v \<Rightarrow> 'v \<times> (web_err + bytes)" where
  "DoAbsolute c rawURL req v =
    (case wc_request_err c (rq_Method req) rawURL of
       Some e \<Rightarrow> (v, Inl (WText (''web: build absolute request: '' @ e)))
     | None \<Rightarrow>
       (case request_body req of
          Inl e \<Rightarrow> (v, Inl (WText (''web: marshal body: '' @ e)))
        | Inr body \<Rightarrow>
          (case wc_transport c v \<lparr> hr_Method = rq_Method req, hr_URL = rawURL,
                  hr_Header = request_headers c req, hr_Body = body \<rparr> of
             (v', Inl e) \<Rightarrow> (v', Inl (WText (''web: do absolute: '' @ e)))
           | (v', Inr resp) \<Rightarrow>
             (case read_limited bodyLimit resp of
                Inl e \<Rightarrow> (v', Inl (WText (''web: read body: '' @ e)))
              | Inr bs \<Rightarrow>
                if hs_StatusCode resp < 200 \<or> hs_StatusCode resp \<ge> 300
                then (v', Inl (WError \<lparr> we_StatusCode = hs_StatusCode resp, we_Status = hs_Status resp,
                            we_Body = bs, we_RetryAfter = 0 \<rparr>))
                else (v', Inr bs)))))"

section \<open>Messages\<close>

definition no_creds_given :: "Credentials \<Rightarrow> bool" where
  "no_creds_given c \<longleftrightarrow> cr_Username c = [] \<or> cr_Password c = []"

definition empty_bundle :: FetchPreKeyResponse where
  "empty_bundle = \<lparr> fp_IdentityKey = [], fp_Devices = [] \<rparr>"

definition FetchPreKeyBundle ::
  "'v web_client \<Rightarrow> Credentials \<Rightarrow> string \<Rightarrow> string \<Rightarrow> 'v \<Rightarrow> 'v \<times> (web_err + FetchPreKeyResponse)" where
  "FetchPreKeyBundle c creds serviceID device v =
    (if no_creds_given creds then (v, Inl (WText ''web.FetchPreKeyBundle: credentials required''))
     else if serviceID = [] then (v, Inl (WText ''web.FetchPreKeyBundle: serviceID required''))
     else
       let dev = (if device = [] then ''*'' else device) in
       decode_out (js_FetchPreKeyResponse (wc_json c)) empty_bundle
         (Do c ((get_request (''/v2/keys/'' @ serviceID @ ''/'' @ dev))\<lparr> rq_Credentials := creds \<rparr>) v))"

text \<open>
  A conflict or gone status with a body of the right shape becomes the typed error; it replaces
  the HTTP error, it does not wrap it.
\<close>

definition mapSendError :: "'v web_client \<Rightarrow> web_err \<Rightarrow> web_err" where
  "mapSendError c err =
    (case as_Error err of
       None \<Rightarrow> err
     | Some werr \<Rightarrow>
       if we_StatusCode werr = 409 then
         (case js_Mismatched (wc_json c) (we_Body werr) of
            Inr (missing, extra) \<Rightarrow>
              if length missing > 0 \<or> length extra > 0 then WMismatched missing extra else err
          | Inl _ \<Rightarrow> err)
       else if we_StatusCode werr = 410 then
         (case js_Stale (wc_json c) (we_Body werr) of
            Inr stale \<Rightarrow> if length stale > 0 then WStale stale else err
          | Inl _ \<Rightarrow> err)
       else err)"

definition map_err :: "(web_err \<Rightarrow> web_err) \<Rightarrow> 'v \<times> (web_err + 'a) \<Rightarrow> 'v \<times> (web_err + 'a)" where
  "map_err f r = (case r of (v, Inl e) \<Rightarrow> (v, Inl (f e)) | (v, Inr a) \<Rightarrow> (v, Inr a))"

text \<open>The response carries one flag, needsSync.\<close>

definition SendMessage ::
  "'v web_client \<Rightarrow> Credentials \<Rightarrow> string \<Rightarrow> SendMessageRequest \<Rightarrow> 'v \<Rightarrow> 'v \<times> (web_err + bool)" where
  "SendMessage c creds recipient req v =
    (if no_creds_given creds then (v, Inl (WText ''web.SendMessage: credentials required''))
     else if recipient = [] then (v, Inl (WText ''web.SendMessage: recipient required''))
     else if length (sr_Messages req) = 0 then (v, Inl (WText ''web.SendMessage: no messages''))
     else map_err (mapSendError c) (decode_out (js_SendMessageResponse (wc_json c)) False
       (Do c ((get_request (''/v1/messages/'' @ recipient))\<lparr> rq_Method := ''PUT'', rq_Credentials := creds,
              rq_Body := Some (js_SendMessageRequest (wc_json c) req) \<rparr>) v)))"

definition SendMessageUnidentified ::
  "'v web_client \<Rightarrow> bytes \<Rightarrow> string \<Rightarrow> SendMessageRequest \<Rightarrow> 'v \<Rightarrow> 'v \<times> (web_err + bool)" where
  "SendMessageUnidentified c uak recipient req v =
    (if length uak = 0 then (v, Inl (WText ''web.SendMessageUnidentified: UAK required''))
     else if recipient = [] then (v, Inl (WText ''web.SendMessageUnidentified: recipient required''))
     else if length (sr_Messages req) = 0 then (v, Inl (WText ''web.SendMessageUnidentified: no messages''))
     else map_err (mapSendError c) (decode_out (js_SendMessageResponse (wc_json c)) False
       (Do c ((get_request (''/v1/messages/'' @ recipient))\<lparr> rq_Method := ''PUT'',
              rq_Query := [(''story'', [''false''])],
              rq_Headers := [(''Unidentified-Access-Key'', [EncodeToString uak])],
              rq_Body := Some (js_SendMessageRequest (wc_json c) req) \<rparr>) v)))"

definition FetchSenderCertificate ::
  "'v web_client \<Rightarrow> Credentials \<Rightarrow> 'v \<Rightarrow> 'v \<times> (web_err + bytes)" where
  "FetchSenderCertificate c creds v =
    (if no_creds_given creds then (v, Inl (WText ''web.FetchSenderCertificate: credentials required''))
     else
       (case decode_out (js_Certificate (wc_json c)) []
               (Do c ((get_request ''/v1/certificate/delivery'')\<lparr> rq_Credentials := creds \<rparr>) v) of
          (v', Inl e) \<Rightarrow> (v', Inl (WWrap ''web.FetchSenderCertificate: '' e))
        | (v', Inr cert) \<Rightarrow>
          if cert = [] then (v', Inl (WText ''web.FetchSenderCertificate: server returned empty certificate''))
          else (case DecodeBase64 cert of
                  Inl e \<Rightarrow> (v', Inl (WText (''web.FetchSenderCertificate: decode certificate: '' @ e)))
                | Inr data \<Rightarrow> (v', Inr data))))"

definition FetchDirectoryAuth ::
  "'v web_client \<Rightarrow> Credentials \<Rightarrow> 'v \<Rightarrow> 'v \<times> (web_err + Credentials)" where
  "FetchDirectoryAuth c creds v =
    (if no_creds_given creds then (v, Inl (WText ''web.FetchDirectoryAuth: credentials required''))
     else
       (case decode_out (js_Userpass (wc_json c)) no_creds
               (Do c ((get_request ''/v2/directory/auth'')\<lparr> rq_Credentials := creds \<rparr>) v) of
          (v', Inl e) \<Rightarrow> (v', Inl (WWrap ''web.FetchDirectoryAuth: '' e))
        | (v', Inr out) \<Rightarrow>
          if no_creds_given out
          then (v', Inl (WText ''web.FetchDirectoryAuth: empty credentials in response''))
          else (v', Inr out)))"

record MultiRecipientAuth =
  ma_GroupSendToken :: bytes
  ma_CombinedUAK :: bytes

definition bool_text :: "bool \<Rightarrow> string" where
  "bool_text b = (if b then ''true'' else ''false'')"

definition SendMultiRecipientMessage ::
  "'v web_client \<Rightarrow> MultiRecipientAuth \<Rightarrow> bytes \<Rightarrow> u64 \<Rightarrow> bool \<Rightarrow> bool \<Rightarrow> 'v \<Rightarrow> 'v \<times> web_err option" where
  "SendMultiRecipientMessage c auth payload ts online urgent v =
    (let hasToken = length (ma_GroupSendToken auth) > 0; hasUAK = length (ma_CombinedUAK auth) = 16 in
     if length payload = 0 then (v, Some (WText ''web.SendMultiRecipientMessage: empty payload''))
     else if hasToken \<and> hasUAK
     then (v, Some (WText ''web.SendMultiRecipientMessage: Group-Send-Token and UAK are mutually exclusive''))
     else if \<not> hasToken \<and> \<not> hasUAK
     then (v, Some (WText ''web.SendMultiRecipientMessage: Group-Send-Token or combined UAK required''))
     else
       let headers = (if hasToken
             then header_Set ''Group-Send-Token'' (EncodeToString (ma_GroupSendToken auth))
             else header_Set ''Unidentified-Access-Key'' (EncodeToString (ma_CombinedUAK auth)))
             [(''Content-Type'', [''application/vnd.signal-messenger.mrm''])]
       in (case Do c ((get_request ''/v1/messages/multi_recipient'')\<lparr> rq_Method := ''PUT'',
                  rq_Query := [(''ts'', [dec_digits (unat ts)]), (''online'', [bool_text online]),
                    (''urgent'', [bool_text urgent]), (''story'', [''false''])],
                  rq_Headers := headers, rq_RawBody := payload \<rparr>) v of
             (v', Inl e) \<Rightarrow> (v', Some (mapSendError c e))
           | (v', Inr _) \<Rightarrow> (v', None)))"

section \<open>Profiles\<close>

definition empty_profile :: VersionedProfileResponse where
  "empty_profile = \<lparr> vp_Name = [], vp_About = [], vp_AboutEmoji = [], vp_Avatar = [], vp_PaymentAddress = [],
     vp_PhoneNumberShare = [], vp_UnidentifiedAccess = [], vp_UnrestrictedUnidentifiedAccess = False \<rparr>"

definition profile_guard :: "string \<Rightarrow> string \<Rightarrow> string \<Rightarrow> bytes \<Rightarrow> string option" where
  "profile_guard name aci version uak =
    (if aci = [] then Some (name @ '': aci required'')
     else if version = [] then Some (name @ '': profileKeyVersion required'')
     else if length uak \<noteq> 16 then Some (name @ '': uak length '' @ dec_digits (length uak) @ '', want 16'')
     else None)"

definition fetchVersionedProfile ::
  "'v web_client \<Rightarrow> string \<Rightarrow> string \<Rightarrow> bytes \<Rightarrow> string \<Rightarrow> 'v \<Rightarrow> 'v \<times> (web_err + VersionedProfileResponse)" where
  "fetchVersionedProfile c aci version uak credentialType v =
    (case profile_guard ''web.FetchVersionedProfile'' aci version uak of
       Some e \<Rightarrow> (v, Inl (WText e))
     | None \<Rightarrow>
       let path = ''/v1/profile/'' @ aci @ ''/'' @ version;
           path = (if credentialType \<noteq> [] then path @ ''?credentialType='' @ credentialType else path)
       in decode_out (js_Profile (wc_json c)) empty_profile
            (Do c ((get_request path)\<lparr> rq_Headers := [(''Unidentified-Access-Key'', [EncodeToString uak])] \<rparr>) v))"

definition FetchVersionedProfile where
  "FetchVersionedProfile c aci version uak v = fetchVersionedProfile c aci version uak [] v"

definition fetchVersionedProfileRaw ::
  "'v web_client \<Rightarrow> string \<Rightarrow> string \<Rightarrow> bytes \<Rightarrow> bytes \<Rightarrow> 'v \<Rightarrow> 'v \<times> (web_err + bytes)" where
  "fetchVersionedProfileRaw c aci version uak credentialRequest v =
    (case profile_guard ''web.FetchExpiringProfileKeyCredential'' aci version uak of
       Some e \<Rightarrow> (v, Inl (WText e))
     | None \<Rightarrow>
       Do c ((get_request (''/v1/profile/'' @ aci @ ''/'' @ version @ ''/'' @ hexEncode credentialRequest @
               ''?credentialType=expiringProfileKey''))
             \<lparr> rq_Headers := [(''Unidentified-Access-Key'', [EncodeToString uak])] \<rparr>) v)"

text \<open>A body that is not JSON is taken as the credential itself.\<close>

definition FetchExpiringProfileKeyCredential ::
  "'v web_client \<Rightarrow> string \<Rightarrow> string \<Rightarrow> bytes \<Rightarrow> bytes \<Rightarrow> 'v \<Rightarrow> 'v \<times> (web_err + bytes)" where
  "FetchExpiringProfileKeyCredential c aci version uak credentialRequest v =
    (if length credentialRequest \<noteq> 329
     then (v, Inl (WText (''web.FetchExpiringProfileKeyCredential: request length '' @
             dec_digits (length credentialRequest) @ '', want 329'')))
     else
       (case fetchVersionedProfileRaw c aci version uak credentialRequest v of
          (v', Inl e) \<Rightarrow> (v', Inl e)
        | (v', Inr raw) \<Rightarrow>
          (case js_Credential (wc_json c) raw of
             Inr cred \<Rightarrow>
               if length cred = 0
               then (v', Inl (WText ''web.FetchExpiringProfileKeyCredential: JSON response missing credential field''))
               else (v', Inr cred)
           | Inl _ \<Rightarrow> (v', Inr raw))))"

definition DecodeBase64Field :: "string \<Rightarrow> string + bytes" where
  "DecodeBase64Field b64 = (if b64 = [] then Inr [] else DecodeBase64 b64)"

section \<open>Attachments\<close>

definition FetchAttachmentUploadForm ::
  "'v web_client \<Rightarrow> Credentials \<Rightarrow> u64 \<Rightarrow> 'v \<Rightarrow> 'v \<times> (web_err + AttachmentUploadForm)" where
  "FetchAttachmentUploadForm c creds uploadLength v =
    (if no_creds_given creds then (v, Inl (WText ''web.FetchAttachmentUploadForm: credentials required''))
     else
       (case decode_out (js_UploadForm (wc_json c))
               \<lparr> uf_CDN = 0, uf_Key = [], uf_Headers = [], uf_SignedUploadLocation = [] \<rparr>
               (Do c ((get_request ''/v4/attachments/form/upload'')\<lparr> rq_Credentials := creds,
                  rq_Query := [(''uploadLength'', [dec_digits (unat uploadLength)])] \<rparr>) v) of
          (v', Inl e) \<Rightarrow> (v', Inl e)
        | (v', Inr resp) \<Rightarrow>
          if uf_Key resp = [] \<or> uf_SignedUploadLocation resp = []
          then (v', Inl (WText ''web.FetchAttachmentUploadForm: incomplete form''))
          else (v', Inr resp)))"

definition set_all :: "(string \<times> string) list \<Rightarrow> headers \<Rightarrow> headers" where
  "set_all kvs h = foldl (\<lambda>h (k, v). header_Set (CanonicalHeaderKey k) v h) h kvs"

definition post_request :: "headers \<Rightarrow> bytes \<Rightarrow> request" where
  "post_request h body = (get_request [])\<lparr> rq_Method := ''POST'', rq_Headers := h, rq_RawBody := body \<rparr>"

definition to_err :: "'v \<times> (web_err + 'a) \<Rightarrow> 'v \<times> web_err option" where
  "to_err r = (case r of (v, Inl e) \<Rightarrow> (v, Some e) | (v, Inr _) \<Rightarrow> (v, None))"

definition uploadAttachmentTUS ::
  "'v web_client \<Rightarrow> AttachmentUploadForm \<Rightarrow> bytes \<Rightarrow> 'v \<Rightarrow> 'v \<times> web_err option" where
  "uploadAttachmentTUS c form ciphertext v =
    (let h = set_all (uf_Headers form)
          [(''Tus-Resumable'', [''1.0.0'']), (''Upload-Length'', [dec_digits (length ciphertext)]),
           (''Upload-Metadata'', [''filename '' @ EncodeToString (string_bytes (uf_Key form))]),
           (''Content-Type'', [''application/offset+octet-stream''])]
     in to_err (DoAbsolute c (uf_SignedUploadLocation form) (post_request h ciphertext) v))"

definition uploadAttachmentPOST ::
  "'v web_client \<Rightarrow> AttachmentUploadForm \<Rightarrow> bytes \<Rightarrow> 'v \<Rightarrow> 'v \<times> web_err option" where
  "uploadAttachmentPOST c form ciphertext v =
    to_err (DoAbsolute c (uf_SignedUploadLocation form) (post_request (set_all (uf_Headers form) []) ciphertext) v)"

definition UploadAttachment ::
  "'v web_client \<Rightarrow> AttachmentUploadForm option \<Rightarrow> bytes \<Rightarrow> 'v \<Rightarrow> 'v \<times> web_err option" where
  "UploadAttachment c form ciphertext v =
    (case form of
       None \<Rightarrow> (v, Some (WText ''web.UploadAttachment: form required''))
     | Some f \<Rightarrow>
       if length ciphertext = 0 then (v, Some (WText ''web.UploadAttachment: empty ciphertext''))
       else if uf_CDN f = 3 then uploadAttachmentTUS c f ciphertext v
       else uploadAttachmentPOST c f ciphertext v)"

definition DefaultCDNHosts :: "(u32 \<times> string) list" where
  "DefaultCDNHosts = [(0, ''https://cdn.signal.org''), (2, ''https://cdn2.signal.org''), (3, ''https://cdn3.signal.org'')]"

definition cdnURL :: "(u32 \<times> string) list \<Rightarrow> u32 \<Rightarrow> string \<Rightarrow> string" where
  "cdnURL hosts cdnNumber cdnKey =
    (let host = (case map_of hosts cdnNumber of
         Some h \<Rightarrow> h
       | None \<Rightarrow>
         let h3 = (case map_of hosts 3 of None \<Rightarrow> [] | Some h \<Rightarrow> h)
         in if h3 = [] then ''https://cdn3.signal.org'' else h3)
     in host @ ''/attachments/'' @ PathEscape cdnKey)"

definition client_cdnURL :: "'v web_client \<Rightarrow> u32 \<Rightarrow> string \<Rightarrow> string" where
  "client_cdnURL c cdnNumber cdnKey =
    cdnURL (if length (wc_CDNHosts c) > 0 then wc_CDNHosts c else DefaultCDNHosts) cdnNumber cdnKey"

definition DownloadAttachmentCDN ::
  "'v web_client \<Rightarrow> u32 \<Rightarrow> string \<Rightarrow> 'v \<Rightarrow> 'v \<times> (web_err + bytes)" where
  "DownloadAttachmentCDN c cdnNumber cdnKey v =
    (if cdnKey = [] then (v, Inl (WText ''web.DownloadAttachmentCDN: cdnKey required''))
     else map_err (WWrap ''web.DownloadAttachmentCDN: '')
       (DoAbsolute c (client_cdnURL c cdnNumber cdnKey) (get_request []) v))"

end
