(* ===== verification/Send.thy ===== *)
theory Send
  imports Web Inbound
begin

text \<open>
  Sending to one recipient, pkg/signal/send.go: the content builders, session establishment
  with the /v2/keys rate limit, the two delivery paths with their retry on a mismatched device
  set, and the sender certificate cache. The client is that of the receive path with the caches
  of the send path; its outside world carries the network. libsignal's calls are the record
  \<open>send_lib\<close>; protobuf encoding is one of its operations.
\<close>

section \<open>State and environment\<close>

record BundleParams =
  bp_RegistrationID :: u32
  bp_DeviceID :: u32
  bp_PreKeyID :: u32
  bp_PreKeyPublic :: "bytes option"
  bp_SignedPreKeyID :: u32
  bp_SignedPreKeyPublic :: bytes
  bp_SignedPreKeySignature :: bytes
  bp_IdentityKey :: bytes
  bp_KyberPreKeyID :: u32
  bp_KyberPreKeyPublic :: bytes
  bp_KyberPreKeySignature :: bytes

text \<open>A ciphertext message with its two accessors.\<close>

record cipher_msg =
  cm_Type :: "string + 8 word"
  cm_Serialize :: "string + bytes"

record send_lib =
  sl_marshal :: "Content \<Rightarrow> string + bytes"
  sl_public_key :: "bytes \<Rightarrow> string + bytes"
  sl_kyber_key :: "bytes \<Rightarrow> string + bytes"
  sl_bundle_err :: "BundleParams \<Rightarrow> string option"
  sl_process :: "BundleParams \<Rightarrow> Address \<Rightarrow> Address \<Rightarrow> int \<Rightarrow> sql_stores \<Rightarrow> sql_stores \<times> string option"
  sl_encrypt :: "bytes \<Rightarrow> Address \<Rightarrow> Address \<Rightarrow> int \<Rightarrow> sql_stores \<Rightarrow> sql_stores \<times> (string + cipher_msg)"
  sl_usmc :: "cipher_msg \<Rightarrow> sender_cert \<Rightarrow> string + bytes"
  sl_usmc_serialize :: "bytes \<Rightarrow> string + bytes"
  sl_session :: "bytes \<Rightarrow> string + bytes"
  sl_session_regid :: "bytes \<Rightarrow> string + u32"
  sl_cert :: "bytes \<Rightarrow> string + sender_cert"
  sl_cert_expiration :: "sender_cert \<Rightarrow> string + time"
  sl_trust_roots :: "string option"

record ('r, 'v) send_env =
  se_client :: "('r, 'v) client_env"
  se_web :: "'v web_client"
  se_lib :: send_lib
  se_wired :: bool

text \<open>
  A key of \<open>sn_knownDevices\<close> is a non-nil slice of the map: every slice the code stores there was
  made, also an empty one. The certificate is stored with its expiry.
\<close>

record ('r, 'v) sender =
  sn_client :: "('r, 'v) client"
  sn_knownDevices :: "(string \<times> u32 list) list"
  sn_keysRateLimit :: "(string \<times> int) list"
  sn_allowSealed :: "(string \<times> bool) list"
  sn_senderCert :: "(sender_cert \<times> int) option"

record deliveryOpts =
  do_Urgent :: bool
  do_Online :: bool
  do_Silent :: bool

record Receipt =
  rp_Timestamp :: time
  rp_RecipientACI :: string

definition sn_world :: "('r, 'v) sender \<Rightarrow> 'v" where
  "sn_world s = mt_server (cl_maint (sn_client s))"

definition set_world :: "'v \<Rightarrow> ('r, 'v) sender \<Rightarrow> ('r, 'v) sender" where
  "set_world v s = s\<lparr> sn_client := (sn_client s)\<lparr> cl_maint := (cl_maint (sn_client s))\<lparr> mt_server := v \<rparr> \<rparr> \<rparr>"

definition sn_stores :: "('r, 'v) sender \<Rightarrow> sql_stores" where
  "sn_stores s = mt_stores (cl_maint (sn_client s))"

definition set_stores :: "sql_stores \<Rightarrow> ('r, 'v) sender \<Rightarrow> ('r, 'v) sender" where
  "set_stores st s = s\<lparr> sn_client := (sn_client s)\<lparr> cl_maint := (cl_maint (sn_client s))\<lparr> mt_stores := st \<rparr> \<rparr> \<rparr>"

text \<open>A call of the web client, and one that touches the stores.\<close>

definition on_world :: "('v \<Rightarrow> 'v \<times> 'a) \<Rightarrow> ('r, 'v) sender \<Rightarrow> ('r, 'v) sender \<times> 'a" where
  "on_world f s = (case f (sn_world s) of (v, a) \<Rightarrow> (set_world v s, a))"

definition on_stores :: "(sql_stores \<Rightarrow> sql_stores \<times> 'a) \<Rightarrow> ('r, 'v) sender \<Rightarrow> ('r, 'v) sender \<times> 'a" where
  "on_stores f s = (case f (sn_stores s) of (st, a) \<Rightarrow> (set_stores st s, a))"

definition sn_now :: "('r, 'v) send_env \<Rightarrow> ('r, 'v) sender \<Rightarrow> int" where
  "sn_now E s = wc_now (se_web E) (sn_world s)"

definition UnixMilli :: "int \<Rightarrow> time" where
  "UnixMilli ns = ns div 1000000"

definition credentials :: "('r, 'v) sender \<Rightarrow> Credentials" where
  "credentials s =
    (let a = cl_acct (sn_client s)
     in \<lparr> cr_Username = ac_ACI a @ ''.'' @ dec_digits (unat (ac_DeviceID a)), cr_Password = ac_Password a \<rparr>)"

definition peer :: "string \<Rightarrow> u32 \<Rightarrow> Address" where
  "peer aci dev = \<lparr> ad_ServiceID = aci, ad_DeviceID = dev \<rparr>"

section \<open>Contents\<close>

definition expire_field :: "u32 \<Rightarrow> u32 option" where
  "expire_field t = (if t \<noteq> 0 then Some t else None)"

definition plain_content :: "content_body \<Rightarrow> Content" where
  "plain_content b = \<lparr> cn_body = b, cn_SenderKeyDistributionMessage = [] \<rparr>"

definition text_message :: "string \<Rightarrow> u64 \<Rightarrow> u32 \<Rightarrow> DataMessage" where
  "text_message text ts timer =
    \<lparr> dm_Timestamp = ts, dm_GroupV2 = None, dm_Reaction = None, dm_Body = text, dm_Attachments = [],
      dm_ExpireTimer = expire_field timer, dm_ProfileKey = [] \<rparr>"

definition buildDataMessageContent :: "send_lib \<Rightarrow> string \<Rightarrow> u64 \<Rightarrow> u32 \<Rightarrow> string + bytes" where
  "buildDataMessageContent L text ts timer = sl_marshal L (plain_content (CbData (text_message text ts timer)))"

definition buildEditMessageContent :: "send_lib \<Rightarrow> string \<Rightarrow> u64 \<Rightarrow> u64 \<Rightarrow> u32 \<Rightarrow> string + bytes" where
  "buildEditMessageContent L newText editTS targetTS timer =
    sl_marshal L (plain_content (CbEdit \<lparr> em_TargetSentTimestamp = targetTS,
      em_DataMessage = Some (text_message newText editTS timer) \<rparr>))"

text \<open>The kind is Go's int; the constants are 0, 1 and 2.\<close>

fun receipt_times :: "nat \<Rightarrow> time list \<Rightarrow> string + u64 list" where
  "receipt_times i [] = Inr []"
| "receipt_times i (t # ts) =
    (if IsZero t then Inl (''signal.SendReceipt: zero timestamp at index '' @ dec_digits i)
     else bindR (receipt_times (i + 1) ts) (\<lambda>us. Inr (of_int t # us)))"

definition buildReceiptContent :: "send_lib \<Rightarrow> int \<Rightarrow> time list \<Rightarrow> string + bytes" where
  "buildReceiptContent L kind timestamps =
    bindR (if kind = 0 then Inr RkDelivery else if kind = 1 then Inr RkRead else if kind = 2 then Inr RkViewed
           else Inl ''signal.SendReceipt: unknown receipt type'')
      (\<lambda>rt. bindR (receipt_times 0 timestamps)
        (\<lambda>ms. sl_marshal L (plain_content (CbReceipt \<lparr> rm_Type = rt, rm_Timestamp = ms \<rparr>))))"

definition buildTypingContent :: "send_lib \<Rightarrow> int \<Rightarrow> u64 \<Rightarrow> bytes option \<Rightarrow> string + bytes" where
  "buildTypingContent L action ts groupID =
    bindR (if action = 0 then Inr TkStarted else if action = 1 then Inr TkStopped
           else Inl ''signal.SendTyping: unknown typing action'')
      (\<lambda>ta. sl_marshal L (plain_content (CbTyping \<lparr> tm_Timestamp = ts, tm_Action = ta, tm_GroupId = groupID \<rparr>)))"

definition buildReactionContent ::
  "send_lib \<Rightarrow> string \<Rightarrow> string \<Rightarrow> time \<Rightarrow> bool \<Rightarrow> u64 \<Rightarrow> u32 \<Rightarrow> string + bytes" where
  "buildReactionContent L emoji author targetTS remove ts timer =
    sl_marshal L (plain_content (CbData \<lparr> dm_Timestamp = ts, dm_GroupV2 = None,
      dm_Reaction = Some \<lparr> rx_Emoji = emoji, rx_Remove = remove, rx_TargetAuthorAci = author,
        rx_TargetSentTimestamp = of_int targetTS \<rparr>,
      dm_Body = [], dm_Attachments = [], dm_ExpireTimer = expire_field timer, dm_ProfileKey = [] \<rparr>))"

section \<open>The rate limit of key fetches\<close>

definition defaultKeysRateLimitBackoff :: int where "defaultKeysRateLimitBackoff = 2000000000"
definition maxKeysRateLimitBackoff :: int where "maxKeysRateLimitBackoff = 300000000000"

definition keysRateLimitGate ::
  "('r, 'v) send_env \<Rightarrow> string \<Rightarrow> ('r, 'v) sender \<Rightarrow> ('r, 'v) sender \<times> (web_err + unit)" where
  "keysRateLimitGate E aci s =
    (case map_of (sn_keysRateLimit s) aci of
       None \<Rightarrow> (s, Inr ())
     | Some until \<Rightarrow>
       let remaining = until - sn_now E s in
       if remaining \<le> 0 then (s\<lparr> sn_keysRateLimit := AList.delete aci (sn_keysRateLimit s) \<rparr>, Inr ())
       else (s, Inl (WError \<lparr> we_StatusCode = 429, we_Status = ''429 Too Many Requests'',
               we_Body = string_bytes ''local rate-limit cooldown for /v2/keys'',
               we_RetryAfter = remaining \<rparr>)))"

definition setKeysRateLimit :: "('r, 'v) send_env \<Rightarrow> string \<Rightarrow> int \<Rightarrow> ('r, 'v) sender \<Rightarrow> ('r, 'v) sender" where
  "setKeysRateLimit E aci backoff s =
    (let b1 = (if backoff \<le> 0 then defaultKeysRateLimitBackoff else backoff);
         b2 = (if b1 > maxKeysRateLimitBackoff then maxKeysRateLimitBackoff else b1)
     in s\<lparr> sn_keysRateLimit := AList.update aci (sn_now E s + b2) (sn_keysRateLimit s) \<rparr>)"

definition clearKeysRateLimit :: "string \<Rightarrow> ('r, 'v) sender \<Rightarrow> ('r, 'v) sender" where
  "clearKeysRateLimit aci s = s\<lparr> sn_keysRateLimit := AList.delete aci (sn_keysRateLimit s) \<rparr>"

definition keysRateLimitBackoff :: "web_err \<Rightarrow> int option" where
  "keysRateLimitBackoff err =
    (case as_Error err of
       None \<Rightarrow> None
     | Some werr \<Rightarrow>
       if we_StatusCode werr \<noteq> 429 then None
       else if we_RetryAfter werr > 0 then Some (we_RetryAfter werr)
       else Some defaultKeysRateLimitBackoff)"

definition fetchPreKeyBundleDefensive ::
  "('r, 'v) send_env \<Rightarrow> Credentials \<Rightarrow> string \<Rightarrow> string \<Rightarrow> ('r, 'v) sender \<Rightarrow>
   ('r, 'v) sender \<times> (web_err + FetchPreKeyResponse)" where
  "fetchPreKeyBundleDefensive E creds aci device s =
    bindS (keysRateLimitGate E aci s) (\<lambda>s _.
      case on_world (FetchPreKeyBundle (se_web E) creds aci device) s of
        (s', Inl err) \<Rightarrow>
          ((case keysRateLimitBackoff err of None \<Rightarrow> s' | Some b \<Rightarrow> setKeysRateLimit E aci b s'), Inl err)
      | (s', Inr resp) \<Rightarrow> (clearKeysRateLimit aci s', Inr resp))"

section \<open>Sessions\<close>

text \<open>Decoding a key and handing it to libsignal.\<close>

definition decode_key :: "string \<Rightarrow> (bytes \<Rightarrow> string + bytes) \<Rightarrow> string \<Rightarrow> string + bytes" where
  "decode_key name parse b64 = wrapR (\<lambda>e. name @ '': '' @ e) (bindR (DecodeBase64 b64) parse)"

definition one_time_prekey :: "send_lib \<Rightarrow> BundleDevice \<Rightarrow> string + (u32 \<times> bytes option)" where
  "one_time_prekey L dev =
    (case bd_PreKey dev of
       None \<Rightarrow> Inr (0, None)
     | Some pk \<Rightarrow>
       if pl_PublicKey pk = [] then Inr (0, None)
       else bindR (decode_key ''one-time prekey'' (sl_public_key L) (pl_PublicKey pk))
              (\<lambda>k. Inr (pl_KeyID pk, Some k)))"

definition buildLibsignalBundle :: "send_lib \<Rightarrow> string \<Rightarrow> BundleDevice \<Rightarrow> string + BundleParams" where
  "buildLibsignalBundle L identityKeyB64 dev =
    bindR (decode_key ''identity key'' (sl_public_key L) identityKeyB64) (\<lambda>identityKey.
    let spk = bd_SignedPreKey dev in
    if sl_PublicKey spk = [] then Inl ''missing signed prekey''
    else bindR (decode_key ''signed prekey'' (sl_public_key L) (sl_PublicKey spk)) (\<lambda>spkPub.
    bindR (decode_key ''signed prekey sig'' Inr (sl_Signature spk)) (\<lambda>spkSig.
    case bd_PqPreKey dev of
      None \<Rightarrow> Inl ''server returned bundle without Kyber prekey (PQXDH required)''
    | Some kpk \<Rightarrow>
      if sl_PublicKey kpk = [] then Inl ''server returned bundle without Kyber prekey (PQXDH required)''
      else bindR (decode_key ''kyber prekey'' (sl_kyber_key L) (sl_PublicKey kpk)) (\<lambda>kpkPub.
      bindR (decode_key ''kyber prekey sig'' Inr (sl_Signature kpk)) (\<lambda>kpkSig.
      bindR (one_time_prekey L dev) (\<lambda>(pkID, pkPub).
        let params = \<lparr> bp_RegistrationID = bd_RegistrationID dev, bp_DeviceID = bd_DeviceID dev,
              bp_PreKeyID = pkID, bp_PreKeyPublic = pkPub,
              bp_SignedPreKeyID = sl_KeyID spk, bp_SignedPreKeyPublic = spkPub,
              bp_SignedPreKeySignature = spkSig, bp_IdentityKey = identityKey,
              bp_KyberPreKeyID = sl_KeyID kpk, bp_KyberPreKeyPublic = kpkPub,
              bp_KyberPreKeySignature = kpkSig \<rparr>
        in case sl_bundle_err L params of Some e \<Rightarrow> Inl e | None \<Rightarrow> Inr params))))))"

text \<open>The two addresses libsignal calls are made with.\<close>

definition call_addresses ::
  "('r, 'v) send_env \<Rightarrow> Address \<Rightarrow> ('r, 'v) sender \<Rightarrow> web_err + Address \<times> Address" where
  "call_addresses E addr s =
    (let L = ce_libsignal (se_client E); a = cl_acct (sn_client s) in
     wrapR WText (bindR (NewAddress L (ad_ServiceID addr) (ad_DeviceID addr)) (\<lambda>remote.
       bindR (NewAddress L (ac_ACI a) (ac_DeviceID a)) (\<lambda>local. Inr (remote, local)))))"

definition processBundle ::
  "('r, 'v) send_env \<Rightarrow> string \<Rightarrow> BundleDevice \<Rightarrow> Address \<Rightarrow> ('r, 'v) sender \<Rightarrow>
   ('r, 'v) sender \<times> (web_err + unit)" where
  "processBundle E identityKeyB64 dev addr s =
    (case buildLibsignalBundle (se_lib E) identityKeyB64 dev of
       Inl e \<Rightarrow> (s, Inl (WText (''signal.Send: build bundle for '' @ Address_String addr @ '': '' @ e)))
     | Inr bundle \<Rightarrow>
       (case call_addresses E addr s of
          Inl e \<Rightarrow> (s, Inl e)
        | Inr (remote, local) \<Rightarrow>
          (case on_stores (sl_process (se_lib E) bundle remote local (sn_now E s)) s of
             (s', Some e) \<Rightarrow>
               (s', Inl (WText (''signal.Send: process bundle for '' @ Address_String addr @ '': '' @ e)))
           | (s', None) \<Rightarrow> (s', Inr ()))))"

definition fetchAndProcessBundle ::
  "('r, 'v) send_env \<Rightarrow> Credentials \<Rightarrow> string \<Rightarrow> u32 \<Rightarrow> ('r, 'v) sender \<Rightarrow> ('r, 'v) sender \<times> (web_err + unit)" where
  "fetchAndProcessBundle E creds aci devID s =
    bindS (wrapS (WWrap (''fetch bundle for device '' @ dec_digits (unat devID) @ '': ''))
            (fetchPreKeyBundleDefensive E creds aci (dec_digits (unat devID)) s)) (\<lambda>s resp.
      case fp_Devices resp of
        [] \<Rightarrow> (s, Inl (WText (''no bundle returned for device '' @ dec_digits (unat devID))))
      | dev # _ \<Rightarrow> processBundle E (fp_IdentityKey resp) dev (peer aci devID) s)"

text \<open>LoadSession decides whether a session is there; other errors stop the send.\<close>

definition store_text :: "store_err \<Rightarrow> string" where
  "store_text e = (case e of ErrRecordNotFound \<Rightarrow> ''store: record not found'' | SqlError t \<Rightarrow> t)"

definition session_missing :: "('r, 'v) sender \<Rightarrow> Address \<Rightarrow> web_err + bool" where
  "session_missing s addr =
    (case sql_LoadSession (sn_stores s) addr of
       Inr _ \<Rightarrow> Inr False
     | Inl ErrRecordNotFound \<Rightarrow> Inr True
     | Inl (SqlError e) \<Rightarrow> Inl (WText (''signal.Send: load session: '' @ e)))"

fun establish_all ::
  "('r, 'v) send_env \<Rightarrow> string \<Rightarrow> string \<Rightarrow> BundleDevice list \<Rightarrow> ('r, 'v) sender \<Rightarrow>
   ('r, 'v) sender \<times> (web_err + unit)" where
  "establish_all E aci identityKey [] s = (s, Inr ())"
| "establish_all E aci identityKey (dev # devs) s =
    (case session_missing s (peer aci (bd_DeviceID dev)) of
       Inl e \<Rightarrow> (s, Inl e)
     | Inr False \<Rightarrow> establish_all E aci identityKey devs s
     | Inr True \<Rightarrow>
         bindS (processBundle E identityKey dev (peer aci (bd_DeviceID dev)) s)
           (\<lambda>s _. establish_all E aci identityKey devs s))"

fun refresh_all ::
  "('r, 'v) send_env \<Rightarrow> Credentials \<Rightarrow> string \<Rightarrow> u32 list \<Rightarrow> ('r, 'v) sender \<Rightarrow>
   ('r, 'v) sender \<times> (web_err + unit)" where
  "refresh_all E creds aci [] s = (s, Inr ())"
| "refresh_all E creds aci (devID # ids) s =
    (case session_missing s (peer aci devID) of
       Inl e \<Rightarrow> (s, Inl e)
     | Inr False \<Rightarrow> refresh_all E creds aci ids s
     | Inr True \<Rightarrow>
         bindS (fetchAndProcessBundle E creds aci devID s) (\<lambda>s _. refresh_all E creds aci ids s))"

definition discoverAndEnsureSessions ::
  "('r, 'v) send_env \<Rightarrow> Credentials \<Rightarrow> string \<Rightarrow> ('r, 'v) sender \<Rightarrow> ('r, 'v) sender \<times> (web_err + Address list)" where
  "discoverAndEnsureSessions E creds aci s =
    (case map_of (sn_knownDevices s) aci of
       None \<Rightarrow>
         bindS (wrapS (WWrap ''signal.Send: discover devices: '')
                 (fetchPreKeyBundleDefensive E creds aci ''*'' s)) (\<lambda>s resp.
           if length (fp_Devices resp) = 0 then (s, Inl (WText (''signal.Send: no devices for '' @ aci)))
           else bindS (establish_all E aci (fp_IdentityKey resp) (fp_Devices resp) s) (\<lambda>s _.
             let deviceIDs = map bd_DeviceID (fp_Devices resp) in
             (s\<lparr> sn_knownDevices := AList.update aci deviceIDs (sn_knownDevices s) \<rparr>,
              Inr (map (peer aci) deviceIDs))))
     | Some deviceIDs \<Rightarrow>
         bindS (refresh_all E creds aci deviceIDs s) (\<lambda>s _. (s, Inr (map (peer aci) deviceIDs))))"

section \<open>The sender certificate\<close>

text \<open>Five minutes before the expiry a new certificate is fetched.\<close>

definition cert_headroom :: int where "cert_headroom = 300000000000"

definition cachedSenderCert ::
  "('r, 'v) send_env \<Rightarrow> Credentials \<Rightarrow> ('r, 'v) sender \<Rightarrow> ('r, 'v) sender \<times> (web_err + sender_cert)" where
  "cachedSenderCert E creds s =
    (let L = se_lib E;
         fetch =
           bindS (wrapS (WWrap ''signal.Send: fetch sender cert: '')
                   (on_world (FetchSenderCertificate (se_web E) creds) s)) (\<lambda>s certBytes.
             case sl_cert L certBytes of
               Inl e \<Rightarrow> (s, Inl (WText (''signal.Send: parse sender cert: '' @ e)))
             | Inr cert \<Rightarrow>
               (case sl_trust_roots L of
                  Some e \<Rightarrow> (s, Inl (WText (''signal.Send: sender cert trust roots: '' @ e)))
                | None \<Rightarrow>
                  if ct_validate cert (UnixMilli (sn_now E s)) \<noteq> Inr True
                  then (s, Inl (WText ''signal.Send: sender cert invalid or expired''))
                  else (case sl_cert_expiration L cert of
                          Inl e \<Rightarrow> (s, Inl (WText (''signal.Send: sender cert expiry: '' @ e)))
                        | Inr expiry \<Rightarrow>
                            (s\<lparr> sn_senderCert := Some (cert, expiry * 1000000) \<rparr>, Inr cert))))
     in case sn_senderCert s of
          Some (cert, expiry) \<Rightarrow> if sn_now E s < expiry - cert_headroom then (s, Inr cert) else fetch
        | None \<Rightarrow> fetch)"

section \<open>Encryption\<close>

text \<open>The registration id of the peer, read back from the session.\<close>

definition session_regid ::
  "('r, 'v) send_env \<Rightarrow> string \<Rightarrow> Address \<Rightarrow> ('r, 'v) sender \<Rightarrow> web_err + u32" where
  "session_regid E name addr s =
    (case sql_LoadSession (sn_stores s) addr of
       Inl e \<Rightarrow> Inl (WText (''signal.Send: load session '' @ name @ '': '' @ store_text e))
     | Inr blob \<Rightarrow> wrapR WText (bindR (sl_session (se_lib E) blob) (sl_session_regid (se_lib E))))"

definition libsignalToWireType :: "8 word \<Rightarrow> 8 word" where
  "libsignalToWireType t = (if t = 2 then 1 else t)"

definition encryptForDevice ::
  "('r, 'v) send_env \<Rightarrow> bytes \<Rightarrow> Address \<Rightarrow> ('r, 'v) sender \<Rightarrow>
   ('r, 'v) sender \<times> (web_err + bytes \<times> 8 word \<times> u32)" where
  "encryptForDevice E padded addr s =
    (case call_addresses E addr s of
       Inl e \<Rightarrow> (s, Inl e)
     | Inr (remote, local) \<Rightarrow>
       bindS (wrapS (\<lambda>e. WText (''signal.Send: encrypt: '' @ e))
               (on_stores (sl_encrypt (se_lib E) padded remote local (sn_now E s)) s)) (\<lambda>s cipher.
         (s, bindR (wrapR WText (cm_Type cipher)) (\<lambda>typ.
             bindR (wrapR WText (cm_Serialize cipher)) (\<lambda>body.
             bindR (session_regid E ''post-encrypt'' addr s) (\<lambda>regID.
               Inr (body, libsignalToWireType typ, regID)))))))"

definition sealedEncryptForDevice ::
  "('r, 'v) send_env \<Rightarrow> sender_cert \<Rightarrow> bytes \<Rightarrow> Address \<Rightarrow> ('r, 'v) sender \<Rightarrow>
   ('r, 'v) sender \<times> (web_err + bytes \<times> u32)" where
  "sealedEncryptForDevice E cert padded addr s =
    (case call_addresses E addr s of
       Inl e \<Rightarrow> (s, Inl e)
     | Inr (remote, local) \<Rightarrow>
       bindS (wrapS (\<lambda>e. WText (''signal.Send: sealed encrypt: '' @ e))
               (on_stores (sl_encrypt (se_lib E) padded remote local (sn_now E s)) s)) (\<lambda>s cipher.
         (s, bindR (wrapR (\<lambda>e. WText (''signal.Send: build USMC: '' @ e)) (sl_usmc (se_lib E) cipher cert)) (\<lambda>usmc.
             bindR (wrapR (\<lambda>e. WText (''signal.Send: serialize USMC: '' @ e)) (sl_usmc_serialize (se_lib E) usmc)) (\<lambda>usmcBytes.
             bindR (session_regid E ''post-seal-encrypt'' addr s) (\<lambda>regID. Inr (usmcBytes, regID)))))))"

text \<open>One envelope per address, in order; the first error stops.\<close>

fun encrypt_all ::
  "(Address \<Rightarrow> ('r, 'v) sender \<Rightarrow> ('r, 'v) sender \<times> (web_err + MessageEnvelope)) \<Rightarrow> Address list \<Rightarrow>
   ('r, 'v) sender \<Rightarrow> ('r, 'v) sender \<times> (web_err + MessageEnvelope list)" where
  "encrypt_all f [] s = (s, Inr [])"
| "encrypt_all f (a # as) s =
    bindS (f a s) (\<lambda>s m. bindS (encrypt_all f as s) (\<lambda>s ms. (s, Inr (m # ms))))"

definition send_request :: "u64 \<Rightarrow> deliveryOpts \<Rightarrow> MessageEnvelope list \<Rightarrow> SendMessageRequest" where
  "send_request ts opts msgs =
    \<lparr> sr_Timestamp = ts, sr_Online = do_Online opts, sr_Urgent = do_Urgent opts, sr_Messages = msgs \<rparr>"

definition buildSendRequest ::
  "('r, 'v) send_env \<Rightarrow> u64 \<Rightarrow> Address list \<Rightarrow> bytes \<Rightarrow> deliveryOpts \<Rightarrow> ('r, 'v) sender \<Rightarrow>
   ('r, 'v) sender \<times> (web_err + SendMessageRequest)" where
  "buildSendRequest E ts addrs padded opts s =
    bindS (encrypt_all (\<lambda>addr s. bindS (encryptForDevice E padded addr s) (\<lambda>s (body, typ, regID).
        (s, Inr \<lparr> mv_Type = typ, mv_DestinationDeviceID = ad_DeviceID addr,
               mv_DestinationRegistrationID = regID, mv_Content = EncodeToString body,
               mv_Silent = do_Silent opts \<rparr>))) addrs s)
      (\<lambda>s msgs. (s, Inr (send_request ts opts msgs)))"

definition buildSealedSendRequest ::
  "('r, 'v) send_env \<Rightarrow> u64 \<Rightarrow> Address list \<Rightarrow> bytes \<Rightarrow> sender_cert \<Rightarrow> deliveryOpts \<Rightarrow> ('r, 'v) sender \<Rightarrow>
   ('r, 'v) sender \<times> (web_err + SendMessageRequest)" where
  "buildSealedSendRequest E ts addrs padded cert opts s =
    bindS (encrypt_all (\<lambda>addr s. bindS (sealedEncryptForDevice E cert padded addr s) (\<lambda>s (body, regID).
        (s, Inr \<lparr> mv_Type = 6, mv_DestinationDeviceID = ad_DeviceID addr,
               mv_DestinationRegistrationID = regID, mv_Content = EncodeToString body,
               mv_Silent = do_Silent opts \<rparr>))) addrs s)
      (\<lambda>s msgs. (s, Inr (send_request ts opts msgs)))"

section \<open>Delivery\<close>

definition filterOutDevices :: "Address list \<Rightarrow> u32 list \<Rightarrow> Address list" where
  "filterOutDevices addrs remove =
    (if length remove = 0 then addrs else filter (\<lambda>a. ad_DeviceID a \<notin> set remove) addrs)"

definition addressDeviceIDs :: "Address list \<Rightarrow> u32 list" where
  "addressDeviceIDs addrs = map ad_DeviceID addrs"

definition delete_session ::
  "string \<Rightarrow> string \<Rightarrow> u32 \<Rightarrow> ('r, 'v) sender \<Rightarrow> ('r, 'v) sender \<times> (web_err + unit)" where
  "delete_session what aci devID s =
    wrapS (\<lambda>e. WText (''signal.Send: delete '' @ what @ '' '' @ dec_digits (unat devID) @ '': '' @ store_text e))
      (on_stores (\<lambda>st. sql_DeleteSession st (peer aci devID)) s)"

fun drop_extra :: "string \<Rightarrow> u32 list \<Rightarrow> ('r, 'v) sender \<Rightarrow> ('r, 'v) sender \<times> (web_err + unit)" where
  "drop_extra aci [] s = (s, Inr ())"
| "drop_extra aci (d # ds) s = bindS (delete_session ''extra device'' aci d s) (\<lambda>s _. drop_extra aci ds s)"

fun add_missing ::
  "('r, 'v) send_env \<Rightarrow> Credentials \<Rightarrow> string \<Rightarrow> u32 list \<Rightarrow> Address list \<Rightarrow> ('r, 'v) sender \<Rightarrow>
   ('r, 'v) sender \<times> (web_err + Address list)" where
  "add_missing E creds aci [] addrs s = (s, Inr addrs)"
| "add_missing E creds aci (d # ds) addrs s =
    bindS (wrapS (WWrap (''signal.Send: missing device '' @ dec_digits (unat d) @ '': ''))
            (fetchAndProcessBundle E creds aci d s))
      (\<lambda>s _. add_missing E creds aci ds (addrs @ [peer aci d]) s)"

fun renew_stale ::
  "('r, 'v) send_env \<Rightarrow> Credentials \<Rightarrow> string \<Rightarrow> u32 list \<Rightarrow> ('r, 'v) sender \<Rightarrow>
   ('r, 'v) sender \<times> (web_err + unit)" where
  "renew_stale E creds aci [] s = (s, Inr ())"
| "renew_stale E creds aci (d # ds) s =
    bindS (delete_session ''stale session'' aci d s) (\<lambda>s _.
    bindS (wrapS (WWrap (''signal.Send: stale device '' @ dec_digits (unat d) @ '': ''))
            (fetchAndProcessBundle E creds aci d s))
      (\<lambda>s _. renew_stale E creds aci ds s))"

definition handleSendError ::
  "('r, 'v) send_env \<Rightarrow> Credentials \<Rightarrow> string \<Rightarrow> Address list \<Rightarrow> web_err \<Rightarrow> ('r, 'v) sender \<Rightarrow>
   ('r, 'v) sender \<times> (web_err + Address list)" where
  "handleSendError E creds aci addrs sendErr s =
    (case as_Mismatched sendErr of
       Some (missing, extra) \<Rightarrow>
         bindS (drop_extra aci extra s) (\<lambda>s _.
         bindS (add_missing E creds aci missing (filterOutDevices addrs extra) s) (\<lambda>s addrs'.
           (s\<lparr> sn_knownDevices := AList.update aci (addressDeviceIDs addrs') (sn_knownDevices s) \<rparr>, Inr addrs')))
     | None \<Rightarrow>
       (case as_Stale sendErr of
          Some stale \<Rightarrow> bindS (renew_stale E creds aci stale s) (\<lambda>s _. (s, Inr addrs))
        | None \<Rightarrow> (s, Inl sendErr)))"

definition receipt_for :: "u64 \<Rightarrow> string \<Rightarrow> Receipt" where
  "receipt_for ts aci = \<lparr> rp_Timestamp = sint ts, rp_RecipientACI = aci \<rparr>"

text \<open>Build, send, and on a mismatch fix the sessions, build again and send once more.\<close>

definition deliver_with ::
  "(Address list \<Rightarrow> ('r, 'v) sender \<Rightarrow> ('r, 'v) sender \<times> (web_err + SendMessageRequest)) \<Rightarrow>
   (SendMessageRequest \<Rightarrow> 'v \<Rightarrow> 'v \<times> (web_err + bool)) \<Rightarrow>
   ('r, 'v) send_env \<Rightarrow> Credentials \<Rightarrow> string \<Rightarrow> Address list \<Rightarrow> u64 \<Rightarrow> ('r, 'v) sender \<Rightarrow>
   ('r, 'v) sender \<times> (web_err + Receipt)" where
  "deliver_with build put E creds aci addrs ts s =
    bindS (build addrs s) (\<lambda>s req.
      case on_world (put req) s of
        (s, Inr _) \<Rightarrow> (s, Inr (receipt_for ts aci))
      | (s, Inl err) \<Rightarrow>
          bindS (handleSendError E creds aci addrs err s) (\<lambda>s addrs'.
          bindS (build addrs' s) (\<lambda>s req'.
          bindS (wrapS (WWrap ''signal.Send: '') (on_world (put req') s)) (\<lambda>s _.
            (s, Inr (receipt_for ts aci))))))"

definition deliverBasicAuth ::
  "('r, 'v) send_env \<Rightarrow> Credentials \<Rightarrow> string \<Rightarrow> Address list \<Rightarrow> bytes \<Rightarrow> u64 \<Rightarrow> deliveryOpts \<Rightarrow>
   ('r, 'v) sender \<Rightarrow> ('r, 'v) sender \<times> (web_err + Receipt)" where
  "deliverBasicAuth E creds aci addrs padded ts opts s =
    deliver_with (\<lambda>as. buildSendRequest E ts as padded opts) (SendMessage (se_web E) creds aci)
      E creds aci addrs ts s"

definition deliverSealed ::
  "('r, 'v) send_env \<Rightarrow> Credentials \<Rightarrow> string \<Rightarrow> Address list \<Rightarrow> bytes \<Rightarrow> u64 \<Rightarrow> deliveryOpts \<Rightarrow>
   sender_cert \<Rightarrow> bytes \<Rightarrow> ('r, 'v) sender \<Rightarrow> ('r, 'v) sender \<times> (web_err + Receipt)" where
  "deliverSealed E creds aci addrs padded ts opts cert uak s =
    deliver_with (\<lambda>as. buildSealedSendRequest E ts as padded cert opts)
      (SendMessageUnidentified (se_web E) uak aci) E creds aci addrs ts s"

definition sendContent ::
  "('r, 'v) send_env \<Rightarrow> string \<Rightarrow> bytes \<Rightarrow> u64 \<Rightarrow> deliveryOpts \<Rightarrow> ('r, 'v) sender \<Rightarrow>
   ('r, 'v) sender \<times> (web_err + Receipt)" where
  "sendContent E aci contentBytes ts opts s =
    (if \<not> se_wired E
     then (s, Inl (WText ''signal.Send: Client was opened without send-side dependencies''))
     else
       let padded = padContent contentBytes; creds = credentials s in
       bindS (discoverAndEnsureSessions E creds aci s) (\<lambda>s addrs.
         let s = s\<lparr> sn_client := ensureRecipientUAK (se_client E) aci (sn_client s) \<rparr>;
             uak = (case map_of (cl_uaks (sn_client s)) aci of None \<Rightarrow> [] | Some u \<Rightarrow> u);
             allowSealed = (case map_of (sn_allowSealed s) aci of None \<Rightarrow> False | Some b \<Rightarrow> b)
         in if length uak > 0 \<and> allowSealed then
              (case cachedSenderCert E creds s of
                 (s, Inr cert) \<Rightarrow> deliverSealed E creds aci addrs padded ts opts cert uak s
               | (s, Inl _) \<Rightarrow> deliverBasicAuth E creds aci addrs padded ts opts s)
            else deliverBasicAuth E creds aci addrs padded ts opts s))"

section \<open>The exported operations\<close>

definition now_millis :: "('r, 'v) send_env \<Rightarrow> ('r, 'v) sender \<Rightarrow> u64" where
  "now_millis E s = of_int (UnixMilli (sn_now E s))"

definition with_content ::
  "(string + bytes) \<Rightarrow> (bytes \<Rightarrow> ('r, 'v) sender \<times> (web_err + Receipt)) \<Rightarrow> ('r, 'v) sender \<Rightarrow>
   ('r, 'v) sender \<times> (web_err + Receipt)" where
  "with_content content send s = (case content of Inl e \<Rightarrow> (s, Inl (WText e)) | Inr bs \<Rightarrow> send bs)"

definition Send ::
  "('r, 'v) send_env \<Rightarrow> string \<Rightarrow> string \<Rightarrow> ('r, 'v) sender \<Rightarrow> ('r, 'v) sender \<times> (web_err + Receipt)" where
  "Send E aci text s =
    (if aci = [] then (s, Inl (WText ''signal.Send: empty recipient''))
     else if text = [] then (s, Inl (WText ''signal.Send: empty body''))
     else
       let ts = now_millis E s in
       with_content (buildDataMessageContent (se_lib E) text ts (expireTimerSeconds (sn_client s) aci))
         (\<lambda>bs. sendContent E aci bs ts \<lparr> do_Urgent = True, do_Online = False, do_Silent = False \<rparr> s) s)"

definition SendEdit ::
  "('r, 'v) send_env \<Rightarrow> string \<Rightarrow> string \<Rightarrow> time \<Rightarrow> ('r, 'v) sender \<Rightarrow> ('r, 'v) sender \<times> (web_err + Receipt)" where
  "SendEdit E aci newText target s =
    (if aci = [] then (s, Inl (WText ''signal.SendEdit: empty recipient''))
     else if newText = [] then (s, Inl (WText ''signal.SendEdit: empty body''))
     else if IsZero target then (s, Inl (WText ''signal.SendEdit: zero target timestamp''))
     else
       let ts = now_millis E s in
       with_content (buildEditMessageContent (se_lib E) newText ts (of_int target)
           (expireTimerSeconds (sn_client s) aci))
         (\<lambda>bs. sendContent E aci bs ts \<lparr> do_Urgent = True, do_Online = False, do_Silent = False \<rparr> s) s)"

definition SendReceipt ::
  "('r, 'v) send_env \<Rightarrow> string \<Rightarrow> int \<Rightarrow> time list \<Rightarrow> ('r, 'v) sender \<Rightarrow> ('r, 'v) sender \<times> (web_err + Receipt)" where
  "SendReceipt E aci kind timestamps s =
    (if aci = [] then (s, Inl (WText ''signal.SendReceipt: empty recipient''))
     else if length timestamps = 0 then (s, Inl (WText ''signal.SendReceipt: no timestamps''))
     else
       let ts = now_millis E s in
       with_content (buildReceiptContent (se_lib E) kind timestamps)
         (\<lambda>bs. sendContent E aci bs ts \<lparr> do_Urgent = False, do_Online = False, do_Silent = True \<rparr> s) s)"

definition SendTyping ::
  "('r, 'v) send_env \<Rightarrow> string \<Rightarrow> int \<Rightarrow> ('r, 'v) sender \<Rightarrow> ('r, 'v) sender \<times> (web_err + Receipt)" where
  "SendTyping E aci action s =
    (if aci = [] then (s, Inl (WText ''signal.SendTyping: empty recipient''))
     else
       let ts = now_millis E s in
       with_content (buildTypingContent (se_lib E) action ts None)
         (\<lambda>bs. sendContent E aci bs ts \<lparr> do_Urgent = False, do_Online = True, do_Silent = True \<rparr> s) s)"

definition SendReaction ::
  "('r, 'v) send_env \<Rightarrow> string \<Rightarrow> string \<Rightarrow> string \<Rightarrow> time \<Rightarrow> bool \<Rightarrow> ('r, 'v) sender \<Rightarrow>
   ('r, 'v) sender \<times> (web_err + Receipt)" where
  "SendReaction E aci emoji author target remove s =
    (if aci = [] then (s, Inl (WText ''signal.SendReaction: empty recipient''))
     else if author = [] then (s, Inl (WText ''signal.SendReaction: empty target author''))
     else if IsZero target then (s, Inl (WText ''signal.SendReaction: zero target timestamp''))
     else if \<not> remove \<and> emoji = [] then (s, Inl (WText ''signal.SendReaction: emoji required when not removing''))
     else
       let ts = now_millis E s in
       with_content (buildReactionContent (se_lib E) emoji author target remove ts
           (expireTimerSeconds (sn_client s) aci))
         (\<lambda>bs. sendContent E aci bs ts \<lparr> do_Urgent = True, do_Online = False, do_Silent = False \<rparr> s) s)"

end
