(* ===== verification/SendLaws.thy ===== *)
theory SendLaws
  imports Send StoreLaws InboundLaws
begin

text \<open>
  What a send does on the network and to the device cache, and what its recipient sees.
\<close>

section \<open>Requests on the network\<close>

text \<open>A world that remembers the PUT requests; the sends are the only ones the send path makes.\<close>

definition records_puts :: "'v web_client \<Rightarrow> ('v \<Rightarrow> http_request list) \<Rightarrow> bool" where
  "records_puts c puts \<longleftrightarrow> (\<forall>v r. puts (fst (wc_transport c v r)) =
     puts v @ (if hr_Method r = ''PUT'' then [r] else []))"

definition sent_as :: "'v web_client \<Rightarrow> request \<Rightarrow> http_request \<Rightarrow> bool" where
  "sent_as c req r \<longleftrightarrow> hr_Method r = rq_Method req \<and> hr_Header r = request_headers c req \<and>
     request_body req = Inr (hr_Body r)"

text \<open>Do sends nothing, or one request with its method, headers and body.\<close>

lemma Do_puts:
  assumes "records_puts c puts"
  shows "puts (fst (Do c req v)) = puts v \<or>
    rq_Method req = ''PUT'' \<and> (\<exists>r. puts (fst (Do c req v)) = puts v @ [r] \<and> sent_as c req r)"
proof -
  have p: "puts v' = puts v @ (if hr_Method r = ''PUT'' then [r] else [])"
    if "wc_transport c v r = (v', x)" for v v' r x
    using assms that unfolding records_puts_def by (metis fst_conv)
  show ?thesis
  proof (cases "rq_Method req = ''PUT''")
    case True
    then show ?thesis
      by (auto simp: Do_def sent_as_def split: sum.splits option.splits prod.splits dest!: p)
  next
    case False
    then show ?thesis
      by (auto simp: Do_def split: sum.splits option.splits prod.splits dest!: p)
  qed
qed

lemma fst_decode_out [simp]: "fst (decode_out dec zero r) = fst r"
  by (auto simp: decode_out_def split: prod.splits sum.splits)

lemma fst_map_err [simp]: "fst (map_err f r) = fst r"
  by (auto simp: map_err_def split: prod.splits sum.splits)

text \<open>A log that requests with some methods do not touch.\<close>

definition leaves :: "'v web_client \<Rightarrow> string set \<Rightarrow> ('v \<Rightarrow> 'p) \<Rightarrow> bool" where
  "leaves c M log \<longleftrightarrow> (\<forall>v r. hr_Method r \<in> M \<longrightarrow> log (fst (wc_transport c v r)) = log v)"

lemma Do_leaves:
  assumes "leaves c M log" "rq_Method req \<in> M"
  shows "log (fst (Do c req v)) = log v"
proof -
  have p: "hr_Method r \<in> M \<Longrightarrow> log v' = log v" if "wc_transport c v r = (v', x)" for v v' r x
    using assms(1) that unfolding leaves_def by (metis fst_conv)
  show ?thesis
    using assms(2) by (auto simp: Do_def split: sum.splits option.splits prod.splits dest!: p)
qed

lemma records_leaves: "records_puts c puts \<Longrightarrow> leaves c {''GET''} puts"
  by (simp add: records_puts_def leaves_def)

lemma Do_get_puts: "leaves c {''GET''} puts \<Longrightarrow> rq_Method req = ''GET'' \<Longrightarrow> puts (fst (Do c req v)) = puts v"
  by (rule Do_leaves) auto

lemma fetch_puts:
  assumes "leaves c {''GET''} puts"
  shows "puts (fst (FetchPreKeyBundle c creds aci dev v)) = puts v"
    "puts (fst (FetchSenderCertificate c creds v)) = puts v"
proof -
  note g = Do_get_puts [OF assms]
  show "puts (fst (FetchPreKeyBundle c creds aci dev v)) = puts v"
    by (simp add: FetchPreKeyBundle_def get_request_def Let_def g)
  let ?d = "decode_out (js_Certificate (wc_json c)) []
      (Do c ((get_request ''/v1/certificate/delivery'')\<lparr> rq_Credentials := creds \<rparr>) v)"
  obtain v' q where d: "?d = (v', q)" by (cases ?d)
  have "puts (fst ?d) = puts v" by (simp add: get_request_def g)
  then have "puts v' = puts v" by (simp only: d fst_conv)
  then show "puts (fst (FetchSenderCertificate c creds v)) = puts v"
    by (auto simp: FetchSenderCertificate_def d split: sum.splits)
qed

section \<open>What leaves the sends' log alone\<close>

definition quiet :: "('v \<Rightarrow> 'p) \<Rightarrow> ('r, 'v) sender \<Rightarrow> ('r, 'v) sender \<Rightarrow> bool" where
  "quiet puts s s' \<longleftrightarrow> puts (sn_world s') = puts (sn_world s)"

lemma quiet_refl [simp]: "quiet puts s s"
  by (simp add: quiet_def)

lemma quiet_trans: "quiet puts a b \<Longrightarrow> quiet puts b c \<Longrightarrow> quiet puts a c"
  by (simp add: quiet_def)

lemma sn_world_simps [simp]:
  "sn_world (set_world v s) = v" "sn_world (set_stores st s) = sn_world s"
  "sn_world (s\<lparr> sn_knownDevices := k \<rparr>) = sn_world s" "sn_world (s\<lparr> sn_keysRateLimit := l \<rparr>) = sn_world s"
  "sn_world (s\<lparr> sn_senderCert := t \<rparr>) = sn_world s"
  by (simp_all add: sn_world_def set_world_def set_stores_def)

lemma quiet_fields [simp]:
  "quiet puts s (s\<lparr> sn_knownDevices := k \<rparr>)" "quiet puts s (s\<lparr> sn_keysRateLimit := l \<rparr>)"
  "quiet puts s (s\<lparr> sn_senderCert := t \<rparr>)"
  by (simp_all add: quiet_def)

lemma quiet_bindS:
  assumes "quiet puts s (fst r)" "\<And>s' a. quiet puts s' (fst (g s' a))"
  shows "quiet puts s (fst (bindS r g))"
  using assms by (auto simp: bindS_def split: prod.splits sum.splits intro: quiet_trans) 

lemma fst_wrapS [simp]: "fst (wrapS w r) = fst r"
  by (auto simp: wrapS_def split: prod.splits sum.splits)

lemma quiet_on_stores [simp]: "quiet puts s (fst (on_stores f s))"
  by (auto simp: quiet_def on_stores_def split: prod.splits)

lemma quiet_on_world: "puts (fst (f (sn_world s))) = puts (sn_world s) \<Longrightarrow> quiet puts s (fst (on_world f s))"
  by (auto simp: quiet_def on_world_def split: prod.splits)

lemma gate_quiet [simp]: "quiet puts s (fst (keysRateLimitGate E aci s))"
  by (auto simp: keysRateLimitGate_def quiet_def Let_def split: option.splits)

lemma limit_quiet [simp]:
  "quiet puts s (setKeysRateLimit E aci b s)" "quiet puts s (clearKeysRateLimit aci s)"
  by (simp_all add: setKeysRateLimit_def clearKeysRateLimit_def quiet_def Let_def)

lemma wrap_quiet: "quiet puts s (fst r) \<Longrightarrow> quiet puts s (fst (wrapS w r))"
  by simp

lemma fetch_quiet:
  assumes "leaves (se_web E) {''GET''} puts"
  shows "quiet puts s (fst (fetchPreKeyBundleDefensive E creds aci dev s))"
proof -
  have f: "quiet puts s (fst (on_world (FetchPreKeyBundle (se_web E) creds aci dev) s))" for s
    by (rule quiet_on_world) (rule fetch_puts [OF assms])
  show ?thesis
    unfolding fetchPreKeyBundleDefensive_def
    by (rule quiet_bindS, simp)
       (use f in \<open>fastforce split: prod.splits sum.splits option.splits intro: quiet_trans\<close>)
qed

lemma processBundle_quiet [simp]: "quiet puts s (fst (processBundle E ik dev addr s))"
proof -
  have p: "quiet puts s (fst (on_stores f s))" for f :: "sql_stores \<Rightarrow> sql_stores \<times> string option" by simp
  show ?thesis
    unfolding processBundle_def
    by (auto split: sum.splits prod.splits option.splits) (metis fst_conv quiet_on_stores)+
qed

lemma fetchAndProcess_quiet:
  assumes "leaves (se_web E) {''GET''} puts"
  shows "quiet puts s (fst (fetchAndProcessBundle E creds aci d s))"
  unfolding fetchAndProcessBundle_def
  by (rule quiet_bindS) (auto simp: fetch_quiet [OF assms] split: list.splits)

lemma establish_all_quiet: "quiet puts s (fst (establish_all E aci ik devs s))"
  by (induction devs arbitrary: s) (auto intro: quiet_bindS split: sum.splits bool.splits)

lemma refresh_all_quiet:
  assumes "leaves (se_web E) {''GET''} puts"
  shows "quiet puts s (fst (refresh_all E creds aci ids s))"
  by (induction ids arbitrary: s)
     (auto intro: quiet_bindS fetchAndProcess_quiet [OF assms] split: sum.splits bool.splits)

lemma discover_quiet:
  assumes "leaves (se_web E) {''GET''} puts"
  shows "quiet puts s (fst (discoverAndEnsureSessions E creds aci s))"
  unfolding discoverAndEnsureSessions_def
  by (auto simp: fetch_quiet [OF assms] refresh_all_quiet [OF assms] establish_all_quiet Let_def
      intro!: quiet_bindS split: option.splits)

lemma cert_quiet:
  assumes "leaves (se_web E) {''GET''} puts"
  shows "quiet puts s (fst (cachedSenderCert E creds s))"
proof -
  have f: "quiet puts s (fst (on_world (FetchSenderCertificate (se_web E) creds) s))"
    by (rule quiet_on_world) (rule fetch_puts [OF assms])
  then show ?thesis
    unfolding cachedSenderCert_def Let_def
    by (auto split: option.splits if_splits intro!: quiet_bindS)
       (auto simp: quiet_def split: sum.splits option.splits)
qed

lemma encrypt_all_quiet:
  "(\<And>a s. quiet puts s (fst (f a s))) \<Longrightarrow> quiet puts s (fst (encrypt_all f as s))"
  by (induction as arbitrary: s) (auto intro!: quiet_bindS)

lemma encrypt_quiet [simp]:
  "quiet puts s (fst (encryptForDevice E padded addr s))"
  "quiet puts s (fst (sealedEncryptForDevice E cert padded addr s))"
  by (auto simp: encryptForDevice_def sealedEncryptForDevice_def intro!: quiet_bindS split: sum.splits prod.splits)

lemma build_quiet:
  "quiet puts s (fst (buildSendRequest E ts as padded opts s))"
  "quiet puts s (fst (buildSealedSendRequest E ts as padded cert opts s))"
  by (auto simp: buildSendRequest_def buildSealedSendRequest_def split: prod.splits
      intro!: quiet_bindS encrypt_all_quiet)

lemma delete_session_quiet [simp]: "quiet puts s (fst (delete_session w aci d s))"
  by (simp add: delete_session_def)

lemma sessions_quiet:
  assumes "leaves (se_web E) {''GET''} puts"
  shows "quiet puts s (fst (drop_extra aci ds s))" "quiet puts s (fst (add_missing E creds aci ds as s))"
    "quiet puts s (fst (renew_stale E creds aci ds s))"
proof -
  show "quiet puts s (fst (drop_extra aci ds s))"
    by (induction ds arbitrary: s) (auto intro!: quiet_bindS)
  show "quiet puts s (fst (add_missing E creds aci ds as s))"
    by (induction ds arbitrary: s as) (auto intro!: quiet_bindS simp: fetchAndProcess_quiet [OF assms])
  show "quiet puts s (fst (renew_stale E creds aci ds s))"
    by (induction ds arbitrary: s) (auto intro!: quiet_bindS simp: fetchAndProcess_quiet [OF assms])
qed

lemma handleSendError_quiet:
  assumes "leaves (se_web E) {''GET''} puts"
  shows "quiet puts s (fst (handleSendError E creds aci as err s))"
proof -
  show ?thesis
    by (auto simp: handleSendError_def sessions_quiet [OF assms] split: option.splits intro!: quiet_bindS)
qed

text \<open>Sealed sending is only allowed by a profile fetch.\<close>

definition same_sealed :: "('r, 'v) sender \<Rightarrow> ('r, 'v) sender \<Rightarrow> bool" where
  "same_sealed s s' \<longleftrightarrow> sn_allowSealed s' = sn_allowSealed s"

lemma same_sealed_bindS:
  "same_sealed s (fst r) \<Longrightarrow> (\<And>s' a. same_sealed s' (fst (g s' a))) \<Longrightarrow> same_sealed s (fst (bindS r g))"
  by (cases r; cases "snd r") (auto simp: same_sealed_def)

lemma same_sealed_simps [simp]:
  "same_sealed s s" "same_sealed s (fst (on_world f s))" "same_sealed s (fst (on_stores g s))"
  "same_sealed s (s\<lparr> sn_knownDevices := k \<rparr>)"
  by (auto simp: same_sealed_def on_world_def on_stores_def set_world_def set_stores_def split_def)

lemma gate_sealed [simp]: "same_sealed s (fst (keysRateLimitGate E aci s))"
  by (auto simp: same_sealed_def keysRateLimitGate_def Let_def split: option.split)

lemma fetch_sealed [simp]: "same_sealed s (fst (fetchPreKeyBundleDefensive E creds aci dev s))"
proof -
  have w: "sn_allowSealed t = sn_allowSealed s" if "on_world f s = (t, x)" for s t f x
    using that by (auto simp: on_world_def set_world_def split: prod.splits)
  show ?thesis
    unfolding fetchPreKeyBundleDefensive_def
    by (rule same_sealed_bindS, rule gate_sealed)
       (auto simp: same_sealed_def setKeysRateLimit_def clearKeysRateLimit_def Let_def
         split: prod.splits sum.splits option.splits dest!: w)
qed

lemma process_sealed [simp]: "same_sealed s (fst (processBundle E ik dev addr s))"
  by (auto simp: processBundle_def on_stores_def set_stores_def same_sealed_def
      split: sum.splits prod.splits option.splits)

lemma fetchAndProcess_sealed [simp]: "same_sealed s (fst (fetchAndProcessBundle E creds aci d s))"
  unfolding fetchAndProcessBundle_def
  by (rule same_sealed_bindS) (auto split: list.splits)

lemma sessions_sealed [simp]:
  "same_sealed s (fst (establish_all E aci ik devs s))" "same_sealed s (fst (refresh_all E creds aci ids s))"
proof -
  show "same_sealed s (fst (establish_all E aci ik devs s))"
    by (induction devs arbitrary: s) (auto intro: same_sealed_bindS split: sum.splits bool.splits)
  show "same_sealed s (fst (refresh_all E creds aci ids s))"
    by (induction ids arbitrary: s) (auto intro: same_sealed_bindS split: sum.splits bool.splits)
qed

lemma discover_allowSealed:
  assumes "discoverAndEnsureSessions E creds aci s = (s', r)"
  shows "sn_allowSealed s' = sn_allowSealed s"
proof -
  have "same_sealed s (fst (discoverAndEnsureSessions E creds aci s))"
    unfolding discoverAndEnsureSessions_def
    by (auto simp: Let_def intro!: same_sealed_bindS split: option.splits)
  then show ?thesis by (simp add: assms same_sealed_def)
qed

section \<open>The requests of a delivery\<close>

text \<open>A request that names the account, and one that carries the recipient's access key only.\<close>

definition identified :: "Credentials \<Rightarrow> http_request \<Rightarrow> bool" where
  "identified creds r \<longleftrightarrow> header_values (hr_Header r) ''Authorization'' = [Credentials_Header creds] \<and>
     header_values (hr_Header r) ''Unidentified-Access-Key'' = []"

definition anonymous :: "bytes \<Rightarrow> http_request \<Rightarrow> bool" where
  "anonymous uak r \<longleftrightarrow> header_values (hr_Header r) ''Authorization'' = [] \<and>
     header_values (hr_Header r) ''Unidentified-Access-Key'' = [EncodeToString uak]"

lemma Credentials_Header_no_creds [simp]: "Credentials_Header no_creds = []"
  by (simp add: Credentials_Header_def no_creds_def)

lemma Credentials_Header_given: "\<not> no_creds_given creds \<Longrightarrow> Credentials_Header creds \<noteq> []"
  by (simp add: Credentials_Header_def no_creds_given_def)

lemma request_headers_values:
  "distinct (map fst (rq_Headers req)) \<Longrightarrow> k \<notin> {''X-Signal-Agent'', ''User-Agent'', ''Content-Type''} \<Longrightarrow>
    header_values (request_headers c req) k =
      (if k = ''Authorization'' \<and> Credentials_Header (rq_Credentials req) \<noteq> []
       then [Credentials_Header (rq_Credentials req)] else []) @ header_values (rq_Headers req) k"
  by (simp add: request_headers_def values_merge Let_def)

lemma put_puts:
  assumes "records_puts c puts" "rq_Method req = ''PUT''"
  shows "\<exists>reqs. puts (fst (Do c req v)) = puts v @ reqs \<and> length reqs \<le> 1 \<and>
    list_all (\<lambda>r. hr_Header r = request_headers c req) reqs \<and> (is_ok (snd (Do c req v)) \<longrightarrow> reqs \<noteq> [])"
proof -
  have p: "puts v' = puts v @ [r]" if "wc_transport c v r = (v', x)" "hr_Method r = ''PUT''" for v v' r x
    using assms that unfolding records_puts_def by (metis fst_conv)
  show ?thesis
    using assms(2)
    by (auto simp: Do_def is_ok_def split: sum.splits option.splits prod.splits dest!: p)
qed

text \<open>A call of one of the two message endpoints.\<close>

definition puts_one :: "('v \<Rightarrow> http_request list) \<Rightarrow> (http_request \<Rightarrow> bool) \<Rightarrow> ('v \<Rightarrow> 'v \<times> (web_err + bool)) \<Rightarrow> bool" where
  "puts_one puts P f \<longleftrightarrow> (\<forall>v. \<exists>reqs. puts (fst (f v)) = puts v @ reqs \<and> length reqs \<le> 1 \<and>
     list_all P reqs \<and> (is_ok (snd (f v)) \<longrightarrow> reqs \<noteq> []))"

lemma is_ok_decode_out: "is_ok (snd (decode_out dec zero r)) \<Longrightarrow> is_ok (snd r)"
  by (auto simp: decode_out_def is_ok_def split: prod.splits sum.splits)

lemma is_ok_map_err [simp]: "is_ok (snd (map_err f r)) = is_ok (snd r)"
  by (auto simp: map_err_def is_ok_def split: prod.splits sum.splits)

lemma puts_one_Do:
  assumes "records_puts c puts" "rq_Method req = ''PUT''" "\<And>r. hr_Header r = request_headers c req \<Longrightarrow> P r"
  shows "puts_one puts P (\<lambda>v. map_err m (decode_out dec zero (Do c req v)))"
  unfolding puts_one_def
proof
  fix v
  obtain reqs where "puts (fst (Do c req v)) = puts v @ reqs" "length reqs \<le> 1"
    "list_all (\<lambda>r. hr_Header r = request_headers c req) reqs" "is_ok (snd (Do c req v)) \<longrightarrow> reqs \<noteq> []"
    using put_puts [OF assms(1,2)] by blast
  then show "\<exists>reqs. puts (fst (map_err m (decode_out dec zero (Do c req v)))) = puts v @ reqs \<and>
      length reqs \<le> 1 \<and> list_all P reqs \<and>
      (is_ok (snd (map_err m (decode_out dec zero (Do c req v)))) \<longrightarrow> reqs \<noteq> [])"
    using assms(3) is_ok_decode_out [of dec zero "Do c req v"] by (auto simp: list_all_iff)
qed

lemma SendMessage_puts:
  assumes "records_puts c puts"
  shows "puts_one puts (identified creds) (SendMessage c creds aci req)"
proof (cases "no_creds_given creds \<or> aci = [] \<or> length (sr_Messages req) = 0")
  case True
  then show ?thesis by (auto simp: SendMessage_def puts_one_def)
next
  case False
  let ?q = "(get_request (''/v1/messages/'' @ aci))\<lparr> rq_Method := ''PUT'', rq_Credentials := creds,
              rq_Body := Some (js_SendMessageRequest (wc_json c) req) \<rparr>"
  have "puts_one puts (identified creds) (\<lambda>v. map_err (mapSendError c)
      (decode_out (js_SendMessageResponse (wc_json c)) False (Do c ?q v)))"
    by (rule puts_one_Do [OF assms])
       (use False Credentials_Header_given [of creds] in
        \<open>simp_all add: identified_def request_headers_values get_request_def\<close>)
  moreover have "SendMessage c creds aci req = (\<lambda>v. map_err (mapSendError c)
      (decode_out (js_SendMessageResponse (wc_json c)) False (Do c ?q v)))"
    using False by (simp add: SendMessage_def fun_eq_iff)
  ultimately show ?thesis by simp
qed

lemma SendMessageUnidentified_puts:
  assumes "records_puts c puts"
  shows "puts_one puts (anonymous uak) (SendMessageUnidentified c uak aci req)"
proof (cases "length uak = 0 \<or> aci = [] \<or> length (sr_Messages req) = 0")
  case True
  then show ?thesis by (auto simp: SendMessageUnidentified_def puts_one_def)
next
  case False
  let ?q = "(get_request (''/v1/messages/'' @ aci))\<lparr> rq_Method := ''PUT'',
              rq_Query := [(''story'', [''false''])],
              rq_Headers := [(''Unidentified-Access-Key'', [EncodeToString uak])],
              rq_Body := Some (js_SendMessageRequest (wc_json c) req) \<rparr>"
  have "puts_one puts (anonymous uak) (\<lambda>v. map_err (mapSendError c)
      (decode_out (js_SendMessageResponse (wc_json c)) False (Do c ?q v)))"
    by (rule puts_one_Do [OF assms])
       (simp_all add: anonymous_def request_headers_values get_request_def)
  moreover have "SendMessageUnidentified c uak aci req = (\<lambda>v. map_err (mapSendError c)
      (decode_out (js_SendMessageResponse (wc_json c)) False (Do c ?q v)))"
    using False by (simp add: SendMessageUnidentified_def fun_eq_iff)
  ultimately show ?thesis by simp
qed

text \<open>A run that makes at most \<open>n\<close> requests, all of them \<open>P\<close>, and one at least when it succeeds.\<close>

definition adds ::
  "('v \<Rightarrow> http_request list) \<Rightarrow> (http_request \<Rightarrow> bool) \<Rightarrow> nat \<Rightarrow> ('r, 'v) sender \<Rightarrow>
   ('r, 'v) sender \<times> (web_err + 'a) \<Rightarrow> bool" where
  "adds puts P n s r \<longleftrightarrow> (\<exists>reqs. puts (sn_world (fst r)) = puts (sn_world s) @ reqs \<and> length reqs \<le> n \<and>
     list_all P reqs \<and> (is_ok (snd r) \<longrightarrow> reqs \<noteq> []))"

lemma adds_Inl: "quiet puts s s' \<Longrightarrow> adds puts P n s (s', Inl e)"
  by (simp add: adds_def quiet_def)

lemma adds_quiet_start: "quiet puts s s1 \<Longrightarrow> adds puts P n s1 r \<Longrightarrow> adds puts P n s r"
  by (simp add: adds_def quiet_def)

lemma adds_bindS:
  assumes "quiet puts s (fst r)" "\<And>s' a. adds puts P n s' (g s' a)"
  shows "adds puts P n s (bindS r g)"
proof -
  obtain s1 q where r: "r = (s1, q)" by (cases r)
  then have "quiet puts s s1" using assms(1) by simp
  then show ?thesis
    using assms(2) by (cases q) (auto simp: r intro: adds_Inl adds_quiet_start)
qed

lemma adds_put:
  assumes "puts_one puts P f"
  shows "adds puts P 1 s (on_world f s)"
  using assms by (simp add: adds_def puts_one_def on_world_def split_def)

lemma adds_put_return:
  assumes "puts_one puts P f"
  shows "adds puts P 1 s (bindS (wrapS w (on_world f s)) (\<lambda>s _. (s, Inr x)))"
proof -
  obtain s1 q where r: "on_world f s = (s1, q)" by (cases "on_world f s")
  then show ?thesis using adds_put [OF assms, of s] by (cases q) (auto simp: adds_def)
qed

lemma adds_retry:
  assumes "puts_one puts P f" "\<And>s e. adds puts P 1 s (h s e)"
  shows "adds puts P 2 s (case on_world f s of (s, Inr _) \<Rightarrow> (s, Inr x) | (s, Inl e) \<Rightarrow> h s e)"
proof -
  obtain s1 q where r: "on_world f s = (s1, q)" by (cases "on_world f s")
  obtain r1 where 1: "puts (sn_world s1) = puts (sn_world s) @ r1" "length r1 \<le> 1" "list_all P r1"
    "is_ok q \<longrightarrow> r1 \<noteq> []"
    using adds_put [OF assms(1), of s] by (auto simp: adds_def r)
  show ?thesis
  proof (cases q)
    case (Inl e)
    obtain r2 where "puts (sn_world (fst (h s1 e))) = puts (sn_world s1) @ r2" "length r2 \<le> 1"
      "list_all P r2" "is_ok (snd (h s1 e)) \<longrightarrow> r2 \<noteq> []"
      using assms(2) [of s1 e] by (auto simp: adds_def)
    then have "\<exists>reqs. puts (sn_world (fst (h s1 e))) = puts (sn_world s) @ reqs \<and> length reqs \<le> 2 \<and>
        list_all P reqs \<and> (is_ok (snd (h s1 e)) \<longrightarrow> reqs \<noteq> [])"
      using 1 by (intro exI [of _ "r1 @ r2"]) auto
    then show ?thesis by (simp add: r Inl adds_def)
  next
    case (Inr a)
    then show ?thesis using 1 by (auto simp: r adds_def)
  qed
qed

lemma deliver_puts:
  assumes rp: "records_puts (se_web E) puts"
    and b: "\<And>as s. quiet puts s (fst (build as s))" and p: "\<And>req. puts_one puts P (put req)"
  shows "adds puts P 2 s (deliver_with build put E creds aci as ts s)"
  unfolding deliver_with_def
  by (intro adds_bindS adds_retry adds_put_return b p handleSendError_quiet records_leaves [OF rp])

text \<open>
  C8. What a send puts on the network: at most two message requests, one at least when it
  reports success, and either all of them carry the account's credentials and no access key, or
  all carry the recipient's access key and no Authorization header; the second only for a
  recipient whose profile allowed sealed sender.
\<close>

theorem send_requests:
  assumes "records_puts (se_web E) puts"
    and "sendContent E aci bs ts opts s = (s', r)"
  shows "\<exists>reqs. puts (sn_world s') = puts (sn_world s) @ reqs \<and> length reqs \<le> 2 \<and>
    (is_ok r \<longrightarrow> reqs \<noteq> []) \<and>
    (list_all (identified (credentials s)) reqs \<or>
     (\<exists>uak. uak \<noteq> [] \<and> map_of (sn_allowSealed s) aci = Some True \<and> list_all (anonymous uak) reqs))"
proof -
  let ?out = "\<lambda>r. adds puts (identified (credentials s)) 2 s r \<or>
    (\<exists>uak. uak \<noteq> [] \<and> map_of (sn_allowSealed s) aci = Some True \<and> adds puts (anonymous uak) 2 s r)"
  have basic: "adds puts (identified (credentials s)) 2 t (deliverBasicAuth E (credentials s) aci as padded ts opts t)"
    for as padded t
    unfolding deliverBasicAuth_def
    by (rule deliver_puts [OF assms(1)]) (simp_all add: build_quiet SendMessage_puts [OF assms(1)])
  have sealed: "adds puts (anonymous uak) 2 t (deliverSealed E (credentials s) aci as padded ts opts cert uak t)"
    for as padded cert uak t
    unfolding deliverSealed_def
    by (rule deliver_puts [OF assms(1)]) (simp_all add: build_quiet SendMessageUnidentified_puts [OF assms(1)])
  have "?out (sendContent E aci bs ts opts s)"
  proof (cases "se_wired E")
    case False
    then show ?thesis by (simp add: sendContent_def adds_Inl)
  next
    case True
    obtain s1 q1 where d: "discoverAndEnsureSessions E (credentials s) aci s = (s1, q1)"
      by (cases "discoverAndEnsureSessions E (credentials s) aci s")
    have q1: "quiet puts s s1" "sn_allowSealed s1 = sn_allowSealed s"
      using discover_quiet [OF records_leaves [OF assms(1)], of s "credentials s" aci] discover_allowSealed [OF d] by (simp_all add: d)
    show ?thesis
    proof (cases q1)
      case (Inl e)
      then show ?thesis using q1 True by (simp add: sendContent_def d adds_Inl)
    next
      case (Inr as)
      let ?s2 = "s1\<lparr> sn_client := ensureRecipientUAK (se_client E) aci (sn_client s1) \<rparr>"
      have 2: "quiet puts s ?s2"
        using q1(1) by (simp add: quiet_def sn_world_def ensureRecipientUAK_def storeRecipientProfileKey_def Let_def
            split: sum.splits)
      obtain s3 q3 where c: "cachedSenderCert E (credentials s) ?s2 = (s3, q3)"
        by (cases "cachedSenderCert E (credentials s) ?s2")
      have 3: "quiet puts s s3"
        using quiet_trans [OF 2] cert_quiet [OF records_leaves [OF assms(1)], of ?s2 "credentials s"] by (simp add: c)
      note quiets = adds_quiet_start [OF 2] adds_quiet_start [OF 3]
      define uak where "uak = (case map_of (cl_uaks (sn_client ?s2)) aci of None \<Rightarrow> [] | Some u \<Rightarrow> u)"
      define ok where "ok = (case map_of (sn_allowSealed s) aci of None \<Rightarrow> False | Some b \<Rightarrow> b)"
      have run: "sendContent E aci bs ts opts s =
          (if length uak > 0 \<and> ok then
             (case (s3, q3) of
                (s, Inr cert) \<Rightarrow> deliverSealed E (credentials s0) aci as (padContent bs) ts opts cert uak s
              | (s, Inl _) \<Rightarrow> deliverBasicAuth E (credentials s0) aci as (padContent bs) ts opts s)
           else deliverBasicAuth E (credentials s0) aci as (padContent bs) ts opts ?s2)" if "s0 = s" for s0
        unfolding uak_def ok_def using True d Inr c q1(2) that by (simp add: sendContent_def Let_def)
      show ?thesis
      proof (cases "length uak > 0 \<and> ok")
        case False
        then show ?thesis using run [OF refl] adds_quiet_start [OF 2 basic] by auto
      next
        case True
        then have a: "map_of (sn_allowSealed s) aci = Some True" "uak \<noteq> []"
          by (auto simp: ok_def split: option.splits)
        show ?thesis
        proof (cases q3)
          case (Inl e)
          then show ?thesis using run [OF refl] True adds_quiet_start [OF 3 basic] by simp
        next
          case (Inr cert)
          then show ?thesis
            using run [OF refl] True a adds_quiet_start [OF 3 sealed] by auto
        qed
      qed
    qed
  qed
  then show ?thesis using assms(2) by (auto simp: adds_def)
qed

section \<open>From the sender to the recipient\<close>

















section \<open>Repairing the device list\<close>

lemma filterOut_eq: "filterOutDevices as rem = filter (\<lambda>a. ad_DeviceID a \<notin> set rem) as"
  by (simp add: filterOutDevices_def)

text \<open>libsignal touches only the session of the address it is called for.\<close>

definition process_local :: "send_lib \<Rightarrow> bool" where
  "process_local L \<longleftrightarrow> (\<forall>b r l t st a. a \<noteq> r \<longrightarrow>
     sql_LoadSession (fst (sl_process L b r l t st)) a = sql_LoadSession st a)"

definition session :: "('r, 'v) sender \<Rightarrow> Address \<Rightarrow> store_err + bytes" where
  "session s a = sql_LoadSession (sn_stores s) a"

definition frame :: "string \<Rightarrow> u32 set \<Rightarrow> ('r, 'v) sender \<Rightarrow> ('r, 'v) sender \<Rightarrow> bool" where
  "frame aci ds s s' \<longleftrightarrow> (\<forall>a. a \<notin> peer aci ` ds \<longrightarrow> session s' a = session s a)"

lemma frame_refl [simp]: "frame aci ds s s"
  by (simp add: frame_def)

lemma frame_trans: "frame aci ds a b \<Longrightarrow> frame aci es b c \<Longrightarrow> frame aci (ds \<union> es) a c"
  by (auto simp: frame_def image_Un)

lemma frame_mono: "frame aci ds a b \<Longrightarrow> ds \<subseteq> es \<Longrightarrow> frame aci es a b"
  by (auto simp: frame_def)

lemma same_stores_frame: "sn_stores s' = sn_stores s \<Longrightarrow> frame aci ds s s'"
  by (simp add: frame_def session_def)

lemma sn_stores_simps [simp]:
  "sn_stores (set_world v s) = sn_stores s" "sn_stores (set_stores st s) = st"
  "sn_stores (s\<lparr> sn_knownDevices := k \<rparr>) = sn_stores s" "sn_stores (s\<lparr> sn_keysRateLimit := l \<rparr>) = sn_stores s"
  by (simp_all add: sn_stores_def set_world_def set_stores_def)

lemma fetch_stores [simp]: "sn_stores (fst (fetchPreKeyBundleDefensive E creds aci dev s)) = sn_stores s"
proof -
  have g: "sn_stores t = sn_stores s" if "keysRateLimitGate E aci s = (t, x)" for t x
    using that by (auto simp: keysRateLimitGate_def Let_def split: option.splits if_splits)
  have w: "sn_stores t = sn_stores s" if "on_world f s = (t, x)" for s t f x
    using that by (auto simp: on_world_def split: prod.splits)
  show ?thesis
    by (cases "keysRateLimitGate E aci s"; cases "snd (keysRateLimitGate E aci s)")
       (auto simp: fetchPreKeyBundleDefensive_def setKeysRateLimit_def clearKeysRateLimit_def Let_def
         split: prod.splits sum.splits option.splits dest!: g w)
qed

lemma call_addresses_remote: "call_addresses E addr s = Inr (remote, local) \<Longrightarrow> remote = addr"
  by (auto simp: call_addresses_def Let_def bindR_Inr_iff NewAddress_def split: if_splits option.splits)

lemma process_frame:
  assumes "process_local (se_lib E)"
  shows "frame aci {d} s (fst (processBundle E ik dev (peer aci d) s))"
proof -
  have p: "session t a = session s a"
    if "on_stores (sl_process (se_lib E) b r l n) s = (t, x)" "a \<noteq> r" for t x b r l n a
    using that assms by (auto simp: on_stores_def session_def process_local_def split: prod.splits) (metis fst_conv)
  show ?thesis
    by (auto simp: processBundle_def frame_def split: sum.splits prod.splits option.splits
        dest!: call_addresses_remote p)
qed

lemma fetchAndProcess_frame:
  assumes "process_local (se_lib E)"
  shows "frame aci {d} s (fst (fetchAndProcessBundle E creds aci d s))"
proof -
  obtain t q where f: "fetchPreKeyBundleDefensive E creds aci (dec_digits (unat d)) s = (t, q)"
    by (cases "fetchPreKeyBundleDefensive E creds aci (dec_digits (unat d)) s")
  have "sn_stores t = sn_stores s" using fetch_stores [of E creds aci "dec_digits (unat d)" s] by (simp add: f)
  then have t: "frame aci {} s t" by (rule same_stores_frame)
  show ?thesis
    using frame_mono [OF t] frame_trans [OF t process_frame [OF assms]]
    by (cases q) (auto simp: fetchAndProcessBundle_def f split: list.splits)
qed

lemma add_missing_spec:
  assumes "process_local (se_lib E)" "add_missing E creds aci ds as s = (s', Inr as')"
  shows "as' = as @ map (peer aci) ds \<and> frame aci (set ds) s s'"
  using assms(2)
proof (induction ds arbitrary: as s)
  case (Cons d ds)
  obtain t where f: "fetchAndProcessBundle E creds aci d s = (t, Inr ())"
    and m: "add_missing E creds aci ds (as @ [peer aci d]) t = (s', Inr as')"
    using Cons.prems by (auto simp: bindS_Inr_iff wrapS_Inr_iff)
  have "frame aci {d} s t" using fetchAndProcess_frame [OF assms(1), of aci d s creds] by (simp add: f)
  with Cons.IH [OF m] show ?case
    using frame_trans [of aci "{d}" s t "set ds" s'] by simp
qed simp

lemma drop_extra_spec:
  assumes "sql_ready (sn_stores s)" "drop_extra aci ds s = (s', Inr ())"
  shows "sql_ready (sn_stores s') \<and> (\<forall>a. session s' a =
    (if a \<in> peer aci ` set ds then Inl ErrRecordNotFound else session s a))"
  using assms
proof (induction ds arbitrary: s)
  case (Cons d ds)
  let ?st = "fst (sql_DeleteSession (sn_stores s) (peer aci d))"
  have m: "drop_extra aci ds (set_stores ?st s) = (s', Inr ())"
    using Cons.prems(2)
    by (auto simp: bindS_Inr_iff wrapS_Inr_iff delete_session_def on_stores_def split: prod.splits)
  have "sql_ready ?st" using sql_sessions.ready_remove [OF Cons.prems(1)] .
  then have "sql_ready (sn_stores (set_stores ?st s))" by simp
  from Cons.IH [OF this m] sql_sessions.load_remove [OF Cons.prems(1), of "peer aci d"]
  show ?case by (auto simp: session_def)
qed simp

text \<open>
  C9. After a mismatch response is repaired the send continues with the addresses it had, less
  the extra devices, plus the missing ones; that list is cached, the sessions of removed devices
  are gone and no session of another address is touched.
\<close>

theorem mismatch_repair:
  assumes "process_local (se_lib E)" "sql_ready (sn_stores s)"
    "as_Mismatched err = Some (missing, extra)"
    "handleSendError E creds aci addrs err s = (s', Inr addrs')"
  shows "addrs' = filter (\<lambda>a. ad_DeviceID a \<notin> set extra) addrs @ map (peer aci) missing \<and>
    map_of (sn_knownDevices s') aci = Some (map ad_DeviceID addrs') \<and>
    (\<forall>a. session s' a =
      (if a \<in> peer aci ` set missing then session s' a
       else if a \<in> peer aci ` set extra then Inl ErrRecordNotFound else session s a))"
proof -
  obtain s1 where d: "drop_extra aci extra s = (s1, Inr ())"
    and r: "bindS (add_missing E creds aci missing (filterOutDevices addrs extra) s1) (\<lambda>s addrs'.
       (s\<lparr> sn_knownDevices := AList.update aci (addressDeviceIDs addrs') (sn_knownDevices s) \<rparr>, Inr addrs')) =
       (s', Inr addrs')"
    using assms(3,4) by (auto simp: handleSendError_def bindS_Inr_iff)
  then obtain s2 where m: "add_missing E creds aci missing (filterOutDevices addrs extra) s1 = (s2, Inr addrs')"
    and s': "s' = s2\<lparr> sn_knownDevices := AList.update aci (addressDeviceIDs addrs') (sn_knownDevices s2) \<rparr>"
    by (auto simp: bindS_Inr_iff)
  have "session s' = session s2" by (simp add: s' session_def fun_eq_iff)
  with drop_extra_spec [OF assms(2) d] add_missing_spec [OF assms(1) m] show ?thesis
    by (auto simp: s' frame_def filterOut_eq addressDeviceIDs_def)
qed




lemma set_world_devices [simp]: "sn_knownDevices (set_world v s) = sn_knownDevices s"
  by (simp add: set_world_def)







section \<open>The cooldown of key fetches\<close>


section \<open>A concrete client\<close>

text \<open>A server that accepts every request and keeps the PUTs, and a client with one session.\<close>

definition sample_json :: web_json where
  "sample_json = \<lparr> js_SendMessageRequest = (\<lambda>r. Inr []), js_SendMessageResponse = (\<lambda>b. Inr False),
     js_FetchPreKeyResponse = (\<lambda>b. Inl ''json''), js_Mismatched = (\<lambda>b. Inr ([], [2])),
     js_Stale = (\<lambda>b. Inl ''json''), js_Certificate = (\<lambda>b. Inl ''json''), js_Profile = (\<lambda>b. Inl ''json''),
     js_Credential = (\<lambda>b. Inl ''json''), js_UploadForm = (\<lambda>b. Inl ''json''), js_Userpass = (\<lambda>b. Inl ''json'') \<rparr>"

definition sample_web :: "int \<Rightarrow> http_request list web_client" where
  "sample_web code = \<lparr> wc_BaseURL = [], wc_UserAgent = ''go'', wc_CDNHosts = [],
     wc_transport = (\<lambda>v r. (if hr_Method r = ''PUT'' then v @ [r] else v,
        Inr \<lparr> hs_StatusCode = code, hs_Status = [], hs_Header = [], hs_Body = [], hs_BodyErr = None \<rparr>)),
     wc_now = (\<lambda>v. 5000000000), wc_parse_url = (\<lambda>u q. Inr u), wc_request_err = (\<lambda>m u. None),
     wc_parse_time = (\<lambda>t. None), wc_json = sample_json \<rparr>"

definition sample_send_lib :: send_lib where
  "sample_send_lib = \<lparr> sl_marshal = (\<lambda>c. Inr [7]), sl_public_key = Inr, sl_kyber_key = Inr,
     sl_bundle_err = (\<lambda>b. None), sl_process = (\<lambda>b r l t s. (s, None)),
     sl_encrypt = (\<lambda>p r l t s. (s, Inr \<lparr> cm_Type = Inr 2, cm_Serialize = Inr [1] \<rparr>)),
     sl_usmc = (\<lambda>c t. cm_Serialize c), sl_usmc_serialize = Inr, sl_session = Inr,
     sl_session_regid = (\<lambda>b. Inr 77), sl_cert = (\<lambda>b. Inl ''cert''), sl_cert_expiration = (\<lambda>c. Inr 0),
     sl_trust_roots = None \<rparr>"

definition sample_receiver_env :: "('r, 'v) client_env" where
  "sample_receiver_env = \<lparr> ce_eventBufferSize = 4, ce_autoMarkRead = False, ce_autoSyncStorage = False,
     ce_autoSyncGroupUpdates = False, ce_has_storageWebc = False, ce_has_accountStore = False,
     ce_unmarshal_Envelope = (\<lambda>b. Inl ''pb''), ce_unmarshal_Content = (\<lambda>b. Inl ''pb''),
     ce_deriveAccessKey = (\<lambda>k. Inr (take 16 k)), ce_Decrypt = (\<lambda>e s. (s, Inl ''none'')),
     ce_libsignal = sample_libsignal, ce_saveAccount = (\<lambda>a. None) \<rparr>"

definition sample_send_env :: "int \<Rightarrow> (nat, http_request list) send_env" where
  "sample_send_env code = \<lparr> se_client = sample_receiver_env, se_web = sample_web code,
     se_lib = sample_send_lib, se_wired = True \<rparr>"

definition sample_sender :: "(nat, http_request list) sender" where
  "sample_sender = \<lparr> sn_client = \<lparr> cl_acct = sample_account,
       cl_maint = \<lparr> mt_stores = sql_empty\<lparr> sq_sessions := [(''a.2'', [1])] \<rparr>, mt_rand = 0, mt_server = [],
         mt_saved = None \<rparr>,
       cl_events = [], cl_expireTimers = [], cl_profileKeys = [], cl_uaks = [], cl_groupRevision = [],
       cl_tasks = [], cl_storageVersion = 0, cl_storedContacts = [], cl_storedGroups = [] \<rparr>,
     sn_knownDevices = [(''a'', [2])], sn_keysRateLimit = [], sn_allowSealed = [], sn_senderCert = None \<rparr>"

lemma sample_records: "records_puts (sample_web code) (\<lambda>v. v)"
  by (simp add: records_puts_def sample_web_def)

definition sample_opts :: deliveryOpts where
  "sample_opts = \<lparr> do_Urgent = True, do_Online = False, do_Silent = False \<rparr>"

lemmas send_run_defs = sendContent_def discoverAndEnsureSessions_def session_missing_def sql_LoadSession_def
  sql_row_def Address_String_def peer_def dec_digits.simps ensureRecipientUAK_def deliverBasicAuth_def
  deliver_with_def buildSendRequest_def encryptForDevice_def call_addresses_def NewAddress_def on_stores_def
  set_stores_def sn_stores_def session_regid_def on_world_def set_world_def sn_world_def SendMessage_def
  send_request_def map_err_def decode_out_def Do_def buildURL_def request_body_def get_request_def
  read_limited_def credentials_def no_creds_given_def handleSendError_def mapSendError_def delete_session_def
  sql_DeleteSession_def sql_exec_def filterOutDevices_def addressDeviceIDs_def Let_def

lemmas sample_send_defs = sample_send_env_def sample_sender_def sample_web_def sample_json_def
  sample_send_lib_def sample_receiver_env_def sample_libsignal_def sample_account_def sql_empty_def

lemma digit_two [simp]: "(char_of (50 :: nat) :: char) = CHR ''2''"
  by code_simp

lemma sample_send_ok: "is_ok (snd (sendContent (sample_send_env 200) ''a'' [7] 9 sample_opts sample_sender))"
  by (simp add: send_run_defs sample_send_defs)

lemma sample_send_mismatch:
  "map_of (sn_knownDevices (fst (sendContent (sample_send_env 409) ''a'' [7] 9 sample_opts sample_sender))) ''a'' = Some []"
  by (simp add: send_run_defs sample_send_defs)

theorem send_requests_witness:
  "\<exists>reqs. sn_world (fst (sendContent (sample_send_env 200) ''a'' [7] 9 sample_opts sample_sender)) = reqs \<and>
    reqs \<noteq> [] \<and> length reqs \<le> 2 \<and> list_all (identified (credentials sample_sender)) reqs"
proof -
  let ?r = "sendContent (sample_send_env 200) ''a'' [7] 9 sample_opts sample_sender"
  have "records_puts (se_web (sample_send_env 200)) (\<lambda>v. v)"
    using sample_records by (simp add: sample_send_env_def)
  from send_requests [OF this, of "''a''" "[7]" 9 sample_opts sample_sender "fst ?r" "snd ?r"] sample_send_ok
  show ?thesis by (auto simp: sample_sender_def sn_world_def)
qed


theorem mismatch_repair_witness:
  "\<exists>s'. handleSendError (sample_send_env 409) no_creds ''a'' [peer ''a'' 2] (WMismatched [] [2]) sample_sender =
      (s', Inr []) \<and> session s' (peer ''a'' 2) = Inl ErrRecordNotFound"
proof -
  have p: "process_local (se_lib (sample_send_env 409))"
    by (simp add: process_local_def sample_send_env_def sample_send_lib_def)
  have r: "sql_ready (sn_stores sample_sender)"
    by (simp add: sql_ready_def sn_stores_def sample_sender_def sql_empty_def)
  obtain s' where h: "handleSendError (sample_send_env 409) no_creds ''a'' [peer ''a'' 2] (WMismatched [] [2]) sample_sender
      = (s', Inr [])"
    by (simp add: send_run_defs sample_send_defs)
  have "session s' (peer ''a'' 2) = (if peer ''a'' 2 \<in> peer ''a'' ` set [] then session s' (peer ''a'' 2)
      else if peer ''a'' 2 \<in> peer ''a'' ` set [2] then Inl ErrRecordNotFound else session sample_sender (peer ''a'' 2))"
    using mismatch_repair [OF p r _ h, of "[]" "[2]"] by simp
  with h show ?thesis by simp
qed






end
