(* ===== verification/Ws.thy ===== *)
theory Ws
  imports Prelude "HOL-Library.AList"
begin

text \<open>
  The request multiplexer of internal/ws/client.go: Send, Close, the read loop and the handler
  goroutines as one transition system. A step is what one goroutine does between two points
  where others may run: under the mutex, one channel operation, or one network operation. Calls
  of Send are numbered; each has its own channel of capacity one.
\<close>

section \<open>State\<close>

record ws_request =
  wr_Verb :: string
  wr_Path :: string
  wr_Headers :: "string list"
  wr_Body :: bytes
  wr_Id :: u64

record ws_response =
  wp_Id :: u64
  wp_Status :: u32
  wp_Message :: string
  wp_Body :: bytes

text \<open>A message by its type; the payload pointer may be nil.\<close>

datatype ws_message = WsRequest "ws_request option" | WsResponse "ws_response option" | WsUnknown

datatype send_err = SeClosed | SeClosedDuring | SeCtx | SeRead string | SeLoopExited | SeWrite string

type_synonym send_result = "send_err + ws_response"

text \<open>Where a call of Send is: before the lock, before the write, in the select, before the deferred delete.\<close>

datatype phase = PhNew | PhRegistered | PhWaiting | PhFinishing send_result | PhDone send_result

record call =
  ca_Id :: u64
  ca_Phase :: phase
  ca_Buf :: "ws_response option"
  ca_Open :: bool
  ca_Req :: ws_request

text \<open>The read loop, and the keepalive goroutine.\<close>

datatype loop = LpRunning | LpFailing | LpClosing | LpExited

text \<open>
  The last two fields are what was written to and read from the network. \<open>wc_panicked\<close> records a
  send on, or a close of, a closed channel.
\<close>

datatype keepalive = KaIdle | KaPinging | KaExited

record ws_client =
  wc_connOpen :: bool
  wc_keepalive :: keepalive
  wc_nextID :: u64
  wc_pending :: "(u64 \<times> nat) list"
  wc_closed :: bool
  wc_readErr :: "string option"
  wc_done :: bool
  wc_calls :: "call list"
  wc_loop :: loop
  wc_handlers :: "ws_request list"
  wc_closers :: nat
  wc_panicked :: bool
  wc_out :: "ws_message list"
  wc_in :: "ws_message list"

definition newClient :: "bool \<Rightarrow> ws_client" where
  "newClient keepalive = \<lparr> wc_connOpen = True, wc_keepalive = (if keepalive then KaIdle else KaExited),
     wc_nextID = 0, wc_pending = [], wc_closed = False, wc_readErr = None, wc_done = False,
     wc_calls = [], wc_loop = LpRunning, wc_handlers = [], wc_closers = 0, wc_panicked = False,
     wc_out = [], wc_in = [] \<rparr>"

text \<open>The handler of the options; None is nil. Its result is an error text or a response.\<close>

type_synonym ws_handler = "(ws_request \<Rightarrow> string + (u32 \<times> string \<times> bytes)) option"

definition set_call :: "nat \<Rightarrow> call \<Rightarrow> ws_client \<Rightarrow> ws_client" where
  "set_call k c s = s\<lparr> wc_calls := (wc_calls s)[k := c] \<rparr>"

definition set_phase :: "nat \<Rightarrow> phase \<Rightarrow> ws_client \<Rightarrow> ws_client" where
  "set_phase k p s = set_call k ((wc_calls s ! k)\<lparr> ca_Phase := p \<rparr>) s"

section \<open>The atomic parts\<close>

definition send_begin :: "ws_request \<Rightarrow> ws_client \<Rightarrow> ws_client" where
  "send_begin req s =
    (let i = wc_nextID s + 1 in
     s\<lparr> wc_nextID := i,
        wc_calls := wc_calls s @ [\<lparr> ca_Id = i, ca_Phase = PhNew, ca_Buf = None, ca_Open = True,
          ca_Req = req\<lparr> wr_Id := i \<rparr> \<rparr>] \<rparr>)"

definition send_register :: "nat \<Rightarrow> ws_client \<Rightarrow> ws_client" where
  "send_register k s =
    (if wc_closed s then set_phase k (PhDone (Inl SeClosed)) s
     else set_phase k PhRegistered s\<lparr> wc_pending := AList.update (ca_Id (wc_calls s ! k)) k (wc_pending s) \<rparr>)"

definition send_write :: "nat \<Rightarrow> string option \<Rightarrow> ws_client \<Rightarrow> ws_client" where
  "send_write k err s =
    (case err of
       Some e \<Rightarrow> set_phase k (PhFinishing (Inl (SeWrite e))) s
     | None \<Rightarrow> set_phase k PhWaiting s\<lparr> wc_out := wc_out s @ [WsRequest (Some (ca_Req (wc_calls s ! k)))] \<rparr>)"

definition send_receive :: "nat \<Rightarrow> ws_client \<Rightarrow> ws_client" where
  "send_receive k s =
    (case ca_Buf (wc_calls s ! k) of
       Some r \<Rightarrow> set_call k ((wc_calls s ! k)\<lparr> ca_Phase := PhFinishing (Inr r), ca_Buf := None \<rparr>) s
     | None \<Rightarrow> set_phase k (PhFinishing (Inl SeClosedDuring)) s)"

definition ReadError :: "ws_client \<Rightarrow> string option" where
  "ReadError s = wc_readErr s"

definition send_loop_exited :: "nat \<Rightarrow> ws_client \<Rightarrow> ws_client" where
  "send_loop_exited k s =
    set_phase k (PhFinishing (Inl (case ReadError s of Some e \<Rightarrow> SeRead e | None \<Rightarrow> SeLoopExited))) s"

definition send_finish :: "nat \<Rightarrow> send_result \<Rightarrow> ws_client \<Rightarrow> ws_client" where
  "send_finish k r s =
    set_phase k (PhDone r) s\<lparr> wc_pending := AList.delete (ca_Id (wc_calls s ! k)) (wc_pending s) \<rparr>"

text \<open>
  The two ways the read loop fails: reading, after which the websocket library has closed the
  connection, and unmarshalling, which leaves it open.
\<close>

definition read_error :: "string \<Rightarrow> ws_client \<Rightarrow> ws_client" where
  "read_error e s = s\<lparr> wc_connOpen := False, wc_readErr := Some e, wc_loop := LpFailing \<rparr>"

definition unmarshal_error :: "string \<Rightarrow> ws_client \<Rightarrow> ws_client" where
  "unmarshal_error e s = s\<lparr> wc_readErr := Some (''ws.Client: unmarshal: '' @ e), wc_loop := LpFailing \<rparr>"

definition ping_failed :: "ws_client \<Rightarrow> ws_client" where
  "ping_failed s = s\<lparr> wc_connOpen := False, wc_keepalive := KaExited \<rparr>"

text \<open>Closing every pending channel and emptying the map, as Close and failPending do.\<close>

definition close_channel :: "nat \<Rightarrow> ws_client \<Rightarrow> ws_client" where
  "close_channel k s =
    (if ca_Open (wc_calls s ! k) then set_call k ((wc_calls s ! k)\<lparr> ca_Open := False \<rparr>) s
     else s\<lparr> wc_panicked := True \<rparr>)"

definition close_pending :: "ws_client \<Rightarrow> ws_client" where
  "close_pending s =
    (foldl (\<lambda>s (i, k). close_channel k s) s (wc_pending s))\<lparr> wc_closed := True, wc_pending := [] \<rparr>"

definition failPending :: "ws_client \<Rightarrow> ws_client" where
  "failPending s = close_pending s"

definition Close_lock :: "ws_client \<Rightarrow> ws_client" where
  "Close_lock s =
    (if wc_closed s then s
     else close_pending s\<lparr> wc_connOpen := False, wc_closers := wc_closers s + 1 \<rparr>)"

definition reply :: "ws_request \<Rightarrow> u32 \<Rightarrow> string \<Rightarrow> bytes \<Rightarrow> ws_message" where
  "reply req status message body =
    WsResponse (Some \<lparr> wp_Id = wr_Id req, wp_Status = status, wp_Message = message, wp_Body = body \<rparr>)"

text \<open>Whether the reply's write succeeds is \<open>ok\<close>; its error is ignored.\<close>

definition dispatchRequest :: "ws_handler \<Rightarrow> bool \<Rightarrow> ws_request option \<Rightarrow> ws_client \<Rightarrow> ws_client" where
  "dispatchRequest h ok req s =
    (case req of
       None \<Rightarrow> s
     | Some r \<Rightarrow>
       (case h of
          None \<Rightarrow> (if ok then s\<lparr> wc_out := wc_out s @ [reply r 400 ''no handler'' []] \<rparr> else s)
        | Some _ \<Rightarrow> s\<lparr> wc_handlers := wc_handlers s @ [r] \<rparr>))"

definition handler_reply :: "ws_handler \<Rightarrow> ws_request \<Rightarrow> ws_message" where
  "handler_reply h req =
    (case h of
       None \<Rightarrow> reply req 400 ''no handler'' []
     | Some f \<Rightarrow>
       (case f req of
          Inl e \<Rightarrow> reply req 500 e []
        | Inr (status, message, body) \<Rightarrow> reply req status message body))"

definition dispatchResponse :: "ws_response option \<Rightarrow> ws_client \<Rightarrow> ws_client" where
  "dispatchResponse resp s =
    (case resp of
       None \<Rightarrow> s
     | Some r \<Rightarrow>
       (case map_of (wc_pending s) (wp_Id r) of
          None \<Rightarrow> s
        | Some k \<Rightarrow>
          let c = wc_calls s ! k in
          if \<not> ca_Open c then s\<lparr> wc_panicked := True \<rparr>
          else if ca_Buf c = None then set_call k (c\<lparr> ca_Buf := Some r \<rparr>) s
          else s))"

definition read_message :: "ws_handler \<Rightarrow> bool \<Rightarrow> ws_message \<Rightarrow> ws_client \<Rightarrow> ws_client" where
  "read_message h ok m s =
    (let s = s\<lparr> wc_in := wc_in s @ [m] \<rparr> in
     case m of
       WsRequest req \<Rightarrow> dispatchRequest h ok req s
     | WsResponse resp \<Rightarrow> dispatchResponse resp s
     | WsUnknown \<Rightarrow> s)"

section \<open>Steps\<close>

definition in_phase :: "ws_client \<Rightarrow> nat \<Rightarrow> phase \<Rightarrow> bool" where
  "in_phase s k p \<longleftrightarrow> k < length (wc_calls s) \<and> ca_Phase (wc_calls s ! k) = p"

text \<open>
  \<open>drain\<close> has the steps the goroutines take by themselves: a write returns, a read on a closed
  connection fails. \<open>ws_step\<close> adds what comes from outside: calls, cancelled contexts, frames,
  network failures, ticks of the timer.
\<close>

inductive drain :: "ws_handler \<Rightarrow> ws_client \<Rightarrow> ws_client \<Rightarrow> bool" for h where
  Register: "in_phase s k PhNew \<Longrightarrow> drain h s (send_register k s)"
| Write: "in_phase s k PhRegistered \<Longrightarrow> drain h s (send_write k err s)"
| Receive: "in_phase s k PhWaiting \<Longrightarrow>
    ca_Buf (wc_calls s ! k) \<noteq> None \<or> \<not> ca_Open (wc_calls s ! k) \<Longrightarrow> drain h s (send_receive k s)"
| LoopExited: "in_phase s k PhWaiting \<Longrightarrow> wc_done s \<Longrightarrow> drain h s (send_loop_exited k s)"
| Finish: "in_phase s k (PhFinishing r) \<Longrightarrow> drain h s (send_finish k r s)"
| Handle: "wc_handlers s = xs @ req # ys \<Longrightarrow>
    drain h s (s\<lparr> wc_handlers := xs @ ys, wc_out := wc_out s @ [handler_reply h req] \<rparr>)"
| HandleNoWrite: "wc_handlers s = xs @ req # ys \<Longrightarrow> drain h s (s\<lparr> wc_handlers := xs @ ys \<rparr>)"
| ReadErr: "wc_loop s = LpRunning \<Longrightarrow> \<not> wc_connOpen s \<Longrightarrow> drain h s (read_error e s)"
| LoopFail: "wc_loop s = LpFailing \<Longrightarrow> drain h s (failPending s\<lparr> wc_loop := LpClosing \<rparr>)"
| LoopDone: "wc_loop s = LpClosing \<Longrightarrow> drain h s (s\<lparr> wc_loop := LpExited, wc_done := True \<rparr>)"
| CloseReturns: "wc_done s \<Longrightarrow> wc_closers s > 0 \<Longrightarrow> drain h s (s\<lparr> wc_closers := wc_closers s - 1 \<rparr>)"

inductive ws_step :: "ws_handler \<Rightarrow> ws_client \<Rightarrow> ws_client \<Rightarrow> bool" for h where
  Drain: "drain h s s' \<Longrightarrow> ws_step h s s'"
| Call: "ws_step h s (send_begin req s)"
| Cancelled: "in_phase s k PhWaiting \<Longrightarrow> ws_step h s (set_phase k (PhFinishing (Inl SeCtx)) s)"
| ReadFailed: "wc_loop s = LpRunning \<Longrightarrow> ws_step h s (read_error e s)"
| Read: "wc_loop s = LpRunning \<Longrightarrow> ws_step h s (read_message h ok m s)"
| BadFrame: "wc_loop s = LpRunning \<Longrightarrow> ws_step h s (unmarshal_error e s)"
| Close: "ws_step h s (Close_lock s)"
| Tick: "wc_keepalive s = KaIdle \<Longrightarrow> ws_step h s (s\<lparr> wc_keepalive := KaPinging \<rparr>)"
| Pong: "wc_keepalive s = KaPinging \<Longrightarrow> ws_step h s (s\<lparr> wc_keepalive := KaIdle \<rparr>)"
| PingFailed: "wc_keepalive s = KaPinging \<Longrightarrow> ws_step h s (ping_failed s)"
| KeepaliveStop: "wc_keepalive s = KaIdle \<Longrightarrow> wc_done s \<Longrightarrow> ws_step h s (s\<lparr> wc_keepalive := KaExited \<rparr>)"

definition ws_reachable :: "ws_handler \<Rightarrow> ws_client \<Rightarrow> bool" where
  "ws_reachable h s \<longleftrightarrow> (\<exists>keepalive. (ws_step h)\<^sup>*\<^sup>* (newClient keepalive) s)"

inductive_cases drainE: "drain h s s'"
inductive_cases ws_stepE: "ws_step h s s'"

section \<open>The invariant\<close>

text \<open>
  Every pending entry names a call with that id that is between registration and its deferred
  delete and whose channel is open; a buffered or returned response has the id of its call and
  was read; calls that got past the write have their request on the network.
\<close>

definition live :: "phase \<Rightarrow> bool" where
  "live p \<longleftrightarrow> p = PhRegistered \<or> p = PhWaiting \<or> (\<exists>r. p = PhFinishing r)"

definition pending_ok :: "ws_client \<Rightarrow> bool" where
  "pending_ok s \<longleftrightarrow> distinct (map fst (wc_pending s)) \<and>
     (\<forall>(i, k) \<in> set (wc_pending s). k < length (wc_calls s) \<and> ca_Id (wc_calls s ! k) = i \<and>
        ca_Open (wc_calls s ! k) \<and> live (ca_Phase (wc_calls s ! k)))"

definition got :: "call \<Rightarrow> ws_response option" where
  "got c = (case ca_Phase c of
      PhFinishing (Inr r) \<Rightarrow> Some r | PhDone (Inr r) \<Rightarrow> Some r | _ \<Rightarrow> None)"

definition wrote :: "call \<Rightarrow> bool" where
  "wrote c \<longleftrightarrow> (case ca_Phase c of
      PhWaiting \<Rightarrow> True | PhFinishing (Inr r) \<Rightarrow> True | PhDone (Inr r) \<Rightarrow> True | _ \<Rightarrow> False)"

definition call_ok :: "ws_message set \<Rightarrow> ws_message set \<Rightarrow> call \<Rightarrow> bool" where
  "call_ok inp out c \<longleftrightarrow> wr_Id (ca_Req c) = ca_Id c \<and>
     (\<forall>r. ca_Buf c = Some r \<longrightarrow> wp_Id r = ca_Id c \<and> WsResponse (Some r) \<in> inp) \<and>
     (\<forall>r. got c = Some r \<longrightarrow> wp_Id r = ca_Id c \<and> WsResponse (Some r) \<in> inp) \<and>
     (wrote c \<longrightarrow> WsRequest (Some (ca_Req c)) \<in> out)"

definition ids_ok :: "ws_client \<Rightarrow> bool" where
  "ids_ok s \<longleftrightarrow> wc_nextID s = of_nat (length (wc_calls s)) \<and>
     (\<forall>k < length (wc_calls s). ca_Id (wc_calls s ! k) = of_nat (Suc k))"

definition ws_inv :: "ws_client \<Rightarrow> bool" where
  "ws_inv s \<longleftrightarrow> \<not> wc_panicked s \<and> pending_ok s \<and> ids_ok s \<and>
     list_all (call_ok (set (wc_in s)) (set (wc_out s))) (wc_calls s)"

end
