(* ===== verification/WsLaws.thy ===== *)
theory WsLaws
  imports Ws
begin

text \<open>
  The multiplexer's invariant, the correlation of responses, and how calls end once the read
  loop is gone.
\<close>

section \<open>The invariant is kept\<close>

lemma length_set_call [simp]: "length (wc_calls (set_call k c s)) = length (wc_calls s)"
  by (simp add: set_call_def)

lemma set_call_fields [simp]:
  "wc_pending (set_call k c s) = wc_pending s" "wc_panicked (set_call k c s) = wc_panicked s"
  "wc_in (set_call k c s) = wc_in s" "wc_out (set_call k c s) = wc_out s"
  "wc_nextID (set_call k c s) = wc_nextID s" "wc_closed (set_call k c s) = wc_closed s"
  "wc_calls (set_call k c s) = (wc_calls s)[k := c]"
  by (simp_all add: set_call_def)

lemma call_ok_mono: "call_ok i o1 c \<Longrightarrow> i \<subseteq> i' \<Longrightarrow> o1 \<subseteq> o2 \<Longrightarrow> call_ok i' o2 c"
  by (auto simp: call_ok_def)

lemma inv_call: "ws_inv s \<Longrightarrow> k < length (wc_calls s) \<Longrightarrow> call_ok (set (wc_in s)) (set (wc_out s)) (wc_calls s ! k)"
  by (simp add: ws_inv_def list_all_length)

lemma inv_set_call:
  assumes "ws_inv s" "k < length (wc_calls s)" "ca_Id c = ca_Id (wc_calls s ! k)"
    "call_ok (set (wc_in s)) (set (wc_out s)) c"
    "\<And>i. (i, k) \<in> set (wc_pending s) \<Longrightarrow> ca_Open c \<and> live (ca_Phase c)"
  shows "ws_inv (set_call k c s)"
proof -
  have "pending_ok (set_call k c s)"
    using assms unfolding ws_inv_def pending_ok_def
    by (auto simp: nth_list_update)
  moreover have "ids_ok (set_call k c s)"
    using assms unfolding ws_inv_def ids_ok_def by (auto simp: nth_list_update)
  ultimately show ?thesis
    using assms by (auto simp: ws_inv_def list_all_length nth_list_update)
qed

lemma pending_live: "ws_inv s \<Longrightarrow> (i, k) \<in> set (wc_pending s) \<Longrightarrow>
    k < length (wc_calls s) \<and> ca_Id (wc_calls s ! k) = i \<and> ca_Open (wc_calls s ! k) \<and> live (ca_Phase (wc_calls s ! k))"
  by (auto simp: ws_inv_def pending_ok_def)

text \<open>Fields the invariant does not read, and the network logs, which only grow.\<close>

lemma inv_fields:
  assumes "ws_inv s" "wc_calls s' = wc_calls s" "wc_pending s' = wc_pending s" "wc_nextID s' = wc_nextID s"
    "wc_panicked s' = wc_panicked s" "set (wc_in s) \<subseteq> set (wc_in s')" "set (wc_out s) \<subseteq> set (wc_out s')"
  shows "ws_inv s'"
  using assms call_ok_mono [OF _ assms(6,7)]
  by (auto simp: ws_inv_def pending_ok_def ids_ok_def list_all_iff)

lemma inv_delete:
  assumes "ws_inv s"
  shows "ws_inv (s\<lparr> wc_pending := AList.delete i (wc_pending s) \<rparr>)"
proof -
  have "set (AList.delete i (wc_pending s)) \<subseteq> set (wc_pending s)" by (auto simp: AList.delete_eq)
  then show ?thesis
    using assms by (auto simp: ws_inv_def pending_ok_def ids_ok_def distinct_delete)
qed

lemma inv_register:
  assumes "ws_inv s" "k < length (wc_calls s)" "ca_Open (wc_calls s ! k)" "live (ca_Phase (wc_calls s ! k))"
  shows "ws_inv (s\<lparr> wc_pending := AList.update (ca_Id (wc_calls s ! k)) k (wc_pending s) \<rparr>)"
proof -
  have u: "set (AList.update i j al) \<subseteq> insert (i, j) (set al)" for i j and al :: "(u64 \<times> nat) list"
    by (induction al) auto
  show ?thesis
    using assms u [of "ca_Id (wc_calls s ! k)" k "wc_pending s"]
    by (fastforce simp: ws_inv_def pending_ok_def ids_ok_def distinct_update)
qed

text \<open>A channel is open while its call has not come to the end of its registration.\<close>

definition new_open :: "ws_client \<Rightarrow> bool" where
  "new_open s \<longleftrightarrow> (\<forall>k < length (wc_calls s). ca_Phase (wc_calls s ! k) = PhNew \<longrightarrow>
     ca_Open (wc_calls s ! k) \<and> ca_Buf (wc_calls s ! k) = None)"

lemma pending_snd_distinct:
  assumes "ws_inv s"
  shows "distinct (map snd (wc_pending s))"
proof -
  have "inj_on snd (set (wc_pending s))"
  proof (rule inj_onI)
    fix p q assume "p \<in> set (wc_pending s)" "q \<in> set (wc_pending s)" "snd p = snd q"
    then show "p = q"
      using pending_live [OF assms, of "fst p" "snd p"] pending_live [OF assms, of "fst q" "snd q"]
      by (metis prod.collapse)
  qed
  moreover have "distinct (wc_pending s)"
    using assms distinct_map by (auto simp: ws_inv_def pending_ok_def)
  ultimately show ?thesis by (simp add: distinct_map)
qed

definition closed_at :: "nat set \<Rightarrow> ws_client \<Rightarrow> ws_client \<Rightarrow> bool" where
  "closed_at ks s s' \<longleftrightarrow> length (wc_calls s') = length (wc_calls s) \<and>
     (\<forall>j < length (wc_calls s). wc_calls s' ! j =
        (if j \<in> ks then (wc_calls s ! j)\<lparr> ca_Open := False \<rparr> else wc_calls s ! j)) \<and>
     s' = s\<lparr> wc_calls := wc_calls s' \<rparr>"

lemma close_fold:
  assumes "distinct (map snd ps)" "\<And>i k. (i, k) \<in> set ps \<Longrightarrow> k < length (wc_calls s) \<and> ca_Open (wc_calls s ! k)"
  shows "closed_at (snd ` set ps) s (foldl (\<lambda>s (i, k). close_channel k s) s ps)"
  using assms
proof (induction ps arbitrary: s)
  case (Cons p ps)
  obtain i k where p: "p = (i, k)" by (cases p)
  have k: "k < length (wc_calls s)" "ca_Open (wc_calls s ! k)" using Cons.prems(2) [of i k] p by auto
  let ?s1 = "set_call k ((wc_calls s ! k)\<lparr> ca_Open := False \<rparr>) s"
  have c: "close_channel k s = ?s1" using k by (simp add: close_channel_def)
  have "k \<notin> snd ` set ps" using Cons.prems(1) p by simp
  then have "closed_at (snd ` set ps) ?s1 (foldl (\<lambda>s (i, k). close_channel k s) ?s1 ps)"
    using Cons.prems by (intro Cons.IH) (auto simp: nth_list_update image_iff, force+)
  then show ?case
    using k \<open>k \<notin> snd ` set ps\<close> by (auto simp: closed_at_def p c set_call_def nth_list_update)
qed (simp add: closed_at_def)

lemma closed_at_fields:
  assumes "closed_at ks s s'"
  shows "wc_nextID s' = wc_nextID s" "wc_panicked s' = wc_panicked s" "wc_in s' = wc_in s" "wc_out s' = wc_out s"
proof -
  obtain cs where "s' = s\<lparr> wc_calls := cs \<rparr>" using assms unfolding closed_at_def by blast
  then show "wc_nextID s' = wc_nextID s" "wc_panicked s' = wc_panicked s" "wc_in s' = wc_in s" "wc_out s' = wc_out s"
    by simp_all
qed

lemma inv_close_pending:
  assumes "ws_inv s"
  shows "ws_inv (close_pending s)"
proof -
  let ?s1 = "foldl (\<lambda>s (i, k). close_channel k s) s (wc_pending s)"
  have c: "closed_at (snd ` set (wc_pending s)) s ?s1"
    using pending_live [OF assms] by (intro close_fold pending_snd_distinct [OF assms]) auto
  note f = closed_at_fields [OF c]
  have ok: "call_ok i out (c\<lparr> ca_Open := b \<rparr>) = call_ok i out c" for i out c b
    by (simp add: call_ok_def got_def wrote_def)
  have "list_all (call_ok (set (wc_in s)) (set (wc_out s))) (wc_calls ?s1)"
    using c assms by (auto simp: closed_at_def ws_inv_def list_all_length ok)
  moreover have "ids_ok ?s1"
    using c assms by (auto simp: closed_at_def ws_inv_def ids_ok_def f)
  ultimately show ?thesis
    using assms by (simp add: close_pending_def ws_inv_def pending_ok_def ids_ok_def f)
qed

section \<open>Every step\<close>

text \<open>Changes of a call that stay within its registration, or leave it.\<close>

lemma call_ok_phase:
  assumes "call_ok i out c" "live (ca_Phase c) \<or> ca_Phase c = PhNew" "\<And>r. p \<noteq> PhFinishing (Inr r)" "\<And>r. p \<noteq> PhDone (Inr r)"
    "p = PhWaiting \<Longrightarrow> WsRequest (Some (ca_Req c)) \<in> out"
  shows "call_ok i out (c\<lparr> ca_Phase := p \<rparr>)"
  using assms by (auto simp: call_ok_def got_def wrote_def split: phase.splits sum.splits)

lemma inv_set_phase:
  assumes "ws_inv s" "k < length (wc_calls s)" "live (ca_Phase (wc_calls s ! k)) \<or> ca_Phase (wc_calls s ! k) = PhNew"
    "\<And>r. p \<noteq> PhFinishing (Inr r)" "\<And>r. p \<noteq> PhDone (Inr r)"
    "p = PhWaiting \<Longrightarrow> WsRequest (Some (ca_Req (wc_calls s ! k))) \<in> set (wc_out s)"
    "live p \<or> k \<notin> snd ` set (wc_pending s)"
  shows "ws_inv (set_phase k p s)"
  unfolding set_phase_def
  by (rule inv_set_call [OF assms(1,2)])
     (use assms call_ok_phase [OF inv_call [OF assms(1,2)] assms(3-6)] pending_live [OF assms(1)] in
       \<open>auto simp: image_iff\<close>)

definition ws_good :: "ws_client \<Rightarrow> bool" where
  "ws_good s \<longleftrightarrow> ws_inv s \<and> new_open s"

lemma new_not_pending:
  "ws_inv s \<Longrightarrow> in_phase s k PhNew \<Longrightarrow> k \<notin> snd ` set (wc_pending s)"
  using pending_live [of s _ k] by (fastforce simp: in_phase_def live_def)

lemma good_begin:
  assumes "ws_good s"
  shows "ws_good (send_begin req s)"
  using assms
  by (auto simp: ws_good_def ws_inv_def new_open_def pending_ok_def ids_ok_def send_begin_def Let_def nth_append
      call_ok_def got_def wrote_def less_Suc_eq)

lemma good_register:
  assumes "ws_good s" "in_phase s k PhNew"
  shows "ws_good (send_register k s)"
proof -
  have k: "k < length (wc_calls s)" "ca_Phase (wc_calls s ! k) = PhNew" "ca_Open (wc_calls s ! k)"
    using assms by (auto simp: in_phase_def ws_good_def new_open_def)
  have i: "ws_inv s" and n: "k \<notin> snd ` set (wc_pending s)"
    using assms new_not_pending by (auto simp: ws_good_def)
  have refused: "ws_inv (set_phase k (PhDone (Inl SeClosed)) s)" and reg: "ws_inv (set_phase k PhRegistered s)"
    using i k n by (auto intro!: inv_set_phase)
  have "ws_inv (set_phase k PhRegistered s\<lparr> wc_pending :=
      AList.update (ca_Id (wc_calls (set_phase k PhRegistered s) ! k)) k (wc_pending (set_phase k PhRegistered s)) \<rparr>)"
    by (rule inv_register [OF reg]) (use k in \<open>simp_all add: set_phase_def live_def\<close>)
  then have "ws_inv (send_register k s)"
    using refused k by (simp add: send_register_def set_phase_def)
  moreover have "new_open (send_register k s)"
    using assms(1) k(1)
    by (auto simp: ws_good_def new_open_def send_register_def set_phase_def nth_list_update)
  ultimately show ?thesis by (simp add: ws_good_def)
qed

lemma good_step_call:
  assumes "ws_good s" "ws_inv s'" "wc_calls s' = (wc_calls s)[k := c]" "ca_Phase c \<noteq> PhNew"
  shows "ws_good s'"
  using assms
  by (auto simp: ws_good_def new_open_def) (metis nth_list_update_eq nth_list_update_neq)+

lemma good_fields:
  assumes "ws_good s" "wc_calls s' = wc_calls s" "wc_pending s' = wc_pending s" "wc_nextID s' = wc_nextID s"
    "wc_panicked s' = wc_panicked s" "set (wc_in s) \<subseteq> set (wc_in s')" "set (wc_out s) \<subseteq> set (wc_out s')"
  shows "ws_good s'"
  using assms inv_fields [of s s'] by (simp add: ws_good_def new_open_def)

lemma good_write:
  assumes "ws_good s" "in_phase s k PhRegistered"
  shows "ws_good (send_write k err s)"
proof (cases err)
  case None
  let ?s1 = "s\<lparr> wc_out := wc_out s @ [WsRequest (Some (ca_Req (wc_calls s ! k)))] \<rparr>"
  have "ws_inv ?s1" using assms(1) by (auto simp: ws_good_def intro: inv_fields)
  then have "ws_inv (set_phase k PhWaiting ?s1)"
    using assms(2) by (intro inv_set_phase) (auto simp: in_phase_def live_def)
  moreover have "set_phase k PhWaiting ?s1 = send_write k err s"
    by (simp add: send_write_def None set_phase_def set_call_def)
  moreover have "wc_calls (send_write k err s) = (wc_calls s)[k := (wc_calls s ! k)\<lparr> ca_Phase := PhWaiting \<rparr>]"
    by (simp add: send_write_def None set_phase_def)
  ultimately show ?thesis
    using good_step_call [OF assms(1), of "send_write k err s" k "(wc_calls s ! k)\<lparr> ca_Phase := PhWaiting \<rparr>"]
    by simp
next
  case (Some e)
  have "ws_inv (send_write k err s)"
    using assms unfolding Some send_write_def option.case
    by (intro inv_set_phase) (auto simp: ws_good_def in_phase_def live_def)
  then show ?thesis
    using good_step_call [OF assms(1), of "send_write k err s" k]
    by (simp add: send_write_def Some set_phase_def set_call_def)
qed

lemma good_waiting:
  assumes "ws_good s" "in_phase s k PhWaiting"
  shows "ws_good (set_phase k (PhFinishing (Inl e)) s)"
proof -
  have "ws_inv (set_phase k (PhFinishing (Inl e)) s)"
    using assms by (intro inv_set_phase) (auto simp: ws_good_def in_phase_def live_def)
  then show ?thesis using good_step_call [OF assms(1)] by (simp add: set_phase_def set_call_def)
qed

lemma good_receive:
  assumes "ws_good s" "in_phase s k PhWaiting"
  shows "ws_good (send_receive k s)"
proof (cases "ca_Buf (wc_calls s ! k)")
  case None
  then show ?thesis using good_waiting [OF assms] by (simp add: send_receive_def)
next
  case (Some r)
  let ?c = "(wc_calls s ! k)\<lparr> ca_Phase := PhFinishing (Inr r), ca_Buf := None \<rparr>"
  have k: "k < length (wc_calls s)" "ca_Phase (wc_calls s ! k) = PhWaiting" "ws_inv s"
    using assms by (auto simp: in_phase_def ws_good_def)
  have "ws_inv (set_call k ?c s)"
  proof (rule inv_set_call [OF k(3,1)])
    show "call_ok (set (wc_in s)) (set (wc_out s)) ?c"
      using inv_call [OF k(3,1)] Some k(2) by (simp add: call_ok_def got_def wrote_def)
  qed (use pending_live [OF k(3)] in \<open>auto simp: live_def\<close>)
  then show ?thesis
    using good_step_call [OF assms(1), of "send_receive k s" k ?c]
    by (simp add: send_receive_def Some set_call_def)
qed

lemma good_finish:
  assumes "ws_good s" "in_phase s k (PhFinishing r)"
  shows "ws_good (send_finish k r s)"
proof -
  let ?c = "(wc_calls s ! k)\<lparr> ca_Phase := PhDone r \<rparr>"
  let ?s1 = "s\<lparr> wc_pending := AList.delete (ca_Id (wc_calls s ! k)) (wc_pending s) \<rparr>"
  have k: "k < length (wc_calls s)" "ca_Phase (wc_calls s ! k) = PhFinishing r" "ws_inv s"
    using assms by (auto simp: in_phase_def ws_good_def)
  have n: "(i, k) \<notin> set (wc_pending ?s1)" for i
    using pending_live [OF k(3), of i k] by (auto simp: AList.delete_eq)
  have "ws_inv (set_call k ?c ?s1)"
  proof (rule inv_set_call)
    show "ws_inv ?s1" by (rule inv_delete [OF k(3)])
    show "call_ok (set (wc_in ?s1)) (set (wc_out ?s1)) ?c"
      using inv_call [OF k(3,1)] k(2) by (cases r) (simp_all add: call_ok_def got_def wrote_def)
  qed (use k n in auto)
  moreover have "set_call k ?c ?s1 = send_finish k r s"
    by (simp add: send_finish_def set_phase_def set_call_def)
  moreover have "wc_calls (send_finish k r s) = (wc_calls s)[k := ?c]"
    by (simp add: send_finish_def set_phase_def)
  ultimately show ?thesis
    using good_step_call [OF assms(1), of "send_finish k r s" k ?c] by simp
qed

lemma good_close_pending:
  assumes "ws_good s"
  shows "ws_good (close_pending s)"
proof -
  have i: "ws_inv s" using assms by (simp add: ws_good_def)
  let ?s1 = "foldl (\<lambda>s (i, k). close_channel k s) s (wc_pending s)"
  have c: "closed_at (snd ` set (wc_pending s)) s ?s1"
    using pending_live [OF i] by (intro close_fold pending_snd_distinct [OF i]) auto
  have "new_open (close_pending s)"
    using assms c new_not_pending [OF i]
    by (auto simp: new_open_def ws_good_def closed_at_def close_pending_def in_phase_def split: if_splits)
  then show ?thesis using inv_close_pending [OF i] by (simp add: ws_good_def)
qed

lemma call_ok_buf:
  "call_ok i out c \<Longrightarrow> wp_Id r = ca_Id c \<Longrightarrow> WsResponse (Some r) \<in> i \<Longrightarrow> call_ok i out (c\<lparr> ca_Buf := Some r \<rparr>)"
  by (simp add: call_ok_def got_def wrote_def)

lemma good_deliver:
  assumes g: "ws_good s" and m: "map_of (wc_pending s) (wp_Id r) = Some k" "WsResponse (Some r) \<in> set (wc_in s)"
  shows "ws_good (dispatchResponse (Some r) s)"
proof -
  let ?c = "(wc_calls s ! k)\<lparr> ca_Buf := Some r \<rparr>"
  have i: "ws_inv s" using g by (simp add: ws_good_def)
  have k: "k < length (wc_calls s)" "ca_Id (wc_calls s ! k) = wp_Id r" "ca_Open (wc_calls s ! k)"
    "live (ca_Phase (wc_calls s ! k))"
    using pending_live [OF i, of "wp_Id r" k] map_of_SomeD [OF m(1)] by auto
  have "ws_inv (set_call k ?c s)"
    by (rule inv_set_call [OF i k(1)]) (use k call_ok_buf [OF inv_call [OF i k(1)] _ m(2)] in simp_all)
  moreover have "ca_Phase ?c \<noteq> PhNew" using k(4) by (auto simp: live_def)
  ultimately have "ws_good (set_call k ?c s)"
    by (intro good_step_call [OF g, of "set_call k ?c s" k ?c]) simp_all
  moreover have "dispatchResponse (Some r) s = s \<or> dispatchResponse (Some r) s = set_call k ?c s"
    using k(3) m(1) by (simp add: dispatchResponse_def Let_def)
  ultimately show ?thesis using g by metis
qed

lemma good_read:
  assumes "ws_good s"
  shows "ws_good (read_message h ok m s)"
proof -
  let ?s = "s\<lparr> wc_in := wc_in s @ [m] \<rparr>"
  have g: "ws_good ?s" using assms by (rule good_fields) auto
  have i: "ws_inv ?s" using g by (simp add: ws_good_def)
  show ?thesis
  proof (cases m)
    case (WsRequest req)
    have "ws_good (dispatchRequest h ok req ?s)"
      by (rule good_fields [OF g]) (auto simp: dispatchRequest_def split: option.splits)
    then show ?thesis by (simp add: read_message_def WsRequest)
  next
    case (WsResponse resp)
    have "ws_good (dispatchResponse (Some r) ?s)" if "resp = Some r" for r
      using good_deliver [OF g, of r] g that
      by (cases "map_of (wc_pending s) (wp_Id r)") (simp_all add: WsResponse dispatchResponse_def)
    moreover have "ws_good (dispatchResponse None ?s)" using g by (simp add: dispatchResponse_def)
    ultimately have "ws_good (dispatchResponse resp ?s)" by (cases resp) simp_all
    then show ?thesis by (simp add: read_message_def WsResponse)
  next
    case WsUnknown
    then show ?thesis using g by (simp add: read_message_def)
  qed
qed

lemma good_drain:
  assumes "drain h s s'" "ws_good s"
  shows "ws_good s'"
  using assms
proof (cases rule: drain.cases)
  case (LoopExited k)
  then show ?thesis using assms good_waiting by (simp add: send_loop_exited_def)
next
  case LoopFail
  have "ws_good (failPending s)" using good_close_pending [OF assms(2)] by (simp add: failPending_def)
  then show ?thesis unfolding LoopFail(1) by (rule good_fields) auto
qed (use assms good_register good_write good_receive good_waiting good_finish in
      \<open>auto intro: good_fields [OF assms(2)] simp: read_error_def\<close>)

lemma good_ws_step:
  assumes "ws_step h s s'" "ws_good s"
  shows "ws_good s'"
  using assms
proof (cases rule: ws_step.cases)
  case Close
  have "ws_good (close_pending s\<lparr> wc_connOpen := False, wc_closers := wc_closers s + 1 \<rparr>)"
    by (rule good_fields [OF good_close_pending [OF assms(2)]]) auto
  then show ?thesis using assms(2) by (simp add: Close Close_lock_def)
qed (use assms good_drain good_begin good_read good_waiting in
      \<open>auto intro: good_fields [OF assms(2)] simp: unmarshal_error_def ping_failed_def read_error_def\<close>)

lemma good_newClient: "ws_good (newClient ka)"
  by (simp add: ws_good_def ws_inv_def new_open_def pending_ok_def ids_ok_def newClient_def)

lemma good_reachable:
  assumes "ws_reachable h s"
  shows "ws_good s"
proof -
  obtain ka where "(ws_step h)\<^sup>*\<^sup>* (newClient ka) s" using assms by (auto simp: ws_reachable_def)
  then show ?thesis
    by (induction rule: rtranclp_induct) (auto intro: good_newClient good_ws_step)
qed

text \<open>C10. A response that Send returns answers the request of that call.\<close>

definition ws_idle :: "ws_client \<Rightarrow> bool" where
  "ws_idle s \<longleftrightarrow> list_all (\<lambda>c. \<exists>r. ca_Phase c = PhDone r) (wc_calls s) \<and>
     wc_handlers s = [] \<and> wc_closers s = 0 \<and> wc_done s"

theorem ws_correlation:
  assumes "ws_reachable h s" "k < length (wc_calls s)" "ca_Phase (wc_calls s ! k) = PhDone (Inr r)"
  shows "wp_Id r = of_nat (Suc k) \<and> WsResponse (Some r) \<in> set (wc_in s) \<and>
    WsRequest (Some (ca_Req (wc_calls s ! k))) \<in> set (wc_out s) \<and>
    wr_Id (ca_Req (wc_calls s ! k)) = wp_Id r \<and> \<not> wc_panicked s"
proof -
  have i: "ws_inv s" using good_reachable [OF assms(1)] by (simp add: ws_good_def)
  then have "call_ok (set (wc_in s)) (set (wc_out s)) (wc_calls s ! k)" "ca_Id (wc_calls s ! k) = of_nat (Suc k)"
    using inv_call assms(2) by (auto simp: ws_inv_def ids_ok_def)
  then show ?thesis using i assms(3) by (simp add: call_ok_def got_def wrote_def ws_inv_def)
qed

section \<open>How calls end\<close>

fun phase_rank :: "phase \<Rightarrow> nat" where
  "phase_rank PhNew = 4"
| "phase_rank PhRegistered = 3"
| "phase_rank PhWaiting = 2"
| "phase_rank (PhFinishing r) = 1"
| "phase_rank (PhDone r) = 0"

fun loop_rank :: "loop \<Rightarrow> nat" where
  "loop_rank LpRunning = 3"
| "loop_rank LpFailing = 2"
| "loop_rank LpClosing = 1"
| "loop_rank LpExited = 0"

definition calls_rank :: "call list \<Rightarrow> nat" where
  "calls_rank cs = sum_list (map (phase_rank \<circ> ca_Phase) cs)"

definition ws_measure :: "ws_client \<Rightarrow> nat" where
  "ws_measure s = calls_rank (wc_calls s) + loop_rank (wc_loop s) + length (wc_handlers s) + wc_closers s"

lemma calls_rank_update:
  assumes "k < length cs" "phase_rank (ca_Phase c) < phase_rank (ca_Phase (cs ! k))"
  shows "calls_rank (cs[k := c]) < calls_rank cs"
  using assms
proof (induction cs arbitrary: k)
  case (Cons d cs)
  then show ?case by (cases k) (auto simp: calls_rank_def)
qed simp

lemma calls_rank_cong:
  "map ca_Phase cs = map ca_Phase ds \<Longrightarrow> calls_rank cs = calls_rank ds"
  unfolding calls_rank_def by (metis map_map)

definition outline :: "ws_client \<Rightarrow> phase list \<times> loop \<times> ws_request list \<times> nat \<times> bool \<times> bool" where
  "outline s = (map ca_Phase (wc_calls s), wc_loop s, wc_handlers s, wc_closers s, wc_connOpen s, wc_done s)"

lemma close_channel_outline: "outline (close_channel k s) = outline s"
proof -
  have "map ca_Phase (cs[k := (cs ! k)\<lparr> ca_Open := b \<rparr>]) = map ca_Phase cs" for cs :: "call list" and b
    by (cases "k < length cs") (auto intro!: nth_equalityI simp: nth_list_update list_update_beyond)
  then show ?thesis by (simp add: outline_def close_channel_def set_call_def)
qed

lemma close_fold_outline: "outline (foldl (\<lambda>s (i, k). close_channel k s) s ps) = outline s"
  by (induction ps arbitrary: s) (simp_all add: close_channel_outline split: prod.splits)

lemma close_pending_phases:
  "map ca_Phase (wc_calls (close_pending s)) = map ca_Phase (wc_calls s) \<and>
   wc_loop (close_pending s) = wc_loop s \<and> wc_handlers (close_pending s) = wc_handlers s \<and>
   wc_closers (close_pending s) = wc_closers s \<and> wc_connOpen (close_pending s) = wc_connOpen s \<and>
   wc_done (close_pending s) = wc_done s"
  using close_fold_outline [of s "wc_pending s"] by (simp add: outline_def close_pending_def)

lemma close_pending_closed: "wc_closed (close_pending s)"
  by (simp add: close_pending_def)

lemma step_measure:
  assumes "in_phase s k p" "phase_rank (ca_Phase c) < phase_rank p"
    "wc_calls s' = (wc_calls s)[k := c]" "wc_loop s' = wc_loop s" "wc_handlers s' = wc_handlers s" "wc_closers s' = wc_closers s"
  shows "ws_measure s' < ws_measure s"
  using assms calls_rank_update [of k "wc_calls s" c] by (simp add: ws_measure_def in_phase_def)

lemmas send_defs = send_register_def send_write_def send_receive_def send_loop_exited_def send_finish_def
  set_phase_def set_call_def

lemma drain_measure:
  assumes "drain h s s'"
  shows "ws_measure s' < ws_measure s"
  using assms
proof (cases rule: drain.cases)
  case (Register k)
  show ?thesis
    by (rule step_measure [OF Register(2), of "(wc_calls s ! k)\<lparr> ca_Phase :=
          (if wc_closed s then PhDone (Inl SeClosed) else PhRegistered) \<rparr>"])
       (simp_all add: Register(1) send_defs)
next
  case (Write k err)
  show ?thesis
    by (rule step_measure [OF Write(2), of "(wc_calls s ! k)\<lparr> ca_Phase :=
          (case err of Some e \<Rightarrow> PhFinishing (Inl (SeWrite e)) | None \<Rightarrow> PhWaiting) \<rparr>"])
       (simp_all add: Write(1) send_defs split: option.splits)
next
  case (Receive k)
  show ?thesis
  proof (cases "ca_Buf (wc_calls s ! k)")
    case None
    then show ?thesis
      by (intro step_measure [OF Receive(2), of "(wc_calls s ! k)\<lparr> ca_Phase := PhFinishing (Inl SeClosedDuring) \<rparr>"])
         (simp_all add: Receive(1) send_defs)
  next
    case (Some r)
    then show ?thesis
      by (intro step_measure [OF Receive(2), of "(wc_calls s ! k)\<lparr> ca_Phase := PhFinishing (Inr r), ca_Buf := None \<rparr>"])
         (simp_all add: Receive(1) send_defs)
  qed
next
  case (LoopExited k)
  show ?thesis
    by (rule step_measure [OF LoopExited(2), of "(wc_calls s ! k)\<lparr> ca_Phase :=
          PhFinishing (Inl (case ReadError s of Some e \<Rightarrow> SeRead e | None \<Rightarrow> SeLoopExited)) \<rparr>"])
       (simp_all add: LoopExited(1) send_defs)
next
  case (Finish k r)
  show ?thesis
    by (rule step_measure [OF Finish(2), of "(wc_calls s ! k)\<lparr> ca_Phase := PhDone r \<rparr>"])
       (simp_all add: Finish(1) send_defs)
next
  case LoopFail
  then show ?thesis
    using close_pending_phases [of s] calls_rank_cong [of "wc_calls (close_pending s)" "wc_calls s"]
    by (simp add: ws_measure_def failPending_def)
qed (simp_all add: ws_measure_def read_error_def)

lemma drain_run_bound: "(drain h ^^ n) s s' \<Longrightarrow> n + ws_measure s' \<le> ws_measure s"
proof (induction n arbitrary: s')
  case (Suc n)
  then obtain t where t: "(drain h ^^ n) s t" "drain h t s'" by auto
  show ?case using Suc.IH [OF t(1)] drain_measure [OF t(2)] by simp
qed simp

text \<open>Draining never opens the connection, and a loop that has exited has closed its channel.\<close>

lemma drain_connOpen: "drain h s s' \<Longrightarrow> \<not> wc_connOpen s \<Longrightarrow> \<not> wc_connOpen s'"
  by (erule drain.cases)
     (auto simp: send_defs read_error_def failPending_def close_pending_phases split: option.splits)

lemma read_message_loop: "wc_loop (read_message h ok m s) = wc_loop s" "wc_done (read_message h ok m s) = wc_done s"
  by (auto simp: read_message_def dispatchRequest_def dispatchResponse_def Let_def set_call_def
      split: ws_message.splits option.splits)

definition done_ok :: "ws_client \<Rightarrow> bool" where
  "done_ok s \<longleftrightarrow> (wc_done s \<longleftrightarrow> wc_loop s = LpExited)"

lemma done_drain: "drain h s s' \<Longrightarrow> done_ok s \<Longrightarrow> done_ok s'"
  by (erule drain.cases)
     (auto simp: done_ok_def send_defs read_error_def failPending_def close_pending_phases split: option.splits)

lemma done_step: "ws_step h s s' \<Longrightarrow> done_ok s \<Longrightarrow> done_ok s'"
  by (erule ws_step.cases, blast intro: done_drain)
     (auto simp: done_ok_def send_begin_def set_phase_def set_call_def read_error_def unmarshal_error_def
       ping_failed_def Close_lock_def close_pending_phases read_message_loop Let_def)

lemma done_reachable:
  assumes "ws_reachable h s"
  shows "done_ok s"
proof -
  obtain ka where "(ws_step h)\<^sup>*\<^sup>* (newClient ka) s" using assms by (auto simp: ws_reachable_def)
  then show ?thesis
    by (induction rule: rtranclp_induct) (blast intro: done_step | simp add: done_ok_def newClient_def)+
qed

lemma ws_reachable_step: "ws_reachable h s \<Longrightarrow> ws_step h s s' \<Longrightarrow> ws_reachable h s'"
  by (auto simp: ws_reachable_def intro: rtranclp.rtrancl_into_rtrancl)

lemma ws_reachable_drain: "(drain h)\<^sup>*\<^sup>* s s' \<Longrightarrow> ws_reachable h s \<Longrightarrow> ws_reachable h s'"
  by (induction rule: rtranclp_induct) (auto intro: ws_reachable_step ws_step.Drain)

lemma drain_connOpen_run: "(drain h)\<^sup>*\<^sup>* s s' \<Longrightarrow> \<not> wc_connOpen s \<Longrightarrow> \<not> wc_connOpen s'"
  by (induction rule: rtranclp_induct) (auto dest: drain_connOpen)

text \<open>Without a further step, everything has ended.\<close>

lemma stuck_idle:
  assumes "\<not> wc_connOpen s \<or> wc_loop s \<noteq> LpRunning" "done_ok s" "\<And>t. \<not> drain h s t"
  shows "ws_idle s"
proof -
  have "wc_loop s = LpExited"
    using assms(1,3) drain.ReadErr [where h = h and s = s] drain.LoopFail [where h = h and s = s] drain.LoopDone [where h = h and s = s]
    by (cases "wc_loop s") auto
  then have d: "wc_done s" using assms(2) by (simp add: done_ok_def)
  have "\<exists>r. ca_Phase (wc_calls s ! k) = PhDone r" if "k < length (wc_calls s)" for k
    using assms(3) d that drain.Register [where h = h and s = s and k = k] drain.Write [where h = h and s = s and k = k] drain.LoopExited [where h = h and s = s and k = k] drain.Finish [where h = h and s = s and k = k]
    by (cases "ca_Phase (wc_calls s ! k)") (auto simp: in_phase_def)
  moreover have "wc_handlers s = []"
    using assms(3) drain.HandleNoWrite [where h = h and s = s and xs = "[]"] by (cases "wc_handlers s") auto
  moreover have "wc_closers s = 0"
    using assms(3) d drain.CloseReturns [where h = h and s = s] by (cases "wc_closers s") auto
  ultimately show ?thesis using d by (simp add: ws_idle_def list_all_length)
qed

text \<open>
  C11. Once the connection is closed, every Send, handler and Close returns: no run of the
  goroutines is longer than the measure, and one that has stopped left nothing waiting.
\<close>

theorem ws_send_returns:
  assumes "ws_reachable h s" "\<not> wc_connOpen s"
  shows "(\<forall>n s'. (drain h ^^ n) s s' \<longrightarrow> n \<le> ws_measure s) \<and>
    (\<forall>s'. (drain h)\<^sup>*\<^sup>* s s' \<and> (\<nexists>t. drain h s' t) \<longrightarrow> ws_idle s')"
  using drain_run_bound [where h = h and s = s] stuck_idle done_reachable [OF ws_reachable_drain [OF _ assms(1)]]
    drain_connOpen_run [OF _ assms(2)] by (meson add_leD1)

text \<open>
  After a frame that does not parse, Close does nothing at all: whatever the goroutines do,
  the connection is never closed once keepalive has stopped or was not started.
\<close>

theorem malformed_frame_leaks:
  assumes "wc_loop s = LpRunning" "wc_connOpen s" "wc_keepalive s = KaExited"
    "(drain h)\<^sup>*\<^sup>* (unmarshal_error e s) t" "wc_loop t \<noteq> LpFailing"
  shows "Close_lock t = t \<and> wc_connOpen t"
proof -
  have inv: "wc_connOpen u \<and> wc_loop u \<noteq> LpRunning \<and> (wc_loop u \<noteq> LpFailing \<longrightarrow> wc_closed u)"
    if "(drain h)\<^sup>*\<^sup>* (unmarshal_error e s) u" for u
    using that
  proof (induction rule: rtranclp_induct)
    case (step y z)
    from step(2,3) show ?case
      by (cases rule: drain.cases)
         (auto simp: send_defs failPending_def close_pending_phases close_pending_closed split: option.splits if_splits)
  qed (use assms(2) in \<open>simp add: unmarshal_error_def\<close>)
  show ?thesis using inv [OF assms(4)] assms(5) by (simp add: Close_lock_def)
qed

section \<open>Instances\<close>

text \<open>One request and its response, and the same request on a connection that fails.\<close>

definition demo_req :: ws_request where
  "demo_req = \<lparr> wr_Verb = ''GET'', wr_Path = ''/v1/keepalive'', wr_Headers = [], wr_Body = [], wr_Id = 0 \<rparr>"

definition demo_resp :: ws_response where
  "demo_resp = \<lparr> wp_Id = 1, wp_Status = 200, wp_Message = ''OK'', wp_Body = [] \<rparr>"

definition demo_sent :: ws_client where
  "demo_sent = send_write 0 None (send_register 0 (send_begin demo_req (newClient False)))"

definition demo_answered :: ws_client where
  "demo_answered = send_finish 0 (Inr demo_resp)
     (send_receive 0 (read_message None True (WsResponse (Some demo_resp)) demo_sent))"

definition demo_lost :: ws_client where
  "demo_lost = send_finish 0 (Inl SeClosedDuring) (send_receive 0
     (failPending (read_error ''EOF'' demo_sent)\<lparr> wc_loop := LpClosing \<rparr>))"

definition demo_malformed :: ws_client where
  "demo_malformed = failPending (unmarshal_error ''eof'' (newClient False))\<lparr> wc_loop := LpClosing \<rparr>
     \<lparr> wc_loop := LpExited, wc_done := True \<rparr>"

lemmas demo_defs = demo_req_def demo_resp_def demo_sent_def newClient_def send_begin_def send_defs in_phase_def
  read_error_def failPending_def close_pending_def close_channel_def unmarshal_error_def
  read_message_def dispatchResponse_def Let_def

lemma demo_start: "ws_reachable None (send_register 0 (send_begin demo_req (newClient False)))"
  by (rule ws_reachable_step [OF ws_reachable_step [OF _ ws_step.Call] ws_step.Drain [OF drain.Register]])
     (auto simp: ws_reachable_def demo_defs)

lemma demo_sent_reachable: "ws_reachable None demo_sent"
  unfolding demo_sent_def
  by (rule ws_reachable_step [OF demo_start ws_step.Drain [OF drain.Write]]) (simp add: demo_defs)

lemma demo_answered_reachable: "ws_reachable None demo_answered"
proof -
  let ?s1 = "read_message None True (WsResponse (Some demo_resp)) demo_sent"
  have "ws_reachable None ?s1"
    by (rule ws_reachable_step [OF demo_sent_reachable ws_step.Read]) (simp add: demo_defs)
  moreover have "drain None ?s1 (send_receive 0 ?s1)"
    by (rule drain.Receive) (simp_all add: demo_defs)
  moreover have "drain None (send_receive 0 ?s1) demo_answered"
    unfolding demo_answered_def by (rule drain.Finish) (simp add: demo_defs)
  ultimately show ?thesis by (blast intro: ws_reachable_step ws_step.Drain)
qed

theorem ws_correlation_witness:
  "ca_Phase (wc_calls demo_answered ! 0) = PhDone (Inr demo_resp) \<and>
   wr_Id (ca_Req (wc_calls demo_answered ! 0)) = 1 \<and> \<not> wc_panicked demo_answered"
proof -
  have p: "0 < length (wc_calls demo_answered)" "ca_Phase (wc_calls demo_answered ! 0) = PhDone (Inr demo_resp)"
    by (simp_all add: demo_answered_def demo_defs)
  show ?thesis using ws_correlation [OF demo_answered_reachable p] p(2) by (simp add: demo_resp_def)
qed

lemma demo_lost_run: "(drain None ^^ 3) (read_error ''EOF'' demo_sent) demo_lost"
proof -
  let ?s = "read_error ''EOF'' demo_sent"
  let ?s1 = "failPending ?s\<lparr> wc_loop := LpClosing \<rparr>"
  have "drain None ?s ?s1" by (rule drain.LoopFail) (simp add: demo_defs)
  moreover have "drain None ?s1 (send_receive 0 ?s1)" by (rule drain.Receive) (simp_all add: demo_defs)
  moreover have "drain None (send_receive 0 ?s1) demo_lost"
    unfolding demo_lost_def by (rule drain.Finish) (simp add: demo_defs)
  ultimately show ?thesis by (auto simp: numeral_eq_Suc intro!: relcomppI)
qed

theorem ws_send_returns_witness:
  "3 \<le> ws_measure (read_error ''EOF'' demo_sent) \<and> ws_idle (demo_lost\<lparr> wc_loop := LpExited, wc_done := True \<rparr>)"
proof -
  let ?s = "read_error ''EOF'' demo_sent" and ?t = "demo_lost\<lparr> wc_loop := LpExited, wc_done := True \<rparr>"
  have r: "ws_reachable None ?s"
    by (rule ws_reachable_step [OF demo_sent_reachable ws_step.ReadFailed]) (simp add: demo_defs)
  have c: "\<not> wc_connOpen ?s" by (simp add: read_error_def)
  have "drain None demo_lost ?t" by (rule drain.LoopDone) (simp add: demo_lost_def demo_defs)
  then have "(drain None)\<^sup>*\<^sup>* ?s ?t"
    using demo_lost_run by (meson relpowp_imp_rtranclp rtranclp.rtrancl_into_rtrancl)
  moreover have "ws_measure ?t = 0" by (simp add: ws_measure_def calls_rank_def demo_lost_def demo_defs)
  then have "\<nexists>t. drain None ?t t" using drain_measure by fastforce
  ultimately show ?thesis using ws_send_returns [OF r c] demo_lost_run by blast
qed

theorem malformed_frame_leaks_witness:
  "Close_lock demo_malformed = demo_malformed \<and> wc_connOpen demo_malformed \<and> wc_done demo_malformed"
proof -
  let ?s = "unmarshal_error ''eof'' (newClient False)"
  have "drain None ?s (failPending ?s\<lparr> wc_loop := LpClosing \<rparr>)" by (rule drain.LoopFail) (simp add: demo_defs)
  moreover have "drain None (failPending ?s\<lparr> wc_loop := LpClosing \<rparr>) demo_malformed"
    unfolding demo_malformed_def by (rule drain.LoopDone) simp
  ultimately have "(drain None)\<^sup>*\<^sup>* ?s demo_malformed"
    by (rule converse_rtranclp_into_rtranclp [OF _ r_into_rtranclp])
  then have "Close_lock demo_malformed = demo_malformed \<and> wc_connOpen demo_malformed"
    by (intro malformed_frame_leaks [of "newClient False" None "''eof''"])
       (simp_all add: demo_defs demo_malformed_def)
  then show ?thesis by (simp add: demo_malformed_def)
qed

end
