(* ===== verification/UserAgent.thy ===== *)
theory UserAgent
  imports GoStrings
begin

text \<open>
  internal/web/useragent/useragent.go: the user agent presets, and \<open>resolveUserAgent\<close> of
  pkg/signal/useragent.go. A profile is a string, as in Go.
\<close>

type_synonym Profile = string

definition SignalGo :: Profile where "SignalGo = ''signal-go''"
definition Android :: Profile where "Android = ''android''"
definition IOS :: Profile where "IOS = ''ios''"
definition DesktopLinux :: Profile where "DesktopLinux = ''desktop-linux''"
definition DesktopMacOS :: Profile where "DesktopMacOS = ''desktop-macos''"
definition DesktopWindows :: Profile where "DesktopWindows = ''desktop-windows''"

lemmas profile_defs = SignalGo_def Android_def IOS_def DesktopLinux_def DesktopMacOS_def DesktopWindows_def

record ua_options =
  uo_AppVersion :: string
  uo_OSVersion :: string

definition or_default :: "string \<Rightarrow> string \<Rightarrow> string" where
  "or_default v d = (if v = [] then d else v)"

definition desktopFormat :: "string \<Rightarrow> ua_options \<Rightarrow> string \<Rightarrow> string" where
  "desktopFormat platform opts defaultRelease =
    ''Signal-Desktop/'' @ or_default (uo_AppVersion opts) ''8.10.0'' @ '' '' @ platform @ '' '' @
    or_default (uo_OSVersion opts) defaultRelease"

definition Format :: "Profile \<Rightarrow> ua_options \<Rightarrow> string" where
  "Format p opts =
    (if p = SignalGo \<or> p = [] then SignalGo
     else if p = Android then
       ''Signal-Android/'' @ or_default (uo_AppVersion opts) ''8.12.1'' @ '' Android/'' @
       or_default (uo_OSVersion opts) ''35''
     else if p = IOS then
       ''Signal-iOS/'' @ or_default (uo_AppVersion opts) ''8.13'' @ '' iOS/'' @
       or_default (uo_OSVersion opts) ''18.2''
     else if p = DesktopLinux then desktopFormat ''Linux'' opts ''6.1.0''
     else if p = DesktopMacOS then desktopFormat ''macOS'' opts ''14.7.0''
     else if p = DesktopWindows then desktopFormat ''Windows'' opts ''10''
     else SignalGo)"

definition Resolve :: "Profile \<Rightarrow> string \<Rightarrow> ua_options \<Rightarrow> string" where
  "Resolve profile override opts =
    (if override \<noteq> [] then override else Format (if profile = [] then SignalGo else profile) opts)"

definition resolveUserAgent :: "Profile \<Rightarrow> string \<Rightarrow> ua_options \<Rightarrow> string" where
  "resolveUserAgent = Resolve"

text \<open>strings.TrimSpace; outside ASCII it consults the Unicode tables, the first parameter.\<close>

definition TrimSpace :: "(string \<Rightarrow> string) \<Rightarrow> string \<Rightarrow> string" where
  "TrimSpace U s = (if is_ascii s then rev (dropWhile is_space (rev (dropWhile is_space s))) else U s)"

text \<open>The switch of Parse on the lowered text; the error is the text it quotes.\<close>

definition profile_named :: "string \<Rightarrow> string \<Rightarrow> string + Profile" where
  "profile_named s t =
    (if t \<in> set [[], SignalGo] then Inr SignalGo
     else if t = Android then Inr Android
     else if t \<in> set [IOS, ''iphone'', ''ipad''] then Inr IOS
     else if t \<in> set [DesktopLinux, ''desktop'', ''linux''] then Inr DesktopLinux
     else if t \<in> set [DesktopMacOS, ''macos'', ''darwin''] then Inr DesktopMacOS
     else if t \<in> set [DesktopWindows, ''windows'', ''win''] then Inr DesktopWindows
     else Inl s)"

definition Parse :: "go_unicode \<Rightarrow> (string \<Rightarrow> string) \<Rightarrow> string \<Rightarrow> string + Profile" where
  "Parse U trim s = profile_named s (ToLower U (TrimSpace trim s))"

definition Profiles :: "Profile list" where
  "Profiles = [SignalGo, Android, IOS, DesktopLinux, DesktopMacOS, DesktopWindows]"

lemma profiles_plain:
  "list_all (\<lambda>p. is_ascii p \<and> rev (dropWhile is_space (rev (dropWhile is_space p))) = p \<and>
     map ascii_lower p = p \<and> profile_named p p = Inr p) Profiles"
  by code_simp

lemma Parse_Profiles: "p \<in> set Profiles \<Longrightarrow> Parse U trim p = Inr p"
  using profiles_plain by (auto simp: list_all_iff TrimSpace_def ToLower_def Parse_def)

lemma Resolve_not_empty: "Resolve p override opts \<noteq> []"
  by (simp add: Resolve_def Format_def desktopFormat_def SignalGo_def)

end
