(* ===== verification/ChatConn.thy ===== *)
theory ChatConn
  imports WsLaws Web Events UserAgent "HOL-Library.Signed_Division" "HOL-Library.Log_Nat"
begin

text \<open>
  The reconnecting connection of internal/chat/connection.go over the websocket clients of
  \<open>Ws\<close>: the options, Connect, the run loop and Close, as a transition system in which every
  client that was dialed takes its own steps.
\<close>

section \<open>Options\<close>

text \<open>Durations in nanoseconds. \<open>co_Handler\<close> tells whether a handler is set.\<close>

record conn_opts =
  co_ACI :: string
  co_DeviceID :: u32
  co_Password :: string
  co_Handler :: bool
  co_URL :: string
  co_UserAgent :: string
  co_InitialBackoff :: int
  co_MaxBackoff :: int

definition opts_url :: "conn_opts \<Rightarrow> string" where
  "opts_url o1 = (if co_URL o1 \<noteq> [] then co_URL o1 else ''wss://chat.signal.org/v1/websocket/'')"

definition opts_userAgent :: "conn_opts \<Rightarrow> string" where
  "opts_userAgent o1 =
    (if co_UserAgent o1 \<noteq> [] then co_UserAgent o1
     else Resolve SignalGo [] \<lparr> uo_AppVersion = [], uo_OSVersion = [] \<rparr>)"

definition initialBackoff :: "conn_opts \<Rightarrow> int" where
  "initialBackoff o1 = (if co_InitialBackoff o1 > 0 then co_InitialBackoff o1 else 1000000000)"

definition maxBackoff :: "conn_opts \<Rightarrow> int" where
  "maxBackoff o1 = (if co_MaxBackoff o1 > 0 then co_MaxBackoff o1 else 60000000000)"

definition connect_guard :: "conn_opts \<Rightarrow> string option" where
  "connect_guard o1 =
    (if co_ACI o1 = [] then Some ''chat.Connect: ACI is required''
     else if co_DeviceID o1 = 0 then Some ''chat.Connect: DeviceID is required''
     else if co_Password o1 = [] then Some ''chat.Connect: Password is required''
     else if \<not> co_Handler o1 then Some ''chat.Connect: Handler is required''
     else None)"

text \<open>The headers of the upgrade request.\<close>

definition connect_header :: "conn_opts \<Rightarrow> headers" where
  "connect_header o1 =
    (let creds = co_ACI o1 @ ''.'' @ dec_digits (unat (co_DeviceID o1)) @ '':'' @ co_Password o1
     in header_Set ''X-Signal-Agent'' (opts_userAgent o1)
          (header_Set ''Authorization'' (''Basic '' @ EncodeToString (string_bytes creds)) []))"

text \<open>Whatever the caller's handler does, the answer is 200.\<close>

definition handleServerRequest :: "ws_request \<Rightarrow> string + (u32 \<times> string \<times> bytes)" where
  "handleServerRequest req = Inr (200, ''OK'', [])"

section \<open>The delay before a reconnect\<close>

text \<open>
  \<open>float64(n)\<close> of a non-negative integer: 53 significant bits, ties to even. The conversion back
  is exact in range; out of range the language leaves it to the implementation, and amd64
  gives the least integer. It is the parameter \<open>trunc\<close>; \<open>rnd\<close> is rand.Int64N, which panics
  on an argument that is not positive.
\<close>

definition float64_of :: "int \<Rightarrow> int" where
  "float64_of n =
    (if n < 2 ^ 53 then n
     else let e = nat (bitlen n) - 53; q = n div 2 ^ e; r = n mod 2 ^ e; half = 2 ^ (e - 1)
          in (if r > half \<or> r = half \<and> odd q then q + 1 else q) * 2 ^ e)"

definition amd64_int64 :: "int \<Rightarrow> int" where
  "amd64_int64 x = (if - (2 ^ 63) \<le> x \<and> x < 2 ^ 63 then x else - (2 ^ 63))"

definition backoffDelay :: "(int \<Rightarrow> int) \<Rightarrow> (int \<Rightarrow> int) \<Rightarrow> conn_opts \<Rightarrow> nat \<Rightarrow> int option" where
  "backoffDelay trunc rnd o1 attempt =
    (let d = trunc (float64_of (initialBackoff o1) * 2 ^ attempt);
         d = (if d > maxBackoff o1 then maxBackoff o1 else d);
         n = wrap_int64 (wrap_int64 (d sdiv 4) + 1)
     in if n \<le> 0 then None else Some (wrap_int64 (d + rnd n)))"

section \<open>State\<close>

text \<open>
  Where the run loop is. closeClient holds the mutex while it waits for the client it closes:
  that is \<open>CkClosing\<close>. A call of connection.Close has captured the client, waits for that client,
  or waits for the run loop.
\<close>

datatype after = AfExit | AfReconnect

datatype conn_loop = CkTop | CkSelect nat | CkCloseClient after | CkClosing nat after | CkCheck
  | CkBackoff | CkDial | CkStore nat | CkExited | CkCrashed

datatype closer = CsClose "nat option" | CsWait nat | CsDone | CsReturned

record conn =
  cn_client :: "nat option"
  cn_closed :: bool
  cn_ctxDone :: bool
  cn_done :: bool
  cn_attempt :: nat
  cn_loop :: conn_loop
  cn_clients :: "ws_client list"
  cn_closers :: "closer list"

definition dialed :: ws_client where
  "dialed = newClient True"

text \<open>Connect: the guards, the first connectOnce, then the run loop starts.\<close>

definition Connect :: "conn_opts \<Rightarrow> string option \<Rightarrow> string + conn" where
  "Connect o1 dial_err =
    (case connect_guard o1 of
       Some e \<Rightarrow> Inl e
     | None \<Rightarrow>
       (case dial_err of
          Some e \<Rightarrow> Inl (''chat.Connect: '' @ e)
        | None \<Rightarrow> Inr \<lparr> cn_client = Some 0, cn_closed = False, cn_ctxDone = False, cn_done = False,
            cn_attempt = 0, cn_loop = CkTop, cn_clients = [dialed], cn_closers = [] \<rparr>))"

definition mutex_held :: "conn \<Rightarrow> bool" where
  "mutex_held c \<longleftrightarrow> (\<exists>k a. cn_loop c = CkClosing k a)"

definition loop_return :: "conn \<Rightarrow> conn" where
  "loop_return c = c\<lparr> cn_loop := CkExited, cn_done := True \<rparr>"

definition after_close :: "after \<Rightarrow> conn \<Rightarrow> conn" where
  "after_close a c = (case a of AfExit \<Rightarrow> loop_return c | AfReconnect \<Rightarrow> c\<lparr> cn_loop := CkCheck \<rparr>)"

definition run_top :: "conn \<Rightarrow> conn" where
  "run_top c =
    (if cn_closed c then loop_return c
     else case cn_client c of
       None \<Rightarrow> c\<lparr> cn_loop := CkCheck \<rparr>
     | Some k \<Rightarrow> c\<lparr> cn_loop := CkSelect k \<rparr>)"

text \<open>
  closing client k: on a client that is already closed, \<open>Close_lock\<close> changes nothing and returns
  at once.
\<close>

definition close_ws :: "nat \<Rightarrow> conn \<Rightarrow> conn" where
  "close_ws k c = c\<lparr> cn_clients := (cn_clients c)[k := Close_lock (cn_clients c ! k)] \<rparr>"

definition closeClient_begin :: "after \<Rightarrow> conn \<Rightarrow> conn" where
  "closeClient_begin a c =
    (case cn_client c of
       None \<Rightarrow> after_close a c
     | Some k \<Rightarrow>
       if wc_closed (cn_clients c ! k) then after_close a (c\<lparr> cn_client := None \<rparr>)
       else close_ws k c\<lparr> cn_loop := CkClosing k a \<rparr>)"

definition closeClient_end :: "after \<Rightarrow> conn \<Rightarrow> conn" where
  "closeClient_end a c = after_close a (c\<lparr> cn_client := None \<rparr>)"

text \<open>The head of the reconnect loop.\<close>

definition reconnect_check :: "int option \<Rightarrow> conn \<Rightarrow> conn" where
  "reconnect_check delay c =
    (if cn_closed c then loop_return c
     else case delay of
       None \<Rightarrow> c\<lparr> cn_loop := CkCrashed \<rparr>
     | Some d \<Rightarrow> c\<lparr> cn_attempt := cn_attempt c + 1, cn_loop := CkBackoff \<rparr>)"

definition reconnect_dialed :: "conn \<Rightarrow> conn" where
  "reconnect_dialed c = c\<lparr> cn_clients := cn_clients c @ [dialed], cn_loop := CkStore (length (cn_clients c)) \<rparr>"

definition reconnect_store :: "nat \<Rightarrow> conn \<Rightarrow> conn" where
  "reconnect_store k c = c\<lparr> cn_client := Some k, cn_attempt := 0, cn_loop := CkTop \<rparr>"

definition Close_begin :: "conn \<Rightarrow> conn" where
  "Close_begin c =
    (if cn_closed c then c\<lparr> cn_closers := cn_closers c @ [CsDone] \<rparr>
     else c\<lparr> cn_closed := True, cn_ctxDone := True, cn_closers := cn_closers c @ [CsClose (cn_client c)] \<rparr>)"

definition set_closer :: "nat \<Rightarrow> closer \<Rightarrow> conn \<Rightarrow> conn" where
  "set_closer j p c = c\<lparr> cn_closers := (cn_closers c)[j := p] \<rparr>"

definition Close_client :: "nat \<Rightarrow> nat option \<Rightarrow> conn \<Rightarrow> conn" where
  "Close_client j captured c =
    (case captured of
       None \<Rightarrow> set_closer j CsDone c
     | Some k \<Rightarrow>
       if wc_closed (cn_clients c ! k) then set_closer j CsDone c
       else set_closer j (CsWait k) (close_ws k c))"

section \<open>Steps\<close>

definition in_closer :: "conn \<Rightarrow> nat \<Rightarrow> closer \<Rightarrow> bool" where
  "in_closer c j p \<longleftrightarrow> j < length (cn_closers c) \<and> cn_closers c ! j = p"

definition set_client :: "nat \<Rightarrow> ws_client \<Rightarrow> conn \<Rightarrow> conn" where
  "set_client k w c = c\<lparr> cn_clients := (cn_clients c)[k := w] \<rparr>"

text \<open>
  \<open>conn_drain\<close> has the steps of the goroutines, dials and timers included, each of which ends;
  \<open>conn_step\<close> adds what comes from outside.
\<close>

inductive conn_drain :: "(int \<Rightarrow> int) \<Rightarrow> conn_opts \<Rightarrow> conn \<Rightarrow> conn \<Rightarrow> bool" for trunc o1 where
  Top: "cn_loop c = CkTop \<Longrightarrow> conn_drain trunc o1 c (run_top c)"
| SelectCtx: "cn_loop c = CkSelect k \<Longrightarrow> cn_ctxDone c \<Longrightarrow> conn_drain trunc o1 c (c\<lparr> cn_loop := CkCloseClient AfExit \<rparr>)"
| SelectDone: "cn_loop c = CkSelect k \<Longrightarrow> wc_done (cn_clients c ! k) \<Longrightarrow>
    conn_drain trunc o1 c (c\<lparr> cn_loop := CkCloseClient AfReconnect \<rparr>)"
| CloseClient: "cn_loop c = CkCloseClient a \<Longrightarrow> conn_drain trunc o1 c (closeClient_begin a c)"
| ClientClosed: "cn_loop c = CkClosing k a \<Longrightarrow> wc_done (cn_clients c ! k) \<Longrightarrow>
    conn_drain trunc o1 c (closeClient_end a c)"
| Check: "cn_loop c = CkCheck \<Longrightarrow>
    conn_drain trunc o1 c (reconnect_check (backoffDelay trunc rnd o1 (cn_attempt c)) c)"
| BackoffCtx: "cn_loop c = CkBackoff \<Longrightarrow> cn_ctxDone c \<Longrightarrow> conn_drain trunc o1 c (loop_return c)"
| BackoffTimer: "cn_loop c = CkBackoff \<Longrightarrow> conn_drain trunc o1 c (c\<lparr> cn_loop := CkDial \<rparr>)"
| DialFailed: "cn_loop c = CkDial \<Longrightarrow> conn_drain trunc o1 c (c\<lparr> cn_loop := CkCheck \<rparr>)"
| Dialed: "cn_loop c = CkDial \<Longrightarrow> conn_drain trunc o1 c (reconnect_dialed c)"
| Store: "cn_loop c = CkStore k \<Longrightarrow> conn_drain trunc o1 c (reconnect_store k c)"
| CloserClient: "in_closer c j (CsClose captured) \<Longrightarrow> conn_drain trunc o1 c (Close_client j captured c)"
| CloserWaited: "in_closer c j (CsWait k) \<Longrightarrow> wc_done (cn_clients c ! k) \<Longrightarrow>
    conn_drain trunc o1 c (set_closer j CsDone c)"
| CloserDone: "in_closer c j CsDone \<Longrightarrow> cn_done c \<Longrightarrow> conn_drain trunc o1 c (set_closer j CsReturned c)"
| Client: "k < length (cn_clients c) \<Longrightarrow> drain (Some handleServerRequest) (cn_clients c ! k) w \<Longrightarrow>
    conn_drain trunc o1 c (set_client k w c)"

inductive conn_step :: "(int \<Rightarrow> int) \<Rightarrow> conn_opts \<Rightarrow> conn \<Rightarrow> conn \<Rightarrow> bool" for trunc o1 where
  Drain: "conn_drain trunc o1 c c' \<Longrightarrow> conn_step trunc o1 c c'"
| ClientStep: "k < length (cn_clients c) \<Longrightarrow> ws_step (Some handleServerRequest) (cn_clients c ! k) w \<Longrightarrow>
    conn_step trunc o1 c (set_client k w c)"
| Close: "\<not> mutex_held c \<Longrightarrow> conn_step trunc o1 c (Close_begin c)"
| Cancel: "conn_step trunc o1 c (c\<lparr> cn_ctxDone := True \<rparr>)"

definition conn_reachable :: "(int \<Rightarrow> int) \<Rightarrow> conn_opts \<Rightarrow> conn \<Rightarrow> bool" where
  "conn_reachable trunc o1 c \<longleftrightarrow> (\<exists>c0. Connect o1 None = Inr c0 \<and> (conn_step trunc o1)\<^sup>*\<^sup>* c0 c)"

inductive_cases conn_drainE: "conn_drain trunc o1 c c'"
inductive_cases conn_stepE: "conn_step trunc o1 c c'"

section \<open>The event channel\<close>

text \<open>
  The channel that pkg/signal's Client hands out: \<open>emit\<close> drops when it is full, Close closes it
  after the connection was closed. None is a panic: a send on, or a close of, a closed channel.
\<close>

record event_chan =
  ec_buf :: "Event list"
  ec_cap :: nat
  ec_closed :: bool

definition emit_event :: "Event \<Rightarrow> event_chan \<Rightarrow> event_chan option" where
  "emit_event ev ch =
    (if ec_closed ch then None
     else if length (ec_buf ch) < ec_cap ch then Some (ch\<lparr> ec_buf := ec_buf ch @ [ev] \<rparr>)
     else Some ch)"

definition close_events :: "event_chan \<Rightarrow> event_chan option" where
  "close_events ch = (if ec_closed ch then None else Some (ch\<lparr> ec_closed := True \<rparr>))"

end
