(* ===== verification/ChatLaws.thy ===== *)
theory ChatLaws
  imports ChatConn
begin

text \<open>
  The backoff's bounds, the one client at a time, how Close ends, and the client that a Close
  racing with a reconnect leaves open.
\<close>

section \<open>The delay\<close>

lemma float64_exact: "n < 2 ^ 53 \<Longrightarrow> float64_of n = n"
  by (simp add: float64_of_def)

lemma wrap_int64_id: "- (2 ^ 63) \<le> n \<Longrightarrow> n < 2 ^ 63 \<Longrightarrow> wrap_int64 n = n"
  by (simp add: wrap_int64_def signed_of_int signed_take_bit_int_eq_self_iff)

lemma sdiv_pos: "0 \<le> d \<Longrightarrow> d sdiv 4 = d div (4 :: int)"
  by (simp add: signed_divide_int_def sgn_if)

lemma backoff_ok:
  assumes "0 \<le> e" "e \<le> 2 ^ 62" "\<And>n. 0 < n \<Longrightarrow> 0 \<le> rnd n \<and> rnd n < n"
  shows "\<exists>d. Some (wrap_int64 (e + rnd (wrap_int64 (wrap_int64 (e sdiv 4) + 1)))) = Some d \<and> e \<le> d \<and> d \<le> e + e div 4 \<and>
    wrap_int64 (wrap_int64 (e sdiv 4) + 1) > 0"
proof -
  have "wrap_int64 (e sdiv 4) = e div 4" using assms(1,2) by (simp add: sdiv_pos wrap_int64_id)
  moreover have "wrap_int64 (e + j) = e + j" if "0 \<le> j \<and> j \<le> e div 4" for j
  proof (rule wrap_int64_id)
    have "4 * (e div 4) \<le> e" by presburger
    then show "e + j < 2 ^ 63" using that assms(1,2) by simp
  qed (use that assms(1) in simp)
  moreover have "wrap_int64 (e div 4 + 1) = e div 4 + 1" using assms(1,2) by (simp add: wrap_int64_id)
  moreover have "0 \<le> rnd (e div 4 + 1) \<and> rnd (e div 4 + 1) \<le> e div 4" using assms(3) [of "e div 4 + 1"] assms(1) by simp
  ultimately show ?thesis using assms(1,2) by simp
qed

text \<open>
  C15. While the exponential fits in a duration, the delay is the capped exponential plus at most
  a quarter of it. Once it does not fit, on a machine whose conversion gives the least integer,
  backoffDelay panics.
\<close>

theorem backoffDelay_spec:
  assumes "initialBackoff o1 < 2 ^ 53" "maxBackoff o1 \<le> 2 ^ 62"
    "\<And>n. 0 < n \<Longrightarrow> 0 \<le> rnd n \<and> rnd n < n"
  shows "(initialBackoff o1 * 2 ^ k < 2 ^ 63 \<longrightarrow>
      (\<exists>d. backoffDelay amd64_int64 rnd o1 k = Some d \<and>
        (let e = min (initialBackoff o1 * 2 ^ k) (maxBackoff o1) in e \<le> d \<and> d \<le> e + e div 4))) \<and>
    (initialBackoff o1 * 2 ^ k \<ge> 2 ^ 63 \<longrightarrow> backoffDelay amd64_int64 rnd o1 k = None)"
proof (intro conjI impI)
  let ?x = "initialBackoff o1 * 2 ^ k"
  have b: "0 < initialBackoff o1" "0 < maxBackoff o1" by (simp_all add: initialBackoff_def maxBackoff_def)
  have f: "float64_of (initialBackoff o1) = initialBackoff o1" using assms(1) by (rule float64_exact)
  {
    assume x: "?x < 2 ^ 63"
    have "0 < ?x" using b by simp
    then have t: "amd64_int64 ?x = ?x" using x by (simp add: amd64_int64_def)
    let ?e = "if ?x > maxBackoff o1 then maxBackoff o1 else ?x"
    have e: "?e = min ?x (maxBackoff o1)" by (simp add: min_def)
    have r: "0 \<le> ?e" "?e \<le> 2 ^ 62" using b(2) assms(2) \<open>0 < ?x\<close> by auto
    show "\<exists>d. backoffDelay amd64_int64 rnd o1 k = Some d \<and>
        (let e = min ?x (maxBackoff o1) in e \<le> d \<and> d \<le> e + e div 4)"
      using backoff_ok [OF r assms(3)] unfolding backoffDelay_def f t Let_def e by auto
  next
    assume x: "?x \<ge> 2 ^ 63"
    then have t: "amd64_int64 ?x = - (2 ^ 63)" by (simp add: amd64_int64_def)
    show "backoffDelay amd64_int64 rnd o1 k = None"
      using b(2) unfolding backoffDelay_def f t Let_def
      by (simp add: signed_divide_int_def wrap_int64_id)
  }
qed

text \<open>The defaults: attempt 33 still has its minute, attempt 34 panics.\<close>

definition demo_opts :: conn_opts where
  "demo_opts = \<lparr> co_ACI = ''a'', co_DeviceID = 2, co_Password = ''p'', co_Handler = True, co_URL = [],
     co_UserAgent = [], co_InitialBackoff = 0, co_MaxBackoff = 0 \<rparr>"

theorem backoffDelay_spec_witness:
  "(\<exists>d. backoffDelay amd64_int64 (\<lambda>n. 0) demo_opts 33 = Some d \<and> 60000000000 \<le> d \<and> d \<le> 75000000000) \<and>
   backoffDelay amd64_int64 (\<lambda>n. 0) demo_opts 34 = None"
  using backoffDelay_spec [of demo_opts "\<lambda>n. 0" 33] backoffDelay_spec [of demo_opts "\<lambda>n. 0" 34]
  by (simp add: demo_opts_def initialBackoff_def maxBackoff_def)

section \<open>One client at a time\<close>

text \<open>
  A client other than the current one, or the one about to be stored, is closed. What has
  returned by itself has closed everything.
\<close>

definition inv_one :: "conn \<Rightarrow> bool" where
  "inv_one c \<longleftrightarrow>
    (\<forall>k < length (cn_clients c). wc_closed (cn_clients c ! k) \<or> cn_client c = Some k \<or> cn_loop c = CkStore k) \<and>
    (\<forall>k. cn_client c = Some k \<longrightarrow> k < length (cn_clients c))"

definition shut :: "conn \<Rightarrow> nat \<Rightarrow> bool" where
  "shut c k \<longleftrightarrow> k < length (cn_clients c) \<and> wc_closed (cn_clients c ! k) \<and> \<not> wc_connOpen (cn_clients c ! k)"

definition inv_loop :: "conn \<Rightarrow> bool" where
  "inv_loop c \<longleftrightarrow>
    (case cn_loop c of
       CkTop \<Rightarrow> True
     | CkSelect k \<Rightarrow> cn_client c = Some k
     | CkCloseClient a \<Rightarrow> a = AfExit \<longrightarrow> cn_ctxDone c
     | CkClosing k a \<Rightarrow> cn_client c = Some k \<and> shut c k
     | CkCheck \<Rightarrow> cn_client c = None
     | CkBackoff \<Rightarrow> cn_client c = None
     | CkDial \<Rightarrow> cn_client c = None
     | CkStore k \<Rightarrow> k < length (cn_clients c) \<and> cn_client c = None
     | CkExited \<Rightarrow> cn_closed c \<or> cn_client c = None
     | CkCrashed \<Rightarrow> True)"

definition closer_ok :: "conn \<Rightarrow> closer \<Rightarrow> bool" where
  "closer_ok c p \<longleftrightarrow>
    (case p of CsClose (Some k) \<Rightarrow> k < length (cn_clients c) | CsWait k \<Rightarrow> shut c k | _ \<Rightarrow> True)"

definition conn_inv :: "conn \<Rightarrow> bool" where
  "conn_inv c \<longleftrightarrow> inv_one c \<and> inv_loop c \<and> list_all (closer_ok c) (cn_closers c) \<and>
    (cn_done c \<longleftrightarrow> cn_loop c = CkExited) \<and> (cn_closed c \<longrightarrow> cn_ctxDone c) \<and>
    list_all (ws_reachable (Some handleServerRequest)) (cn_clients c)"

text \<open>A client never opens again.\<close>

lemma closed_register: "wc_closed (send_register k s) = wc_closed s" "wc_connOpen (send_register k s) = wc_connOpen s"
  by (simp_all add: send_defs)

lemma closed_drain: "drain h s s' \<Longrightarrow> wc_closed s \<Longrightarrow> wc_closed s'"
  by (erule drain.cases)
     (auto simp: send_defs read_error_def failPending_def close_pending_closed split: option.splits)

lemma read_message_conn: "wc_closed (read_message h ok m s) = wc_closed s" "wc_connOpen (read_message h ok m s) = wc_connOpen s"
  by (auto simp: read_message_def dispatchRequest_def dispatchResponse_def Let_def set_call_def
      split: ws_message.splits option.splits)

lemma ws_step_mono:
  assumes "ws_step h s s'"
  shows "(wc_closed s \<longrightarrow> wc_closed s') \<and> (\<not> wc_connOpen s \<longrightarrow> \<not> wc_connOpen s')"
  using assms
proof (cases rule: ws_step.cases)
  case Drain
  then show ?thesis using closed_drain drain_connOpen by blast
qed (auto simp: send_begin_def set_phase_def set_call_def read_error_def unmarshal_error_def ping_failed_def
      Close_lock_def close_pending_closed read_message_conn Let_def)

lemma Close_lock_closed: "wc_closed (Close_lock w)"
  by (simp add: Close_lock_def close_pending_closed)

lemma Close_lock_conn: "\<not> wc_closed w \<Longrightarrow> \<not> wc_connOpen (Close_lock w)" "\<not> wc_connOpen w \<Longrightarrow> \<not> wc_connOpen (Close_lock w)"
  by (simp_all add: Close_lock_def)

lemma reachable_dialed: "ws_reachable h dialed"
  by (auto simp: ws_reachable_def dialed_def)

lemma reachable_Close: "ws_reachable h w \<Longrightarrow> ws_reachable h (Close_lock w)"
  by (rule ws_reachable_step [OF _ ws_step.Close])

lemma shut_update:
  "i < length (cn_clients c) \<Longrightarrow> shut c k \<Longrightarrow> (wc_closed (cn_clients c ! i) \<Longrightarrow> wc_closed w) \<Longrightarrow> (\<not> wc_connOpen (cn_clients c ! i) \<Longrightarrow> \<not> wc_connOpen w) \<Longrightarrow>
   shut (set_client i w c) k"
  by (auto simp: shut_def set_client_def nth_list_update)

lemma inv_set_client:
  assumes "conn_inv c" "i < length (cn_clients c)" "ws_reachable (Some handleServerRequest) w"
    "wc_closed (cn_clients c ! i) \<Longrightarrow> wc_closed w" "\<not> wc_connOpen (cn_clients c ! i) \<Longrightarrow> \<not> wc_connOpen w"
  shows "conn_inv (set_client i w c)"
proof -
  have s: "shut (set_client i w c) k" if "shut c k" for k
    using shut_update [OF assms(2) that assms(4,5)] .
  have one: "inv_one (set_client i w c)"
    using assms(1,2,4) by (auto simp: conn_inv_def inv_one_def set_client_def nth_list_update)
  have lp: "inv_loop (set_client i w c)"
    using assms(1) s by (auto simp: conn_inv_def inv_loop_def set_client_def split: conn_loop.splits)
  have cl: "closer_ok (set_client i w c) p" if "closer_ok c p" for p
    using that s by (auto simp: closer_ok_def set_client_def split: closer.splits option.splits)
  have "list_all (ws_reachable (Some handleServerRequest)) ((cn_clients c)[i := w])"
    using assms(1,3) by (auto simp: conn_inv_def list_all_iff dest!: set_update_subset_insert [THEN subsetD])
  then show ?thesis
    using assms(1) one lp cl unfolding conn_inv_def
    by (auto simp: set_client_def list_all_iff)
qed

lemma inv_close_ws:
  assumes "conn_inv c" "k < length (cn_clients c)"
  shows "conn_inv (close_ws k c)"
proof -
  have "ws_reachable (Some handleServerRequest) (cn_clients c ! k)"
    using assms by (simp add: conn_inv_def list_all_length)
  then show ?thesis
    using inv_set_client [OF assms reachable_Close] Close_lock_closed Close_lock_conn(2)
    by (simp add: close_ws_def set_client_def)
qed

lemma inv_client_step:
  assumes "conn_inv c" "k < length (cn_clients c)" "ws_step (Some handleServerRequest) (cn_clients c ! k) w"
  shows "conn_inv (set_client k w c)"
proof -
  have "ws_reachable (Some handleServerRequest) (cn_clients c ! k)"
    using assms by (simp add: conn_inv_def list_all_length)
  then show ?thesis
    using inv_set_client [OF assms(1,2) ws_reachable_step [OF _ assms(3)]] ws_step_mono [OF assms(3)] by blast
qed

lemma shut_close_ws: "\<not> wc_closed (cn_clients c ! k) \<Longrightarrow> k < length (cn_clients c) \<Longrightarrow> shut (close_ws k c) k"
  by (simp add: shut_def close_ws_def Close_lock_closed Close_lock_conn)

text \<open>Moving the loop, where the new place's condition holds.\<close>

lemma inv_fields_loop:
  assumes "conn_inv c" "cn_clients c' = cn_clients c" "cn_closers c' = cn_closers c" "cn_closed c' = cn_closed c"
    "cn_ctxDone c' = cn_ctxDone c" "cn_done c' \<longleftrightarrow> cn_loop c' = CkExited" "inv_one c'" "inv_loop c'"
  shows "conn_inv c'"
proof -
  have "closer_ok c' = closer_ok c"
    using assms(2) by (auto simp: fun_eq_iff closer_ok_def shut_def split: closer.splits option.splits)
  then show ?thesis using assms by (simp add: conn_inv_def)
qed

lemma inv_after_close:
  assumes "conn_inv c" "cn_loop c \<noteq> CkExited" "\<And>k. cn_loop c \<noteq> CkStore k"
    "\<And>k. cn_client c = Some k \<Longrightarrow> wc_closed (cn_clients c ! k)"
  shows "conn_inv (after_close a (c\<lparr> cn_client := None \<rparr>))"
proof (rule inv_fields_loop [OF assms(1)])
  show "inv_one (after_close a (c\<lparr> cn_client := None \<rparr>))"
    using assms by (cases a) (auto simp: conn_inv_def inv_one_def after_close_def loop_return_def)
qed (use assms in \<open>auto simp: conn_inv_def after_close_def loop_return_def inv_loop_def split: after.splits\<close>)

lemma inv_closeClient_begin:
  assumes "conn_inv c" "cn_loop c = CkCloseClient a"
  shows "conn_inv (closeClient_begin a c)"
proof (cases "cn_client c")
  case None
  then have e: "c\<lparr> cn_client := None \<rparr> = c" by simp
  show ?thesis
    using inv_after_close [OF assms(1), of a] assms(2) None unfolding e by (simp add: closeClient_begin_def)
next
  case (Some k)
  have k: "k < length (cn_clients c)" using assms(1) Some by (simp add: conn_inv_def inv_one_def)
  show ?thesis
  proof (cases "wc_closed (cn_clients c ! k)")
    case True
    then show ?thesis
      using inv_after_close [OF assms(1), of a] assms(2) Some by (simp add: closeClient_begin_def)
  next
    case False
    have i: "conn_inv (close_ws k c)" by (rule inv_close_ws [OF assms(1) k])
    have "conn_inv (close_ws k c\<lparr> cn_loop := CkClosing k a \<rparr>)"
      by (rule inv_fields_loop [OF i])
         (use i shut_close_ws [OF False k] assms(2) Some in
           \<open>auto simp: conn_inv_def inv_one_def inv_loop_def shut_def close_ws_def\<close>)
    then show ?thesis using Some False by (simp add: closeClient_begin_def)
  qed
qed

lemma inv_closeClient_end:
  assumes "conn_inv c" "cn_loop c = CkClosing k a"
  shows "conn_inv (closeClient_end a c)"
  unfolding closeClient_end_def
  by (rule inv_after_close [OF assms(1)])
     (use assms in \<open>auto simp: conn_inv_def inv_loop_def shut_def\<close>)

lemma inv_move:
  assumes "conn_inv c" "cn_loop c \<noteq> CkExited" "\<And>k. cn_loop c \<noteq> CkStore k" "p \<noteq> CkExited" "inv_loop (c\<lparr> cn_loop := p \<rparr>)"
  shows "conn_inv (c\<lparr> cn_loop := p \<rparr>)"
  by (rule inv_fields_loop [OF assms(1)]) (use assms in \<open>auto simp: conn_inv_def inv_one_def\<close>)

lemma inv_return:
  assumes "conn_inv c" "\<And>k. cn_loop c \<noteq> CkStore k" "cn_closed c \<or> cn_client c = None"
  shows "conn_inv (loop_return c)"
  by (rule inv_fields_loop [OF assms(1)])
     (use assms in \<open>auto simp: loop_return_def conn_inv_def inv_one_def inv_loop_def\<close>)

lemma inv_run_top:
  assumes "conn_inv c" "cn_loop c = CkTop"
  shows "conn_inv (run_top c)"
  using assms inv_return inv_move
  by (cases "cn_client c") (auto simp: run_top_def inv_loop_def)

lemma inv_check:
  assumes "conn_inv c" "cn_loop c = CkCheck"
  shows "conn_inv (reconnect_check d c)"
proof -
  have n: "cn_client c = None" using assms by (simp add: conn_inv_def inv_loop_def)
  have "conn_inv (c\<lparr> cn_attempt := a, cn_loop := CkBackoff \<rparr>)" for a
    by (rule inv_fields_loop [OF assms(1)]) (use assms n in \<open>auto simp: conn_inv_def inv_one_def inv_loop_def\<close>)
  moreover have "conn_inv (c\<lparr> cn_loop := CkCrashed \<rparr>)"
    using assms by (intro inv_move) (auto simp: inv_loop_def)
  ultimately show ?thesis
    using inv_return [OF assms(1)] assms(2) n by (auto simp: reconnect_check_def split: option.splits)
qed

lemma closer_mono:
  assumes "closer_ok c p" "length (cn_clients c) \<le> length (cn_clients c')"
    "\<And>k. k < length (cn_clients c) \<Longrightarrow> cn_clients c' ! k = cn_clients c ! k"
  shows "closer_ok c' p"
  using assms by (auto simp: closer_ok_def shut_def split: closer.splits option.splits)

lemma inv_dialed:
  assumes "conn_inv c" "cn_loop c = CkDial"
  shows "conn_inv (reconnect_dialed c)"
proof -
  have "list_all (closer_ok (reconnect_dialed c)) (cn_closers c)"
    using assms closer_mono [of c _ "reconnect_dialed c"]
    by (auto simp: conn_inv_def list_all_iff reconnect_dialed_def nth_append)
  moreover have "inv_one (reconnect_dialed c)"
    using assms by (auto simp: conn_inv_def inv_one_def inv_loop_def reconnect_dialed_def nth_append)
  ultimately show ?thesis
    using assms reachable_dialed by (auto simp: conn_inv_def inv_loop_def reconnect_dialed_def)
qed

lemma inv_store:
  assumes "conn_inv c" "cn_loop c = CkStore k"
  shows "conn_inv (reconnect_store k c)"
  by (rule inv_fields_loop [OF assms(1)])
     (use assms in \<open>auto simp: conn_inv_def inv_one_def inv_loop_def reconnect_store_def\<close>)

lemma inv_closers:
  assumes "conn_inv c" "list_all (closer_ok c) ps"
  shows "conn_inv (c\<lparr> cn_closers := ps \<rparr>)"
proof -
  have "closer_ok (c\<lparr> cn_closers := ps \<rparr>) = closer_ok c"
    by (auto simp: fun_eq_iff closer_ok_def shut_def split: closer.splits option.splits)
  then show ?thesis using assms by (simp add: conn_inv_def inv_one_def inv_loop_def shut_def split: conn_loop.splits)
qed

lemma inv_set_closer:
  assumes "conn_inv c" "closer_ok c p"
  shows "conn_inv (set_closer j p c)"
proof -
  have "list_all (closer_ok c) ((cn_closers c)[j := p])"
    using assms by (auto simp: conn_inv_def list_all_iff dest!: set_update_subset_insert [THEN subsetD])
  then show ?thesis using inv_closers [OF assms(1)] by (simp add: set_closer_def)
qed

lemma inv_Close_client:
  assumes "conn_inv c" "in_closer c j (CsClose captured)"
  shows "conn_inv (Close_client j captured c)"
proof (cases captured)
  case None
  then show ?thesis using inv_set_closer [OF assms(1)] by (simp add: Close_client_def closer_ok_def)
next
  case (Some k)
  have "closer_ok c (CsClose (Some k))"
    using assms Some by (auto simp: conn_inv_def in_closer_def list_all_length)
  then have k: "k < length (cn_clients c)" by (simp add: closer_ok_def)
  show ?thesis
    using inv_set_closer [OF assms(1)] inv_set_closer [OF inv_close_ws [OF assms(1) k]] shut_close_ws [OF _ k]
    by (simp add: Close_client_def Some closer_ok_def)
qed

lemma inv_Close_begin:
  assumes "conn_inv c"
  shows "conn_inv (Close_begin c)"
proof -
  have open_ok: "closer_ok c (CsClose (cn_client c))"
    using assms by (auto simp: conn_inv_def inv_one_def closer_ok_def split: option.splits)
  have done_ok: "closer_ok c CsDone" by (simp add: closer_ok_def)
  have add: "conn_inv (c\<lparr> cn_closers := cn_closers c @ [p] \<rparr>)" if "closer_ok c p" for p
  proof (rule inv_closers [OF assms])
    show "list_all (closer_ok c) (cn_closers c @ [p])" using that assms by (simp add: conn_inv_def)
  qed
  let ?d = "c\<lparr> cn_closers := cn_closers c @ [CsClose (cn_client c)] \<rparr>"
  have "closer_ok (?d\<lparr> cn_closed := True, cn_ctxDone := True \<rparr>) = closer_ok ?d"
    by (auto simp: fun_eq_iff closer_ok_def shut_def split: closer.splits option.splits)
  then have "conn_inv (?d\<lparr> cn_closed := True, cn_ctxDone := True \<rparr>)"
    using add [OF open_ok] by (auto simp: conn_inv_def inv_one_def inv_loop_def shut_def split: conn_loop.splits)
  moreover have "?d\<lparr> cn_closed := True, cn_ctxDone := True \<rparr> =
      c\<lparr> cn_closed := True, cn_ctxDone := True, cn_closers := cn_closers c @ [CsClose (cn_client c)] \<rparr>"
    by (cases c) simp
  ultimately show ?thesis using add [OF done_ok] by (simp add: Close_begin_def)
qed

lemma inv_cancel:
  assumes "conn_inv c"
  shows "conn_inv (c\<lparr> cn_ctxDone := True \<rparr>)"
proof -
  have "closer_ok (c\<lparr> cn_ctxDone := True \<rparr>) = closer_ok c"
    by (auto simp: fun_eq_iff closer_ok_def shut_def split: closer.splits option.splits)
  then show ?thesis
    using assms by (auto simp: conn_inv_def inv_one_def inv_loop_def shut_def split: conn_loop.splits)
qed

lemma inv_loopD:
  assumes "conn_inv c"
  shows "cn_loop c = CkSelect k \<Longrightarrow> cn_client c = Some k" "cn_loop c = CkBackoff \<Longrightarrow> cn_client c = None"
    "cn_loop c = CkDial \<Longrightarrow> cn_client c = None" "cn_closed c \<Longrightarrow> cn_ctxDone c"
    "cn_loop c = CkClosing k a \<Longrightarrow> shut c k"
  using assms by (auto simp: conn_inv_def inv_loop_def)

lemma inv_drain:
  assumes "conn_drain trunc o1 c c'" "conn_inv c"
  shows "conn_inv c'"
  using assms(1)
proof (cases rule: conn_drain.cases)
  case Top
  then show ?thesis using inv_run_top assms(2) by simp
next
  case (SelectCtx k)
  then show ?thesis using inv_move [OF assms(2), of "CkCloseClient AfExit"] by (simp add: inv_loop_def)
next
  case (SelectDone k)
  then show ?thesis using inv_move [OF assms(2), of "CkCloseClient AfReconnect"] by (simp add: inv_loop_def)
next
  case (CloseClient a)
  then show ?thesis using inv_closeClient_begin assms(2) by simp
next
  case (ClientClosed k a)
  then show ?thesis using inv_closeClient_end assms(2) by simp
next
  case (Check rnd)
  then show ?thesis using inv_check assms(2) by simp
next
  case BackoffCtx
  then show ?thesis using inv_return [OF assms(2)] inv_loopD [OF assms(2)] by simp
next
  case BackoffTimer
  then show ?thesis
    using inv_move [OF assms(2), of CkDial] inv_loopD [OF assms(2)] by (simp add: inv_loop_def)
next
  case DialFailed
  then show ?thesis
    using inv_move [OF assms(2), of CkCheck] inv_loopD [OF assms(2)] by (simp add: inv_loop_def)
next
  case Dialed
  then show ?thesis using inv_dialed assms(2) by simp
next
  case (Store k)
  then show ?thesis using inv_store assms(2) by simp
next
  case (CloserClient j captured)
  then show ?thesis using inv_Close_client assms(2) by simp
next
  case (CloserWaited j k)
  then show ?thesis using inv_set_closer [OF assms(2)] by (simp add: closer_ok_def)
next
  case (CloserDone j)
  then show ?thesis using inv_set_closer [OF assms(2)] by (simp add: closer_ok_def)
next
  case (Client k w)
  then show ?thesis using inv_client_step [OF assms(2)] ws_step.Drain by blast
qed

lemma inv_step:
  assumes "conn_step trunc o1 c c'" "conn_inv c"
  shows "conn_inv c'"
  using assms
proof (cases rule: conn_step.cases)
  case Drain
  then show ?thesis using inv_drain assms(2) by blast
next
  case (ClientStep k w)
  then show ?thesis using inv_client_step [OF assms(2)] by simp
qed (use assms inv_Close_begin inv_cancel in auto)

lemma inv_Connect: "Connect o1 e = Inr c \<Longrightarrow> conn_inv c"
  using reachable_dialed
  by (auto simp: Connect_def conn_inv_def inv_one_def inv_loop_def split: option.splits)

lemma inv_reachable:
  assumes "conn_reachable trunc o1 c"
  shows "conn_inv c"
proof -
  obtain c0 where "Connect o1 None = Inr c0" "(conn_step trunc o1)\<^sup>*\<^sup>* c0 c"
    using assms by (auto simp: conn_reachable_def)
  from this(2,1) show ?thesis
    by (induction rule: rtranclp_induct) (auto intro: inv_Connect inv_step)
qed

text \<open>
  C13. At most one client is not closed, and a run loop that ended without Close has closed
  every client it dialed.
\<close>

theorem chat_one_client:
  assumes "conn_reachable trunc o1 c"
  shows "(\<forall>j k. j < length (cn_clients c) \<and> k < length (cn_clients c) \<and> \<not> wc_closed (cn_clients c ! j) \<and>
      \<not> wc_closed (cn_clients c ! k) \<longrightarrow> j = k) \<and>
    (cn_done c \<and> \<not> cn_closed c \<longrightarrow> list_all wc_closed (cn_clients c))"
proof -
  have i: "conn_inv c" by (rule inv_reachable [OF assms])
  have o1: "cn_client c = Some k \<or> cn_loop c = CkStore k"
    if "k < length (cn_clients c)" "\<not> wc_closed (cn_clients c ! k)" for k
    using i that by (auto simp: conn_inv_def inv_one_def)
  have st: "cn_client c = None" if "cn_loop c = CkStore k" for k
    using i that by (simp add: conn_inv_def inv_loop_def)
  have ex: "cn_loop c = CkExited \<and> cn_client c = None" if "cn_done c" "\<not> cn_closed c"
    using i that by (cases "cn_loop c") (simp_all add: conn_inv_def inv_loop_def)
  have "j = k" if "j < length (cn_clients c)" "k < length (cn_clients c)" "\<not> wc_closed (cn_clients c ! j)"
    "\<not> wc_closed (cn_clients c ! k)" for j k
    using o1 [OF that(1,3)] o1 [OF that(2,4)] st by auto
  moreover have "list_all wc_closed (cn_clients c)" if "cn_done c" "\<not> cn_closed c"
    using o1 ex [OF that] by (fastforce simp: list_all_length)
  ultimately show ?thesis by blast
qed

section \<open>How Close ends\<close>

fun after_rank :: "conn_loop \<Rightarrow> nat" where
  "after_rank CkExited = 0"
| "after_rank CkCrashed = 0"
| "after_rank CkCheck = 1"
| "after_rank CkTop = 1"
| "after_rank (CkStore k) = 2"
| "after_rank (CkClosing k a) = 2"
| "after_rank (CkCloseClient a) = 4"
| "after_rank (CkSelect k) = 5"
| "after_rank CkDial = 6"
| "after_rank CkBackoff = 7"

fun closer_rank :: "closer \<Rightarrow> nat" where
  "closer_rank (CsClose captured) = 4"
| "closer_rank (CsWait k) = 2"
| "closer_rank CsDone = 1"
| "closer_rank CsReturned = 0"

definition conn_measure :: "conn \<Rightarrow> nat" where
  "conn_measure c = after_rank (cn_loop c) + sum_list (map ws_measure (cn_clients c)) +
     sum_list (map closer_rank (cn_closers c))"

lemma sum_list_set:
  assumes "k < length xs"
  shows "sum_list (map f (xs[k := x])) + f (xs ! k) = sum_list (map f xs) + (f x :: nat)"
  using assms
proof (induction xs arbitrary: k)
  case (Cons y ys)
  then show ?case by (cases k) auto
qed simp

lemma measure_client:
  assumes "k < length (cn_clients c)"
  shows "conn_measure (set_client k w c) + ws_measure (cn_clients c ! k) = conn_measure c + ws_measure w"
  using sum_list_set [OF assms, of ws_measure w] by (simp add: conn_measure_def set_client_def)

lemma measure_closer:
  assumes "in_closer c j p"
  shows "conn_measure (set_closer j q c) + closer_rank p = conn_measure c + closer_rank q"
  using sum_list_set [of j "cn_closers c" closer_rank q] assms
  by (simp add: conn_measure_def set_closer_def in_closer_def)

lemma measure_Close_lock: "ws_measure (Close_lock w) \<le> ws_measure w + 1"
  using close_pending_phases [of w] calls_rank_cong [of "wc_calls (close_pending w)" "wc_calls w"]
  by (simp add: Close_lock_def ws_measure_def)

lemma measure_close_ws:
  assumes "k < length (cn_clients c)"
  shows "conn_measure (close_ws k c) \<le> conn_measure c + 1"
  using measure_client [OF assms, of "Close_lock (cn_clients c ! k)"] measure_Close_lock [of "cn_clients c ! k"]
  by (simp add: close_ws_def set_client_def)

lemma measure_loop:
  assumes "cn_clients c' = cn_clients c" "cn_closers c' = cn_closers c"
  shows "conn_measure c' + after_rank (cn_loop c) = conn_measure c + after_rank (cn_loop c')"
  using assms by (simp add: conn_measure_def)

lemma measure_loop_less:
  assumes "cn_clients c' = cn_clients c" "cn_closers c' = cn_closers c" "after_rank (cn_loop c') < after_rank (cn_loop c)"
  shows "conn_measure c' < conn_measure c"
  using measure_loop [OF assms(1,2)] assms(3) by linarith

lemma after_close_frame:
  "cn_clients (after_close a c) = cn_clients c" "cn_closers (after_close a c) = cn_closers c"
  "after_rank (cn_loop (after_close a c)) \<le> 1"
  by (cases a; simp add: after_close_def loop_return_def)+

lemma measure_dialed: "cn_loop c = CkDial \<Longrightarrow> conn_measure (reconnect_dialed c) < conn_measure c"
  by (simp add: conn_measure_def reconnect_dialed_def dialed_def newClient_def ws_measure_def calls_rank_def)

lemma measure_begin:
  assumes "conn_inv c" "cn_loop c = CkCloseClient a"
  shows "conn_measure (closeClient_begin a c) < conn_measure c"
proof -
  have a: "conn_measure (after_close a (c\<lparr> cn_client := x \<rparr>)) < conn_measure c" for x
    using after_close_frame [of a "c\<lparr> cn_client := x \<rparr>"] assms(2)
    by (intro measure_loop_less) auto
  have n: "conn_measure (after_close a c) < conn_measure c" if "cn_client c = None"
    using a [of None] that by (metis (mono_tags, lifting) conn.surjective conn.update_convs(1))
  have b: "conn_measure (close_ws k c\<lparr> cn_loop := CkClosing k a \<rparr>) < conn_measure c" if "cn_client c = Some k" for k
  proof -
    have k: "k < length (cn_clients c)" using assms(1) that by (simp add: conn_inv_def inv_one_def)
    show ?thesis
      using measure_close_ws [OF k] measure_loop [of "close_ws k c\<lparr> cn_loop := CkClosing k a \<rparr>" "close_ws k c"] assms(2)
      by (simp add: close_ws_def)
  qed
  show ?thesis
    using a [of None] n b by (cases "cn_client c") (simp_all add: closeClient_begin_def)
qed

lemma measure_Close_client:
  assumes "conn_inv c" "in_closer c j (CsClose captured)"
  shows "conn_measure (Close_client j captured c) < conn_measure c"
proof (cases captured)
  case None
  then show ?thesis using measure_closer [OF assms(2), of CsDone] by (simp add: Close_client_def)
next
  case (Some k)
  have "closer_ok c (CsClose (Some k))"
    using assms Some by (auto simp: conn_inv_def in_closer_def list_all_length)
  then have k: "k < length (cn_clients c)" by (simp add: closer_ok_def)
  have "in_closer (close_ws k c) j (CsClose captured)" using assms(2) by (simp add: in_closer_def close_ws_def)
  then show ?thesis
    using measure_closer [OF assms(2), of CsDone] measure_closer [of "close_ws k c" j "CsClose captured" "CsWait k"]
      measure_close_ws [OF k]
    by (simp add: Close_client_def Some)
qed

lemma conn_drain_measure:
  assumes "conn_drain trunc o1 c c'" "conn_inv c" "cn_closed c"
  shows "conn_measure c' < conn_measure c"
  using assms(1)
proof (cases rule: conn_drain.cases)
  case (CloseClient a)
  then show ?thesis using measure_begin assms(2) by simp
next
  case (ClientClosed k a)
  show ?thesis
    unfolding ClientClosed(1) closeClient_end_def
    by (rule measure_loop_less) (use ClientClosed(2) after_close_frame(3) [of a "c\<lparr> cn_client := None \<rparr>"] in
      \<open>simp_all add: after_close_frame(1,2)\<close>)
next
  case Dialed
  then show ?thesis using measure_dialed by simp
next
  case (CloserClient j captured)
  then show ?thesis using measure_Close_client assms(2) by simp
next
  case (CloserWaited j k)
  then show ?thesis using measure_closer [of c j "CsWait k" CsDone] by simp
next
  case (CloserDone j)
  then show ?thesis using measure_closer [of c j CsDone CsReturned] by simp
next
  case (Client k w)
  then show ?thesis using measure_client [of k c w] drain_measure by fastforce
qed (use assms(3) in \<open>auto intro!: measure_loop_less simp: run_top_def loop_return_def reconnect_check_def reconnect_store_def\<close>)

lemma closed_frames:
  "cn_closed (loop_return c) = cn_closed c" "cn_closed (after_close a c) = cn_closed c"
  "cn_closed (run_top c) = cn_closed c" "cn_closed (close_ws k c) = cn_closed c"
  "cn_closed (closeClient_begin a c) = cn_closed c" "cn_closed (closeClient_end a c) = cn_closed c"
  "cn_closed (reconnect_check d c) = cn_closed c" "cn_closed (reconnect_dialed c) = cn_closed c"
  "cn_closed (reconnect_store k c) = cn_closed c" "cn_closed (set_closer i p c) = cn_closed c"
  "cn_closed (Close_client i captured c) = cn_closed c" "cn_closed (set_client k w c) = cn_closed c"
proof -
  show r: "cn_closed (loop_return c) = cn_closed c" for c by (simp add: loop_return_def)
  show a: "cn_closed (after_close a c) = cn_closed c" for c by (cases a) (simp_all add: after_close_def r)
  show "cn_closed (run_top c) = cn_closed c" by (cases "cn_client c") (simp_all add: run_top_def r)
  show w: "cn_closed (close_ws k c) = cn_closed c" for k by (simp add: close_ws_def)
  show "cn_closed (closeClient_begin a c) = cn_closed c"
    by (cases "cn_client c") (simp_all add: closeClient_begin_def a w)
  show "cn_closed (closeClient_end a c) = cn_closed c" by (simp add: closeClient_end_def a)
  show "cn_closed (reconnect_check d c) = cn_closed c" by (cases d) (simp_all add: reconnect_check_def r)
  show "cn_closed (reconnect_dialed c) = cn_closed c" by (simp add: reconnect_dialed_def)
  show "cn_closed (reconnect_store k c) = cn_closed c" by (simp add: reconnect_store_def)
  show s: "cn_closed (set_closer i p c) = cn_closed c" for p c by (simp add: set_closer_def)
  show "cn_closed (Close_client i captured c) = cn_closed c"
    by (cases captured) (simp_all add: Close_client_def s w)
  show "cn_closed (set_client k w c) = cn_closed c" by (simp add: set_client_def)
qed

lemma closed_stays: "conn_drain trunc o1 c c' \<Longrightarrow> cn_closed c' = cn_closed c"
  by (erule conn_drain.cases) (simp_all add: closed_frames)

lemma closed_run:
  "(conn_drain trunc o1)\<^sup>*\<^sup>* c c' \<Longrightarrow> conn_inv c \<Longrightarrow> cn_closed c \<Longrightarrow> conn_inv c' \<and> cn_closed c'"
  by (induction rule: rtranclp_induct) (auto intro: inv_drain simp: closed_stays)

lemma conn_run_bound:
  assumes "(conn_drain trunc o1 ^^ n) c c'" "conn_inv c" "cn_closed c"
  shows "n + conn_measure c' \<le> conn_measure c"
  using assms(1)
proof (induction n arbitrary: c')
  case (Suc n)
  then obtain t where t: "(conn_drain trunc o1 ^^ n) c t" "conn_drain trunc o1 t c'" by auto
  have "conn_inv t \<and> cn_closed t" by (rule closed_run [OF relpowp_imp_rtranclp [OF t(1)] assms(2,3)])
  then show ?case using Suc.IH [OF t(1)] conn_drain_measure [OF t(2)] by simp
qed simp

text \<open>Nothing is left waiting: the client that is being closed is done, as its own goroutines ended.\<close>

lemma stuck_client_done:
  assumes "conn_inv c" "shut c k" "\<And>t. \<not> conn_drain trunc o1 c t"
  shows "wc_done (cn_clients c ! k)"
proof -
  have k: "k < length (cn_clients c)" "\<not> wc_connOpen (cn_clients c ! k)" using assms(2) by (simp_all add: shut_def)
  have "done_ok (cn_clients c ! k)"
    using assms(1) k(1) done_reachable by (auto simp: conn_inv_def list_all_length)
  moreover have "\<not> drain (Some handleServerRequest) (cn_clients c ! k) w" for w
    using assms(3) conn_drain.Client [OF k(1)] by blast
  ultimately have "ws_idle (cn_clients c ! k)" using stuck_idle k(2) by blast
  then show ?thesis by (simp add: ws_idle_def)
qed

lemma stuck_returned:
  assumes i: "conn_inv c" and c: "cn_closed c" and st: "\<And>t. \<not> conn_drain trunc o1 c t"
  shows "cn_done c \<or> cn_loop c = CkCrashed" "cn_done c \<Longrightarrow> list_all (\<lambda>p. p = CsReturned) (cn_closers c)"
proof -
  have x: "cn_ctxDone c" using inv_loopD(4) [OF i c] .
  have "cn_loop c = CkExited \<or> cn_loop c = CkCrashed"
  proof (cases "cn_loop c")
    case (CkClosing k a)
    then show ?thesis
      using st conn_drain.ClientClosed [OF CkClosing] stuck_client_done [OF i inv_loopD(5) [OF i CkClosing] st] by blast
  next
    case CkTop then show ?thesis using st conn_drain.Top by metis
  next
    case (CkSelect k) then show ?thesis using st x conn_drain.SelectCtx by metis
  next
    case (CkCloseClient a) then show ?thesis using st conn_drain.CloseClient by metis
  next
    case CkCheck then show ?thesis using st conn_drain.Check by metis
  next
    case CkBackoff then show ?thesis using st conn_drain.BackoffTimer by metis
  next
    case CkDial then show ?thesis using st conn_drain.DialFailed by metis
  next
    case (CkStore k) then show ?thesis using st conn_drain.Store by metis
  qed simp_all
  then show "cn_done c \<or> cn_loop c = CkCrashed" using i by (auto simp: conn_inv_def)
  assume d: "cn_done c"
  have "cn_closers c ! j = CsReturned" if j: "j < length (cn_closers c)" for j
  proof (cases "cn_closers c ! j")
    case (CsClose captured)
    then show ?thesis using st conn_drain.CloserClient [of c j captured] j by (auto simp: in_closer_def)
  next
    case (CsWait k)
    then have "closer_ok c (CsWait k)" using i j by (auto simp: conn_inv_def list_all_length dest: spec [of _ j])
    then have "wc_done (cn_clients c ! k)" using stuck_client_done [OF i _ st] by (simp add: closer_ok_def)
    then show ?thesis using st conn_drain.CloserWaited [of c j k] j CsWait by (auto simp: in_closer_def)
  next
    case CsDone
    then show ?thesis using st conn_drain.CloserDone [of c j] j d by (auto simp: in_closer_def)
  qed
  then show "list_all (\<lambda>p. p = CsReturned) (cn_closers c)" by (simp add: list_all_length)
qed

text \<open>
  C12. After Close was called, every run of the goroutines ends within the measure, and when it
  has ended every call of Close has returned and the run loop is done, unless the process had
  already crashed in the backoff.
\<close>

theorem chat_close_returns:
  assumes "conn_reachable trunc o1 c" "cn_closed c"
  shows "(\<forall>n c'. (conn_drain trunc o1 ^^ n) c c' \<longrightarrow> n \<le> conn_measure c) \<and>
    (\<forall>c'. (conn_drain trunc o1)\<^sup>*\<^sup>* c c' \<and> (\<nexists>t. conn_drain trunc o1 c' t) \<longrightarrow>
      cn_loop c' = CkCrashed \<or> cn_done c' \<and> list_all (\<lambda>p. p = CsReturned) (cn_closers c'))"
proof -
  have i: "conn_inv c" by (rule inv_reachable [OF assms(1)])
  have "n \<le> conn_measure c" if "(conn_drain trunc o1 ^^ n) c c'" for n c'
    using conn_run_bound [OF that i assms(2)] by simp
  moreover have "cn_loop c' = CkCrashed \<or> cn_done c' \<and> list_all (\<lambda>p. p = CsReturned) (cn_closers c')"
    if "(conn_drain trunc o1)\<^sup>*\<^sup>* c c'" "\<nexists>t. conn_drain trunc o1 c' t" for c'
    using closed_run [OF that(1) i assms(2)] stuck_returned [of c' trunc o1] that(2) by blast
  ultimately show ?thesis by blast
qed

section \<open>What Close leaves behind\<close>

definition connected :: conn where
  "connected = \<lparr> cn_client = Some 0, cn_closed = False, cn_ctxDone = False, cn_done = False,
     cn_attempt = 0, cn_loop = CkTop, cn_clients = [dialed], cn_closers = [] \<rparr>"

lemma connected_Connect: "Connect demo_opts None = Inr connected"
  by (simp add: Connect_def connect_guard_def demo_opts_def connected_def)

lemma reachable_connected: "conn_reachable trunc demo_opts connected"
  using connected_Connect by (auto simp: conn_reachable_def)

lemma conn_reachable_step: "conn_reachable trunc o1 c \<Longrightarrow> conn_step trunc o1 c c' \<Longrightarrow> conn_reachable trunc o1 c'"
  by (auto simp: conn_reachable_def intro: rtranclp.rtrancl_into_rtrancl)

lemmas conn_reachable_drain = conn_reachable_step [OF _ conn_step.Drain]

text \<open>A client whose connection was lost, and the connection that is about to dial again.\<close>

definition lost_ws :: ws_client where
  "lost_ws = failPending (read_error ''EOF'' dialed)\<lparr> wc_loop := LpClosing \<rparr>\<lparr> wc_loop := LpExited, wc_done := True \<rparr>"

lemma lost_ws_fields: "wc_closed lost_ws" "wc_done lost_ws"
  by (simp_all add: lost_ws_def failPending_def close_pending_closed)

definition redialing :: conn where
  "redialing = \<lparr> cn_client = None, cn_closed = False, cn_ctxDone = False, cn_done = False,
     cn_attempt = 1, cn_loop = CkDial, cn_clients = [lost_ws], cn_closers = [] \<rparr>"

lemma reachable_lost:
  "conn_reachable trunc demo_opts (set_client 0 lost_ws (run_top connected))"
proof -
  let ?c = "run_top connected"
  have c: "conn_reachable trunc demo_opts ?c"
    by (rule conn_reachable_drain [OF reachable_connected conn_drain.Top]) (simp add: connected_def)
  let ?w1 = "read_error ''EOF'' dialed" and ?w2 = "failPending (read_error ''EOF'' dialed)\<lparr> wc_loop := LpClosing \<rparr>"
  have s0: "cn_clients ?c = [dialed]" by (simp add: run_top_def connected_def)
  have s1: "conn_reachable trunc demo_opts (set_client 0 ?w1 ?c)"
    by (rule conn_reachable_step [OF c conn_step.ClientStep])
       (simp_all add: s0 ws_step.ReadFailed dialed_def newClient_def)
  have "drain (Some handleServerRequest) ?w1 ?w2" by (rule drain.LoopFail) (simp add: read_error_def)
  then have "conn_reachable trunc demo_opts (set_client 0 ?w2 (set_client 0 ?w1 ?c))"
    by (intro conn_reachable_drain [OF s1 conn_drain.Client]) (simp_all add: s0 set_client_def)
  moreover have "drain (Some handleServerRequest) ?w2 lost_ws"
    unfolding lost_ws_def by (rule drain.LoopDone) simp
  ultimately have "conn_reachable trunc demo_opts (set_client 0 lost_ws (set_client 0 ?w2 (set_client 0 ?w1 ?c)))"
    by (elim conn_reachable_drain [OF _ conn_drain.Client]) (simp_all add: s0 set_client_def)
  then show ?thesis by (simp add: set_client_def)
qed

lemma reachable_redialing: "conn_reachable amd64_int64 demo_opts redialing"
proof -
  let ?c = "set_client 0 lost_ws (run_top connected)"
  let ?c1 = "?c\<lparr> cn_loop := CkCloseClient AfReconnect \<rparr>"
  note defs = set_client_def run_top_def connected_def
  have "conn_reachable amd64_int64 demo_opts ?c1"
    by (rule conn_reachable_drain [OF reachable_lost conn_drain.SelectDone [of _ 0]])
       (simp_all add: defs lost_ws_fields)
  then have "conn_reachable amd64_int64 demo_opts (closeClient_begin AfReconnect ?c1)"
    by (rule conn_reachable_drain [OF _ conn_drain.CloseClient]) simp
  moreover have e: "closeClient_begin AfReconnect ?c1 = redialing\<lparr> cn_attempt := 0, cn_loop := CkCheck \<rparr>"
    by (simp add: closeClient_begin_def after_close_def defs lost_ws_fields redialing_def)
  ultimately have "conn_reachable amd64_int64 demo_opts
      (reconnect_check (backoffDelay amd64_int64 (\<lambda>n. 0) demo_opts 0) (redialing\<lparr> cn_attempt := 0, cn_loop := CkCheck \<rparr>))"
    using conn_reachable_drain [OF _ conn_drain.Check, of amd64_int64 demo_opts "redialing\<lparr> cn_attempt := 0, cn_loop := CkCheck \<rparr>" "\<lambda>n. 0"]
    by simp
  moreover have "backoffDelay amd64_int64 (\<lambda>n. 0) demo_opts 0 = Some 1000000000"
    by (simp add: backoffDelay_def float64_of_def amd64_int64_def demo_opts_def initialBackoff_def maxBackoff_def
        sdiv_pos wrap_int64_id)
  ultimately have b: "conn_reachable amd64_int64 demo_opts (redialing\<lparr> cn_loop := CkBackoff \<rparr>)"
    by (simp add: reconnect_check_def redialing_def)
  then show ?thesis
    using conn_reachable_drain [OF b conn_drain.BackoffTimer] by (simp add: redialing_def)
qed

text \<open>
  C14. A dial that succeeds while Close is called: Close has captured no client, the run loop
  stores the new one, sees that the connection is closed and returns, and Close returns. The
  client is open, and nothing will close it.
\<close>

theorem chat_close_leaks:
  "\<exists>c. conn_reachable amd64_int64 demo_opts c \<and> cn_done c \<and> cn_closers c = [CsReturned] \<and>
     cn_client c = Some 1 \<and> wc_connOpen (cn_clients c ! 1) \<and> \<not> wc_closed (cn_clients c ! 1)"
proof -
  let ?c1 = "Close_begin (reconnect_dialed redialing)"
  let ?c2 = "run_top (reconnect_store 1 ?c1)"
  let ?c3 = "set_closer 0 CsReturned (Close_client 0 None ?c2)"
  note defs = Close_begin_def reconnect_dialed_def redialing_def reconnect_store_def run_top_def loop_return_def
    Close_client_def set_closer_def mutex_held_def in_closer_def
  have "conn_reachable amd64_int64 demo_opts ?c1"
    by (rule conn_reachable_step [OF conn_reachable_drain [OF reachable_redialing conn_drain.Dialed] conn_step.Close])
       (simp_all add: defs)
  then have "conn_reachable amd64_int64 demo_opts (reconnect_store 1 ?c1)"
    by (rule conn_reachable_drain [OF _ conn_drain.Store]) (simp add: defs)
  then have "conn_reachable amd64_int64 demo_opts ?c2"
    by (rule conn_reachable_drain [OF _ conn_drain.Top]) (simp add: defs)
  then have "conn_reachable amd64_int64 demo_opts (Close_client 0 None ?c2)"
    by (rule conn_reachable_drain [OF _ conn_drain.CloserClient]) (simp add: defs)
  then have "conn_reachable amd64_int64 demo_opts ?c3"
    by (rule conn_reachable_drain [OF _ conn_drain.CloserDone]) (simp_all add: defs)
  moreover have "cn_done ?c3 \<and> cn_closers ?c3 = [CsReturned] \<and> cn_client ?c3 = Some 1 \<and>
     cn_clients ?c3 ! 1 = dialed"
    by (simp add: defs)
  ultimately show ?thesis by (metis dialed_def newClient_def ws_client.select_convs(1,5))
qed

text \<open>
  Close does not wait for the handlers: one can still be running when the client's Close has
  returned, the events are closed next, and the event it then emits panics.
\<close>

theorem close_leaves_handlers:
  "(\<exists>s. ws_reachable (Some f) s \<and> wc_done s \<and> wc_closers s = 0 \<and> wc_handlers s = [req]) \<and>
   Option.bind (close_events ch) (emit_event ev) = None"
proof -
  let ?s0 = "read_message (Some f) True (WsRequest (Some req)) (newClient False)"
  let ?s1 = "Close_lock ?s0"
  let ?s2 = "read_error ''closed'' ?s1"
  let ?s3 = "failPending ?s2\<lparr> wc_loop := LpClosing \<rparr>\<lparr> wc_loop := LpExited, wc_done := True \<rparr>"
  let ?s4 = "?s3\<lparr> wc_closers := wc_closers ?s3 - 1 \<rparr>"
  note defs = read_message_def dispatchRequest_def newClient_def Close_lock_def close_pending_def failPending_def
    read_error_def Let_def
  have "ws_reachable (Some f) (newClient False)" by (auto simp: ws_reachable_def)
  then have "ws_reachable (Some f) ?s0" by (rule ws_reachable_step [OF _ ws_step.Read]) (simp add: newClient_def)
  then have "ws_reachable (Some f) ?s1" by (rule reachable_Close)
  then have "ws_reachable (Some f) ?s2" by (rule ws_reachable_step [OF _ ws_step.ReadFailed]) (simp add: defs)
  then have "ws_reachable (Some f) (failPending ?s2\<lparr> wc_loop := LpClosing \<rparr>)"
    by (rule ws_reachable_step [OF _ ws_step.Drain [OF drain.LoopFail]]) (simp add: defs)
  then have "ws_reachable (Some f) ?s3"
    by (rule ws_reachable_step [OF _ ws_step.Drain [OF drain.LoopDone]]) simp
  then have "ws_reachable (Some f) ?s4"
    by (rule ws_reachable_step [OF _ ws_step.Drain [OF drain.CloseReturns]]) (simp_all add: defs)
  moreover have "wc_done ?s4 \<and> wc_closers ?s4 = 0 \<and> wc_handlers ?s4 = [req]" by (simp add: defs)
  ultimately show ?thesis by (auto simp: close_events_def emit_event_def)
qed

theorem chat_one_client_witness:
  "\<not> wc_closed (cn_clients connected ! 0) \<and> length (cn_clients connected) = 1 \<and> conn_reachable amd64_int64 demo_opts connected"
  using chat_one_client [OF reachable_connected [of amd64_int64]] reachable_connected [of amd64_int64]
  by (auto simp: connected_def dialed_def newClient_def)

theorem chat_close_returns_witness:
  "let c = Close_begin redialing in
     conn_reachable amd64_int64 demo_opts c \<and> (\<nexists>c'. (conn_drain amd64_int64 demo_opts ^^ Suc (conn_measure c)) c c')"
proof -
  have r: "conn_reachable amd64_int64 demo_opts (Close_begin redialing)"
    by (rule conn_reachable_step [OF reachable_redialing conn_step.Close]) (simp add: mutex_held_def redialing_def)
  have "cn_closed (Close_begin redialing)" by (simp add: Close_begin_def redialing_def)
  then show ?thesis
    using chat_close_returns [OF r] r by (metis not_less_eq_eq order_refl)
qed

end
