(* ===== verification/Aead.thy ===== *)
theory Aead
  imports Crypto
begin

text \<open>
  The two counter modes of crypto/cipher that the code uses, over the block permutation of
  \<open>crypto\<close>: CTR with a 16-byte counter, and GCM with a 12-byte nonce and a 16-byte tag. The main
  fact is that \<open>gcm_open\<close> accepts exactly the outputs of \<open>gcm_seal\<close>, also stated as the law of a
  locale for deterministic authenticated encryption.
\<close>

section \<open>Counter mode\<close>

text \<open>Blocks as big-endian 128-bit words.\<close>

definition block_of_word :: "128 word \<Rightarrow> bytes" where
  "block_of_word w = map (\<lambda>i. ucast (drop_bit (8 * (15 - i)) w)) [0..<16]"

definition word_of_block :: "bytes \<Rightarrow> 128 word" where
  "word_of_block bs = foldl (\<lambda>w b. push_bit 8 w OR ucast b) 0 bs"

text \<open>The last block may be short: only as much of the key stream as there is input is used.\<close>

function ctr_blocks :: "crypto \<Rightarrow> bytes \<Rightarrow> (128 word \<Rightarrow> 128 word) \<Rightarrow> 128 word \<Rightarrow> bytes \<Rightarrow> bytes" where
  "ctr_blocks C key next w src =
    (if src = [] then []
     else xor_bytes (take 16 src) (aes_enc C key (block_of_word w)) @
          ctr_blocks C key next (next w) (drop 16 src))"
  by auto
termination by (relation "measure (\<lambda>(C, key, next, w, src). length src)") auto

declare ctr_blocks.simps [simp del]

text \<open>\<open>NewCTR\<close> counts on the whole block; GCM counts on its last 32 bits only.\<close>

definition XORKeyStream :: "crypto \<Rightarrow> bytes \<Rightarrow> bytes \<Rightarrow> bytes \<Rightarrow> bytes" where
  "XORKeyStream C key iv src = ctr_blocks C key (\<lambda>w. w + 1) (word_of_block iv) src"

definition inc32 :: "128 word \<Rightarrow> 128 word" where
  "inc32 w = (w AND NOT (mask 32)) OR (ucast (ucast w + 1 :: 32 word))"

lemma length_block_of_word [simp]: "length (block_of_word w) = 16"
  by (simp add: block_of_word_def)

lemma xor_bytes_prefix:
  "length x \<le> length y \<Longrightarrow> xor_bytes (xor_bytes x y) y = x"
proof (induction x arbitrary: y)
  case (Cons a x)
  then show ?case by (cases y) (auto simp: xor_bytes_def xor.assoc)
qed (simp add: xor_bytes_def)

lemma ctr_length:
  "block_cipher_ok C \<Longrightarrow> length (ctr_blocks C key next w src) = length src"
proof (induction C key "next" w src rule: ctr_blocks.induct)
  case (1 C key "next" w src)
  then show ?case by (subst ctr_blocks.simps) (auto simp: block_cipher_ok_def)
qed

lemma ctr_involution:
  "block_cipher_ok C \<Longrightarrow> ctr_blocks C key next w (ctr_blocks C key next w src) = src"
proof (induction C key "next" w src rule: ctr_blocks.induct)
  case (1 C key "next" w src)
  show ?case
  proof (cases "src = []")
    case True
    then show ?thesis by (simp add: ctr_blocks.simps)
  next
    case False
    define ks where "ks = aes_enc C key (block_of_word w)"
    have ks: "length ks = 16" using 1 by (simp add: ks_def block_cipher_ok_def)
    define h where "h = xor_bytes (take 16 src) ks"
    define t where "t = ctr_blocks C key next (next w) (drop 16 src)"
    have e: "ctr_blocks C key next w src = h @ t"
      using False by (subst ctr_blocks.simps) (simp add: h_def t_def ks_def)
    have ne: "h @ t \<noteq> []" using False ks by (auto simp: h_def xor_bytes_def)
    have hl: "length h = min (length src) 16" by (simp add: h_def ks)
    have th: "take 16 (h @ t) = h \<and> drop 16 (h @ t) = t"
    proof (cases "length src \<le> 16")
      case True
      then have "t = []" by (simp add: t_def ctr_blocks.simps)
      then show ?thesis using hl by simp
    next
      case False
      then show ?thesis using hl by simp
    qed
    have "ctr_blocks C key next w (h @ t) = xor_bytes h ks @ ctr_blocks C key next (next w) t"
      unfolding ctr_blocks.simps [of C key "next" w "h @ t"] using ne th by (simp only: if_False ks_def)
    also have "\<dots> = take 16 src @ drop 16 src"
      using 1 False by (simp add: h_def t_def ks xor_bytes_prefix)
    finally show ?thesis by (simp add: e)
  qed
qed

lemma XORKeyStream_involution:
  "block_cipher_ok C \<Longrightarrow> XORKeyStream C key iv (XORKeyStream C key iv src) = src"
  by (simp add: XORKeyStream_def ctr_involution)

lemma length_XORKeyStream:
  "block_cipher_ok C \<Longrightarrow> length (XORKeyStream C key iv src) = length src"
  by (simp add: XORKeyStream_def ctr_length)

section \<open>GHASH\<close>

text \<open>Multiplication in GF(2^128) with GCM's bit order: bit 0 of the field is the top bit.\<close>

fun gf_steps :: "nat \<Rightarrow> 128 word \<Rightarrow> 128 word \<Rightarrow> 128 word \<Rightarrow> 128 word" where
  "gf_steps 0 y v z = z"
| "gf_steps (Suc i) y v z =
    gf_steps i y ((if bit v 0 then drop_bit 1 v XOR push_bit 120 0xE1 else drop_bit 1 v))
      (if bit y i then z XOR v else z)"

definition gf_mul :: "128 word \<Rightarrow> 128 word \<Rightarrow> 128 word" where
  "gf_mul x y = gf_steps 128 y x 0"

text \<open>Each part is padded with zeros to whole blocks.\<close>

function ghash_update :: "128 word \<Rightarrow> 128 word \<Rightarrow> bytes \<Rightarrow> 128 word" where
  "ghash_update h y bs =
    (if bs = [] then y
     else ghash_update h
       (gf_mul (y XOR word_of_block (take 16 bs @ replicate (16 - length bs) 0)) h) (drop 16 bs))"
  by auto
termination by (relation "measure (\<lambda>(h, y, bs). length bs)") auto

declare ghash_update.simps [simp del]

definition ghash :: "128 word \<Rightarrow> bytes \<Rightarrow> bytes \<Rightarrow> 128 word" where
  "ghash h aad ct =
    (let lens = push_bit 64 (of_nat (8 * length aad)) OR of_nat (8 * length ct)
     in gf_mul (ghash_update h (ghash_update h 0 aad) ct XOR lens) h)"

section \<open>GCM\<close>

text \<open>The limits of crypto/cipher: Seal panics above, Open fails above.\<close>

definition gcm_max :: nat where
  "gcm_max = (2 ^ 32 - 2) * 16"

definition gcm_j0 :: "bytes \<Rightarrow> 128 word" where
  "gcm_j0 nonce = word_of_block (nonce @ [0, 0, 0, 1])"

definition gcm_tag :: "crypto \<Rightarrow> bytes \<Rightarrow> bytes \<Rightarrow> bytes \<Rightarrow> bytes \<Rightarrow> bytes" where
  "gcm_tag C key nonce ct aad =
    (let h = word_of_block (aes_enc C key (replicate 16 0))
     in xor_bytes (block_of_word (ghash h aad ct)) (aes_enc C key (block_of_word (gcm_j0 nonce))))"

definition gcm_crypt :: "crypto \<Rightarrow> bytes \<Rightarrow> bytes \<Rightarrow> bytes \<Rightarrow> bytes" where
  "gcm_crypt C key nonce src = ctr_blocks C key inc32 (inc32 (gcm_j0 nonce)) src"

text \<open>The callers give a 12-byte nonce; None is the panic on too long an input.\<close>

definition gcm_seal :: "crypto \<Rightarrow> bytes \<Rightarrow> bytes \<Rightarrow> bytes \<Rightarrow> bytes \<Rightarrow> bytes option" where
  "gcm_seal C key nonce plaintext aad =
    (if length plaintext > gcm_max then None
     else let ct = gcm_crypt C key nonce plaintext in Some (ct @ gcm_tag C key nonce ct aad))"

definition gcm_open :: "crypto \<Rightarrow> bytes \<Rightarrow> bytes \<Rightarrow> bytes \<Rightarrow> bytes \<Rightarrow> string + bytes" where
  "gcm_open C key nonce ciphertext aad =
    (if length ciphertext < 16 \<or> length ciphertext > gcm_max + 16
     then Inl ''cipher: message authentication failed''
     else
       let ct = take (length ciphertext - 16) ciphertext; tag = drop (length ciphertext - 16) ciphertext
       in if constantTimeCompare (gcm_tag C key nonce ct aad) tag \<noteq> 1
          then Inl ''cipher: message authentication failed''
          else Inr (gcm_crypt C key nonce ct))"

lemma length_gcm_tag: "block_cipher_ok C \<Longrightarrow> length (gcm_tag C key nonce ct aad) = 16"
  by (simp add: gcm_tag_def Let_def block_cipher_ok_def)

lemma length_gcm_crypt: "block_cipher_ok C \<Longrightarrow> length (gcm_crypt C key nonce src) = length src"
  by (simp add: gcm_crypt_def ctr_length)

lemma gcm_crypt_involution:
  "block_cipher_ok C \<Longrightarrow> gcm_crypt C key nonce (gcm_crypt C key nonce src) = src"
  by (simp add: gcm_crypt_def ctr_involution)

lemma gcm_seal_open:
  assumes C: "block_cipher_ok C" and s: "gcm_seal C key nonce p aad = Some ct"
  shows "gcm_open C key nonce ct aad = Inr p"
proof -
  define body where "body = gcm_crypt C key nonce p"
  have len: "length p \<le> gcm_max" and ct: "ct = body @ gcm_tag C key nonce body aad"
    using s by (auto simp: gcm_seal_def body_def Let_def split: if_splits)
  have "length body = length p" "gcm_crypt C key nonce body = p"
    using C by (simp_all add: body_def length_gcm_crypt gcm_crypt_involution)
  then show ?thesis using C len by (simp add: gcm_open_def ct length_gcm_tag Let_def guard_simps)
qed

lemma gcm_open_sealed:
  assumes C: "block_cipher_ok C" and o: "gcm_open C key nonce ct aad = Inr p"
  shows "gcm_seal C key nonce p aad = Some ct"
proof -
  define body where "body = take (length ct - 16) ct"
  have len: "16 \<le> length ct" "length ct \<le> gcm_max + 16"
    and tag: "gcm_tag C key nonce body aad = drop (length ct - 16) ct"
    and p: "p = gcm_crypt C key nonce body"
    using o by (auto simp: gcm_open_def body_def Let_def guard_simps split: if_splits)
  have "ct = body @ gcm_tag C key nonce body aad" unfolding tag by (simp add: body_def)
  moreover have "length p \<le> gcm_max" using len C by (simp add: p length_gcm_crypt) (simp add: body_def)
  ultimately show ?thesis
    using C by (simp add: gcm_seal_def p gcm_crypt_involution Let_def)
qed

lemma gcm_open_iff:
  "block_cipher_ok C \<Longrightarrow> gcm_open C key nonce ct aad = Inr p \<longleftrightarrow> gcm_seal C key nonce p aad = Some ct"
  using gcm_seal_open gcm_open_sealed by blast

lemma gcm_seal_Some_iff: "(\<exists>ct. gcm_seal C key nonce p aad = Some ct) \<longleftrightarrow> length p \<le> gcm_max"
  by (auto simp: gcm_seal_def Let_def)

lemma length_gcm_seal:
  "block_cipher_ok C \<Longrightarrow> gcm_seal C key nonce p aad = Some ct \<Longrightarrow> length ct = length p + 16"
  by (auto simp: gcm_seal_def Let_def length_gcm_tag length_gcm_crypt split: if_splits)

section \<open>Boxes: a nonce in front of a sealed text\<close>

text \<open>
  What the users of an authenticated cipher rely on: a box opens to a text exactly when it is
  that text sealed under some nonce. Then opening is a function of what was sealed, and whatever
  opens was made with the key.
\<close>

locale aead_box =
  fixes ok :: "'c \<Rightarrow> bool"
    and seal :: "'c \<Rightarrow> 'k \<Rightarrow> bytes \<Rightarrow> bytes \<Rightarrow> bytes option"
    and unseal :: "'c \<Rightarrow> 'k \<Rightarrow> bytes \<Rightarrow> 'e + bytes"
  assumes unseal_iff: "ok C \<Longrightarrow>
    unseal C k b = Inr p \<longleftrightarrow> (\<exists>nonce. length nonce = 12 \<and> seal C k nonce p = Some b)"
begin

lemma round_trip: "ok C \<Longrightarrow> length nonce = 12 \<Longrightarrow> seal C k nonce p = Some b \<Longrightarrow> unseal C k b = Inr p"
  using unseal_iff by blast

lemma seal_inj:
  "ok C \<Longrightarrow> length n = 12 \<Longrightarrow> length m = 12 \<Longrightarrow> seal C k n p = Some b \<Longrightarrow> seal C k m q = Some b \<Longrightarrow> p = q"
  using round_trip by (metis sum.inject(2))

lemma forged_rejected:
  "ok C \<Longrightarrow> (\<And>nonce p. length nonce = 12 \<Longrightarrow> seal C k nonce p \<noteq> Some b) \<Longrightarrow> \<not> is_ok (unseal C k b)"
  using unseal_iff by (auto simp: is_ok_iff)

end

definition box_seal :: "crypto \<Rightarrow> bytes \<Rightarrow> bytes \<Rightarrow> bytes \<Rightarrow> bytes option" where
  "box_seal C key nonce p = map_option (\<lambda>ct. nonce @ ct) (gcm_seal C key nonce p [])"

definition box_open :: "crypto \<Rightarrow> bytes \<Rightarrow> bytes \<Rightarrow> string + bytes" where
  "box_open C key b =
    (if length b < 12 then Inl ''short'' else gcm_open C key (take 12 b) (drop 12 b) [])"

interpretation gcm_box: aead_box block_cipher_ok box_seal box_open
proof
  fix C k b p
  assume C: "block_cipher_ok C"
  show "box_open C k b = Inr p \<longleftrightarrow> (\<exists>nonce. length nonce = 12 \<and> box_seal C k nonce p = Some b)"
  proof
    assume "box_open C k b = Inr p"
    then have "12 \<le> length b" "gcm_seal C k (take 12 b) p [] = Some (drop 12 b)"
      by (auto simp: box_open_def gcm_open_iff [OF C] split: if_splits)
    then have "length (take 12 b) = 12 \<and> box_seal C k (take 12 b) p = Some b"
      by (simp add: box_seal_def)
    then show "\<exists>nonce. length nonce = 12 \<and> box_seal C k nonce p = Some b" by blast
  next
    assume "\<exists>nonce. length nonce = 12 \<and> box_seal C k nonce p = Some b"
    then show "box_open C k b = Inr p"
      by (auto simp: box_seal_def box_open_def gcm_open_iff [OF C])
  qed
qed

lemma box_min: "block_cipher_ok C \<Longrightarrow> box_open C k b = Inr p \<Longrightarrow> length b = 28 + length p"
  using gcm_box.unseal_iff [of C k b p] length_gcm_seal by (fastforce simp: box_seal_def)

end
