(* ===== verification/Ciphers.thy ===== *)
theory Ciphers
  imports Aead Web
begin

text \<open>
  The ciphers of the linking, profile and storage code: internal/provisioning/cipher.go,
  internal/devicename/cipher.go, internal/profile/cipher.go, internal/storage/cipher.go and
  internal/store/seal/seal.go. The key operations of libsignal are the record \<open>key_lib\<close>; keys
  are opaque byte strings. Protobuf encoding is a parameter of each function that uses it.
\<close>

section \<open>Key operations\<close>

record key_lib =
  kl_Deserialize :: "bytes \<Rightarrow> string + bytes"
  kl_Serialize :: "bytes \<Rightarrow> string + bytes"
  kl_PublicKey :: "bytes \<Rightarrow> string + bytes"
  kl_Agree :: "bytes \<Rightarrow> bytes \<Rightarrow> string + bytes"
  kl_hkdf_derive :: "nat \<Rightarrow> bytes \<Rightarrow> bytes \<Rightarrow> bytes \<Rightarrow> string + bytes"
  kl_access_key :: "bytes \<Rightarrow> string + bytes"
  kl_svr_key :: "string \<Rightarrow> string + bytes"
  kl_siv_new :: "bytes \<Rightarrow> string option"
  kl_siv_encrypt :: "bytes \<Rightarrow> bytes \<Rightarrow> bytes \<Rightarrow> bytes \<Rightarrow> string + bytes"
  kl_siv_decrypt :: "bytes \<Rightarrow> bytes \<Rightarrow> bytes \<Rightarrow> bytes \<Rightarrow> string + bytes"

text \<open>
  What the code relies on: the two sides of an agreement get the same secret, a serialised
  public key is read back, and HKDF fills the buffer it is given.
\<close>

definition agreement_ok :: "key_lib \<Rightarrow> bool" where
  "agreement_ok L \<longleftrightarrow> (\<forall>a b pa pb. kl_PublicKey L a = Inr pa \<longrightarrow> kl_PublicKey L b = Inr pb \<longrightarrow>
     kl_Agree L a pb = kl_Agree L b pa)"

definition public_codec_ok :: "key_lib \<Rightarrow> bool" where
  "public_codec_ok L \<longleftrightarrow> (\<forall>p s. kl_Serialize L p = Inr s \<longrightarrow> s \<noteq> [] \<and> kl_Deserialize L s = Inr p)"

definition hkdf_ok :: "key_lib \<Rightarrow> bool" where
  "hkdf_ok L \<longleftrightarrow> (\<forall>n ikm info salt out. kl_hkdf_derive L n ikm info salt = Inr out \<longrightarrow> length out = n)"

definition HKDFSHA256 :: "key_lib \<Rightarrow> nat \<Rightarrow> bytes \<Rightarrow> bytes \<Rightarrow> bytes \<Rightarrow> string + bytes" where
  "HKDFSHA256 L outLen ikm info salt =
    (if outLen = 0 then Inl ''libsignal.HKDFSHA256: outLen must be positive''
     else kl_hkdf_derive L outLen ikm info salt)"

definition ValidateProfileKey :: "bytes \<Rightarrow> string option" where
  "ValidateProfileKey profileKey =
    (if length profileKey \<noteq> 32 then Some ''libsignal.ValidateProfileKey: want 32-byte profile key''
     else None)"

definition DeriveAccessKey :: "key_lib \<Rightarrow> bytes \<Rightarrow> string + bytes" where
  "DeriveAccessKey L profileKey =
    (if length profileKey \<noteq> 32
     then Inl (''libsignal.DeriveAccessKey: profile key length '' @ dec_digits (length profileKey) @ '', want 32'')
     else kl_access_key L profileKey)"

definition DeriveSVRKey :: "key_lib \<Rightarrow> string \<Rightarrow> string + bytes" where
  "DeriveSVRKey L pool =
    (if pool = [] then Inl ''libsignal.DeriveSVRKey: empty account entropy pool'' else kl_svr_key L pool)"

text \<open>A byte string as a Go string, and \<open>unicode/utf8.Valid\<close>.\<close>

definition bytes_string :: "bytes \<Rightarrow> string" where
  "bytes_string bs = map (\<lambda>b. char_of (unat b)) bs"

lemma unat_of_char: "unat (of_char c :: byte) = of_char c"
proof -
  have "(of_char c :: byte) = of_nat (of_char c)" by (simp only: of_nat_of_char)
  then have "unat (of_char c :: byte) = (of_char c :: nat) mod 2 ^ 8" by (simp add: unat_of_nat)
  then show ?thesis by simp
qed

lemma bytes_string_bytes [simp]: "bytes_string (string_bytes s) = s"
  by (simp add: bytes_string_def string_bytes_def comp_def unat_of_char)

lemma string_bytes_string [simp]: "string_bytes (bytes_string bs) = bs"
proof -
  have "(of_char (char_of (unat b)) :: byte) = b" for b :: byte
  proof -
    have "(of_char (char_of (unat b)) :: byte) = of_nat (of_char (char_of (unat b)))" by (simp only: of_nat_of_char)
    also have "\<dots> = of_nat (unat b)" using unat_byte_less [of b] by (simp only: of_char_of mod_less)
    finally show ?thesis by simp
  qed
  then show ?thesis by (simp add: bytes_string_def string_bytes_def comp_def)
qed

definition cont_byte :: "byte \<Rightarrow> bool" where
  "cont_byte b \<longleftrightarrow> 0x80 \<le> b \<and> b \<le> 0xBF"

fun utf8_Valid :: "bytes \<Rightarrow> bool" where
  "utf8_Valid [] = True"
| "utf8_Valid (a # bs) =
    (if a < 0x80 then utf8_Valid bs
     else if 0xC2 \<le> a \<and> a \<le> 0xDF then
       (case bs of b # r \<Rightarrow> cont_byte b \<and> utf8_Valid r | [] \<Rightarrow> False)
     else if 0xE0 \<le> a \<and> a \<le> 0xEF then
       (case bs of b # c # r \<Rightarrow>
          (if a = 0xE0 then 0xA0 \<le> b \<and> b \<le> 0xBF
           else if a = 0xED then 0x80 \<le> b \<and> b \<le> 0x9F else cont_byte b) \<and> cont_byte c \<and> utf8_Valid r
        | _ \<Rightarrow> False)
     else if 0xF0 \<le> a \<and> a \<le> 0xF4 then
       (case bs of b # c # d # r \<Rightarrow>
          (if a = 0xF0 then 0x90 \<le> b \<and> b \<le> 0xBF
           else if a = 0xF4 then 0x80 \<le> b \<and> b \<le> 0x8F else cont_byte b) \<and>
          cont_byte c \<and> cont_byte d \<and> utf8_Valid r
        | _ \<Rightarrow> False)
     else False)"

section \<open>The provisioning envelope\<close>

record ProvisionEnvelope =
  pe_PublicKey :: bytes
  pe_Body :: bytes

definition prov_info :: bytes where
  "prov_info = string_bytes ''TextSecure Provisioning Message''"

definition verifyMAC :: "crypto \<Rightarrow> bytes \<Rightarrow> bytes \<Rightarrow> bytes \<Rightarrow> bool" where
  "verifyMAC C key data tag =
    (if length tag \<noteq> 32 then False else constantTimeCompare (hmac C key data) tag = 1)"

definition aesCBCDecrypt :: "crypto \<Rightarrow> bytes \<Rightarrow> bytes \<Rightarrow> bytes \<Rightarrow> string + bytes" where
  "aesCBCDecrypt C key iv ciphertext =
    (if length key \<noteq> 32 then Inl (''AES key must be 32 bytes, got '' @ dec_digits (length key))
     else if length iv \<noteq> 16 then Inl (''AES IV must be 16 bytes, got '' @ dec_digits (length iv))
     else wrapR (\<lambda>_. ''pkcs7'') (prov_pkcs7Unpad (cbc_decrypt C key iv ciphertext)))"

text \<open>The errors by the step that fails; \<open>'m\<close> is the parsed ProvisionMessage.\<close>

datatype prov_error =
    PvNilEnvelope
  | PvMissingKey
  | PvTooShort
  | PvVersion byte
  | PvPeerKey string
  | PvECDH string
  | PvHKDF string
  | PvMac
  | PvAlign
  | PvCBC string
  | PvUnmarshal string

definition DecryptEnvelope ::
  "key_lib \<Rightarrow> crypto \<Rightarrow> (bytes \<Rightarrow> string + 'm) \<Rightarrow> bytes \<Rightarrow> ProvisionEnvelope option \<Rightarrow> prov_error + 'm" where
  "DecryptEnvelope L C unmarshal ourPriv envo =
    (case envo of
       None \<Rightarrow> Inl PvNilEnvelope
     | Some env \<Rightarrow>
       let body = pe_Body env; pubBytes = pe_PublicKey env in
       if length pubBytes = 0 then Inl PvMissingKey
       else if length body < 1 + 16 + 32 + 16 then Inl PvTooShort
       else if hd body \<noteq> 1 then Inl (PvVersion (hd body))
       else
         bindR (wrapR PvPeerKey (kl_Deserialize L pubBytes)) (\<lambda>theirPub.
         bindR (wrapR PvECDH (kl_Agree L ourPriv theirPub)) (\<lambda>shared.
         bindR (wrapR PvHKDF (HKDFSHA256 L 64 shared prov_info [])) (\<lambda>keys.
         let aesKey = take 32 keys; hmacKey = drop 32 keys;
             macStart = length body - 32;
             mac = drop macStart body; signedPortion = take macStart body
         in if \<not> verifyMAC C hmacKey signedPortion mac then Inl PvMac
            else
              let iv = subslice 1 17 body; ciphertext = subslice 17 macStart body
              in if length ciphertext mod 16 \<noteq> 0 then Inl PvAlign
                 else bindR (wrapR PvCBC (aesCBCDecrypt C aesKey iv ciphertext)) (\<lambda>plaintext.
                        wrapR PvUnmarshal (unmarshal plaintext))))))"

section \<open>The device name\<close>

record DeviceName =
  dn_EphemeralPublic :: bytes
  dn_SyntheticIv :: bytes
  dn_Ciphertext :: bytes

definition computeSyntheticIV :: "crypto \<Rightarrow> bytes \<Rightarrow> bytes \<Rightarrow> string + bytes" where
  "computeSyntheticIV C masterSecret plaintext =
    (let authKey = hmac C masterSecret (string_bytes ''auth''); full = hmac C authKey plaintext
     in if length full < 16 then Inl ''devicename: synthetic IV derivation too short''
        else Inr (take 16 full))"

definition computeCipherKey :: "crypto \<Rightarrow> bytes \<Rightarrow> bytes \<Rightarrow> bytes" where
  "computeCipherKey C masterSecret syntheticIV =
    hmac C (hmac C masterSecret (string_bytes ''cipher'')) syntheticIV"

definition aesCTR :: "crypto \<Rightarrow> bytes \<Rightarrow> bytes \<Rightarrow> string + bytes" where
  "aesCTR C key src =
    (if length key \<noteq> 32 then Inl (''devicename: AES key length '' @ dec_digits (length key) @ '', want 32'')
     else Inr (XORKeyStream C key (replicate 16 0) src))"

definition verifySyntheticIV :: "crypto \<Rightarrow> bytes \<Rightarrow> bytes \<Rightarrow> bytes \<Rightarrow> string option" where
  "verifySyntheticIV C masterSecret plaintext syntheticIV =
    (let authKey = hmac C masterSecret (string_bytes ''auth''); full = hmac C authKey plaintext
     in if length full < 16 then Some ''devicename: verification IV too short''
        else if constantTimeCompare (take 16 full) syntheticIV \<noteq> 1
        then Some ''devicename: synthetic IV mismatch'' else None)"

text \<open>The fresh key pair of the call is the argument \<open>eph\<close>.\<close>

definition EncryptBytes ::
  "key_lib \<Rightarrow> crypto \<Rightarrow> (DeviceName \<Rightarrow> string + bytes) \<Rightarrow> string + bytes \<Rightarrow> bytes \<Rightarrow> bytes option \<Rightarrow> string + string" where
  "EncryptBytes L C marshal eph plaintext identityPublic =
    (if length plaintext = 0 then Inl ''devicename.EncryptBytes: empty plaintext''
     else case identityPublic of
       None \<Rightarrow> Inl ''devicename.EncryptBytes: nil identity public key''
     | Some identity \<Rightarrow>
       bindR eph (\<lambda>ephemeralPriv.
       bindR (kl_PublicKey L ephemeralPriv) (\<lambda>ephemeralPub.
       bindR (kl_Agree L ephemeralPriv identity) (\<lambda>masterSecret.
       bindR (computeSyntheticIV C masterSecret plaintext) (\<lambda>syntheticIV.
       bindR (aesCTR C (computeCipherKey C masterSecret syntheticIV) plaintext) (\<lambda>ciphertext.
       bindR (kl_Serialize L ephemeralPub) (\<lambda>ephemeralPubBytes.
       bindR (marshal \<lparr> dn_EphemeralPublic = ephemeralPubBytes, dn_SyntheticIv = syntheticIV,
                        dn_Ciphertext = ciphertext \<rparr>) (\<lambda>wire.
         Inr (EncodeToString wire)))))))))"

definition devicename_Encrypt ::
  "key_lib \<Rightarrow> crypto \<Rightarrow> (DeviceName \<Rightarrow> string + bytes) \<Rightarrow> string + bytes \<Rightarrow> string \<Rightarrow> bytes option \<Rightarrow> string + string" where
  "devicename_Encrypt L C marshal eph plaintext identityPublic =
    (if plaintext = [] then Inl ''devicename.Encrypt: empty plaintext''
     else if \<not> utf8_Valid (string_bytes plaintext) then Inl ''devicename.Encrypt: plaintext is not valid UTF-8''
     else if identityPublic = None then Inl ''devicename.Encrypt: nil identity public key''
     else EncryptBytes L C marshal eph (string_bytes plaintext) identityPublic)"

text \<open>The identity is the private key; None stands for a pair with a nil part.\<close>

definition devicename_Decrypt ::
  "key_lib \<Rightarrow> crypto \<Rightarrow> (bytes \<Rightarrow> string + DeviceName) \<Rightarrow> string \<Rightarrow> bytes option \<Rightarrow> string + string" where
  "devicename_Decrypt L C unmarshal nameCipher identity =
    bindR (b64_decode stdAlphabet nameCipher) (\<lambda>b.
    bindR (unmarshal b) (\<lambda>dn.
    if length (dn_EphemeralPublic dn) = 0 \<or> length (dn_SyntheticIv dn) = 0 \<or> length (dn_Ciphertext dn) = 0
    then Inl ''devicename.Decrypt: missing device name fields''
    else case identity of
      None \<Rightarrow> Inl ''devicename.Decrypt: nil identity key pair''
    | Some priv \<Rightarrow>
      bindR (kl_Deserialize L (dn_EphemeralPublic dn)) (\<lambda>ephemeralPub.
      bindR (kl_Agree L priv ephemeralPub) (\<lambda>masterSecret.
      let syntheticIV = dn_SyntheticIv dn in
      bindR (aesCTR C (computeCipherKey C masterSecret syntheticIV) (dn_Ciphertext dn)) (\<lambda>plaintext.
      case verifySyntheticIV C masterSecret plaintext syntheticIV of
        Some e \<Rightarrow> Inl e
      | None \<Rightarrow>
        if \<not> utf8_Valid plaintext then Inl ''devicename.Decrypt: plaintext is not valid UTF-8''
        else Inr (bytes_string plaintext))))))"

section \<open>Profile fields\<close>

record profile_cipher =
  pc_aesKey :: bytes

definition NewCipher :: "key_lib \<Rightarrow> bytes \<Rightarrow> string + profile_cipher" where
  "NewCipher L profileKey =
    (case ValidateProfileKey profileKey of
       Some e \<Rightarrow> Inl (''profile.NewCipher: '' @ e)
     | None \<Rightarrow> bindR (wrapR (\<lambda>e. ''profile.NewCipher: '' @ e)
                (HKDFSHA256 L 32 profileKey (string_bytes ''ProfileKey'') []))
              (\<lambda>k. Inr \<lparr> pc_aesKey = k \<rparr>))"

definition decryptGCMSIV :: "key_lib \<Rightarrow> profile_cipher \<Rightarrow> bytes \<Rightarrow> string + bytes" where
  "decryptGCMSIV L c body =
    (if length body < 12 + 16 then Inl ''profile: GCM-SIV blob too short''
     else case kl_siv_new L (pc_aesKey c) of
       Some e \<Rightarrow> Inl e
     | None \<Rightarrow> kl_siv_decrypt L (pc_aesKey c) (drop 12 body) (take 12 body) [])"

text \<open>The AES key has 32 bytes (HKDF), so the cipher constructors do not fail.\<close>

definition decryptGCM :: "crypto \<Rightarrow> profile_cipher \<Rightarrow> bytes \<Rightarrow> string + bytes" where
  "decryptGCM C c body =
    (if length body < 12 + 16 then Inl ''profile: GCM blob too short''
     else gcm_open C (pc_aesKey c) (take 12 body) (drop 12 body) [])"

definition profile_decrypt :: "key_lib \<Rightarrow> crypto \<Rightarrow> profile_cipher \<Rightarrow> bytes \<Rightarrow> string + bytes" where
  "profile_decrypt L C c input =
    (if length input < 2 then Inl ''profile: ciphertext too short''
     else
       let version = hd input in
       if version = 1 then decryptGCMSIV L c (tl input)
       else if version = 0 then decryptGCM C c (tl input)
       else Inl (''profile: unsupported profile field version '' @ dec_digits (unat version)))"

definition DecryptString :: "key_lib \<Rightarrow> crypto \<Rightarrow> profile_cipher \<Rightarrow> bytes \<Rightarrow> string + string" where
  "DecryptString L C c ciphertext =
    (if length ciphertext = 0 then Inr []
     else bindR (profile_decrypt L C c ciphertext) (\<lambda>plain. Inr (bytes_string plain)))"

text \<open>\<open>strings.SplitN(raw, "\x00", 2)\<close>: the part before the first NUL, and the rest.\<close>

definition DecryptName :: "key_lib \<Rightarrow> crypto \<Rightarrow> profile_cipher \<Rightarrow> bytes \<Rightarrow> string + (string \<times> string)" where
  "DecryptName L C c ciphertext =
    bindR (DecryptString L C c ciphertext) (\<lambda>raw.
      if raw = [] then Inr ([], [])
      else Inr (takeWhile (\<lambda>ch. ch \<noteq> CHR 0x00) raw, drop 1 (dropWhile (\<lambda>ch. ch \<noteq> CHR 0x00) raw)))"

definition BigEndian_Uint32 :: "bytes \<Rightarrow> nat" where
  "BigEndian_Uint32 bs = foldl (\<lambda>n b. n * 256 + unat b) 0 bs"

definition DecryptWithLength :: "key_lib \<Rightarrow> crypto \<Rightarrow> profile_cipher \<Rightarrow> bytes \<Rightarrow> string + bytes" where
  "DecryptWithLength L C c ciphertext =
    bindR (profile_decrypt L C c ciphertext) (\<lambda>plain.
      if length plain < 4 then Inl ''profile: truncated length-prefixed field''
      else
        let len = BigEndian_Uint32 (take 4 plain)
        in if len > length plain - 4 then Inl ''profile: invalid length-prefixed field''
           else Inr (subslice 4 (4 + len) plain))"

text \<open>
  \<open>sum[:len(verifier)]\<close> slices a 32-byte array: None is the panic of a longer verifier.
\<close>

definition VerifyUnidentifiedAccess :: "key_lib \<Rightarrow> crypto \<Rightarrow> bytes \<Rightarrow> bytes \<Rightarrow> (string + bool) option" where
  "VerifyUnidentifiedAccess L C profileKey verifier =
    (if length verifier = 0 then Some (Inr False)
     else case DeriveAccessKey L profileKey of
       Inl e \<Rightarrow> Some (Inl e)
     | Inr uak \<Rightarrow>
       if length verifier > 32 then None
       else
         let got = take (length verifier) (sha256 C uak)
         in Some (Inr (if length got \<noteq> length verifier then False
                       else foldl (\<lambda>match i. if got ! i \<noteq> verifier ! i then False else match) True
                              [0..<length verifier])))"

definition EncryptStringForTest :: "key_lib \<Rightarrow> bytes \<Rightarrow> string \<Rightarrow> bytes \<Rightarrow> string + bytes" where
  "EncryptStringForTest L profileKey plaintext nonce =
    bindR (NewCipher L profileKey) (\<lambda>c.
      case kl_siv_new L (pc_aesKey c) of
        Some e \<Rightarrow> Inl e
      | None \<Rightarrow> bindR (kl_siv_encrypt L (pc_aesKey c) (string_bytes plaintext) nonce [])
                  (\<lambda>ct. Inr (1 # nonce @ ct)))"

section \<open>Storage service records\<close>

record storage_keys =
  sk_MasterKey :: bytes
  sk_StorageServiceKey :: bytes

text \<open>\<open>copy\<close> into a zeroed 32-byte array.\<close>

definition array32 :: "bytes \<Rightarrow> bytes" where
  "array32 b = take 32 (b @ replicate 32 0)"

lemma length_array32 [simp]: "length (array32 b) = 32"
  by (simp add: array32_def)

definition DeriveStorageServiceKey :: "crypto \<Rightarrow> bytes \<Rightarrow> bytes" where
  "DeriveStorageServiceKey C masterKey = array32 (hmac C masterKey (string_bytes ''Storage Service Encryption''))"

definition storage_DeriveKeys :: "key_lib \<Rightarrow> crypto \<Rightarrow> string \<Rightarrow> string + storage_keys" where
  "storage_DeriveKeys L C pool =
    bindR (wrapR (\<lambda>e. ''storage.DeriveKeys: '' @ e) (DeriveSVRKey L pool)) (\<lambda>master.
      Inr \<lparr> sk_MasterKey = master, sk_StorageServiceKey = DeriveStorageServiceKey C master \<rparr>)"

definition DeriveManifestKey :: "crypto \<Rightarrow> bytes \<Rightarrow> u64 \<Rightarrow> bytes" where
  "DeriveManifestKey C ssk version =
    array32 (hmac C ssk (string_bytes (''Manifest_'' @ dec_digits (unat version))))"

definition DeriveItemKey :: "key_lib \<Rightarrow> crypto \<Rightarrow> bytes \<Rightarrow> bytes \<Rightarrow> bytes \<Rightarrow> string + bytes" where
  "DeriveItemKey L C ssk recordIkm storageID =
    (if length recordIkm > 0 then
       bindR (wrapR (\<lambda>e. ''storage.DeriveItemKey: '' @ e)
               (HKDFSHA256 L 32 recordIkm (string_bytes ''20240801_SIGNAL_STORAGE_SERVICE_ITEM_'' @ storageID) []))
         (\<lambda>derived. Inr (array32 derived))
     else Inr (array32 (hmac C ssk (string_bytes (''Item_'' @ EncodeToString storageID)))))"

definition DecryptRecord :: "crypto \<Rightarrow> bytes \<Rightarrow> bytes \<Rightarrow> string + bytes" where
  "DecryptRecord C key data =
    (if length data < 12 + 16 + 1
     then Inl (''storage.DecryptRecord: ciphertext too short ('' @ dec_digits (length data) @ '' bytes)'')
     else wrapR (\<lambda>e. ''storage.DecryptRecord: '' @ e) (gcm_open C key (take 12 data) (drop 12 data) []))"

text \<open>None is the panic of Seal on too long a text.\<close>

definition EncryptRecordForTest :: "crypto \<Rightarrow> bytes \<Rightarrow> bytes \<Rightarrow> bytes \<Rightarrow> (string + bytes) option" where
  "EncryptRecordForTest C key plaintext iv =
    (if length iv \<noteq> 12 then Some (Inl ''storage.EncryptRecordForTest: iv length'')
     else map_option (\<lambda>ct. Inr (iv @ ct)) (gcm_seal C key iv plaintext []))"

section \<open>Sealed store blobs\<close>

datatype seal_error =
    ErrWrongPassphrase string
  | SealNonce string
  | SealTooLarge
  | SealTooShort nat
  | SealVersion byte

text \<open>The nonce read from the random source is an argument. None is the panic of Seal.\<close>

definition seal_Seal :: "crypto \<Rightarrow> bytes \<Rightarrow> string + bytes \<Rightarrow> bytes \<Rightarrow> (seal_error + bytes) option" where
  "seal_Seal C key rand plaintext =
    (case rand of
       Inl e \<Rightarrow> Some (Inl (SealNonce e))
     | Inr nonce \<Rightarrow>
       if int (length plaintext) > 2 ^ 63 - 1 - (1 + 12 + 16) then Some (Inl SealTooLarge)
       else map_option (\<lambda>ct. Inr (1 # nonce @ ct)) (gcm_seal C key nonce plaintext []))"

definition seal_Open :: "crypto \<Rightarrow> bytes \<Rightarrow> bytes \<Rightarrow> seal_error + bytes" where
  "seal_Open C key blob =
    (if length blob < 1 + 12 + 16 then Inl (SealTooShort (length blob))
     else if hd blob \<noteq> 1 then Inl (SealVersion (hd blob))
     else wrapR ErrWrongPassphrase
            (gcm_open C key (subslice 1 13 blob) (drop 13 blob) []))"

end
