(* ===== verification/CipherLaws.thy ===== *)
theory CipherLaws
  imports Ciphers
begin

text \<open>
  What the ciphers of \<open>Ciphers\<close> promise. Each decoder is characterised by the encoder it
  inverts: a sealed store blob, a storage record, a provisioning envelope and a device name are
  accepted exactly when they are outputs of the corresponding construction.
\<close>

section \<open>Boxes\<close>

lemma hd_tl_split: "xs \<noteq> [] \<Longrightarrow> hd xs = x \<Longrightarrow> xs = x # tl xs"
  by (cases xs) auto

lemma seal_Open_box: "seal_Open C key (1 # b) = Inr p \<longleftrightarrow> 28 \<le> length b \<and> box_open C key b = Inr p"
  by (auto simp: seal_Open_def box_open_def subslice_def)

lemma seal_Seal_box:
  "seal_Seal C key (Inr nonce) p = Some (Inr blob) \<longleftrightarrow>
     (\<exists>b. blob = 1 # b \<and> box_seal C key nonce p = Some b)"
  by (auto simp: seal_Seal_def box_seal_def gcm_seal_def gcm_max_def)

lemma seal_open_canonical:
  assumes C: "block_cipher_ok C"
  shows "seal_Open C key blob = Inr p \<longleftrightarrow>
    (\<exists>nonce. length nonce = 12 \<and> seal_Seal C key (Inr nonce) p = Some (Inr blob))"
proof
  assume o: "seal_Open C key blob = Inr p"
  then have "blob \<noteq> []" "hd blob = 1" by (auto simp: seal_Open_def split: if_splits)
  then have b: "blob = 1 # tl blob" by (rule hd_tl_split)
  then have "box_open C key (tl blob) = Inr p" using o seal_Open_box by metis
  then obtain nonce where "length nonce = 12" "box_seal C key nonce p = Some (tl blob)"
    using gcm_box.unseal_iff [OF C] by blast
  then have "length nonce = 12 \<and> seal_Seal C key (Inr nonce) p = Some (Inr blob)"
    using b by (auto simp: seal_Seal_box)
  then show "\<exists>nonce. length nonce = 12 \<and> seal_Seal C key (Inr nonce) p = Some (Inr blob)" ..
next
  assume "\<exists>nonce. length nonce = 12 \<and> seal_Seal C key (Inr nonce) p = Some (Inr blob)"
  then obtain nonce b where n: "length nonce = 12" and b: "blob = 1 # b" "box_seal C key nonce p = Some b"
    by (auto simp: seal_Seal_box)
  then have "box_open C key b = Inr p" using gcm_box.round_trip [OF C n] by blast
  then show "seal_Open C key blob = Inr p" using box_min [OF C] by (simp add: b seal_Open_box)
qed

lemma DecryptRecord_box:
  assumes C: "block_cipher_ok C"
  shows "DecryptRecord C key data = Inr p \<longleftrightarrow> p \<noteq> [] \<and> box_open C key data = Inr p"
proof -
  have "box_open C key data = Inr p \<Longrightarrow> length data < 29 \<longleftrightarrow> p = []"
    using box_min [OF C, of key data p] by (cases p) auto
  moreover have "DecryptRecord C key data = Inr p \<longleftrightarrow> \<not> length data < 29 \<and> box_open C key data = Inr p"
    by (auto simp: DecryptRecord_def box_open_def)
  ultimately show ?thesis by blast
qed

lemma record_canonical:
  assumes C: "block_cipher_ok C"
  shows "DecryptRecord C key data = Inr p \<longleftrightarrow>
    p \<noteq> [] \<and> (\<exists>iv. EncryptRecordForTest C key p iv = Some (Inr data))"
  unfolding DecryptRecord_box [OF C] gcm_box.unseal_iff [OF C]
  by (auto simp: EncryptRecordForTest_def box_seal_def)

section \<open>Provisioning envelopes\<close>

text \<open>A block cipher as a permutation: the documented wire format can then be reproduced.\<close>

definition block_perm_ok :: "crypto \<Rightarrow> bool" where
  "block_perm_ok C \<longleftrightarrow> block_cipher_ok C \<and> (\<forall>k b. length b = 16 \<longrightarrow> aes_enc C k (aes_dec C k b) = b)"

lemma cbc_recrypt:
  "block_perm_ok C \<Longrightarrow> length iv = 16 \<Longrightarrow> length src mod 16 = 0 \<Longrightarrow>
   cbc_encrypt C key iv (cbc_decrypt C key iv src) = src"
proof (induction C key iv src rule: cbc_decrypt.induct)
  case (1 C key iv src)
  show ?case
  proof (cases "length src < 16")
    case True
    then have "src = []" using 1 aligned_short by simp
    then show ?thesis by (simp add: cbc_encrypt.simps cbc_decrypt.simps)
  next
    case False
    let ?x = "xor_bytes (aes_dec C key (take 16 src)) iv"
    have l: "length (aes_dec C key (take 16 src)) = 16"
      using 1 False by (auto simp: block_perm_ok_def block_cipher_ok_def)
    have x: "length ?x = 16" using l "1.prems" by simp
    have d: "cbc_decrypt C key iv src = ?x @ cbc_decrypt C key (take 16 src) (drop 16 src)"
      using False by (subst cbc_decrypt.simps) simp
    have e: "aes_enc C key (xor_bytes ?x iv) = take 16 src"
      using 1 False l by (simp add: xor_bytes_cancel block_perm_ok_def)
    have ih: "cbc_encrypt C key (take 16 src) (cbc_decrypt C key (take 16 src) (drop 16 src)) = drop 16 src"
      using "1.IH" [OF False] "1.prems" False aligned_drop [of src] by simp
    have "cbc_encrypt C key iv (cbc_decrypt C key iv src) = take 16 src @ drop 16 src"
      unfolding d using x e ih by (subst cbc_encrypt.simps) (simp add: Let_def)
    then show ?thesis by simp
  qed
qed

text \<open>The wire format of Signal-Desktop's ProvisioningCipher, as the source documents it.\<close>

definition envelope_body :: "crypto \<Rightarrow> bytes \<Rightarrow> bytes \<Rightarrow> bytes \<Rightarrow> bytes" where
  "envelope_body C keys iv plain =
    (let signed = 1 # iv @ cbc_encrypt C (take 32 keys) iv (pkcs7Pad plain 16)
     in signed @ hmac C (drop 32 keys) signed)"

lemma envelope_parts:
  fixes ct :: bytes
  assumes iv: "length iv = 16" and mac: "length mac = 32"
  defines "body \<equiv> 1 # iv @ ct @ mac"
  shows "take (length body - 32) body = 1 # iv @ ct" "drop (length body - 32) body = mac"
    "subslice 1 17 body = iv" "subslice 17 (length body - 32) body = ct"
proof -
  define a where "a = 1 # iv @ ct"
  have b: "body = a @ mac" by (simp add: body_def a_def)
  have n: "length body - 32 = length a" using mac by (simp add: b)
  show "take (length body - 32) body = 1 # iv @ ct" unfolding n by (simp add: b a_def [symmetric])
  show "drop (length body - 32) body = mac" unfolding n by (simp add: b)
  show "subslice 1 17 body = iv" using iv by (simp add: body_def subslice_def)
  show "subslice 17 (length body - 32) body = ct"
    unfolding n using iv by (simp add: body_def subslice_def a_def)
qed

lemma open_body:
  assumes C: "block_perm_ok C" "hash_ok C" and k: "length keys = 64" and l: "65 \<le> length body"
  shows "(hd body = 1 \<and> verifyMAC C (drop 32 keys) (take (length body - 32) body) (drop (length body - 32) body) \<and>
      length (subslice 17 (length body - 32) body) mod 16 = 0 \<and>
      aesCBCDecrypt C (take 32 keys) (subslice 1 17 body) (subslice 17 (length body - 32) body) = Inr plain) \<longleftrightarrow>
    (\<exists>iv. length iv = 16 \<and> body = envelope_body C keys iv plain)" (is "?L \<longleftrightarrow> ?R")
proof
  assume L: ?L
  define iv where "iv = subslice 1 17 body"
  define ct where "ct = subslice 17 (length body - 32) body"
  define mac where "mac = drop (length body - 32) body"
  have iv: "length iv = 16" using l by (simp add: iv_def)
  have ctl: "length ct mod 16 = 0" using L by (simp add: ct_def)
  have signed: "take (length body - 32) body = 1 # iv @ ct"
  proof -
    let ?n = "length body - 32"
    define s where "s = take ?n body"
    have "s = take 1 s @ take 16 (drop 1 s) @ drop 17 s"
      using take_add [of 1 16 s] append_take_drop_id [of 17 s] by simp
    moreover have "take 1 s = [1]" using L l by (cases body) (auto simp: s_def take_Cons')
    moreover have "take 16 (drop 1 s) = iv" using l by (simp add: s_def iv_def subslice_def drop_take)
    moreover have "drop 17 s = ct" by (simp add: s_def ct_def subslice_def drop_take)
    ultimately show ?thesis by (simp add: s_def)
  qed
  have mac_eq: "mac = hmac C (drop 32 keys) (1 # iv @ ct)"
    using L by (simp add: verifyMAC_def guard_simps mac_def signed split: if_splits)
  let ?d = "cbc_decrypt C (take 32 keys) iv ct"
  have "aesCBCDecrypt C (take 32 keys) iv ct = Inr plain" using L unfolding iv_def ct_def by blast
  then have v: "pkcs7_valid ?d 16 \<and> plain = pkcs7_body ?d"
    using k iv by (simp add: aesCBCDecrypt_def prov_pkcs7Unpad_iff)
  have "length ?d mod 16 = 0"
    using C iv ctl by (simp add: length_cbc_decrypt block_perm_ok_def)
  then have "pkcs7Pad plain 16 = ?d" using v pkcs7_valid_canonical [of 16 ?d] by simp
  then have "cbc_encrypt C (take 32 keys) iv (pkcs7Pad plain 16) = ct"
    using cbc_recrypt [OF C(1) iv ctl] by simp
  moreover have "body = (1 # iv @ ct) @ mac" using signed mac_def by (metis append_take_drop_id)
  ultimately have "body = envelope_body C keys iv plain" using mac_eq by (simp add: envelope_body_def Let_def)
  then show ?R using iv by blast
next
  assume ?R
  then obtain iv where iv: "length iv = 16" and b: "body = envelope_body C keys iv plain" by blast
  define ct where "ct = cbc_encrypt C (take 32 keys) iv (pkcs7Pad plain 16)"
  define mac where "mac = hmac C (drop 32 keys) (1 # iv @ ct)"
  have C1: "block_cipher_ok C" using C by (simp add: block_perm_ok_def)
  have m: "length mac = 32" using C by (simp add: mac_def length_hmac)
  have b': "body = 1 # iv @ ct @ mac" by (simp add: b envelope_body_def Let_def mac_def ct_def)
  have ctl: "length ct mod 16 = 0" by (simp add: ct_def length_cbc_encrypt C1 iv pkcs7Pad_aligned)
  have "cbc_decrypt C (take 32 keys) iv ct = pkcs7Pad plain 16"
    by (simp add: ct_def cbc_round_trip C1 iv pkcs7Pad_aligned)
  then have "aesCBCDecrypt C (take 32 keys) iv ct = Inr plain"
    using k iv by (simp add: aesCBCDecrypt_def prov_unpad_pad)
  then show ?L using m ctl envelope_parts [OF iv m, of ct]
    by (simp add: b' verifyMAC_def guard_simps mac_def [symmetric])
qed

lemma length_envelope_body:
  assumes "block_cipher_ok C" "hash_ok C" "length iv = 16"
  shows "65 \<le> length (envelope_body C keys iv plain)"
proof -
  have "16 \<le> length (pkcs7Pad plain 16)" by (simp add: length_pkcs7Pad)
  then show ?thesis using assms
    by (simp add: envelope_body_def Let_def length_hmac length_cbc_encrypt pkcs7Pad_aligned)
qed

lemma HKDFSHA256_length: "hkdf_ok L \<Longrightarrow> HKDFSHA256 L n ikm info salt = Inr out \<Longrightarrow> length out = n"
  by (auto simp: HKDFSHA256_def hkdf_ok_def split: if_splits)

text \<open>C26. A provisioning envelope is accepted exactly when it is a ProvisionMessage in the wire
  format of the documentation, under the keys derived from our private key and the public key it
  carries: version, IV, CBC of the padded text, and the HMAC of all of these.\<close>

theorem envelope_canonical:
  assumes C: "block_perm_ok C" "hash_ok C" and H: "hkdf_ok L"
  shows "DecryptEnvelope L C unmarshal ourPriv (Some env) = Inr msg \<longleftrightarrow>
    pe_PublicKey env \<noteq> [] \<and>
    (\<exists>theirPub shared keys iv plain.
       kl_Deserialize L (pe_PublicKey env) = Inr theirPub \<and> kl_Agree L ourPriv theirPub = Inr shared \<and>
       HKDFSHA256 L 64 shared prov_info [] = Inr keys \<and> length iv = 16 \<and>
       pe_Body env = envelope_body C keys iv plain \<and> unmarshal plain = Inr msg)" (is "?L \<longleftrightarrow> ?R")
proof
  assume ?L
  then obtain theirPub shared keys plain where
      k: "kl_Deserialize L (pe_PublicKey env) = Inr theirPub" "kl_Agree L ourPriv theirPub = Inr shared"
        "HKDFSHA256 L 64 shared prov_info [] = Inr keys" "unmarshal plain = Inr msg"
    and e: "pe_PublicKey env \<noteq> []" and l: "65 \<le> length (pe_Body env)"
    and p: "hd (pe_Body env) = 1 \<and>
      verifyMAC C (drop 32 keys) (take (length (pe_Body env) - 32) (pe_Body env))
        (drop (length (pe_Body env) - 32) (pe_Body env)) \<and>
      length (subslice 17 (length (pe_Body env) - 32) (pe_Body env)) mod 16 = 0 \<and>
      aesCBCDecrypt C (take 32 keys) (subslice 1 17 (pe_Body env))
        (subslice 17 (length (pe_Body env) - 32) (pe_Body env)) = Inr plain"
    by (auto simp: DecryptEnvelope_def Let_def bindR_Inr_iff split: if_splits)
  obtain iv where "length iv = 16" "pe_Body env = envelope_body C keys iv plain"
    using iffD1 [OF open_body [OF C HKDFSHA256_length [OF H k(3)] l] p] by blast
  then show ?R using k e by blast
next
  assume ?R
  then obtain theirPub shared keys iv plain where
      k: "kl_Deserialize L (pe_PublicKey env) = Inr theirPub" "kl_Agree L ourPriv theirPub = Inr shared"
        "HKDFSHA256 L 64 shared prov_info [] = Inr keys" "unmarshal plain = Inr msg"
    and e: "pe_PublicKey env \<noteq> []" and iv: "length iv = 16" "pe_Body env = envelope_body C keys iv plain"
    by blast
  have l: "65 \<le> length (pe_Body env)"
    using length_envelope_body C iv by (simp add: block_perm_ok_def)
  show ?L
    using open_body [OF C HKDFSHA256_length [OF H k(3)] l, of plain] iv k e l
    by (auto simp: DecryptEnvelope_def Let_def)
qed

section \<open>Device names\<close>

lemma computeSyntheticIV_ok:
  "hash_ok C \<Longrightarrow> computeSyntheticIV C s p = Inr (take 16 (hmac C (hmac C s (string_bytes ''auth'')) p))"
  by (simp add: computeSyntheticIV_def Let_def length_hmac)

lemma verifySyntheticIV_ok:
  "hash_ok C \<Longrightarrow> verifySyntheticIV C s p iv = None \<longleftrightarrow> computeSyntheticIV C s p = Inr iv"
  by (simp add: verifySyntheticIV_def computeSyntheticIV_ok Let_def length_hmac guard_simps)

lemma aesCTR_ok:
  "hash_ok C \<Longrightarrow> aesCTR C (computeCipherKey C s iv) src =
     Inr (XORKeyStream C (computeCipherKey C s iv) (replicate 16 0) src)"
  by (simp add: aesCTR_def computeCipherKey_def length_hmac)

lemma take_16_hmac: "hash_ok C \<Longrightarrow> take 16 (hmac C k m) \<noteq> []"
  using length_hmac [of C k m] by fastforce

lemma device_name_reads_back:
  assumes C: "block_cipher_ok C" "hash_ok C" and L: "agreement_ok L" "public_codec_ok L"
    and codec: "\<And>dn wire. marshal dn = Inr wire \<Longrightarrow> unmarshal wire = Inr dn"
    and keys: "kl_PublicKey L priv = Inr pub"
    and enc: "devicename_Encrypt L C marshal eph name (Some pub) = Inr nameCipher"
  shows "devicename_Decrypt L C unmarshal nameCipher (Some priv) = Inr name"
proof -
  let ?p = "string_bytes name"
  from enc obtain e epub secret iv epb wire where
      e: "eph = Inr e" "kl_PublicKey L e = Inr epub" "kl_Agree L e pub = Inr secret"
        "computeSyntheticIV C secret ?p = Inr iv" "kl_Serialize L epub = Inr epb"
    and w: "marshal \<lparr> dn_EphemeralPublic = epb, dn_SyntheticIv = iv,
        dn_Ciphertext = XORKeyStream C (computeCipherKey C secret iv) (replicate 16 0) ?p \<rparr> = Inr wire"
    and n: "nameCipher = EncodeToString wire" and u: "utf8_Valid ?p" "name \<noteq> []"
    by (auto simp: devicename_Encrypt_def EncryptBytes_def bindR_Inr_iff aesCTR_ok [OF C(2)] split: if_splits)
  have s: "kl_Agree L priv epub = Inr secret" using L(1) keys e by (metis agreement_ok_def)
  have d: "kl_Deserialize L epb = Inr epub" "epb \<noteq> []" using L(2) e(5) by (auto simp: public_codec_ok_def)
  have "iv \<noteq> []" using e(4) take_16_hmac [OF C(2)] by (auto simp: computeSyntheticIV_ok [OF C(2)])
  moreover have "XORKeyStream C k v ?p \<noteq> []" for k v
    using length_XORKeyStream [OF C(1), of k v ?p] u(2) by (auto simp: string_bytes_def)
  moreover have "verifySyntheticIV C secret ?p iv = None" using e(4) by (simp add: verifySyntheticIV_ok [OF C(2)])
  ultimately show ?thesis
    using codec [OF w] s d u
    by (simp add: devicename_Decrypt_def n base64.dec_enc aesCTR_ok [OF C(2)] XORKeyStream_involution [OF C(1)] Let_def)
qed

text \<open>A device name that was encrypted for an identity key is read back by the holder of
  that identity, whatever the ephemeral key was.\<close>

theorem device_name_round_trip:
  assumes "block_cipher_ok C" "hash_ok C" "agreement_ok L" "public_codec_ok L"
    and "\<And>dn wire. marshal dn = Inr wire \<Longrightarrow> unmarshal wire = Inr dn"
    and "kl_PublicKey L priv = Inr pub"
    and "devicename_Encrypt L C marshal eph name (Some pub) = Inr nameCipher"
  shows "devicename_Decrypt L C unmarshal nameCipher (Some priv) = Inr name"
  by (rule device_name_reads_back [OF assms])

text \<open>C36. A device name that is accepted carries the synthetic IV of its text under the agreed
  secret and is the encryption of that text: nobody without one of the two private keys can make
  or change one.\<close>

theorem device_name_authentic:
  assumes C: "block_cipher_ok C" "hash_ok C"
    and dec: "devicename_Decrypt L C unmarshal nameCipher (Some priv) = Inr name"
  shows "\<exists>wire dn epub secret.
    b64_decode stdAlphabet nameCipher = Inr wire \<and> unmarshal wire = Inr dn \<and>
    kl_Deserialize L (dn_EphemeralPublic dn) = Inr epub \<and> kl_Agree L priv epub = Inr secret \<and>
    computeSyntheticIV C secret (string_bytes name) = Inr (dn_SyntheticIv dn) \<and>
    dn_Ciphertext dn = XORKeyStream C (computeCipherKey C secret (dn_SyntheticIv dn)) (replicate 16 0) (string_bytes name)"
proof -
  from dec obtain wire dn epub secret p where
      w: "b64_decode stdAlphabet nameCipher = Inr wire" "unmarshal wire = Inr dn"
        "kl_Deserialize L (dn_EphemeralPublic dn) = Inr epub" "kl_Agree L priv epub = Inr secret"
    and p: "p = XORKeyStream C (computeCipherKey C secret (dn_SyntheticIv dn)) (replicate 16 0) (dn_Ciphertext dn)"
      "verifySyntheticIV C secret p (dn_SyntheticIv dn) = None" "name = bytes_string p"
    by (auto simp: devicename_Decrypt_def bindR_Inr_iff aesCTR_ok [OF C(2)] Let_def split: if_splits option.splits)
  have "computeSyntheticIV C secret p = Inr (dn_SyntheticIv dn)"
    using p(2) by (simp add: verifySyntheticIV_ok [OF C(2)])
  then show ?thesis using w p(1,3) XORKeyStream_involution [OF C(1)] by fastforce
qed

section \<open>The unidentified-access verifier\<close>

lemma foldl_match:
  "foldl (\<lambda>m i. if got ! i \<noteq> v ! i then False else m) b is \<longleftrightarrow> b \<and> (\<forall>i \<in> set is. got ! i = v ! i)"
  by (induction "is" arbitrary: b) auto

text \<open>The verifier of a profile is compared with a prefix of the digest of the access key as
  long as the verifier itself: a shorter one is accepted when it is a prefix, and one longer than
  the digest makes the call panic.\<close>

theorem verifier_prefix:
  assumes C: "hash_ok C" and k: "DeriveAccessKey L profileKey = Inr uak"
  shows "VerifyUnidentifiedAccess L C profileKey v =
    (if v = [] then Some (Inr False)
     else if 32 < length v then None
     else Some (Inr (v = take (length v) (sha256 C uak))))"
proof -
  have "(\<forall>i \<in> set [0..<length v]. got ! i = v ! i) \<longleftrightarrow> v = got" if "length got = length v" for got
    using that nth_equalityI [of got v] by fastforce
  moreover have "length (take (length v) (sha256 C uak)) = length v" if "length v \<le> 32"
    using C that by (simp add: hash_ok_def)
  ultimately show ?thesis
    by (simp add: VerifyUnidentifiedAccess_def k foldl_match Let_def del: set_upt)
qed

section \<open>Witnesses\<close>

lemma sum_crypto_perm: "block_perm_ok sum_crypto"
  by (simp add: block_perm_ok_def sum_crypto_ok) (simp add: sum_crypto_def o_def)

definition sample_keys :: key_lib where
  "sample_keys = \<lparr> kl_Deserialize = (\<lambda>s. case s of [] \<Rightarrow> Inl ''short'' | x # p \<Rightarrow> Inr p),
     kl_Serialize = (\<lambda>p. Inr (5 # p)), kl_PublicKey = (\<lambda>k. Inr k),
     kl_Agree = (\<lambda>a b. Inr [sum_list a + sum_list b]),
     kl_hkdf_derive = (\<lambda>n ikm info salt. Inr (replicate n (sum_list ikm))),
     kl_access_key = (\<lambda>k. Inr (take 16 k)), kl_svr_key = (\<lambda>p. Inr (replicate 32 7)),
     kl_siv_new = (\<lambda>k. None), kl_siv_encrypt = (\<lambda>k m n a. Inr (m @ replicate 16 0)),
     kl_siv_decrypt = (\<lambda>k m n a. Inr (take (length m - 16) m)) \<rparr>"

lemma sample_keys_ok: "agreement_ok sample_keys" "public_codec_ok sample_keys" "hkdf_ok sample_keys"
  by (simp_all add: agreement_ok_def public_codec_ok_def hkdf_ok_def sample_keys_def add.commute)

definition sample_dn_marshal :: "DeviceName \<Rightarrow> string + bytes" where
  "sample_dn_marshal dn =
    (if length (dn_EphemeralPublic dn) < 256 \<and> length (dn_SyntheticIv dn) < 256
     then Inr (of_nat (length (dn_EphemeralPublic dn)) # of_nat (length (dn_SyntheticIv dn)) #
               dn_EphemeralPublic dn @ dn_SyntheticIv dn @ dn_Ciphertext dn)
     else Inl ''too long'')"

definition sample_dn_unmarshal :: "bytes \<Rightarrow> string + DeviceName" where
  "sample_dn_unmarshal bs =
    (case bs of
       a # b # r \<Rightarrow> Inr \<lparr> dn_EphemeralPublic = take (unat a) r,
         dn_SyntheticIv = take (unat b) (drop (unat a) r), dn_Ciphertext = drop (unat b) (drop (unat a) r) \<rparr>
     | _ \<Rightarrow> Inl ''short'')"

lemma sample_dn_codec: "sample_dn_marshal dn = Inr wire \<Longrightarrow> sample_dn_unmarshal wire = Inr dn"
  by (cases dn) (auto simp: sample_dn_marshal_def sample_dn_unmarshal_def unat_byte_of_nat split: if_splits)

lemma sample_name_encrypts:
  "\<exists>nameCipher. devicename_Encrypt sample_keys sum_crypto sample_dn_marshal (Inr [3]) ''Pi'' (Some [4]) = Inr nameCipher"
proof -
  have "utf8_Valid (string_bytes ''Pi'')" by (simp add: string_bytes_def)
  then show ?thesis
    using sum_crypto_ok
    by (simp add: devicename_Encrypt_def EncryptBytes_def computeSyntheticIV_ok aesCTR_ok
      sample_keys_def sample_dn_marshal_def length_hmac string_bytes_def)
qed

lemma envelope_canonical_witness:
  "DecryptEnvelope sample_keys sum_crypto Inr [2]
     (Some \<lparr> pe_PublicKey = [5, 9], pe_Body = envelope_body sum_crypto (replicate 64 11) (replicate 16 1) [7, 8] \<rparr>) =
   Inr [7, 8]"
proof -
  let ?e = "\<lparr> pe_PublicKey = [5, 9], pe_Body = envelope_body sum_crypto (replicate 64 11) (replicate 16 1) [7, 8] \<rparr>"
  have "kl_Deserialize sample_keys (pe_PublicKey ?e) = Inr [9] \<and> kl_Agree sample_keys [2] [9] = Inr [11] \<and>
      HKDFSHA256 sample_keys 64 [11] prov_info [] = Inr (replicate 64 11) \<and> length (replicate 16 (1 :: byte)) = 16 \<and>
      pe_Body ?e = envelope_body sum_crypto (replicate 64 11) (replicate 16 1) [7, 8] \<and>
      (Inr [7, 8] :: string + bytes) = Inr [7, 8]"
    by (simp add: sample_keys_def HKDFSHA256_def)
  then have "pe_PublicKey ?e \<noteq> [] \<and> (\<exists>theirPub shared keys iv plain.
       kl_Deserialize sample_keys (pe_PublicKey ?e) = Inr theirPub \<and> kl_Agree sample_keys [2] theirPub = Inr shared \<and>
       HKDFSHA256 sample_keys 64 shared prov_info [] = Inr keys \<and> length iv = 16 \<and>
       pe_Body ?e = envelope_body sum_crypto keys iv plain \<and> (Inr plain :: string + bytes) = Inr [7, 8])"
    by (intro conjI exI [of _ "[9]"] exI [of _ "[11]"] exI [of _ "replicate 64 11"] exI) simp_all
  then show ?thesis
    by (rule iffD2 [OF envelope_canonical [OF sum_crypto_perm sum_crypto_ok(2) sample_keys_ok(3)]])
qed

lemma device_name_round_trip_witness:
  "\<exists>nameCipher. devicename_Encrypt sample_keys sum_crypto sample_dn_marshal (Inr [3]) ''Pi'' (Some [4]) = Inr nameCipher \<and>
     devicename_Decrypt sample_keys sum_crypto sample_dn_unmarshal nameCipher (Some [4]) = Inr ''Pi''"
proof -
  have p: "kl_PublicKey sample_keys [4] = Inr [4]" by (simp add: sample_keys_def)
  obtain nc where nc: "devicename_Encrypt sample_keys sum_crypto sample_dn_marshal (Inr [3]) ''Pi'' (Some [4]) = Inr nc"
    using sample_name_encrypts by blast
  have "devicename_Decrypt sample_keys sum_crypto sample_dn_unmarshal nc (Some [4]) = Inr ''Pi''"
    by (rule device_name_round_trip [OF sum_crypto_ok sample_keys_ok(1,2) _ p nc]) (rule sample_dn_codec)
  then show ?thesis using nc by blast
qed

lemma device_name_authentic_witness:
  "\<exists>nameCipher wire dn epub secret.
     devicename_Encrypt sample_keys sum_crypto sample_dn_marshal (Inr [3]) ''Pi'' (Some [4]) = Inr nameCipher \<and>
     b64_decode stdAlphabet nameCipher = Inr wire \<and> sample_dn_unmarshal wire = Inr dn \<and>
     kl_Deserialize sample_keys (dn_EphemeralPublic dn) = Inr epub \<and> kl_Agree sample_keys [4] epub = Inr secret \<and>
     computeSyntheticIV sum_crypto secret (string_bytes ''Pi'') = Inr (dn_SyntheticIv dn)"
proof -
  have p: "kl_PublicKey sample_keys [4] = Inr [4]" by (simp add: sample_keys_def)
  obtain nc where nc: "devicename_Encrypt sample_keys sum_crypto sample_dn_marshal (Inr [3]) ''Pi'' (Some [4]) = Inr nc"
    using sample_name_encrypts by blast
  have "devicename_Decrypt sample_keys sum_crypto sample_dn_unmarshal nc (Some [4]) = Inr ''Pi''"
    by (rule device_name_reads_back [OF sum_crypto_ok sample_keys_ok(1,2) _ p nc]) (rule sample_dn_codec)
  from device_name_authentic [OF sum_crypto_ok this] show ?thesis using nc by blast
qed

lemma verifier_prefix_witness:
  "VerifyUnidentifiedAccess sample_keys sum_crypto (replicate 32 1) [16] = Some (Inr True) \<and>
   VerifyUnidentifiedAccess sample_keys sum_crypto (replicate 32 1) (replicate 33 16) = None"
proof -
  have k: "DeriveAccessKey sample_keys (replicate 32 1) = Inr (replicate 16 1)"
    by (simp add: DeriveAccessKey_def sample_keys_def)
  show ?thesis
    unfolding verifier_prefix [OF sum_crypto_ok(2) k] by (simp add: sum_crypto_def sum_list_replicate)
qed

end
