(* ===== verification/WebMore.thy ===== *)
theory WebMore
  imports Web PreKeyMaint
begin

text \<open>
  The rest of the REST client: device linking and prekey upload (devices.go, keys.go), the
  Groups v2 endpoints (groups*.go), the storage service (storage.go) and the poll for a transfer
  archive (transfer_archive.go), all in internal/web. Four of them do not go through \<open>Do\<close> but
  send a request of their own; \<open>raw_get\<close> is what these have in common.
\<close>

text \<open>\<open>strconv.FormatInt\<close> in base 10.\<close>

definition dec_int :: "int \<Rightarrow> string" where
  "dec_int i = (if i < 0 then CHR ''-'' # dec_digits (nat (- i)) else dec_digits (nat i))"

section \<open>Wire types\<close>

record AccountCapabilities =
  cap_Storage :: bool
  cap_VersionedExpirationTimer :: bool
  cap_AttachmentBackfill :: bool
  cap_Spqr :: bool

definition DefaultCapabilities :: AccountCapabilities where
  "DefaultCapabilities = \<lparr> cap_Storage = True, cap_VersionedExpirationTimer = True,
     cap_AttachmentBackfill = True, cap_Spqr = True \<rparr>"

record AccountAttributes =
  aa_FetchesMessages :: bool
  aa_RegistrationID :: u32
  aa_PNIRegistrationID :: u32
  aa_Name :: string
  aa_Capabilities :: AccountCapabilities
  aa_UnidentifiedAccessKey :: string
  aa_UnrestrictedUnidentifiedAccess :: bool
  aa_DiscoverableByPhoneNumber :: bool

text \<open>SignedECPreKey, SignedKEMPreKey and KEMPreKey have the fields of \<open>SignedPreKeySlot\<close>.\<close>

record LinkDeviceRequest =
  ld_VerificationCode :: string
  ld_AccountAttributes :: AccountAttributes
  ld_ACISignedPreKey :: SignedPreKeySlot
  ld_PNISignedPreKey :: SignedPreKeySlot
  ld_ACIPqLastResortPreKey :: SignedPreKeySlot
  ld_PNIPqLastResortPreKey :: SignedPreKeySlot

record LinkDeviceResponse =
  lr_UUID :: string
  lr_DeviceID :: u32
  lr_PNI :: string

record UploadPreKeysRequest =
  up_IdentityKey :: string
  up_SignedPreKey :: "SignedPreKeySlot option"
  up_PqLastResortKey :: "SignedPreKeySlot option"
  up_PreKeys :: "PreKeySlot list"
  up_PqPreKeys :: "SignedPreKeySlot list"

record GroupAuthCredential =
  ga_Credential :: bytes
  ga_RedemptionTime :: int

record GroupAuthCredentialsResponse =
  gr_Credentials :: "GroupAuthCredential list"
  gr_CallLinkAuthCredentials :: "GroupAuthCredential list"
  gr_PNI :: string

record StorageManifest =
  st_Version :: u64
  st_Value :: bytes

record StorageItem =
  it_Key :: bytes
  it_Value :: bytes

record more_codec =
  mc_LinkDeviceRequest :: "LinkDeviceRequest \<Rightarrow> string + bytes"
  mc_LinkDeviceResponse :: "bytes \<Rightarrow> string + LinkDeviceResponse"
  mc_UploadPreKeys :: "UploadPreKeysRequest \<Rightarrow> string + bytes"
  mc_GroupAuth :: "bytes \<Rightarrow> string + GroupAuthCredentialsResponse"
  mc_archive :: "bytes \<Rightarrow> string + (u32 option \<times> string option \<times> string option)"
  mc_ReadOperation :: "bytes list \<Rightarrow> string + bytes"
  mc_StorageItems :: "bytes \<Rightarrow> string + StorageItem list"
  mc_StorageManifest :: "bytes \<Rightarrow> string + StorageManifest"

section \<open>Devices and keys\<close>

definition LinkDevice ::
  "'v web_client \<Rightarrow> more_codec \<Rightarrow> string \<Rightarrow> string \<Rightarrow> LinkDeviceRequest \<Rightarrow> 'v \<Rightarrow> 'v \<times> (web_err + LinkDeviceResponse)" where
  "LinkDevice c J number password req v =
    (if number = [] then (v, Inl (WText ''web.LinkDevice: missing account number''))
     else if password = [] then (v, Inl (WText ''web.LinkDevice: missing password''))
     else if ld_VerificationCode req = [] then (v, Inl (WText ''web.LinkDevice: missing verification code''))
     else decode_out (mc_LinkDeviceResponse J) \<lparr> lr_UUID = [], lr_DeviceID = 0, lr_PNI = [] \<rparr>
       (Do c ((get_request ''/v1/devices/link'')\<lparr> rq_Method := ''PUT'',
          rq_Credentials := \<lparr> cr_Username = number, cr_Password = password \<rparr>,
          rq_Body := Some (mc_LinkDeviceRequest J req) \<rparr>) v))"

definition SignedECPreKeyFrom :: "SignedPreKey \<Rightarrow> SignedPreKeySlot" where
  "SignedECPreKeyFrom p = \<lparr> sl_KeyID = spk_ID p, sl_PublicKey = EncodeToString (spk_PublicKey p),
     sl_Signature = EncodeToString (spk_Signature p) \<rparr>"

definition SignedKEMPreKeyFrom :: "LastResortKyberPreKey \<Rightarrow> SignedPreKeySlot" where
  "SignedKEMPreKeyFrom p = \<lparr> sl_KeyID = lrk_ID p, sl_PublicKey = EncodeToString (lrk_PublicKey p),
     sl_Signature = EncodeToString (lrk_Signature p) \<rparr>"

datatype IdentityType = IdentityACI | IdentityPNI | IdentityOther string

fun identity_text :: "IdentityType \<Rightarrow> string" where
  "identity_text IdentityACI = ''aci''"
| "identity_text IdentityPNI = ''pni''"
| "identity_text (IdentityOther s) = s"

definition UploadPreKeys ::
  "'v web_client \<Rightarrow> more_codec \<Rightarrow> Credentials \<Rightarrow> IdentityType \<Rightarrow> UploadPreKeysRequest \<Rightarrow> 'v \<Rightarrow> 'v \<times> web_err option" where
  "UploadPreKeys c J creds ident req v =
    (if no_creds_given creds then (v, Some (WText ''web.UploadPreKeys: credentials required''))
     else if identity_text ident \<noteq> ''aci'' \<and> identity_text ident \<noteq> ''pni''
     then (v, Some (WText (''web.UploadPreKeys: invalid identity '' @ identity_text ident)))
     else if up_IdentityKey req = [] then (v, Some (WText ''web.UploadPreKeys: identityKey required''))
     else to_err (Do c ((get_request ''/v2/keys'')\<lparr> rq_Method := ''PUT'',
            rq_Query := [(''identity'', [identity_text ident])], rq_Credentials := creds,
            rq_Body := Some (mc_UploadPreKeys J req) \<rparr>) v))"

definition ECPreKeyFrom :: "PreKey \<Rightarrow> PreKeySlot" where
  "ECPreKeyFrom p = \<lparr> pl_KeyID = pk_ID p, pl_PublicKey = EncodeToString (pk_PublicKey p) \<rparr>"

definition KEMPreKeyFrom :: "KyberPreKey \<Rightarrow> SignedPreKeySlot" where
  "KEMPreKeyFrom p = \<lparr> sl_KeyID = kpk_ID p, sl_PublicKey = EncodeToString (kpk_PublicKey p),
     sl_Signature = EncodeToString (kpk_Signature p) \<rparr>"

definition ECPreKeysFrom :: "PreKey list \<Rightarrow> PreKeySlot list" where
  "ECPreKeysFrom ps = map ECPreKeyFrom ps"

definition KEMPreKeysFrom :: "KyberPreKey list \<Rightarrow> SignedPreKeySlot list" where
  "KEMPreKeysFrom ps = map KEMPreKeyFrom ps"

section \<open>Groups\<close>

definition FetchGroupAuthCredentials ::
  "'v web_client \<Rightarrow> more_codec \<Rightarrow> Credentials \<Rightarrow> int \<Rightarrow> 'v \<Rightarrow> 'v \<times> (web_err + GroupAuthCredentialsResponse)" where
  "FetchGroupAuthCredentials c J creds startDay v =
    (if no_creds_given creds then (v, Inl (WText ''web.FetchGroupAuthCredentials: credentials required''))
     else map_err (WWrap ''web.FetchGroupAuthCredentials: '')
       (decode_out (mc_GroupAuth J) \<lparr> gr_Credentials = [], gr_CallLinkAuthCredentials = [], gr_PNI = [] \<rparr>
         (Do c ((get_request ''/v1/certificate/auth/group'')\<lparr>
            rq_Query := [(''redemptionStartSeconds'', [dec_int startDay]),
              (''redemptionEndSeconds'', [dec_int (wrap_int64 (startDay + 7 * 86400))])],
            rq_Credentials := creds \<rparr>) v)))"

text \<open>UTC midnight of an instant given in nanoseconds, in seconds.\<close>

definition CurrentDaySeconds :: "int \<Rightarrow> int" where
  "CurrentDaySeconds now = now div 1000000000 div 86400 * 86400"

definition protobuf_headers :: "string \<Rightarrow> headers" where
  "protobuf_headers auth = [(''Authorization'', [auth]), (''Content-Type'', [''application/x-protobuf'']),
     (''Accept'', [''application/x-protobuf''])]"

definition accept_headers :: "string \<Rightarrow> headers" where
  "accept_headers auth = [(''Authorization'', [auth]), (''Accept'', [''application/x-protobuf''])]"

definition FetchGroupState :: "'v web_client \<Rightarrow> string \<Rightarrow> 'v \<Rightarrow> 'v \<times> (web_err + bytes)" where
  "FetchGroupState c auth v =
    (if auth = [] then (v, Inl (WText ''web.FetchGroupState: empty authorization''))
     else map_err (WWrap ''web.FetchGroupState: '')
       (Do c ((get_request ''/v2/groups/'')\<lparr> rq_Headers := accept_headers auth \<rparr>) v))"

definition FetchGroupJoinInfo :: "'v web_client \<Rightarrow> string \<Rightarrow> string \<Rightarrow> 'v \<Rightarrow> 'v \<times> (web_err + bytes)" where
  "FetchGroupJoinInfo c auth pw v =
    (if auth = [] then (v, Inl (WText ''web.FetchGroupJoinInfo: empty authorization''))
     else map_err (WWrap ''web.FetchGroupJoinInfo: '')
       (Do c ((get_request (''/v2/groups/join/'' @ pw))\<lparr> rq_Headers := accept_headers auth \<rparr>) v))"

definition send_group :: "string \<Rightarrow> string \<Rightarrow> string \<Rightarrow> url_values \<Rightarrow> 'v web_client \<Rightarrow> string \<Rightarrow> bytes \<Rightarrow> 'v \<Rightarrow> 'v \<times> (web_err + bytes)" where
  "send_group name what method query c auth body v =
    (if auth = [] then (v, Inl (WText (name @ '': empty authorization'')))
     else if length body = 0 then (v, Inl (WText (name @ '': empty '' @ what)))
     else map_err (WWrap (name @ '': ''))
       (Do c ((get_request ''/v2/groups/'')\<lparr> rq_Method := method, rq_Query := query,
          rq_Headers := protobuf_headers auth, rq_RawBody := body \<rparr>) v))"

definition PatchGroup where
  "PatchGroup c auth actions v = send_group ''web.PatchGroup'' ''actions'' ''PATCH'' [] c auth actions v"

definition PutGroup where
  "PutGroup c auth groupWire v = send_group ''web.PutGroup'' ''group'' ''PUT'' [] c auth groupWire v"

definition PatchGroupWithInvite where
  "PatchGroupWithInvite c auth pw actions v =
    send_group ''web.PatchGroupWithInvite'' ''actions'' ''PATCH''
      (if pw \<noteq> [] then [(''inviteLinkPassword'', [pw])] else []) c auth actions v"

section \<open>Requests outside \<open>Do\<close>\<close>

text \<open>A GET with the given headers; the status and the body go back to the caller.\<close>

definition raw_get ::
  "string \<Rightarrow> nat \<Rightarrow> 'v web_client \<Rightarrow> string \<Rightarrow> url_values \<Rightarrow> headers \<Rightarrow> 'v \<Rightarrow> 'v \<times> (web_err + bytes \<times> http_response)" where
  "raw_get name limit c path query h v =
    (case buildURL c path query of
       Inl e \<Rightarrow> (v, Inl e)
     | Inr full \<Rightarrow>
       (case wc_request_err c ''GET'' full of
          Some e \<Rightarrow> (v, Inl (WText (name @ '': build request: '' @ e)))
        | None \<Rightarrow>
          (case wc_transport c v \<lparr> hr_Method = ''GET'', hr_URL = full, hr_Header = h, hr_Body = None \<rparr> of
             (v', Inl e) \<Rightarrow> (v', Inl (WText (name @ '': do: '' @ e)))
           | (v', Inr resp) \<Rightarrow>
             (case read_limited limit resp of
                Inl e \<Rightarrow> (v', Inl (WText (name @ '': read body: '' @ e)))
              | Inr body \<Rightarrow> (v', Inr (body, resp))))))"

definition status_error :: "bytes \<Rightarrow> http_response \<Rightarrow> web_err" where
  "status_error body resp = WError \<lparr> we_StatusCode = hs_StatusCode resp, we_Status = hs_Status resp,
     we_Body = body, we_RetryAfter = 0 \<rparr>"

definition agent_headers :: "'v web_client \<Rightarrow> headers" where
  "agent_headers c = header_Set ''X-Signal-Agent'' (wc_UserAgent c) (header_Set ''User-Agent'' (wc_UserAgent c) [])"

text \<open>
  Group change logs. The response is given with its status, so that the caller can go on after
  a partial one.
\<close>

record GroupLogsOptions =
  lo_CachedExpiration :: int
  lo_Limit :: int
  lo_MaxSupportedChangeEpoch :: u32
  lo_IncludeFirstState :: bool
  lo_IncludeLastState :: bool

record GroupLogsPage =
  lp_Body :: bytes
  lp_StatusCode :: int
  lp_ContentRange :: string

definition logs_query :: "GroupLogsOptions \<Rightarrow> url_values" where
  "logs_query opts =
    (let limit = (if lo_Limit opts \<le> 0 then 64 else lo_Limit opts)
     in [(''limit'', [dec_int limit])] @
        (if lo_MaxSupportedChangeEpoch opts > 0
         then [(''maxSupportedChangeEpoch'', [dec_digits (unat (lo_MaxSupportedChangeEpoch opts))])] else []) @
        (if lo_IncludeFirstState opts then [(''includeFirstState'', [''true''])] else []) @
        (if lo_IncludeLastState opts then [(''includeLastState'', [''true''])] else []))"

definition FetchGroupLogs ::
  "'v web_client \<Rightarrow> string \<Rightarrow> u32 \<Rightarrow> GroupLogsOptions \<Rightarrow> 'v \<Rightarrow> 'v \<times> (web_err + GroupLogsPage)" where
  "FetchGroupLogs c auth fromVersion opts v =
    (if auth = [] then (v, Inl (WText ''web.FetchGroupLogs: empty authorization''))
     else
       let h = header_Set ''Cached-Send-Endorsements'' (dec_int (lo_CachedExpiration opts))
             (header_Set ''Accept'' ''application/x-protobuf'' (header_Set ''Authorization'' auth (agent_headers c)))
       in bindS (raw_get ''web.FetchGroupLogs'' bodyLimit c
                  (''/v2/groups/logs/'' @ dec_digits (unat fromVersion)) (logs_query opts) h v)
            (\<lambda>v (body, resp).
              if hs_StatusCode resp \<noteq> 200 \<and> hs_StatusCode resp \<noteq> 206 then (v, Inl (status_error body resp))
              else (v, Inr \<lparr> lp_Body = body, lp_StatusCode = hs_StatusCode resp,
                     lp_ContentRange = header_Get (hs_Header resp) ''Content-Range'' \<rparr>)))"

text \<open>
  \<open>strings.TrimSpace\<close>: the UTF-8 encodings of the white-space characters are removed at both
  ends.
\<close>

definition space_encodings :: "string list" where
  "space_encodings =
    [[CHR 0x20], [CHR 0x09], [CHR 0x0A], [CHR 0x0B], [CHR 0x0C], [CHR 0x0D],
     [CHR 0xC2, CHR 0x85], [CHR 0xC2, CHR 0xA0], [CHR 0xE1, CHR 0x9A, CHR 0x80]] @
    map (\<lambda>n. [CHR 0xE2, CHR 0x80, char_of (n :: nat)]) [0x80..<0x8B] @
    [[CHR 0xE2, CHR 0x80, CHR 0xA8], [CHR 0xE2, CHR 0x80, CHR 0xA9], [CHR 0xE2, CHR 0x80, CHR 0xAF],
     [CHR 0xE2, CHR 0x81, CHR 0x9F], [CHR 0xE3, CHR 0x80, CHR 0x80]]"

function strip_all :: "string list \<Rightarrow> string \<Rightarrow> string" where
  "strip_all ps s =
    (case find (\<lambda>p. p \<noteq> [] \<and> HasPrefix s p) ps of
       None \<Rightarrow> s
     | Some p \<Rightarrow> strip_all ps (drop (length p) s))"
  by auto
termination
  by (relation "measure (\<lambda>(ps, s). length s)") (auto simp: find_Some_iff HasPrefix_def,
      metis diff_less length_greater_0_conv less_le_trans)

declare strip_all.simps [simp del]

definition TrimSpace :: "string \<Rightarrow> string" where
  "TrimSpace s = rev (strip_all (map rev space_encodings) (rev (strip_all space_encodings s)))"

text \<open>The next page of a log from the header \<open>versions start-end/total\<close>.\<close>

definition NextGroupLogRevision :: "string \<Rightarrow> string + u32" where
  "NextGroupLogRevision contentRange0 =
    (let contentRange = TrimSpace contentRange0 in
     if contentRange = [] then Inl ''web.NextGroupLogRevision: empty content range''
     else if \<not> HasPrefix contentRange ''versions '' then Inl ''web.NextGroupLogRevision: unexpected format''
     else
       let rest = drop 9 contentRange in
       (case (index_of rest CHR ''-'', index_of rest CHR ''/'') of
          (Some dash, Some slash) \<Rightarrow>
            if dash \<ge> slash then Inl ''web.NextGroupLogRevision: malformed range''
            else (case ParseUint 32 (subslice (dash + 1) slash rest) of
                    None \<Rightarrow> Inl ''web.NextGroupLogRevision: parse end''
                  | Some e \<Rightarrow> Inr (of_nat e + 1))
        | _ \<Rightarrow> Inl ''web.NextGroupLogRevision: malformed range''))"

section \<open>The storage service\<close>

definition FetchStorageAuth ::
  "'v web_client \<Rightarrow> Credentials \<Rightarrow> 'v \<Rightarrow> 'v \<times> (web_err + Credentials)" where
  "FetchStorageAuth c creds v =
    (if no_creds_given creds then (v, Inl (WText ''web.FetchStorageAuth: credentials required''))
     else
       bindS (map_err (WWrap ''web.FetchStorageAuth: '')
               (decode_out (js_Userpass (wc_json c)) no_creds
                 (Do c ((get_request ''/v1/storage/auth'')\<lparr> rq_Credentials := creds \<rparr>) v)))
         (\<lambda>v out. if no_creds_given out
            then (v, Inl (WText ''web.FetchStorageAuth: empty storage credentials in response''))
            else (v, Inr out)))"

datatype StorageManifestResult = SmUnchanged | SmMissing | SmManifest StorageManifest

definition FetchStorageManifest ::
  "'v web_client \<Rightarrow> more_codec \<Rightarrow> Credentials \<Rightarrow> u64 \<Rightarrow> 'v \<Rightarrow> 'v \<times> (web_err + StorageManifestResult)" where
  "FetchStorageManifest c J creds newerThan v =
    (if no_creds_given creds then (v, Inl (WText ''web.FetchStorageManifest: credentials required''))
     else
       let path = (if newerThan > 0
             then ''/v1/storage/manifest/version/'' @ dec_digits (unat newerThan) else ''/v1/storage/manifest'');
           h = header_Set ''Accept'' ''application/x-protobuf''
             (header_Set ''Authorization'' (Credentials_Header creds) (agent_headers c))
       in bindS (raw_get ''web.FetchStorageManifest'' bodyLimit c path [] h v) (\<lambda>v (body, resp).
            if hs_StatusCode resp = 204 then (v, Inr SmUnchanged)
            else if hs_StatusCode resp = 404 then (v, Inr SmMissing)
            else if hs_StatusCode resp = 200 then
              (case mc_StorageManifest J body of
                 Inl e \<Rightarrow> (v, Inl (WText (''web.FetchStorageManifest: unmarshal: '' @ e)))
               | Inr m \<Rightarrow> (v, Inr (SmManifest m)))
            else (v, Inl (status_error body resp))))"

definition ReadStorageRecords ::
  "'v web_client \<Rightarrow> more_codec \<Rightarrow> Credentials \<Rightarrow> bytes list \<Rightarrow> 'v \<Rightarrow> 'v \<times> (web_err + StorageItem list)" where
  "ReadStorageRecords c J creds readKeys v =
    (if no_creds_given creds then (v, Inl (WText ''web.ReadStorageRecords: credentials required''))
     else if length readKeys = 0 then (v, Inr [])
     else case mc_ReadOperation J readKeys of
       Inl e \<Rightarrow> (v, Inl (WText (''web.ReadStorageRecords: marshal: '' @ e)))
     | Inr raw \<Rightarrow>
       bindS (map_err (WWrap ''web.ReadStorageRecords: '')
               (Do c ((get_request ''/v1/storage/read'')\<lparr> rq_Method := ''PUT'', rq_Credentials := creds,
                  rq_Headers := [(''Content-Type'', [''application/x-protobuf'']), (''Accept'', [''application/x-protobuf''])],
                  rq_RawBody := raw \<rparr>) v))
         (\<lambda>v respBody. case mc_StorageItems J respBody of
              Inl e \<Rightarrow> (v, Inl (WText (''web.ReadStorageRecords: unmarshal: '' @ e)))
            | Inr items \<Rightarrow> (v, Inr items)))"

section \<open>The transfer archive\<close>

datatype TransferArchiveError = RelinkRequested | ContinueWithoutUpload

datatype TransferArchivePollResult = TpArchive u32 string | TpError TransferArchiveError

definition DefaultTransferArchiveTimeout :: int where "DefaultTransferArchiveTimeout = 3600000000000"
definition transferArchivePollChunk :: int where "transferArchivePollChunk = 300000000000"

text \<open>\<open>int(timeout.Round(time.Second) / time.Second)\<close>, at least 1; the timeout is positive.\<close>

definition poll_seconds :: "int \<Rightarrow> int" where
  "poll_seconds timeout = max 1 ((timeout + 500000000) div 1000000000)"

text \<open>None in the result is the request to poll again.\<close>

definition fetchTransferArchiveOnce ::
  "'v web_client \<Rightarrow> more_codec \<Rightarrow> Credentials \<Rightarrow> int \<Rightarrow> 'v \<Rightarrow> 'v \<times> (web_err + TransferArchivePollResult option)" where
  "fetchTransferArchiveOnce c J creds timeout v =
    bindS (raw_get ''web.FetchTransferArchive'' 1048576 c ''/v1/devices/transfer_archive''
            [(''timeout'', [dec_int (poll_seconds timeout)])]
            (header_Set ''Authorization'' (Credentials_Header creds) (agent_headers c)) v) (\<lambda>v (body, resp).
      if hs_StatusCode resp = 204 then (v, Inr None)
      else if hs_StatusCode resp = 200 then
        (case mc_archive J body of
           Inl e \<Rightarrow> (v, Inl (WText (''web.FetchTransferArchive: decode: '' @ e)))
         | Inr (cdn, key, Some e) \<Rightarrow>
             if e = ''RELINK_REQUESTED'' then (v, Inr (Some (TpError RelinkRequested)))
             else if e = ''CONTINUE_WITHOUT_UPLOAD'' then (v, Inr (Some (TpError ContinueWithoutUpload)))
             else (v, Inl (WText (''web.FetchTransferArchive: unknown error '' @ e)))
         | Inr (cdn, key, None) \<Rightarrow>
             (case (cdn, key) of
                (Some n, Some k) \<Rightarrow>
                  if k = [] then (v, Inl (WText ''web.FetchTransferArchive: incomplete archive response''))
                  else (v, Inr (Some (TpArchive n k)))
              | _ \<Rightarrow> (v, Inl (WText ''web.FetchTransferArchive: incomplete archive response''))))
      else (v, Inl (status_error body resp)))"

text \<open>
  The poll loop ends only if the clock of the outside world gets to the deadline, hence a partial
  function; \<open>ctx_err\<close> is the error of the context, None while it is live.
\<close>

partial_function (option) archive_loop ::
  "('v \<Rightarrow> string option) \<Rightarrow> 'v web_client \<Rightarrow> more_codec \<Rightarrow> Credentials \<Rightarrow> int \<Rightarrow> 'v \<Rightarrow>
   ('v \<times> (web_err + TransferArchivePollResult)) option" where
  "archive_loop ctx_err c J creds deadline v =
    (case ctx_err v of
       Some e \<Rightarrow> Some (v, Inl (WText (''web.FetchTransferArchive: '' @ e)))
     | None \<Rightarrow>
       if deadline - wc_now c v \<le> 0
       then Some (v, Inl (WText ''web.FetchTransferArchive: timed out waiting for archive''))
       else
         (case fetchTransferArchiveOnce c J creds (min (deadline - wc_now c v) transferArchivePollChunk) v of
            (v', Inl e) \<Rightarrow> Some (v', Inl e)
          | (v', Inr (Some r)) \<Rightarrow> Some (v', Inr r)
          | (v', Inr None) \<Rightarrow> archive_loop ctx_err c J creds deadline v'))"

declare archive_loop.simps [code]

definition FetchTransferArchive ::
  "('v \<Rightarrow> string option) \<Rightarrow> 'v web_client \<Rightarrow> more_codec \<Rightarrow> Credentials \<Rightarrow> int \<Rightarrow> 'v \<Rightarrow>
   ('v \<times> (web_err + TransferArchivePollResult)) option" where
  "FetchTransferArchive ctx_err c J creds timeout v =
    (if no_creds_given creds then Some (v, Inl (WText ''web.FetchTransferArchive: credentials required''))
     else archive_loop ctx_err c J creds
       (wc_now c v + (if timeout \<le> 0 then DefaultTransferArchiveTimeout else timeout)) v)"

end
