(* ===== verification/Storage.thy ===== *)
theory Storage
  imports CipherLaws WebMore Send
begin

text \<open>
  The storage service: internal/storage/pull.go and pkg/signal/storage.go. The manifest and the
  records come from the storage server; the parsers of their plaintexts are parameters. A
  pulled contact or group has the fields of the client's \<open>StoredContact\<close> and \<open>StoredGroup\<close>.
\<close>

section \<open>Pulling\<close>

datatype id_type = ItContact | ItGroupV2 | ItOther

record Identifier =
  if_Raw :: bytes
  if_Type :: id_type

record ManifestRecord =
  mr_Identifiers :: "Identifier list"
  mr_RecordIkm :: bytes

record ContactRecord =
  co_Aci :: string
  co_E164 :: string
  co_Pni :: string
  co_ProfileKey :: bytes
  co_GivenName :: string
  co_FamilyName :: string
  co_Blocked :: bool
  co_Archived :: bool
  co_AciBinary :: bytes
  co_PniBinary :: bytes
  co_Nickname :: "(string \<times> string) option"

record GroupV2Record =
  g2_MasterKey :: bytes
  g2_Blocked :: bool
  g2_Archived :: bool

datatype StorageRecord = SrContact ContactRecord | SrGroupV2 GroupV2Record | SrOther

record storage_pb =
  sp_Manifest :: "bytes \<Rightarrow> string + ManifestRecord"
  sp_Record :: "bytes \<Rightarrow> string + StorageRecord"

record PullResult =
  pr_Version :: u64
  pr_Contacts :: "StoredContact list"
  pr_Groups :: "StoredGroup list"
  pr_Unchanged :: bool

datatype fetch_err = ErrManifestMissing | FetchWeb web_err

datatype pull_err =
    PullFetch fetch_err
  | PullDecryptManifest string
  | PullUnmarshalManifest string
  | PullRead fetch_err
  | PullItemKey string
  | PullDecryptRecord string string
  | PullUnmarshalRecord string

text \<open>
  ManifestFetcher, over the state \<open>'s\<close>: the manifest may be nil, and the server may say that it
  has not changed.
\<close>

record 's ManifestFetcher =
  mf_FetchManifest :: "u64 \<Rightarrow> 's \<Rightarrow> 's \<times> (fetch_err + StorageManifest option \<times> bool)"
  mf_ReadRecords :: "bytes list \<Rightarrow> 's \<Rightarrow> 's \<times> (fetch_err + StorageItem list)"

definition uuidFromBytes :: "bytes \<Rightarrow> string" where
  "uuidFromBytes b =
    (if length b \<noteq> 16 then []
     else hexEncode (subslice 0 4 b) @ ''-'' @ hexEncode (subslice 4 6 b) @ ''-'' @
          hexEncode (subslice 6 8 b) @ ''-'' @ hexEncode (subslice 8 10 b) @ ''-'' @
          hexEncode (subslice 10 16 b))"

definition contactFromProto :: "string \<Rightarrow> ContactRecord \<Rightarrow> StoredContact" where
  "contactFromProto storageID c =
    \<lparr> sc_StorageID = storageID,
      sc_ACI = (if co_Aci c = [] \<and> length (co_AciBinary c) = 16 then uuidFromBytes (co_AciBinary c) else co_Aci c),
      sc_E164 = co_E164 c,
      sc_PNI = (if co_Pni c = [] \<and> length (co_PniBinary c) = 16 then uuidFromBytes (co_PniBinary c) else co_Pni c),
      sc_ProfileKey = co_ProfileKey c,
      sc_GivenName = (case co_Nickname c of
          Some (given, family) \<Rightarrow> if co_GivenName c = [] then given else co_GivenName c
        | None \<Rightarrow> co_GivenName c),
      sc_FamilyName = (case co_Nickname c of
          Some (given, family) \<Rightarrow> if co_FamilyName c = [] then family else co_FamilyName c
        | None \<Rightarrow> co_FamilyName c),
      sc_Blocked = co_Blocked c, sc_Archived = co_Archived c \<rparr>"

definition groupFromProto :: "string \<Rightarrow> GroupV2Record \<Rightarrow> StoredGroup" where
  "groupFromProto storageID g =
    \<lparr> sg_StorageID = storageID, sg_ID = hexEncode (g2_MasterKey g), sg_MasterKey = g2_MasterKey g,
      sg_Blocked = g2_Blocked g, sg_Archived = g2_Archived g \<rparr>"

text \<open>The identifiers that are read, and the types by the hex form of the identifier.\<close>

fun wanted :: "Identifier list \<Rightarrow> bytes list \<times> (string \<times> id_type) list \<Rightarrow> bytes list \<times> (string \<times> id_type) list" where
  "wanted [] acc = acc"
| "wanted (i # is) (readKeys, idTypes) =
    (if length (if_Raw i) = 0 \<or> if_Type i = ItOther then wanted is (readKeys, idTypes)
     else wanted is (readKeys @ [if_Raw i], AList.update (hexEncode (if_Raw i)) (if_Type i) idTypes))"

text \<open>One item: skipped when it was not asked for, otherwise decrypted and parsed.\<close>

fun read_items ::
  "key_lib \<Rightarrow> crypto \<Rightarrow> storage_pb \<Rightarrow> storage_keys \<Rightarrow> bytes \<Rightarrow> (string \<times> id_type) list \<Rightarrow> StorageItem list \<Rightarrow>
   PullResult \<Rightarrow> pull_err + PullResult" where
  "read_items L C P keys ikm idTypes [] r = Inr r"
| "read_items L C P keys ikm idTypes (item # items) r =
    (let keyHex = hexEncode (it_Key item) in
     case map_of idTypes keyHex of
       None \<Rightarrow> read_items L C P keys ikm idTypes items r
     | Some itemType \<Rightarrow>
         bindR (wrapR PullItemKey (DeriveItemKey L C (sk_StorageServiceKey keys) ikm (it_Key item))) (\<lambda>itemKey.
         bindR (wrapR (PullDecryptRecord keyHex) (DecryptRecord C itemKey (it_Value item))) (\<lambda>plain.
         bindR (wrapR PullUnmarshalRecord (sp_Record P plain)) (\<lambda>rec.
           read_items L C P keys ikm idTypes items
             (case (itemType, rec) of
                (ItContact, SrContact c) \<Rightarrow> r\<lparr> pr_Contacts := pr_Contacts r @ [contactFromProto keyHex c] \<rparr>
              | (ItGroupV2, SrGroupV2 g) \<Rightarrow> r\<lparr> pr_Groups := pr_Groups r @ [groupFromProto keyHex g] \<rparr>
              | _ \<Rightarrow> r)))))"

definition empty_pull :: "u64 \<Rightarrow> bool \<Rightarrow> PullResult" where
  "empty_pull v unchanged = \<lparr> pr_Version = v, pr_Contacts = [], pr_Groups = [], pr_Unchanged = unchanged \<rparr>"

definition Pull ::
  "key_lib \<Rightarrow> crypto \<Rightarrow> storage_pb \<Rightarrow> storage_keys \<Rightarrow> 's ManifestFetcher \<Rightarrow> u64 \<Rightarrow> 's \<Rightarrow> 's \<times> (pull_err + PullResult)" where
  "Pull L C P keys fetch localVersion s =
    bindS (wrapS PullFetch (mf_FetchManifest fetch localVersion s)) (\<lambda>s (mo, unchanged).
      if unchanged then (s, Inr (empty_pull localVersion True))
      else case mo of
        None \<Rightarrow> (s, Inr (empty_pull localVersion False))
      | Some m \<Rightarrow>
        (case bindR (wrapR PullDecryptManifest
                  (DecryptRecord C (DeriveManifestKey C (sk_StorageServiceKey keys) (st_Version m)) (st_Value m)))
                (\<lambda>plain. wrapR PullUnmarshalManifest (sp_Manifest P plain)) of
           Inl e \<Rightarrow> (s, Inl e)
         | Inr mr \<Rightarrow>
           let (readKeys, idTypes) = wanted (mr_Identifiers mr) ([], [])
           in if length readKeys = 0 then (s, Inr (empty_pull (st_Version m) False))
              else bindS (wrapS PullRead (mf_ReadRecords fetch readKeys s)) (\<lambda>s items.
                (s, read_items L C P keys (mr_RecordIkm mr) idTypes items (empty_pull (st_Version m) False)))))"

section \<open>The client\<close>

text \<open>The environment of the client's other operations, beside that of the send path.\<close>

record ('r, 'v) full_env =
  fe_send :: "('r, 'v) send_env"
  fe_storage_web :: "'v web_client"
  fe_codec :: more_codec
  fe_keys :: key_lib
  fe_crypto :: crypto
  fe_storage_pb :: storage_pb
  fe_has_web :: bool
  fe_profile_version :: "bytes \<Rightarrow> string \<Rightarrow> string + string"

text \<open>The fetcher: the REST clients, over the world and the credentials it got last.\<close>

definition fetcher_FetchManifest ::
  "('r, 'v) full_env \<Rightarrow> Credentials \<Rightarrow> u64 \<Rightarrow> 'v \<times> Credentials \<Rightarrow>
   ('v \<times> Credentials) \<times> (fetch_err + StorageManifest option \<times> bool)" where
  "fetcher_FetchManifest F chatCreds localVersion = (\<lambda>(v, creds).
    case FetchStorageAuth (se_web (fe_send F)) chatCreds v of
      (v, Inl e) \<Rightarrow> ((v, creds), Inl (FetchWeb e))
    | (v, Inr auth) \<Rightarrow>
      (case FetchStorageManifest (fe_storage_web F) (fe_codec F) auth localVersion v of
         (v, Inl e) \<Rightarrow> ((v, auth), Inl (FetchWeb e))
       | (v, Inr SmUnchanged) \<Rightarrow> ((v, auth), Inr (None, True))
       | (v, Inr SmMissing) \<Rightarrow> ((v, auth), Inl ErrManifestMissing)
       | (v, Inr (SmManifest m)) \<Rightarrow> ((v, auth), Inr (Some m, False))))"

definition fetcher_ReadRecords ::
  "('r, 'v) full_env \<Rightarrow> bytes list \<Rightarrow> 'v \<times> Credentials \<Rightarrow> ('v \<times> Credentials) \<times> (fetch_err + StorageItem list)" where
  "fetcher_ReadRecords F keys = (\<lambda>(v, creds).
    case ReadStorageRecords (fe_storage_web F) (fe_codec F) creds keys v of
      (v, Inl e) \<Rightarrow> ((v, creds), Inl (FetchWeb e))
    | (v, Inr items) \<Rightarrow> ((v, creds), Inr items))"

definition storageFetcher :: "('r, 'v) full_env \<Rightarrow> Credentials \<Rightarrow> ('v \<times> Credentials) ManifestFetcher" where
  "storageFetcher F chatCreds =
    \<lparr> mf_FetchManifest = fetcher_FetchManifest F chatCreds, mf_ReadRecords = fetcher_ReadRecords F \<rparr>"

datatype sync_err = SyncNoWeb | ErrStorageNotConfigured | SyncKeys string | SyncPull pull_err

definition cache_profile_key :: "('r, 'v) full_env \<Rightarrow> StoredContact \<Rightarrow> ('r, 'v) client \<Rightarrow> ('r, 'v) client" where
  "cache_profile_key F sc c =
    (if sc_ACI sc \<noteq> [] \<and> length (sc_ProfileKey sc) = 32
     then SetRecipientProfileKey (se_client (fe_send F)) (sc_ACI sc) (sc_ProfileKey sc) c else c)"

text \<open>StorageSyncResult has the fields of \<open>PullResult\<close>.\<close>

definition SyncStorage ::
  "('r, 'v) full_env \<Rightarrow> ('r, 'v) sender \<Rightarrow> ('r, 'v) sender \<times> (sync_err + PullResult)" where
  "SyncStorage F s =
    (if \<not> fe_has_web F \<or> \<not> ce_has_storageWebc (se_client (fe_send F)) then (s, Inl SyncNoWeb)
     else if ac_AccountEntropyPool (cl_acct (sn_client s)) = [] then (s, Inl ErrStorageNotConfigured)
     else case storage_DeriveKeys (fe_keys F) (fe_crypto F) (ac_AccountEntropyPool (cl_acct (sn_client s))) of
       Inl e \<Rightarrow> (s, Inl (SyncKeys e))
     | Inr keys \<Rightarrow>
       let localVersion = cl_storageVersion (sn_client s) in
       (case Pull (fe_keys F) (fe_crypto F) (fe_storage_pb F) keys (storageFetcher F (credentials s)) localVersion
               (sn_world s, no_creds) of
          ((v, _), Inl (PullFetch ErrManifestMissing)) \<Rightarrow> (set_world v s, Inr (empty_pull localVersion False))
        | ((v, _), Inl (PullRead ErrManifestMissing)) \<Rightarrow> (set_world v s, Inr (empty_pull localVersion False))
        | ((v, _), Inl e) \<Rightarrow> (set_world v s, Inl (SyncPull e))
        | ((v, _), Inr pulled) \<Rightarrow>
            let s1 = set_world v s;
                c = fold (cache_profile_key F) (pr_Contacts pulled) (sn_client s1);
                c = (if pr_Unchanged pulled then c
                     else c\<lparr> cl_storageVersion := pr_Version pulled, cl_storedContacts := pr_Contacts pulled,
                             cl_storedGroups := pr_Groups pulled \<rparr>)
            in (s1\<lparr> sn_client := c \<rparr>, Inr pulled)))"

end
