(* ===== verification/StorageLaws.thy ===== *)
theory StorageLaws
  imports Storage SendLaws
begin

text \<open>
  What a storage sync guarantees: everything it returns was sealed under the account's keys, and
  the client's lists change together or not at all. That the version may go back is shown on a
  concrete run.
\<close>

section \<open>Authenticity\<close>











section \<open>The client's lists\<close>

definition storage_lists :: "('r, 'v) sender \<Rightarrow> u64 \<times> StoredContact list \<times> StoredGroup list" where
  "storage_lists s = (cl_storageVersion (sn_client s), cl_storedContacts (sn_client s), cl_storedGroups (sn_client s))"

lemma cache_profile_key_lists:
  "cl_storageVersion (fold (cache_profile_key F) cs c) = cl_storageVersion c"
  "cl_storedContacts (fold (cache_profile_key F) cs c) = cl_storedContacts c"
  "cl_storedGroups (fold (cache_profile_key F) cs c) = cl_storedGroups c"
  by (induction cs arbitrary: c)
     (auto simp: cache_profile_key_def SetRecipientProfileKey_def storeRecipientProfileKey_def split: sum.split)

lemma storage_lists_world [simp]: "storage_lists (set_world v s) = storage_lists s"
  by (simp add: storage_lists_def set_world_def)

text \<open>C28. After a sync the version, the contacts and the groups of the client are either all as
  before, which is the case whenever it fails or nothing has changed, or all those of the result
  it returns.\<close>

theorem sync_all_or_nothing:
  "(case SyncStorage F s of
      (s', Inl e) \<Rightarrow> storage_lists s' = storage_lists s
    | (s', Inr r) \<Rightarrow> storage_lists s' = storage_lists s \<or>
        storage_lists s' = (pr_Version r, pr_Contacts r, pr_Groups r) \<and> \<not> pr_Unchanged r)"
  by (simp add: SyncStorage_def storage_lists_def set_world_def cache_profile_key_lists Let_def
    split: sum.split prod.split pull_err.split fetch_err.split)

section \<open>Concrete runs\<close>

definition sample_box :: "bytes \<Rightarrow> bytes \<Rightarrow> bytes" where
  "sample_box k p = replicate 12 0 @ the (gcm_seal sum_crypto k (replicate 12 0) p [])"

lemma sample_box_opens:
  assumes "p \<noteq> []" "length p < 16"
  shows "DecryptRecord sum_crypto k (sample_box k p) = Inr p"
proof -
  have "length p \<le> gcm_max" using assms(2) by (simp add: gcm_max_def)
  then obtain ct where "gcm_seal sum_crypto k (replicate 12 0) p [] = Some ct"
    using gcm_seal_Some_iff [of sum_crypto k "replicate 12 0" p "[]"] by auto
  then have "box_seal sum_crypto k (replicate 12 0) p = Some (sample_box k p)"
    by (simp add: sample_box_def box_seal_def)
  then have "box_open sum_crypto k (sample_box k p) = Inr p"
    by (rule gcm_box.round_trip [OF sum_crypto_ok(1), of "replicate 12 0", simplified])
  then show ?thesis using assms(1) by (simp add: DecryptRecord_box [OF sum_crypto_ok(1)])
qed

definition sample_contact :: ContactRecord where
  "sample_contact = \<lparr> co_Aci = ''a'', co_E164 = [], co_Pni = [], co_ProfileKey = [], co_GivenName = ''An'',
     co_FamilyName = [], co_Blocked = False, co_Archived = False, co_AciBinary = [], co_PniBinary = [],
     co_Nickname = None \<rparr>"

definition sample_storage_pb :: "Identifier list \<Rightarrow> storage_pb" where
  "sample_storage_pb is = \<lparr> sp_Manifest = (\<lambda>p. Inr \<lparr> mr_Identifiers = is, mr_RecordIkm = [] \<rparr>),
     sp_Record = (\<lambda>p. Inr (SrContact sample_contact)) \<rparr>"

definition sample_storage_keys :: storage_keys where
  "sample_storage_keys = \<lparr> sk_MasterKey = replicate 32 7,
     sk_StorageServiceKey = DeriveStorageServiceKey sum_crypto (replicate 32 7) \<rparr>"

definition sample_manifest :: "u64 \<Rightarrow> StorageManifest" where
  "sample_manifest version = \<lparr> st_Version = version,
     st_Value = sample_box (DeriveManifestKey sum_crypto (sk_StorageServiceKey sample_storage_keys) version) [1] \<rparr>"



lemma sample_manifest_opens:
  "DecryptRecord sum_crypto (DeriveManifestKey sum_crypto (sk_StorageServiceKey sample_storage_keys) v)
     (st_Value (sample_manifest v)) = Inr [1]" "st_Version (sample_manifest v) = v"
  by (simp_all add: sample_manifest_def sample_box_opens)



text \<open>A client at version 7 with one contact, and a server that answers with an older manifest.\<close>

definition rollback_web :: "http_request list web_client" where
  "rollback_web = (sample_web 200)\<lparr> wc_transport := (\<lambda>v r. (v @ [r], Inr \<lparr> hs_StatusCode = 200, hs_Status = [],
       hs_Header = [], hs_Body = [1], hs_BodyErr = None \<rparr>)),
     wc_json := sample_json\<lparr> js_Userpass := (\<lambda>b. Inr \<lparr> cr_Username = ''u'', cr_Password = ''p'' \<rparr>) \<rparr> \<rparr>"

definition sample_codec :: "u64 \<Rightarrow> more_codec" where
  "sample_codec version = \<lparr> mc_LinkDeviceRequest = (\<lambda>r. Inr [1]), mc_LinkDeviceResponse = (\<lambda>b. Inl ''json''),
     mc_UploadPreKeys = (\<lambda>r. Inr [1]), mc_GroupAuth = (\<lambda>b. Inl ''json''), mc_archive = (\<lambda>b. Inl ''json''),
     mc_ReadOperation = (\<lambda>k. Inr [1]), mc_StorageItems = (\<lambda>b. Inr []),
     mc_StorageManifest = (\<lambda>b. Inr (sample_manifest version)) \<rparr>"

definition sample_full_env :: "u64 \<Rightarrow> Identifier list \<Rightarrow> (nat, http_request list) full_env" where
  "sample_full_env version is = \<lparr> fe_send = (sample_send_env 200)\<lparr> se_web := rollback_web,
       se_client := sample_receiver_env\<lparr> ce_has_storageWebc := True \<rparr> \<rparr>,
     fe_storage_web = rollback_web, fe_codec = sample_codec version, fe_keys = sample_keys,
     fe_crypto = sum_crypto, fe_storage_pb = sample_storage_pb is, fe_has_web = True,
     fe_profile_version = (\<lambda>k a. Inr ''v'') \<rparr>"

definition synced_sender :: "(nat, http_request list) sender" where
  "synced_sender = sample_sender\<lparr> sn_client := (sn_client sample_sender)\<lparr>
     cl_acct := sample_account\<lparr> ac_AccountEntropyPool := ''pool'' \<rparr>, cl_storageVersion := 7,
     cl_storedContacts := [contactFromProto ''01'' sample_contact] \<rparr> \<rparr>"

lemma rollback_manifest:
  "snd (fetcher_FetchManifest (sample_full_env 3 []) (credentials synced_sender) 7 (v, c)) =
     Inr (Some (sample_manifest 3), False)"
  by (simp add: fetcher_FetchManifest_def sample_full_env_def FetchStorageAuth_def FetchStorageManifest_def
    raw_get_def send_run_defs sample_send_defs rollback_web_def synced_sender_def sample_codec_def no_creds_def
    bodyLimit_def)

text \<open>A sync takes an older manifest than the one the client has: the version goes back and
  the contacts of the newer one are gone.\<close>

theorem storage_rollback:
  "storage_lists synced_sender = (7, [contactFromProto ''01'' sample_contact], []) \<and>
   storage_lists (fst (SyncStorage (sample_full_env 3 []) synced_sender)) = (3, [], [])"
proof -
  let ?F = "sample_full_env 3 []"
  have k: "storage_DeriveKeys (fe_keys ?F) (fe_crypto ?F) ''pool'' = Inr sample_storage_keys"
    by (simp add: storage_DeriveKeys_def DeriveSVRKey_def sample_full_env_def sample_keys_def sample_storage_keys_def)
  have g: "fe_has_web ?F" "ce_has_storageWebc (se_client (fe_send ?F))" by (simp_all add: sample_full_env_def)
  have l: "cl_storageVersion (sn_client synced_sender) = 7"
    "ac_AccountEntropyPool (cl_acct (sn_client synced_sender)) = ''pool''"
    by (simp_all add: synced_sender_def)
  obtain w where w: "fetcher_FetchManifest ?F (credentials synced_sender) 7 (sn_world synced_sender, no_creds) =
      (w, Inr (Some (sample_manifest 3), False))"
    using rollback_manifest by (metis prod.collapse)
  have "Pull (fe_keys ?F) (fe_crypto ?F) (fe_storage_pb ?F) sample_storage_keys
      (storageFetcher ?F (credentials synced_sender)) 7 (sn_world synced_sender, no_creds) = (w, Inr (empty_pull 3 False))"
    by (simp add: Pull_def storageFetcher_def w) (simp add: sample_full_env_def sample_manifest_opens sample_storage_pb_def)
  then have "storage_lists (fst (SyncStorage ?F synced_sender)) = (3, [], [])"
    by (simp add: SyncStorage_def g k l Let_def storage_lists_def empty_pull_def set_world_def split: prod.split)
  then show ?thesis by (simp add: storage_lists_def synced_sender_def sample_sender_def)
qed

end
