(* ===== verification/GroupStores.thy ===== *)
theory GroupStores
  imports Stores
begin

text \<open>
  The stores of the group code: distribution ids and send endorsements, in memory
  (internal/store/memstore/group_distribution.go, group_endorsement.go) and in SQLite
  (internal/store/sqlstore/group_stores.go). The contracts that the client relies on are the
  locales \<open>distribution_store\<close> and \<open>endorsement_store\<close>; both implementations are instances. A
  store is a value; a SQLite store fails on every call while its fault is set.
\<close>

section \<open>Interfaces\<close>

text \<open>An expiration is in seconds: the client makes every one with \<open>time.Unix(sec, 0)\<close>.\<close>

record EndorsementRecord =
  er_Expiration :: int
  er_Response :: bytes
  er_Endorsements :: "(string \<times> bytes) list"

datatype group_store_err = ErrGroupNotFound | GroupStoreFault string

record 'g dist_ops =
  ds_Load :: "string \<Rightarrow> 'g \<Rightarrow> group_store_err + string"
  ds_Store :: "string \<Rightarrow> string \<Rightarrow> 'g \<Rightarrow> 'g \<times> string option"

record 'g endorse_ops =
  es_Load :: "string \<Rightarrow> 'g \<Rightarrow> group_store_err + EndorsementRecord"
  es_Store :: "string \<Rightarrow> EndorsementRecord \<Rightarrow> 'g \<Rightarrow> 'g \<times> string option"
  es_Delete :: "string \<Rightarrow> 'g \<Rightarrow> 'g \<times> string option"

text \<open>A map that went through JSON keeps its entries, not their order.\<close>

definition same_record :: "EndorsementRecord \<Rightarrow> EndorsementRecord \<Rightarrow> bool" where
  "same_record r r' \<longleftrightarrow> er_Expiration r' = er_Expiration r \<and> er_Response r' = er_Response r \<and>
     map_of (er_Endorsements r') = map_of (er_Endorsements r)"

locale distribution_store =
  fixes load :: "string \<Rightarrow> 'g \<Rightarrow> group_store_err + string"
    and save :: "string \<Rightarrow> string \<Rightarrow> 'g \<Rightarrow> 'g \<times> string option"
  assumes load_save: "save k v g = (g', None) \<Longrightarrow> v \<noteq> [] \<Longrightarrow> load k g' = Inr v"
    and load_other: "save k v g = (g', r) \<Longrightarrow> k' \<noteq> k \<Longrightarrow> load k' g' = load k' g"
    and failed_save: "save k v g = (g', Some e) \<Longrightarrow> g' = g"
begin

lemma save_twice: "save k v g = (g1, None) \<Longrightarrow> save k w g1 = (g2, None) \<Longrightarrow> w \<noteq> [] \<Longrightarrow> load k g2 = Inr w"
  by (rule load_save)

lemma saves_commute:
  assumes "save k v g = (g1, None)" "save k' v' g1 = (g2, r)" "k' \<noteq> k" "v \<noteq> []"
  shows "load k g2 = Inr v"
  using load_save [OF assms(1,4)] load_other [OF assms(2), of k] assms(3) by simp

end

locale endorsement_store =
  fixes load :: "string \<Rightarrow> 'g \<Rightarrow> group_store_err + EndorsementRecord"
    and save :: "string \<Rightarrow> EndorsementRecord \<Rightarrow> 'g \<Rightarrow> 'g \<times> string option"
    and delete :: "string \<Rightarrow> 'g \<Rightarrow> 'g \<times> string option"
  assumes load_save: "save k r g = (g', None) \<Longrightarrow> er_Response r \<noteq> [] \<Longrightarrow> er_Endorsements r \<noteq> [] \<Longrightarrow>
      \<exists>r'. load k g' = Inr r' \<and> same_record r r'"
    and load_delete: "delete k g = (g', None) \<Longrightarrow> load k g' = Inl ErrGroupNotFound"
    and load_other: "save k r g = (g', e) \<Longrightarrow> k' \<noteq> k \<Longrightarrow> load k' g' = load k' g"
    and delete_other: "delete k g = (g', e) \<Longrightarrow> k' \<noteq> k \<Longrightarrow> load k' g' = load k' g"
begin

lemma delete_after_save:
  assumes "save k r g = (g1, e)" "delete k g1 = (g2, None)"
  shows "load k g2 = Inl ErrGroupNotFound" "k' \<noteq> k \<Longrightarrow> load k' g2 = load k' g"
  using load_delete [OF assms(2)] delete_other [OF assms(2)] load_other [OF assms(1)] by simp_all

end

section \<open>In memory\<close>

record mem_groups =
  mg_dist :: "(string \<times> string) list"
  mg_endorse :: "(string \<times> EndorsementRecord) list"

definition mem_NewGroupStores :: mem_groups where
  "mem_NewGroupStores = \<lparr> mg_dist = [], mg_endorse = [] \<rparr>"

definition mem_LoadDistribution :: "string \<Rightarrow> mem_groups \<Rightarrow> group_store_err + string" where
  "mem_LoadDistribution k g =
    (case map_of (mg_dist g) k of
       None \<Rightarrow> Inl ErrGroupNotFound
     | Some i \<Rightarrow> if i = [] then Inl ErrGroupNotFound else Inr i)"

definition mem_StoreDistribution :: "string \<Rightarrow> string \<Rightarrow> mem_groups \<Rightarrow> mem_groups \<times> string option" where
  "mem_StoreDistribution k i g = (g\<lparr> mg_dist := AList.update k i (mg_dist g) \<rparr>, None)"

definition mem_LoadEndorsements :: "string \<Rightarrow> mem_groups \<Rightarrow> group_store_err + EndorsementRecord" where
  "mem_LoadEndorsements k g =
    (case map_of (mg_endorse g) k of None \<Rightarrow> Inl ErrGroupNotFound | Some r \<Rightarrow> Inr r)"

definition mem_StoreEndorsements :: "string \<Rightarrow> EndorsementRecord \<Rightarrow> mem_groups \<Rightarrow> mem_groups \<times> string option" where
  "mem_StoreEndorsements k r g = (g\<lparr> mg_endorse := AList.update k r (mg_endorse g) \<rparr>, None)"

definition mem_DeleteEndorsements :: "string \<Rightarrow> mem_groups \<Rightarrow> mem_groups \<times> string option" where
  "mem_DeleteEndorsements k g = (g\<lparr> mg_endorse := AList.delete k (mg_endorse g) \<rparr>, None)"

definition mem_dist_ops :: "mem_groups dist_ops" where
  "mem_dist_ops = \<lparr> ds_Load = mem_LoadDistribution, ds_Store = mem_StoreDistribution \<rparr>"

definition mem_endorse_ops :: "mem_groups endorse_ops" where
  "mem_endorse_ops = \<lparr> es_Load = mem_LoadEndorsements, es_Store = mem_StoreEndorsements,
     es_Delete = mem_DeleteEndorsements \<rparr>"

interpretation mem_dist: distribution_store mem_LoadDistribution mem_StoreDistribution
  by unfold_locales (auto simp: mem_LoadDistribution_def mem_StoreDistribution_def update_conv')

interpretation mem_endorse: endorsement_store mem_LoadEndorsements mem_StoreEndorsements mem_DeleteEndorsements
  by unfold_locales
     (auto simp: mem_LoadEndorsements_def mem_StoreEndorsements_def mem_DeleteEndorsements_def same_record_def
       update_conv' delete_conv')

section \<open>SQLite\<close>

text \<open>The data column is JSON: encoding and decoding are a parameter.\<close>

record endorse_json =
  ej_marshal :: "EndorsementRecord \<Rightarrow> string + bytes"
  ej_unmarshal :: "bytes \<Rightarrow> string + EndorsementRecord"

definition json_keeps :: "endorse_json \<Rightarrow> bool" where
  "json_keeps J \<longleftrightarrow> (\<forall>r raw. ej_marshal J r = Inr raw \<longrightarrow> (\<exists>r'. ej_unmarshal J raw = Inr r' \<and> same_record r r'))"

record sql_groups =
  gq_fault :: "string option"
  gq_dist :: "(string \<times> string) list"
  gq_endorse :: "(string \<times> bytes) list"

definition gq_exec :: "string \<Rightarrow> (sql_groups \<Rightarrow> sql_groups) \<Rightarrow> sql_groups \<Rightarrow> sql_groups \<times> string option" where
  "gq_exec name f g = (case gq_fault g of Some e \<Rightarrow> (g, Some (name @ '': '' @ e)) | None \<Rightarrow> (f g, None))"

definition gq_query :: "string \<Rightarrow> (sql_groups \<Rightarrow> 'a option) \<Rightarrow> sql_groups \<Rightarrow> group_store_err + 'a" where
  "gq_query name f g =
    (case gq_fault g of
       Some e \<Rightarrow> Inl (GroupStoreFault (name @ '': '' @ e))
     | None \<Rightarrow> (case f g of None \<Rightarrow> Inl ErrGroupNotFound | Some a \<Rightarrow> Inr a))"

definition sql_LoadDistribution :: "string \<Rightarrow> sql_groups \<Rightarrow> group_store_err + string" where
  "sql_LoadDistribution k g = gq_query ''sqlstore: load group distribution'' (\<lambda>g. map_of (gq_dist g) k) g"

definition sql_StoreDistribution :: "string \<Rightarrow> string \<Rightarrow> sql_groups \<Rightarrow> sql_groups \<times> string option" where
  "sql_StoreDistribution k i g =
    gq_exec ''sqlstore: store group distribution'' (\<lambda>g. g\<lparr> gq_dist := AList.update k i (gq_dist g) \<rparr>) g"

definition sql_LoadEndorsements :: "endorse_json \<Rightarrow> string \<Rightarrow> sql_groups \<Rightarrow> group_store_err + EndorsementRecord" where
  "sql_LoadEndorsements J k g =
    bindR (gq_query ''sqlstore: load group endorsements'' (\<lambda>g. map_of (gq_endorse g) k) g) (\<lambda>raw.
    bindR (wrapR (\<lambda>e. GroupStoreFault (''sqlstore: decode group endorsements: '' @ e)) (ej_unmarshal J raw)) (\<lambda>r.
      if length (er_Response r) = 0 \<or> length (er_Endorsements r) = 0 then Inl ErrGroupNotFound else Inr r))"

definition sql_StoreEndorsements ::
  "endorse_json \<Rightarrow> string \<Rightarrow> EndorsementRecord \<Rightarrow> sql_groups \<Rightarrow> sql_groups \<times> string option" where
  "sql_StoreEndorsements J k r g =
    (case ej_marshal J r of
       Inl e \<Rightarrow> (g, Some (''sqlstore: encode group endorsements: '' @ e))
     | Inr raw \<Rightarrow>
       gq_exec ''sqlstore: store group endorsements'' (\<lambda>g. g\<lparr> gq_endorse := AList.update k raw (gq_endorse g) \<rparr>) g)"

definition sql_DeleteEndorsements :: "string \<Rightarrow> sql_groups \<Rightarrow> sql_groups \<times> string option" where
  "sql_DeleteEndorsements k g =
    gq_exec ''sqlstore: delete group endorsements'' (\<lambda>g. g\<lparr> gq_endorse := AList.delete k (gq_endorse g) \<rparr>) g"

definition sql_dist_ops :: "sql_groups dist_ops" where
  "sql_dist_ops = \<lparr> ds_Load = sql_LoadDistribution, ds_Store = sql_StoreDistribution \<rparr>"

definition sql_endorse_ops :: "endorse_json \<Rightarrow> sql_groups endorse_ops" where
  "sql_endorse_ops J = \<lparr> es_Load = sql_LoadEndorsements J, es_Store = sql_StoreEndorsements J,
     es_Delete = sql_DeleteEndorsements \<rparr>"

interpretation sql_dist: distribution_store sql_LoadDistribution sql_StoreDistribution
  by unfold_locales
     (auto simp: sql_LoadDistribution_def sql_StoreDistribution_def gq_query_def gq_exec_def update_conv'
       split: option.splits)

text \<open>The endorsement store needs a JSON codec that keeps its records.\<close>

lemma same_record_endorsements:
  "same_record r r' \<Longrightarrow> er_Endorsements r \<noteq> [] \<Longrightarrow> er_Endorsements r' \<noteq> []"
  by (cases "er_Endorsements r") (auto simp: same_record_def fun_eq_iff split: if_splits)

lemma sql_endorse_store:
  assumes "json_keeps J"
  shows "endorsement_store (sql_LoadEndorsements J) (sql_StoreEndorsements J) sql_DeleteEndorsements"
proof unfold_locales
  fix k r g g'
  assume s: "sql_StoreEndorsements J k r g = (g', None)" and ne: "er_Response r \<noteq> []" "er_Endorsements r \<noteq> []"
  then obtain raw where raw: "ej_marshal J r = Inr raw" "gq_fault g = None"
    "g' = g\<lparr> gq_endorse := AList.update k raw (gq_endorse g) \<rparr>"
    by (auto simp: sql_StoreEndorsements_def gq_exec_def split: sum.splits option.splits)
  then obtain r' where r': "ej_unmarshal J raw = Inr r'" "same_record r r'"
    using assms unfolding json_keeps_def by blast
  then have "er_Response r' \<noteq> []" "er_Endorsements r' \<noteq> []"
    using ne same_record_endorsements [of r r'] by (auto simp: same_record_def)
  then show "\<exists>r'. sql_LoadEndorsements J k g' = Inr r' \<and> same_record r r'"
    using raw r' by (simp add: sql_LoadEndorsements_def gq_query_def update_conv')
qed (auto simp: sql_LoadEndorsements_def sql_StoreEndorsements_def sql_DeleteEndorsements_def gq_query_def
  gq_exec_def update_conv' delete_conv' split: option.splits sum.splits)

end
