(* ===== verification/GroupFormat.thy ===== *)
theory GroupFormat
  imports WebMore
begin

text \<open>
  The Groups v2 wire format: internal/group (decode.go, encode.go, create.go, change.go,
  invite.go). The zkgroup operations of libsignal are the record \<open>zk_lib\<close> and the protobuf codecs the
  record \<open>group_pb\<close>. Secret and public parameters, service ids and ciphertexts are byte strings;
  an enum of the wire is its number. The randomness a builder draws is an argument.
\<close>

section \<open>Parameters\<close>

record zk_lib =
  zk_secret_params :: "bytes \<Rightarrow> string + bytes"
  zk_public_params :: "bytes \<Rightarrow> string + bytes"
  zk_group_id :: "bytes \<Rightarrow> string + bytes"
  zk_encrypt_blob :: "bytes \<Rightarrow> bytes \<Rightarrow> bytes \<Rightarrow> string + bytes"
  zk_decrypt_blob :: "bytes \<Rightarrow> bytes \<Rightarrow> string + bytes"
  zk_encrypt_sid :: "bytes \<Rightarrow> bytes \<Rightarrow> string + bytes"
  zk_decrypt_sid :: "bytes \<Rightarrow> bytes \<Rightarrow> string + bytes"
  zk_parse_sid :: "string \<Rightarrow> string + bytes"
  zk_sid_string :: "bytes \<Rightarrow> string + string"
  zk_pres_uuid :: "bytes \<Rightarrow> string + bytes"
  zk_pres_key :: "bytes \<Rightarrow> string + bytes"
  zk_decrypt_key :: "bytes \<Rightarrow> bytes \<Rightarrow> bytes \<Rightarrow> string + bytes"

datatype AttributeBlob = BlobTitle string | BlobDescription string | BlobTimer u32 | BlobOther

record MemberWire =
  mw_UserId :: bytes
  mw_Role :: int
  mw_ProfileKey :: bytes
  mw_Presentation :: bytes
  mw_LabelString :: bytes
  mw_LabelEmoji :: bytes

record AccessControl =
  acc_Attributes :: int
  acc_Members :: int
  acc_AddFromInviteLink :: int

record GroupWire =
  gw_PublicKey :: bytes
  gw_Title :: bytes
  gw_Description :: bytes
  gw_AvatarUrl :: string
  gw_Timer :: bytes
  gw_Access :: AccessControl
  gw_Version :: u32
  gw_Members :: "MemberWire option list"
  gw_Pending :: "MemberWire list"
  gw_InviteLinkPassword :: bytes
  gw_AnnouncementsOnly :: bool
  gw_Terminated :: bool

record Actions =
  at_SourceUserId :: bytes
  at_Version :: u32
  at_AddMembers :: "MemberWire list"
  at_DeleteMembers :: "bytes list"
  at_ModifyMemberRoles :: "(bytes \<times> int) list"
  at_ModifyTitle :: "bytes option"
  at_ModifyDescription :: "bytes option"
  at_ModifyInviteLinkPassword :: "bytes option"
  at_ModifyAddFromInviteLinkAccess :: "int option"
  at_AddPendingApproval :: "bytes list"

record JoinInfoWire =
  jw_Title :: bytes
  jw_Description :: bytes
  jw_Avatar :: string
  jw_MemberCount :: u32
  jw_Version :: u32
  jw_AddFromInviteLink :: int
  jw_PendingAdminApproval :: bool

text \<open>A response carries the group or the change, nil as None, and endorsements.\<close>

record group_pb =
  gp_blob :: "AttributeBlob \<Rightarrow> string + bytes"
  gp_unblob :: "bytes \<Rightarrow> string + AttributeBlob"
  gp_group :: "GroupWire \<Rightarrow> string + bytes"
  gp_actions :: "Actions \<Rightarrow> string + bytes"
  gp_response :: "bytes \<Rightarrow> string + GroupWire option \<times> bytes"
  gp_change_response :: "bytes \<Rightarrow> string + bytes option"
  gp_changes :: "bytes \<Rightarrow> string + GroupWire option list \<times> bytes"
  gp_join_info :: "bytes \<Rightarrow> string + JoinInfoWire"
  gp_link :: "bytes \<Rightarrow> bytes \<Rightarrow> string + bytes"
  gp_unlink :: "bytes \<Rightarrow> string + (bytes \<times> bytes) option"

text \<open>The checks that the Go bindings of libsignal make.\<close>

definition ParseServiceIDString :: "zk_lib \<Rightarrow> string \<Rightarrow> string + bytes" where
  "ParseServiceIDString Z s =
    (if s = [] then Inl ''libsignal.ParseServiceIDString: empty input'' else zk_parse_sid Z s)"

definition GroupSecretParamsFromMasterKey :: "zk_lib \<Rightarrow> bytes \<Rightarrow> string + bytes" where
  "GroupSecretParamsFromMasterKey Z masterKey =
    (if length masterKey \<noteq> 32
     then Inl (''libsignal.GroupSecretParamsFromMasterKey: length '' @ dec_digits (length masterKey) @ '', want 32'')
     else zk_secret_params Z masterKey)"

definition DecryptBlob :: "zk_lib \<Rightarrow> bytes \<Rightarrow> bytes \<Rightarrow> string + bytes" where
  "DecryptBlob Z sp ct = (if length ct = 0 then Inr [] else zk_decrypt_blob Z sp ct)"

definition GroupIdentifierFromMasterKey :: "zk_lib \<Rightarrow> bytes \<Rightarrow> string + bytes" where
  "GroupIdentifierFromMasterKey Z masterKey =
    bindR (GroupSecretParamsFromMasterKey Z masterKey) (\<lambda>sp.
    bindR (zk_public_params Z sp) (\<lambda>pp. zk_group_id Z pp))"

section \<open>Decoding\<close>

definition MemberRoleUnknown :: int where "MemberRoleUnknown = 0"
definition MemberRoleDefault :: int where "MemberRoleDefault = 1"
definition MemberRoleAdministrator :: int where "MemberRoleAdministrator = 2"

record Member =
  mb_ACI :: string
  mb_Role :: int
  mb_Label :: string
  mb_LabelEmoji :: string
  mb_ProfileKey :: bytes

record State =
  gs_Title :: string
  gs_Description :: string
  gs_AvatarURL :: string
  gs_Revision :: u32
  gs_Members :: "Member list"
  gs_AnnouncementsOnly :: bool
  gs_Terminated :: bool
  gs_Timer :: u32

definition state_Admins :: "State \<Rightarrow> string list" where
  "state_Admins s = map mb_ACI (filter (\<lambda>m. mb_Role m = MemberRoleAdministrator) (gs_Members s))"

definition state_IsAdmin :: "State \<Rightarrow> string \<Rightarrow> bool" where
  "state_IsAdmin s aci = list_ex (\<lambda>m. mb_ACI m = aci \<and> mb_Role m = MemberRoleAdministrator) (gs_Members s)"

text \<open>A short ciphertext and a blob that does not parse count as a blob without content.\<close>

definition decryptAttributeBlob :: "zk_lib \<Rightarrow> group_pb \<Rightarrow> bytes \<Rightarrow> bytes \<Rightarrow> string + AttributeBlob option" where
  "decryptAttributeBlob Z P sp ciphertext =
    (if length ciphertext = 0 then Inr None
     else if length ciphertext < 29 then Inr (Some BlobOther)
     else bindR (DecryptBlob Z sp ciphertext) (\<lambda>plain.
       case gp_unblob P plain of Inl e \<Rightarrow> Inr (Some BlobOther) | Inr b \<Rightarrow> Inr (Some b)))"

definition decryptTitle :: "zk_lib \<Rightarrow> group_pb \<Rightarrow> bytes \<Rightarrow> bytes \<Rightarrow> string + string" where
  "decryptTitle Z P sp ciphertext =
    bindR (decryptAttributeBlob Z P sp ciphertext) (\<lambda>b.
      case b of Some (BlobTitle t) \<Rightarrow> Inr t | _ \<Rightarrow> Inr [])"

definition decryptDescription :: "zk_lib \<Rightarrow> group_pb \<Rightarrow> bytes \<Rightarrow> bytes \<Rightarrow> string + string" where
  "decryptDescription Z P sp ciphertext =
    bindR (decryptAttributeBlob Z P sp ciphertext) (\<lambda>b.
      case b of Some (BlobDescription t) \<Rightarrow> Inr t | _ \<Rightarrow> Inr [])"

definition decryptDisappearingTimer :: "zk_lib \<Rightarrow> group_pb \<Rightarrow> bytes \<Rightarrow> bytes \<Rightarrow> string + u32" where
  "decryptDisappearingTimer Z P sp ciphertext =
    bindR (decryptAttributeBlob Z P sp ciphertext) (\<lambda>b.
      case b of Some (BlobTimer n) \<Rightarrow> Inr n | _ \<Rightarrow> Inr 0)"

definition decryptMemberLabel :: "zk_lib \<Rightarrow> bytes \<Rightarrow> bytes \<Rightarrow> string + string" where
  "decryptMemberLabel Z sp ciphertext =
    (if length ciphertext = 0 then Inr []
     else bindR (DecryptBlob Z sp ciphertext) (\<lambda>plain. Inr (TrimSpace (map (\<lambda>b. char_of (unat b)) plain))))"

definition decryptACI :: "zk_lib \<Rightarrow> bytes \<Rightarrow> bytes \<Rightarrow> string + string" where
  "decryptACI Z sp ciphertext =
    (if length ciphertext = 0 then Inl ''empty user id ciphertext''
     else bindR (zk_decrypt_sid Z sp ciphertext) (zk_sid_string Z))"

text \<open>The ciphertext of a profile key has 65 bytes.\<close>

definition memberProfileKey :: "zk_lib \<Rightarrow> bytes \<Rightarrow> bytes \<Rightarrow> MemberWire \<Rightarrow> string + bytes" where
  "memberProfileKey Z sp user m =
    (if length (mw_ProfileKey m) = 65 then zk_decrypt_key Z sp (mw_ProfileKey m) user
     else if length (mw_Presentation m) = 0 then Inr []
     else bindR (zk_pres_key Z (mw_Presentation m)) (\<lambda>ct. zk_decrypt_key Z sp ct user))"

definition decodeMember :: "zk_lib \<Rightarrow> bytes \<Rightarrow> MemberWire option \<Rightarrow> string + Member" where
  "decodeMember Z sp mo =
    (case mo of
       None \<Rightarrow> Inl ''nil member''
     | Some m \<Rightarrow>
       bindR (if length (mw_Presentation m) > 0 then
           bindR (zk_pres_uuid Z (mw_Presentation m)) (\<lambda>uuidCT.
           bindR (zk_decrypt_sid Z sp uuidCT) (\<lambda>user.
           bindR (zk_sid_string Z user) (\<lambda>aci. Inr (aci, user))))
         else
           bindR (decryptACI Z sp (mw_UserId m)) (\<lambda>aci.
           bindR (ParseServiceIDString Z aci) (\<lambda>user. Inr (aci, user))))
       (\<lambda>(aci, user).
         bindR (decryptMemberLabel Z sp (mw_LabelString m)) (\<lambda>label.
         bindR (decryptMemberLabel Z sp (mw_LabelEmoji m)) (\<lambda>emoji.
         bindR (memberProfileKey Z sp user m) (\<lambda>pk.
           Inr \<lparr> mb_ACI = aci, mb_Role = mw_Role m, mb_Label = label, mb_LabelEmoji = emoji,
                 mb_ProfileKey = pk \<rparr>)))))"

fun map_result :: "('a \<Rightarrow> 'e + 'b) \<Rightarrow> 'a list \<Rightarrow> 'e + 'b list" where
  "map_result f [] = Inr []"
| "map_result f (x # xs) = bindR (f x) (\<lambda>y. bindR (map_result f xs) (\<lambda>ys. Inr (y # ys)))"

definition DecodeState :: "zk_lib \<Rightarrow> group_pb \<Rightarrow> bytes \<Rightarrow> GroupWire option \<Rightarrow> string + State" where
  "DecodeState Z P sp wo =
    (case wo of
       None \<Rightarrow> Inl ''group.DecodeState: nil group''
     | Some w \<Rightarrow>
       bindR (decryptTitle Z P sp (gw_Title w)) (\<lambda>title.
       bindR (decryptDescription Z P sp (gw_Description w)) (\<lambda>description.
       bindR (map_result (decodeMember Z sp) (gw_Members w)) (\<lambda>members.
       bindR (decryptDisappearingTimer Z P sp (gw_Timer w)) (\<lambda>timerSecs.
         Inr \<lparr> gs_Title = TrimSpace title, gs_Description = TrimSpace description,
               gs_AvatarURL = gw_AvatarUrl w, gs_Revision = gw_Version w, gs_Members = members,
               gs_AnnouncementsOnly = gw_AnnouncementsOnly w, gs_Terminated = gw_Terminated w,
               gs_Timer = timerSecs \<rparr>)))))"

section \<open>Encoding\<close>

definition EncryptBlob :: "zk_lib \<Rightarrow> group_pb \<Rightarrow> bytes \<Rightarrow> AttributeBlob \<Rightarrow> bytes \<Rightarrow> string + bytes" where
  "EncryptBlob Z P sp blob randomness = bindR (gp_blob P blob) (\<lambda>plain. zk_encrypt_blob Z sp plain randomness)"

definition EncryptTitleBlob :: "zk_lib \<Rightarrow> group_pb \<Rightarrow> bytes \<Rightarrow> string \<Rightarrow> bytes \<Rightarrow> string + bytes" where
  "EncryptTitleBlob Z P sp title randomness = EncryptBlob Z P sp (BlobTitle title) randomness"

definition EncryptDescriptionBlob :: "zk_lib \<Rightarrow> group_pb \<Rightarrow> bytes \<Rightarrow> string \<Rightarrow> bytes \<Rightarrow> string + bytes" where
  "EncryptDescriptionBlob Z P sp description randomness =
    (if description = [] then Inr [] else EncryptBlob Z P sp (BlobDescription description) randomness)"

text \<open>\<open>uint32(seconds)\<close> of a Go int wraps.\<close>

definition EncryptTimerBlob :: "zk_lib \<Rightarrow> group_pb \<Rightarrow> bytes \<Rightarrow> int \<Rightarrow> bytes \<Rightarrow> string + bytes" where
  "EncryptTimerBlob Z P sp seconds randomness =
    (if seconds < 0 then Inl ''group.EncryptTimerBlob: negative duration''
     else EncryptBlob Z P sp (BlobTimer (of_int seconds)) randomness)"

definition EncryptServiceID :: "zk_lib \<Rightarrow> bytes \<Rightarrow> string \<Rightarrow> string + bytes" where
  "EncryptServiceID Z sp aci = bindR (ParseServiceIDString Z aci) (zk_encrypt_sid Z sp)"

section \<open>A new group\<close>

record NewGroupMember =
  nm_Presentation :: bytes
  nm_Role :: int

record NewGroupPendingMember =
  np_TargetACI :: string
  np_Role :: int

record NewGroupMessageParams =
  ng_SecretParams :: bytes
  ng_PublicParams :: bytes
  ng_Title :: string
  ng_Description :: string
  ng_Timer :: int
  ng_SelfPresentation :: bytes
  ng_Members :: "NewGroupMember list"
  ng_PendingMembers :: "NewGroupPendingMember list"

definition presented :: "bytes \<Rightarrow> int \<Rightarrow> MemberWire" where
  "presented pres role = \<lparr> mw_UserId = [], mw_Role = role, mw_ProfileKey = [], mw_Presentation = pres,
     mw_LabelString = [], mw_LabelEmoji = [] \<rparr>"

definition new_member :: "NewGroupMember \<Rightarrow> string + MemberWire" where
  "new_member m =
    (if length (nm_Presentation m) = 0 then Inl ''group.BuildNewGroupMessage: member missing presentation''
     else Inr (presented (nm_Presentation m) (nm_Role m)))"

definition pending_member :: "zk_lib \<Rightarrow> bytes \<Rightarrow> NewGroupPendingMember \<Rightarrow> string + MemberWire" where
  "pending_member Z sp pm =
    bindR (ParseServiceIDString Z (np_TargetACI pm)) (\<lambda>target.
    bindR (zk_encrypt_sid Z sp target) (\<lambda>enc.
      Inr \<lparr> mw_UserId = enc, mw_Role = np_Role pm, mw_ProfileKey = [], mw_Presentation = [],
            mw_LabelString = [], mw_LabelEmoji = [] \<rparr>))"

text \<open>One draw of randomness is used for all three blobs.\<close>

definition new_group_wire ::
  "zk_lib \<Rightarrow> group_pb \<Rightarrow> string + bytes \<Rightarrow> NewGroupMessageParams \<Rightarrow> string + GroupWire" where
  "new_group_wire Z P rnd p =
    (let sp = ng_SecretParams p in
     if length (ng_SelfPresentation p) = 0 then Inl ''group.BuildNewGroupMessage: empty self presentation''
     else
       bindR rnd (\<lambda>randomness.
       bindR (EncryptTitleBlob Z P sp (ng_Title p) randomness) (\<lambda>titleCT.
       bindR (EncryptTimerBlob Z P sp (ng_Timer p) randomness) (\<lambda>timerCT.
       bindR (if ng_Description p \<noteq> [] then EncryptDescriptionBlob Z P sp (ng_Description p) randomness
              else Inr []) (\<lambda>descCT.
       bindR (map_result new_member (ng_Members p)) (\<lambda>members.
       bindR (map_result (pending_member Z sp) (ng_PendingMembers p)) (\<lambda>pending.
         Inr \<lparr> gw_PublicKey = ng_PublicParams p, gw_Title = titleCT, gw_Description = descCT,
               gw_AvatarUrl = [], gw_Timer = timerCT,
               gw_Access = \<lparr> acc_Attributes = 2, acc_Members = 2, acc_AddFromInviteLink = 0 \<rparr>,
               gw_Version = 0,
               gw_Members = map Some (presented (ng_SelfPresentation p) MemberRoleAdministrator # members),
               gw_Pending = pending, gw_InviteLinkPassword = [],
               gw_AnnouncementsOnly = False, gw_Terminated = False \<rparr>)))))))"

definition BuildNewGroupMessage ::
  "zk_lib \<Rightarrow> group_pb \<Rightarrow> string + bytes \<Rightarrow> NewGroupMessageParams \<Rightarrow> string + bytes" where
  "BuildNewGroupMessage Z P rnd p = bindR (new_group_wire Z P rnd p) (gp_group P)"

section \<open>Changes\<close>

definition no_actions :: "bytes \<Rightarrow> u32 \<Rightarrow> Actions" where
  "no_actions source version =
    \<lparr> at_SourceUserId = source, at_Version = version, at_AddMembers = [], at_DeleteMembers = [],
      at_ModifyMemberRoles = [], at_ModifyTitle = None, at_ModifyDescription = None,
      at_ModifyInviteLinkPassword = None, at_ModifyAddFromInviteLinkAccess = None, at_AddPendingApproval = [] \<rparr>"

definition BuildLeaveActions :: "zk_lib \<Rightarrow> group_pb \<Rightarrow> bytes \<Rightarrow> string \<Rightarrow> u32 \<Rightarrow> string + bytes" where
  "BuildLeaveActions Z P sp localACI cur =
    bindR (ParseServiceIDString Z localACI) (\<lambda>localID.
    bindR (zk_encrypt_sid Z sp localID) (\<lambda>encLocal.
    bindR (zk_encrypt_sid Z sp localID) (\<lambda>encSource.
      gp_actions P ((no_actions encSource (cur + 1))\<lparr> at_DeleteMembers := [encLocal] \<rparr>))))"

definition BuildModifyRoleActions ::
  "zk_lib \<Rightarrow> group_pb \<Rightarrow> bytes \<Rightarrow> string \<Rightarrow> string \<Rightarrow> int \<Rightarrow> u32 \<Rightarrow> string + bytes" where
  "BuildModifyRoleActions Z P sp actorACI targetACI role cur =
    bindR (ParseServiceIDString Z actorACI) (\<lambda>actorID.
    bindR (ParseServiceIDString Z targetACI) (\<lambda>targetID.
    bindR (zk_encrypt_sid Z sp actorID) (\<lambda>encActor.
    bindR (zk_encrypt_sid Z sp targetID) (\<lambda>encTarget.
      gp_actions P ((no_actions encActor (cur + 1))\<lparr> at_ModifyMemberRoles := [(encTarget, role)] \<rparr>)))))"

definition BuildRemoveMemberActions ::
  "zk_lib \<Rightarrow> group_pb \<Rightarrow> bytes \<Rightarrow> string \<Rightarrow> string \<Rightarrow> u32 \<Rightarrow> string + bytes" where
  "BuildRemoveMemberActions Z P sp actorACI targetACI cur =
    bindR (ParseServiceIDString Z actorACI) (\<lambda>actorID.
    bindR (ParseServiceIDString Z targetACI) (\<lambda>targetID.
    bindR (zk_encrypt_sid Z sp actorID) (\<lambda>encActor.
    bindR (zk_encrypt_sid Z sp targetID) (\<lambda>encTarget.
      gp_actions P ((no_actions encActor (cur + 1))\<lparr> at_DeleteMembers := [encTarget] \<rparr>)))))"

definition BuildAddMemberActions ::
  "zk_lib \<Rightarrow> group_pb \<Rightarrow> bytes \<Rightarrow> string \<Rightarrow> bytes \<Rightarrow> int \<Rightarrow> u32 \<Rightarrow> string + bytes" where
  "BuildAddMemberActions Z P sp actorACI presentation role cur =
    (if length presentation = 0 then Inl ''group.BuildAddMemberActions: empty presentation''
     else
       bindR (ParseServiceIDString Z actorACI) (\<lambda>actorID.
       bindR (zk_encrypt_sid Z sp actorID) (\<lambda>encActor.
         gp_actions P ((no_actions encActor (cur + 1))\<lparr> at_AddMembers := [presented presentation role] \<rparr>))))"

definition BuildModifyTitleActions ::
  "zk_lib \<Rightarrow> group_pb \<Rightarrow> string + bytes \<Rightarrow> bytes \<Rightarrow> string \<Rightarrow> string \<Rightarrow> u32 \<Rightarrow> string + bytes" where
  "BuildModifyTitleActions Z P rnd sp actorACI title cur =
    bindR (EncryptServiceID Z sp actorACI) (\<lambda>encActor.
    bindR rnd (\<lambda>randomness.
    bindR (EncryptTitleBlob Z P sp title randomness) (\<lambda>titleCT.
      gp_actions P ((no_actions encActor (cur + 1))\<lparr> at_ModifyTitle := Some titleCT \<rparr>))))"

definition BuildModifyDescriptionActions ::
  "zk_lib \<Rightarrow> group_pb \<Rightarrow> string + bytes \<Rightarrow> bytes \<Rightarrow> string \<Rightarrow> string \<Rightarrow> u32 \<Rightarrow> string + bytes" where
  "BuildModifyDescriptionActions Z P rnd sp actorACI description cur =
    bindR (EncryptServiceID Z sp actorACI) (\<lambda>encActor.
    bindR rnd (\<lambda>randomness.
    bindR (EncryptDescriptionBlob Z P sp description randomness) (\<lambda>descCT.
      gp_actions P ((no_actions encActor (cur + 1))\<lparr> at_ModifyDescription := Some descCT \<rparr>))))"

definition BuildEnableInviteLinkActions ::
  "zk_lib \<Rightarrow> group_pb \<Rightarrow> bytes \<Rightarrow> string \<Rightarrow> bytes \<Rightarrow> int \<Rightarrow> u32 \<Rightarrow> string + bytes" where
  "BuildEnableInviteLinkActions Z P sp actorACI password access cur =
    (if length password = 0 then Inl ''group.BuildEnableInviteLinkActions: empty invite password''
     else
       bindR (EncryptServiceID Z sp actorACI) (\<lambda>encActor.
         gp_actions P ((no_actions encActor (cur + 1))\<lparr> at_ModifyInviteLinkPassword := Some password,
           at_ModifyAddFromInviteLinkAccess := Some access \<rparr>)))"

section \<open>Invite links\<close>

definition rawURLEncode :: "bytes \<Rightarrow> string" where
  "rawURLEncode bs = filter (\<lambda>c. c \<noteq> CHR ''='') (b64_encode urlAlphabet bs)"

text \<open>The decoder without padding: padding characters are errors, missing ones are added.\<close>

definition rawURLDecode :: "string \<Rightarrow> string + bytes" where
  "rawURLDecode s =
    (let t = filter (\<lambda>c. c \<noteq> CHR 0x0A \<and> c \<noteq> CHR 0x0D) s in
     if CHR ''='' \<in> set t then Inl ''illegal base64 data''
     else b64_decode urlAlphabet (t @ replicate ((4 - length t mod 4) mod 4) (CHR ''='')))"

definition FormatInviteLinkURL :: "group_pb \<Rightarrow> bytes \<Rightarrow> bytes \<Rightarrow> string + string" where
  "FormatInviteLinkURL P masterKey password =
    (if length masterKey \<noteq> 32 then Inl ''group.FormatInviteLinkURL: master key length''
     else if length password = 0 then Inl ''group.FormatInviteLinkURL: empty password''
     else bindR (gp_link P masterKey password) (\<lambda>raw. Inr (''https://signal.group/#'' @ rawURLEncode raw)))"

text \<open>\<open>strings.EqualFold\<close> with the host: the long s is the only other character that folds to one of its letters.\<close>

definition is_group_host :: "string \<Rightarrow> bool" where
  "is_group_host h \<longleftrightarrow> map ascii_lower h = ''signal.group'' \<or>
     map ascii_lower h = CHR 0xC5 # CHR 0xBF # ''ignal.group''"

text \<open>\<open>url.Parse\<close> is a parameter: scheme, host, path and fragment of a URL.\<close>

record parsed_url =
  pu_Scheme :: string
  pu_Host :: string
  pu_Path :: string
  pu_Fragment :: string

definition after_hash :: "string \<Rightarrow> string" where
  "after_hash s = drop 1 (dropWhile (\<lambda>c. c \<noteq> CHR ''#'') s)"

definition ParseInviteLinkURL ::
  "group_pb \<Rightarrow> (string \<Rightarrow> string + parsed_url) \<Rightarrow> string \<Rightarrow> string + (bytes \<times> bytes)" where
  "ParseInviteLinkURL P parse rawURL =
    bindR (parse (TrimSpace rawURL)) (\<lambda>u.
      let scheme = map ascii_lower (pu_Scheme u) in
      if scheme \<noteq> ''https'' \<and> scheme \<noteq> ''sgnl'' then Inl ''group.ParseInviteLinkURL: not a signal.group link''
      else if \<not> is_group_host (pu_Host u) then Inl ''group.ParseInviteLinkURL: not a signal.group link''
      else if pu_Path u \<noteq> [] \<and> pu_Path u \<noteq> ''/'' then Inl ''group.ParseInviteLinkURL: unexpected path in link''
      else
        let frag = (if pu_Fragment u = [] then after_hash rawURL else pu_Fragment u) in
        if frag = [] then Inl ''group.ParseInviteLinkURL: missing link payload''
        else bindR (rawURLDecode frag) (\<lambda>raw. bindR (gp_unlink P raw) (\<lambda>link.
          case link of
            None \<Rightarrow> Inl ''group.ParseInviteLinkURL: unsupported link version''
          | Some (masterKey, password) \<Rightarrow>
            if length masterKey \<noteq> 32 then Inl ''group.ParseInviteLinkURL: master key length''
            else if length password = 0 then Inl ''group.ParseInviteLinkURL: empty invite password''
            else Inr (masterKey, password))))"

record JoinInfo =
  ji_Title :: string
  ji_Description :: string
  ji_AvatarURL :: string
  ji_MemberCount :: u32
  ji_Revision :: u32
  ji_AddFromInviteLink :: int
  ji_PendingAdminApproval :: bool

definition DecodeJoinInfo :: "zk_lib \<Rightarrow> group_pb \<Rightarrow> bytes \<Rightarrow> JoinInfoWire option \<Rightarrow> string + JoinInfo" where
  "DecodeJoinInfo Z P sp wo =
    (case wo of
       None \<Rightarrow> Inl ''group.DecodeJoinInfo: nil join info''
     | Some w \<Rightarrow>
       bindR (decryptTitle Z P sp (jw_Title w)) (\<lambda>title.
       bindR (decryptDescription Z P sp (jw_Description w)) (\<lambda>description.
         Inr \<lparr> ji_Title = TrimSpace title, ji_Description = TrimSpace description, ji_AvatarURL = jw_Avatar w,
               ji_MemberCount = jw_MemberCount w, ji_Revision = jw_Version w,
               ji_AddFromInviteLink = jw_AddFromInviteLink w,
               ji_PendingAdminApproval = jw_PendingAdminApproval w \<rparr>)))"

text \<open>The source id of a join goes out as it is, not encrypted.\<close>

definition BuildJoinViaInviteLinkActions ::
  "zk_lib \<Rightarrow> group_pb \<Rightarrow> string \<Rightarrow> bytes \<Rightarrow> u32 \<Rightarrow> string + bytes" where
  "BuildJoinViaInviteLinkActions Z P localACI presentation cur =
    (if length presentation = 0 then Inl ''group.BuildJoinViaInviteLinkActions: empty presentation''
     else bindR (ParseServiceIDString Z localACI) (\<lambda>localID.
       gp_actions P ((no_actions localID (cur + 1))\<lparr> at_AddMembers := [presented presentation 1] \<rparr>)))"

definition BuildJoinRequestActions ::
  "zk_lib \<Rightarrow> group_pb \<Rightarrow> string \<Rightarrow> bytes \<Rightarrow> u32 \<Rightarrow> string + bytes" where
  "BuildJoinRequestActions Z P localACI presentation cur =
    (if length presentation = 0 then Inl ''group.BuildJoinRequestActions: empty presentation''
     else bindR (ParseServiceIDString Z localACI) (\<lambda>localID.
       gp_actions P ((no_actions localID (cur + 1))\<lparr> at_AddPendingApproval := [presentation] \<rparr>)))"

end
