(* ===== verification/GroupClient.thy ===== *)
theory GroupClient
  imports GroupStores GroupFormat Storage
begin

text \<open>
  The client's view of its groups: pkg/signal/group.go, group_endorsement.go, group_revision.go,
  group_credential.go and group_logs.go. The state is the sender of the other operations with the
  caches of the group code and the group stores; libsignal's zkgroup operations on server
  parameters, credentials and endorsements are the record \<open>group_lib\<close>. Warnings in the log are
  left out.
\<close>

section \<open>State and environment\<close>

text \<open>
  \<open>gl_skdm\<close> gives a message with its serialisation, \<open>gl_receive_endorsements\<close> one endorsement
  for each service id.
\<close>

record 'r group_lib =
  gl_server_params :: "string + bytes"
  gl_randomness :: "'r \<Rightarrow> 'r \<times> (string + bytes)"
  gl_uuid_bytes :: "'r \<Rightarrow> 'r \<times> (string + bytes)"
  gl_master_key :: "bytes \<Rightarrow> string + bytes \<times> bytes"
  gl_receive_auth :: "bytes \<Rightarrow> bytes \<Rightarrow> bytes \<Rightarrow> u64 \<Rightarrow> bytes \<Rightarrow> string + bytes"
  gl_auth_presentation :: "bytes \<Rightarrow> bytes \<Rightarrow> bytes \<Rightarrow> bytes \<Rightarrow> string + bytes"
  gl_request_context :: "bytes \<Rightarrow> bytes \<Rightarrow> bytes \<Rightarrow> bytes \<Rightarrow> string + bytes"
  gl_request :: "bytes \<Rightarrow> string + bytes"
  gl_receive_credential :: "bytes \<Rightarrow> bytes \<Rightarrow> bytes \<Rightarrow> int \<Rightarrow> string + bytes"
  gl_member_presentation :: "bytes \<Rightarrow> bytes \<Rightarrow> bytes \<Rightarrow> bytes \<Rightarrow> string + bytes"
  gl_endorsements_expiration :: "bytes \<Rightarrow> string + u64"
  gl_receive_endorsements :: "bytes \<Rightarrow> bytes list \<Rightarrow> bytes \<Rightarrow> bytes \<Rightarrow> bytes \<Rightarrow> int \<Rightarrow> string + bytes list"
  gl_combine :: "bytes list \<Rightarrow> string + bytes"
  gl_full_token :: "bytes \<Rightarrow> bytes \<Rightarrow> int \<Rightarrow> string + bytes"
  gl_skdm :: "Address \<Rightarrow> string \<Rightarrow> sql_stores \<Rightarrow> sql_stores \<times> (string + (string + bytes))"
  gl_group_encrypt :: "bytes \<Rightarrow> Address \<Rightarrow> string \<Rightarrow> sql_stores \<Rightarrow> sql_stores \<times> (string + bytes)"
  gl_usmc_group :: "bytes \<Rightarrow> sender_cert \<Rightarrow> bytes \<Rightarrow> string + bytes"
  gl_multi_encrypt :: "Address list \<Rightarrow> bytes list \<Rightarrow> bytes \<Rightarrow> sql_stores \<Rightarrow> sql_stores \<times> (string + bytes)"
  gl_marshal_change :: "bytes \<Rightarrow> string + bytes"

record ('r, 'v, 'g) group_env =
  ge_full :: "('r, 'v) full_env"
  ge_zk :: zk_lib
  ge_pb :: group_pb
  ge_lib :: "'r group_lib"
  ge_unicode :: go_unicode
  ge_dist :: "'g dist_ops option"
  ge_endorse :: "'g endorse_ops option"

record ('r, 'v, 'g) gclient =
  gc_sender :: "('r, 'v) sender"
  gc_authCreds :: "(int \<times> bytes) list"
  gc_distID :: "(string \<times> string) list"
  gc_endorsements :: "(string \<times> EndorsementRecord) list"
  gc_secretParams :: "(string \<times> bytes) list"
  gc_store :: 'g

definition gn_client :: "('r, 'v, 'g) gclient \<Rightarrow> ('r, 'v) client" where
  "gn_client g = sn_client (gc_sender g)"

definition local_ACI :: "('r, 'v, 'g) gclient \<Rightarrow> string" where
  "local_ACI g = ac_ACI (cl_acct (gn_client g))"

definition send_env_of :: "('r, 'v, 'g) group_env \<Rightarrow> ('r, 'v) send_env" where
  "send_env_of E = fe_send (ge_full E)"

definition gnow :: "('r, 'v, 'g) group_env \<Rightarrow> ('r, 'v, 'g) gclient \<Rightarrow> int" where
  "gnow E g = sn_now (send_env_of E) (gc_sender g)"

text \<open>A step of the sender, of the client below it, of the network, and a draw of randomness.\<close>

definition on_sender ::
  "(('r, 'v) sender \<Rightarrow> ('r, 'v) sender \<times> 'a) \<Rightarrow> ('r, 'v, 'g) gclient \<Rightarrow> ('r, 'v, 'g) gclient \<times> 'a" where
  "on_sender f g = (case f (gc_sender g) of (s, a) \<Rightarrow> (g\<lparr> gc_sender := s \<rparr>, a))"

definition on_client :: "(('r, 'v) client \<Rightarrow> ('r, 'v) client) \<Rightarrow> ('r, 'v, 'g) gclient \<Rightarrow> ('r, 'v, 'g) gclient" where
  "on_client f g = g\<lparr> gc_sender := (gc_sender g)\<lparr> sn_client := f (gn_client g) \<rparr> \<rparr>"

definition on_net ::
  "('v \<Rightarrow> 'v \<times> 'a) \<Rightarrow> ('r, 'v, 'g) gclient \<Rightarrow> ('r, 'v, 'g) gclient \<times> 'a" where
  "on_net f g = on_sender (on_world f) g"

definition draw ::
  "('r \<Rightarrow> 'r \<times> 'a) \<Rightarrow> ('r, 'v, 'g) gclient \<Rightarrow> ('r, 'v, 'g) gclient \<times> 'a" where
  "draw f g =
    (case f (mt_rand (cl_maint (gn_client g))) of
       (r, a) \<Rightarrow> (on_client (\<lambda>c. c\<lparr> cl_maint := (cl_maint c)\<lparr> mt_rand := r \<rparr> \<rparr>) g, a))"

definition fail_with :: "string \<Rightarrow> 's \<Rightarrow> 's \<times> (web_err + 'a)" where
  "fail_with t s = (s, Inl (WText t))"

text \<open>A computation without effect, its error given as a text.\<close>

definition pure_r :: "(string + 'a) \<Rightarrow> 's \<Rightarrow> 's \<times> (web_err + 'a)" where
  "pure_r r s = (s, wrapR WText r)"

section \<open>Groups\<close>

type_synonym GroupMember = Member

text \<open>The expire timer is a duration in nanoseconds.\<close>

record Group =
  gv_ID :: string
  gv_Title :: string
  gv_Description :: string
  gv_AvatarURL :: string
  gv_Revision :: u32
  gv_Members :: "GroupMember list"
  gv_ExpireTimer :: int

definition group_Admins :: "Group \<Rightarrow> string list" where
  "group_Admins g = map mb_ACI (filter (\<lambda>m. mb_Role m = MemberRoleAdministrator) (gv_Members g))"

definition group_IsAdmin :: "Group \<Rightarrow> string \<Rightarrow> bool" where
  "group_IsAdmin g aci \<longleftrightarrow> list_ex (\<lambda>m. mb_ACI m = aci \<and> mb_Role m = MemberRoleAdministrator) (gv_Members g)"

definition groupFromDecodedState :: "string \<Rightarrow> State \<Rightarrow> Group \<times> string list" where
  "groupFromDecodedState mkHex st =
    (\<lparr> gv_ID = mkHex, gv_Title = gs_Title st, gv_Description = gs_Description st, gv_AvatarURL = gs_AvatarURL st,
       gv_Revision = gs_Revision st, gv_Members = gs_Members st,
       gv_ExpireTimer = uint (gs_Timer st) * 1000000000 \<rparr>, map mb_ACI (gs_Members st))"

section \<open>Authorization\<close>

definition ascii_upper :: "char \<Rightarrow> char" where
  "ascii_upper c = (let n = of_char c :: nat in if 97 \<le> n \<and> n \<le> 122 then char_of (n - 32) else c)"

text \<open>
  Whether \<open>strings.ToUpper\<close> of the string starts with \<open>PNI:\<close>; the dotless i is the only other
  character whose upper case is one of these letters.
\<close>

definition has_pni_prefix :: "string \<Rightarrow> bool" where
  "has_pni_prefix s \<longleftrightarrow> map ascii_upper (take 4 s) = ''PNI:'' \<or>
     map ascii_upper (take 2 s) = ''PN'' \<and> take 3 (drop 2 s) = [CHR 0xC4, CHR 0xB1, CHR '':'']"

definition normalizePNIServiceID :: "string \<Rightarrow> string" where
  "normalizePNIServiceID pni0 =
    (let pni = TrimSpace pni0 in
     if pni = [] then []
     else if has_pni_prefix pni then ''PNI:'' @ drop 4 pni
     else ''PNI:'' @ pni)"

definition GroupsV2AuthorizationHeader :: "bytes \<Rightarrow> bytes \<Rightarrow> string" where
  "GroupsV2AuthorizationHeader publicParams presentation =
    ''Basic '' @ EncodeToString (string_bytes (hexEncode publicParams @ '':'' @ hexEncode presentation))"

definition InvalidateGroupAuthCache :: "('r, 'v, 'g) gclient \<Rightarrow> ('r, 'v, 'g) gclient" where
  "InvalidateGroupAuthCache g = g\<lparr> gc_authCreds := [] \<rparr>"

text \<open>The credential response of a day: from the cache, or fetched and cached.\<close>

definition auth_response ::
  "('r, 'v, 'g) group_env \<Rightarrow> int \<Rightarrow> ('r, 'v, 'g) gclient \<Rightarrow> ('r, 'v, 'g) gclient \<times> (web_err + bytes)" where
  "auth_response E day g =
    (case map_of (gc_authCreds g) day of
       Some b \<Rightarrow> (g, Inr b)
     | None \<Rightarrow>
       bindS (on_net (FetchGroupAuthCredentials (se_web (send_env_of E)) (fe_codec (ge_full E))
                (credentials (gc_sender g)) day) g) (\<lambda>g resp.
         let m = fold (\<lambda>c. AList.update (ga_RedemptionTime c) (ga_Credential c)) (gr_Credentials resp) (gc_authCreds g)
         in (g\<lparr> gc_authCreds := m \<rparr>, Inr (case map_of m day of None \<Rightarrow> [] | Some b \<Rightarrow> b))))"

definition groupsV2AuthHeader ::
  "('r, 'v, 'g) group_env \<Rightarrow> bytes \<Rightarrow> bytes \<Rightarrow> ('r, 'v, 'g) gclient \<Rightarrow> ('r, 'v, 'g) gclient \<times> (web_err + string)" where
  "groupsV2AuthHeader E sp pp g0 =
    (let day = CurrentDaySeconds (gnow E g0); Z = ge_zk E; L = ge_lib E in
     bindS (auth_response E day g0) (\<lambda>g responseBytes.
       if length responseBytes = 0 then fail_with (''no auth credential for redemption day '' @ dec_int day) g
       else
         bindS (pure_r (bindR (gl_server_params L) (\<lambda>server.
                  bindR (wrapR (\<lambda>e. ''parse ACI: '' @ e) (ParseServiceIDString Z (local_ACI g))) (\<lambda>aci.
                  bindR (wrapR (\<lambda>e. ''parse PNI: '' @ e)
                    (ParseServiceIDString Z (normalizePNIServiceID (ac_PNI (cl_acct (gn_client g)))))) (\<lambda>pni.
                    Inr (server, aci, pni))))) g) (\<lambda>g (server, aci, pni).
         case gl_receive_auth L server aci pni (of_int day) responseBytes of
           Inl e \<Rightarrow> fail_with (''receive auth credential: '' @ e) (g\<lparr> gc_authCreds := AList.delete day (gc_authCreds g) \<rparr>)
         | Inr credential \<Rightarrow>
           (case draw (gl_randomness L) g of
              (g, rnd) \<Rightarrow> pure_r (bindR rnd (\<lambda>randomness.
                 bindR (wrapR (\<lambda>e. ''create auth presentation: '' @ e)
                   (gl_auth_presentation L server sp credential randomness)) (\<lambda>presentation.
                   Inr (GroupsV2AuthorizationHeader pp presentation)))) g))))"

section \<open>Send endorsements\<close>

definition endorsements_expired :: "('r, 'v, 'g) group_env \<Rightarrow> EndorsementRecord \<Rightarrow> ('r, 'v, 'g) gclient \<Rightarrow> bool" where
  "endorsements_expired E rec g \<longleftrightarrow> gnow E g > er_Expiration rec * 1000000000"

definition groupSendEndorsementCache ::
  "('r, 'v, 'g) group_env \<Rightarrow> string \<Rightarrow> ('r, 'v, 'g) gclient \<Rightarrow> ('r, 'v, 'g) gclient \<times> (web_err + EndorsementRecord)" where
  "groupSendEndorsementCache E mkHex g =
    (let missing = ''signal: no cached group send endorsements (call FetchGroup first)'';
         from_store =
           (case ge_endorse E of
              None \<Rightarrow> fail_with missing g
            | Some S \<Rightarrow>
              (case es_Load S mkHex (gc_store g) of
                 Inl ErrGroupNotFound \<Rightarrow> fail_with missing g
               | Inl (GroupStoreFault e) \<Rightarrow> fail_with (''signal: load group endorsements: '' @ e) g
               | Inr rec \<Rightarrow>
                 if endorsements_expired E rec g then fail_with ''signal: group send endorsements expired'' g
                 else (g\<lparr> gc_endorsements := AList.update mkHex rec (gc_endorsements g) \<rparr>, Inr rec)))
     in case map_of (gc_endorsements g) mkHex of
          Some cache \<Rightarrow> if length (er_Response cache) > 0 then (g, Inr cache) else from_store
        | None \<Rightarrow> from_store)"

definition groupSecretParamsForHexID ::
  "('r, 'v, 'g) group_env \<Rightarrow> string \<Rightarrow> ('r, 'v, 'g) gclient \<Rightarrow> string + bytes" where
  "groupSecretParamsForHexID E mkHex g =
    (case map_of (gc_secretParams g) mkHex of
       Some p \<Rightarrow> Inr p
     | None \<Rightarrow>
       (case hexDecode mkHex of
          Inl e \<Rightarrow> Inl ''encoding/hex''
        | Inr masterKey \<Rightarrow> GroupSecretParamsFromMasterKey (ge_zk E) masterKey))"

text \<open>The endorsement of each recipient, in order; the first without one stops.\<close>

fun pick_endorsements :: "(string \<times> bytes) list \<Rightarrow> string list \<Rightarrow> string + bytes list" where
  "pick_endorsements m [] = Inr []"
| "pick_endorsements m (aci # acis) =
    (case map_of m aci of
       None \<Rightarrow> Inl (''signal: no send endorsement for member '' @ aci)
     | Some e \<Rightarrow>
       if length e = 0 then Inl (''signal: no send endorsement for member '' @ aci)
       else bindR (pick_endorsements m acis) (\<lambda>es. Inr (e # es)))"

definition groupSendTokenForRecipients ::
  "('r, 'v, 'g) group_env \<Rightarrow> string \<Rightarrow> string list \<Rightarrow> ('r, 'v, 'g) gclient \<Rightarrow>
   ('r, 'v, 'g) gclient \<times> (web_err + bytes)" where
  "groupSendTokenForRecipients E mkHex acis g =
    bindS (groupSendEndorsementCache E mkHex g) (\<lambda>g cache.
      if endorsements_expired E cache g then fail_with ''signal: group send endorsements expired'' g
      else pure_r (bindR (pick_endorsements (er_Endorsements cache) acis) (\<lambda>toCombine.
             bindR (gl_combine (ge_lib E) toCombine) (\<lambda>combined.
             bindR (groupSecretParamsForHexID E mkHex g) (\<lambda>sp.
               gl_full_token (ge_lib E) combined sp (er_Expiration cache))))) g)"

definition GroupSendTokenHeader :: "bytes \<Rightarrow> string" where
  "GroupSendTokenHeader fullToken = EncodeToString fullToken"

text \<open>What a response yields: its expiry and an endorsement per member; extra ones are cut off.\<close>

definition received_endorsements ::
  "('r, 'v, 'g) group_env \<Rightarrow> bytes \<Rightarrow> bytes \<Rightarrow> string list \<Rightarrow> ('r, 'v, 'g) gclient \<Rightarrow> string + EndorsementRecord" where
  "received_endorsements E sp response acis g =
    (let Z = ge_zk E; L = ge_lib E in
     bindR (gl_server_params L) (\<lambda>server.
     bindR (ParseServiceIDString Z (local_ACI g)) (\<lambda>localUser.
     bindR (map_result (\<lambda>aci. wrapR (\<lambda>e. ''parse member '' @ aci @ '': '' @ e) (ParseServiceIDString Z aci)) acis) (\<lambda>ids.
     bindR (gl_endorsements_expiration L response) (\<lambda>expSec.
     bindR (gl_receive_endorsements L response ids localUser sp server (gnow E g)) (\<lambda>es.
       let endorsements = take (length acis) es in
       if length endorsements \<noteq> length acis then Inl ''signal: endorsement count''
       else Inr \<lparr> er_Expiration = sint expSec, er_Response = response,
              er_Endorsements = fold (\<lambda>(a, e). AList.update a e) (zip acis endorsements) [] \<rparr>))))))"

definition storeGroupSendEndorsements ::
  "('r, 'v, 'g) group_env \<Rightarrow> string \<Rightarrow> bytes \<Rightarrow> bytes \<Rightarrow> string list \<Rightarrow> ('r, 'v, 'g) gclient \<Rightarrow>
   ('r, 'v, 'g) gclient \<times> string option" where
  "storeGroupSendEndorsements E mkHex sp response acis g =
    (if length response = 0 \<or> length acis = 0 then (g, None)
     else case received_endorsements E sp response acis g of
       Inl e \<Rightarrow> (g, Some e)
     | Inr rec \<Rightarrow>
       let g = g\<lparr> gc_endorsements := AList.update mkHex rec (gc_endorsements g),
                  gc_secretParams := AList.update mkHex sp (gc_secretParams g) \<rparr>
       in (case ge_endorse E of
             None \<Rightarrow> (g, None)
           | Some S \<Rightarrow> (g\<lparr> gc_store := fst (es_Store S mkHex rec (gc_store g)) \<rparr>, None)))"

definition deleteGroupSendEndorsements ::
  "('r, 'v, 'g) group_env \<Rightarrow> string \<Rightarrow> ('r, 'v, 'g) gclient \<Rightarrow> ('r, 'v, 'g) gclient" where
  "deleteGroupSendEndorsements E mkHex g =
    (let g = g\<lparr> gc_endorsements := AList.delete mkHex (gc_endorsements g),
                gc_secretParams := AList.delete mkHex (gc_secretParams g) \<rparr>
     in case ge_endorse E of
          None \<Rightarrow> g
        | Some S \<Rightarrow> g\<lparr> gc_store := fst (es_Delete S mkHex (gc_store g)) \<rparr>)"

text \<open>The zero time is the first of January of the year 1.\<close>

definition zero_unix :: int where "zero_unix = - 62135596800"

definition groupSendEndorsementExpirationUnix ::
  "('r, 'v, 'g) group_env \<Rightarrow> string \<Rightarrow> ('r, 'v, 'g) gclient \<Rightarrow> int" where
  "groupSendEndorsementExpirationUnix E mkHex g =
    (let from_store =
       (case ge_endorse E of
          None \<Rightarrow> 0
        | Some S \<Rightarrow>
          (case es_Load S mkHex (gc_store g) of
             Inl e \<Rightarrow> 0
           | Inr rec \<Rightarrow> if er_Expiration rec = zero_unix then 0 else er_Expiration rec))
     in case map_of (gc_endorsements g) mkHex of
          Some cache \<Rightarrow> if er_Expiration cache \<noteq> zero_unix then er_Expiration cache else from_store
        | None \<Rightarrow> from_store)"

section \<open>Fetching a group\<close>

text \<open>The parameters of a group and the header that authorizes requests about it.\<close>

definition group_params :: "('r, 'v, 'g) group_env \<Rightarrow> bytes \<Rightarrow> string + bytes \<times> bytes" where
  "group_params E masterKey =
    bindR (GroupSecretParamsFromMasterKey (ge_zk E) masterKey) (\<lambda>sp.
    bindR (zk_public_params (ge_zk E) sp) (\<lambda>pp. Inr (sp, pp)))"

definition has_storage :: "('r, 'v, 'g) group_env \<Rightarrow> bool" where
  "has_storage E \<longleftrightarrow> ce_has_storageWebc (se_client (send_env_of E))"

definition decode_response ::
  "('r, 'v, 'g) group_env \<Rightarrow> bytes \<Rightarrow> bytes \<Rightarrow> string + State \<times> bytes" where
  "decode_response E sp raw =
    bindR (gp_response (ge_pb E) raw) (\<lambda>(wo, gse).
      case wo of
        None \<Rightarrow> Inl ''server returned empty group''
      | Some w \<Rightarrow> bindR (DecodeState (ge_zk E) (ge_pb E) sp (Some w)) (\<lambda>st. Inr (st, gse)))"

text \<open>What FetchGroup and CreateGroup keep of a state.\<close>

definition keep_state ::
  "('r, 'v, 'g) group_env \<Rightarrow> string \<Rightarrow> bytes \<Rightarrow> bytes \<Rightarrow> string list \<Rightarrow> Group \<Rightarrow> ('r, 'v, 'g) gclient \<Rightarrow>
   ('r, 'v, 'g) gclient" where
  "keep_state E mkHex sp gse acis grp g =
    (let g = (if length gse > 0 then fst (storeGroupSendEndorsements E mkHex sp gse acis g) else g)
     in on_client (storeGroupRevision mkHex (gv_Revision grp)) g)"

definition FetchGroup ::
  "('r, 'v, 'g) group_env \<Rightarrow> bytes \<Rightarrow> ('r, 'v, 'g) gclient \<Rightarrow> ('r, 'v, 'g) gclient \<times> (web_err + Group)" where
  "FetchGroup E masterKey g =
    (if length masterKey \<noteq> 32
     then fail_with (''signal.FetchGroup: master key length '' @ dec_digits (length masterKey) @ '', want 32'') g
     else if \<not> fe_has_web (ge_full E) \<or> \<not> has_storage E
     then fail_with ''signal.FetchGroup: Client was opened without send-side dependencies'' g
     else
       bindS (pure_r (group_params E masterKey) g) (\<lambda>g (sp, pp).
       bindS (wrapS (WWrap ''signal.FetchGroup: authorize: '') (groupsV2AuthHeader E sp pp g)) (\<lambda>g auth.
       bindS (wrapS (WWrap ''signal.FetchGroup: '') (on_net (FetchGroupState (fe_storage_web (ge_full E)) auth) g)) (\<lambda>g raw.
       bindS (pure_r (decode_response E sp raw) g) (\<lambda>g (st, gse).
         let mkHex = hexEncode masterKey; (grp, acis) = groupFromDecodedState mkHex st;
             g = keep_state E mkHex sp gse acis grp g;
             g = (if gv_ExpireTimer grp > 0
                  then on_client (setExpireTimer mkHex (of_int (gv_ExpireTimer grp div 1000000000))) g else g)
         in (g, Inr grp))))))"

section \<open>Member credentials\<close>

definition credential_guard :: "string \<Rightarrow> bytes \<Rightarrow> ('r, 'v, 'g) gclient \<Rightarrow> string + bytes" where
  "credential_guard aci profileKey g =
    (if aci = [] then Inl ''signal.FetchExpiringProfileKeyCredential: empty member ACI''
     else
       let key = (if length profileKey = 0
                  then (case map_of (cl_profileKeys (gn_client g)) aci of None \<Rightarrow> [] | Some k \<Rightarrow> k) else profileKey)
       in case ValidateProfileKey key of
            Some e \<Rightarrow> Inl (''signal.FetchExpiringProfileKeyCredential: '' @ e)
          | None \<Rightarrow> Inr key)"

definition client_FetchExpiringProfileKeyCredential ::
  "('r, 'v, 'g) group_env \<Rightarrow> string \<Rightarrow> bytes \<Rightarrow> ('r, 'v, 'g) gclient \<Rightarrow> ('r, 'v, 'g) gclient \<times> (web_err + bytes)" where
  "client_FetchExpiringProfileKeyCredential E aci profileKey g =
    (let L = ge_lib E; F = ge_full E in
     bindS (pure_r (credential_guard aci profileKey g) g) (\<lambda>g key.
     if \<not> fe_has_web F
     then fail_with ''signal.FetchExpiringProfileKeyCredential: Client was opened without send-side dependencies'' g
     else
       bindS (pure_r (bindR (gl_server_params L) (\<lambda>server.
                bindR (ParseServiceIDString (ge_zk E) aci) (\<lambda>user. Inr (server, user)))) g) (\<lambda>g (server, user).
       case draw (gl_randomness L) g of (g, rnd) \<Rightarrow>
       bindS (pure_r (bindR rnd (\<lambda>randomness.
                bindR (gl_request_context L server user key randomness) (\<lambda>rc.
                bindR (gl_request L rc) (\<lambda>request.
                bindR (DeriveAccessKey (fe_keys F) key) (\<lambda>uak.
                bindR (fe_profile_version F key aci) (\<lambda>version. Inr (rc, request, uak, version))))))) g)
         (\<lambda>g (rc, request, uak, version).
       bindS (wrapS (WWrap ''signal.FetchExpiringProfileKeyCredential: fetch: '')
               (on_net (FetchExpiringProfileKeyCredential (se_web (send_env_of E)) aci version uak request) g)) (\<lambda>g raw.
       bindS (pure_r (gl_receive_credential L server rc raw (gnow E g)) g) (\<lambda>g credential.
         (on_client (storeRecipientProfileKey (se_client (send_env_of E)) aci key) g, Inr credential)))))))"

definition memberPresentationForAdd ::
  "('r, 'v, 'g) group_env \<Rightarrow> bytes \<Rightarrow> string \<Rightarrow> bytes \<Rightarrow> ('r, 'v, 'g) gclient \<Rightarrow>
   ('r, 'v, 'g) gclient \<times> (web_err + bytes)" where
  "memberPresentationForAdd E sp aci profileKey g =
    bindS (client_FetchExpiringProfileKeyCredential E aci profileKey g) (\<lambda>g credential.
    bindS (pure_r (gl_server_params (ge_lib E)) g) (\<lambda>g server.
    case draw (gl_randomness (ge_lib E)) g of (g, rnd) \<Rightarrow>
      pure_r (bindR rnd (gl_member_presentation (ge_lib E) server sp credential)) g))"

section \<open>Change logs\<close>

record GroupLogsFetchOptions =
  fo_FromRevision :: u32
  fo_CachedExpiration :: int
  fo_Limit :: int
  fo_MaxSupportedChangeEpoch :: u32
  fo_IncludeFirstState :: bool
  fo_IncludeLastState :: bool

text \<open>The changes of a page: the state of each entry, if it has one, and the endorsements.\<close>

record GroupLogsPage =
  pg_States :: "GroupWire option list"
  pg_Endorsements :: bytes
  pg_Partial :: bool
  pg_ContentRange :: string
  pg_NextRevision :: u32

definition client_FetchGroupLogs ::
  "('r, 'v, 'g) group_env \<Rightarrow> bytes \<Rightarrow> GroupLogsFetchOptions \<Rightarrow> ('r, 'v, 'g) gclient \<Rightarrow>
   ('r, 'v, 'g) gclient \<times> (web_err + GroupLogsPage)" where
  "client_FetchGroupLogs E masterKey opts g =
    (if length masterKey \<noteq> 32
     then fail_with (''signal.FetchGroupLogs: master key length '' @ dec_digits (length masterKey) @ '', want 32'') g
     else if \<not> has_storage E then fail_with ''signal.FetchGroupLogs: Client was opened without groups storage'' g
     else
       bindS (pure_r (group_params E masterKey) g) (\<lambda>g (sp, pp).
       bindS (wrapS (WWrap ''signal.FetchGroupLogs: authorize: '') (groupsV2AuthHeader E sp pp g)) (\<lambda>g auth.
       bindS (wrapS (WWrap ''signal.FetchGroupLogs: '')
               (on_net (FetchGroupLogs (fe_storage_web (ge_full E)) auth (fo_FromRevision opts)
                  \<lparr> lo_CachedExpiration = fo_CachedExpiration opts, lo_Limit = fo_Limit opts,
                    lo_MaxSupportedChangeEpoch = fo_MaxSupportedChangeEpoch opts,
                    lo_IncludeFirstState = fo_IncludeFirstState opts,
                    lo_IncludeLastState = fo_IncludeLastState opts \<rparr>) g)) (\<lambda>g page.
       pure_r (bindR (if length (lp_Body page) > 0
                      then wrapR (\<lambda>e. ''signal.FetchGroupLogs: decode: '' @ e) (gp_changes (ge_pb E) (lp_Body page))
                      else Inr ([], [])) (\<lambda>(states, gse).
               let partial = (lp_StatusCode page = 206) in
               bindR (if partial then wrapR (\<lambda>e. ''signal.FetchGroupLogs: content range: '' @ e)
                        (NextGroupLogRevision (lp_ContentRange page)) else Inr 0) (\<lambda>next.
                 Inr \<lparr> pg_States = states, pg_Endorsements = gse, pg_Partial = partial,
                       pg_ContentRange = lp_ContentRange page, pg_NextRevision = next \<rparr>))) g))))"

text \<open>
  The loop of SyncGroup over at most 256 pages. It carries the last state and the last
  endorsements that a page had.
\<close>

fun sync_pages ::
  "('r, 'v, 'g) group_env \<Rightarrow> bytes \<Rightarrow> nat \<Rightarrow> bool \<Rightarrow> u32 \<Rightarrow> int \<Rightarrow> GroupWire option \<Rightarrow> bytes \<Rightarrow>
   ('r, 'v, 'g) gclient \<Rightarrow> ('r, 'v, 'g) gclient \<times> (web_err + GroupWire option \<times> bytes)" where
  "sync_pages E masterKey 0 isFirst revision cachedExp latest gse g = (g, Inr (latest, gse))"
| "sync_pages E masterKey (Suc n) isFirst revision cachedExp latest gse g =
    bindS (wrapS (WWrap ''signal.SyncGroup: '') (client_FetchGroupLogs E masterKey
        \<lparr> fo_FromRevision = revision, fo_CachedExpiration = cachedExp, fo_Limit = 0,
          fo_MaxSupportedChangeEpoch = 7, fo_IncludeFirstState = isFirst, fo_IncludeLastState = True \<rparr> g)) (\<lambda>g page.
      let latest' = fold (\<lambda>st l. if st \<noteq> None then st else l) (pg_States page) latest;
          gse' = (if length (pg_Endorsements page) > 0 then pg_Endorsements page else gse)
      in if \<not> pg_Partial page then (g, Inr (latest', gse'))
         else sync_pages E masterKey n False (pg_NextRevision page) 0 latest' gse' g)"

definition SyncGroup ::
  "('r, 'v, 'g) group_env \<Rightarrow> bytes \<Rightarrow> u32 \<Rightarrow> ('r, 'v, 'g) gclient \<Rightarrow> ('r, 'v, 'g) gclient \<times> (web_err + Group)" where
  "SyncGroup E masterKey fromRevision g =
    (if length masterKey \<noteq> 32
     then fail_with (''signal.SyncGroup: master key length '' @ dec_digits (length masterKey) @ '', want 32'') g
     else if \<not> has_storage E then fail_with ''signal.SyncGroup: Client was opened without groups storage'' g
     else
       let mkHex = hexEncode masterKey in
       bindS (pure_r (GroupSecretParamsFromMasterKey (ge_zk E) masterKey) g) (\<lambda>g sp.
       bindS (sync_pages E masterKey 256 True fromRevision (groupSendEndorsementExpirationUnix E mkHex g) None [] g)
         (\<lambda>g (latest, gse).
       case latest of
         None \<Rightarrow> FetchGroup E masterKey g
       | Some w \<Rightarrow>
         bindS (pure_r (wrapR (\<lambda>e. ''signal.SyncGroup: decrypt: '' @ e) (DecodeState (ge_zk E) (ge_pb E) sp (Some w))) g)
           (\<lambda>g st.
             let (grp, acis) = groupFromDecodedState mkHex st
             in (keep_state E mkHex sp gse acis grp g, Inr grp)))))"

text \<open>The body of the goroutine that an update of a group starts.\<close>

definition is_forbidden :: "web_err \<Rightarrow> bool" where
  "is_forbidden e \<longleftrightarrow> (case as_Error e of None \<Rightarrow> False | Some w \<Rightarrow> we_StatusCode w = 403)"

definition auto_sync ::
  "('r, 'v, 'g) group_env \<Rightarrow> bytes \<Rightarrow> u32 \<Rightarrow> ('r, 'v, 'g) gclient \<Rightarrow> ('r, 'v, 'g) gclient" where
  "auto_sync E masterKey from g =
    (let mkHex = hexEncode masterKey;
         (g, res) =
           (if from = 0 then FetchGroup E masterKey g
            else case SyncGroup E masterKey from g of
                   (g, Inr grp) \<Rightarrow> (g, Inr grp)
                 | (g, Inl e) \<Rightarrow>
                     if is_forbidden e then FetchGroup E masterKey (on_client (deleteGroupRevision mkHex) g)
                     else (g, Inl e))
     in case res of
          Inl e \<Rightarrow> g
        | Inr grp \<Rightarrow> on_client (storeGroupRevision mkHex (gv_Revision grp)) g)"

end
