(* ===== verification/GroupSend.thy ===== *)
theory GroupSend
  imports GroupClient Send
begin

text \<open>
  Sending to a group: pkg/signal/group_send.go and group_control.go. The sender key goes to each
  member over its own sessions, the payload once to all devices of all members. libsignal's
  group encryption works on the protocol stores.
\<close>

section \<open>The distribution id\<close>

text \<open>An id from the cache, else from the store, else a new one that is then stored.\<close>

definition new_distribution_id ::
  "('r, 'v, 'g) group_env \<Rightarrow> string \<Rightarrow> ('r, 'v, 'g) gclient \<Rightarrow> ('r, 'v, 'g) gclient \<times> (web_err + string)" where
  "new_distribution_id E mkHex g =
    (case draw (gl_uuid_bytes (ge_lib E)) g of
       (g, Inl e) \<Rightarrow> fail_with (''libsignal.NewRandomUUID: '' @ e) g
     | (g, Inr b) \<Rightarrow>
       let i = NewRandomUUID b; g = g\<lparr> gc_distID := AList.update mkHex i (gc_distID g) \<rparr>
       in (case ge_dist E of
             None \<Rightarrow> (g, Inr i)
           | Some S \<Rightarrow> (g\<lparr> gc_store := fst (ds_Store S mkHex i (gc_store g)) \<rparr>, Inr i)))"

definition groupDistributionID ::
  "('r, 'v, 'g) group_env \<Rightarrow> string \<Rightarrow> ('r, 'v, 'g) gclient \<Rightarrow> ('r, 'v, 'g) gclient \<times> (web_err + string)" where
  "groupDistributionID E mkHex g =
    (case map_of (gc_distID g) mkHex of
       Some i \<Rightarrow> (g, Inr i)
     | None \<Rightarrow>
       (case ge_dist E of
          None \<Rightarrow> new_distribution_id E mkHex g
        | Some S \<Rightarrow>
          (case ds_Load S mkHex (gc_store g) of
             Inr i \<Rightarrow> (g\<lparr> gc_distID := AList.update mkHex i (gc_distID g) \<rparr>, Inr i)
           | Inl e \<Rightarrow> new_distribution_id E mkHex g)))"

section \<open>Contents\<close>

definition group_context :: "bytes \<Rightarrow> u32 \<Rightarrow> bytes \<Rightarrow> GroupContextV2" where
  "group_context masterKey revision change =
    \<lparr> gc_MasterKey = masterKey, gc_Revision = revision, gc_GroupChange = change \<rparr>"

definition buildGroupDataMessageContent ::
  "send_lib \<Rightarrow> string \<Rightarrow> u64 \<Rightarrow> bytes \<Rightarrow> u32 \<Rightarrow> u32 \<Rightarrow> string + bytes" where
  "buildGroupDataMessageContent L text ts masterKey revision timer =
    sl_marshal L (plain_content (CbData ((text_message text ts timer)
      \<lparr> dm_GroupV2 := Some (group_context masterKey revision []) \<rparr>)))"

definition buildGroupUpdateContent :: "send_lib \<Rightarrow> bytes \<Rightarrow> u32 \<Rightarrow> bytes \<Rightarrow> u64 \<Rightarrow> string + bytes" where
  "buildGroupUpdateContent L masterKey revision change ts =
    sl_marshal L (plain_content (CbData ((text_message [] ts 0)
      \<lparr> dm_GroupV2 := Some (group_context masterKey revision change) \<rparr>)))"

definition attachGroupV2ToDataMessage ::
  "('r, 'v) send_env \<Rightarrow> bytes \<Rightarrow> bytes \<Rightarrow> u32 \<Rightarrow> string + bytes" where
  "attachGroupV2ToDataMessage E contentBytes masterKey revision =
    bindR (wrapR (\<lambda>e. ''signal: decode content: '' @ e) (ce_unmarshal_Content (se_client E) contentBytes)) (\<lambda>content.
      case cn_body content of
        CbData dm \<Rightarrow> sl_marshal (se_lib E) (content\<lparr> cn_body := CbData (dm
          \<lparr> dm_GroupV2 := Some (group_context masterKey revision []) \<rparr>) \<rparr>)
      | _ \<Rightarrow> Inl ''signal: content has no DataMessage'')"

definition buildGroupReactionContent ::
  "('r, 'v) send_env \<Rightarrow> string \<Rightarrow> string \<Rightarrow> time \<Rightarrow> bool \<Rightarrow> u64 \<Rightarrow> bytes \<Rightarrow> u32 \<Rightarrow> u32 \<Rightarrow> string + bytes" where
  "buildGroupReactionContent E emoji author targetTS remove ts masterKey revision timer =
    bindR (buildReactionContent (se_lib E) emoji author targetTS remove ts timer)
      (\<lambda>base. attachGroupV2ToDataMessage E base masterKey revision)"

definition buildGroupTypingContent :: "('r, 'v, 'g) group_env \<Rightarrow> int \<Rightarrow> u64 \<Rightarrow> bytes \<Rightarrow> string + bytes" where
  "buildGroupTypingContent E action ts masterKey =
    bindR (GroupIdentifierFromMasterKey (ge_zk E) masterKey)
      (\<lambda>gid. buildTypingContent (se_lib (send_env_of E)) action ts (Some gid))"

section \<open>Recipients\<close>

definition urgent_opts :: deliveryOpts where
  "urgent_opts = \<lparr> do_Urgent = True, do_Online = False, do_Silent = False \<rparr>"

definition sendSenderKeyDistribution ::
  "('r, 'v) send_env \<Rightarrow> string \<Rightarrow> bytes \<Rightarrow> ('r, 'v) sender \<Rightarrow> ('r, 'v) sender \<times> (web_err + unit)" where
  "sendSenderKeyDistribution E aci skdm s =
    (case sl_marshal (se_lib E) \<lparr> cn_body = CbOther, cn_SenderKeyDistributionMessage = skdm \<rparr> of
       Inl e \<Rightarrow> fail_with e s
     | Inr contentBytes \<Rightarrow>
       bindS (sendContent E aci contentBytes (now_millis E s) urgent_opts s) (\<lambda>s _. (s, Inr ())))"

fun distributeSenderKeyToMembers ::
  "('r, 'v) send_env \<Rightarrow> Member list \<Rightarrow> bytes \<Rightarrow> ('r, 'v) sender \<Rightarrow> ('r, 'v) sender \<times> (web_err + unit)" where
  "distributeSenderKeyToMembers E [] skdm s = (s, Inr ())"
| "distributeSenderKeyToMembers E (m # ms) skdm s =
    (if mb_ACI m = ac_ACI (cl_acct (sn_client s)) then distributeSenderKeyToMembers E ms skdm s
     else bindS (wrapS (WWrap (''signal.SendGroup: distribute sender key to '' @ mb_ACI m @ '': ''))
                  (sendSenderKeyDistribution E (mb_ACI m) skdm s))
            (\<lambda>s _. distributeSenderKeyToMembers E ms skdm s))"

text \<open>The libsignal address and session of each device.\<close>

fun load_sessions ::
  "('r, 'v) send_env \<Rightarrow> ('r, 'v) sender \<Rightarrow> Address list \<Rightarrow> web_err + (Address \<times> bytes) list" where
  "load_sessions E s [] = Inr []"
| "load_sessions E s (addr # addrs) =
    bindR (wrapR (\<lambda>e. WText (''load session for '' @ Address_String addr @ '': '' @ store_text e))
            (sql_LoadSession (sn_stores s) addr)) (\<lambda>blob.
    bindR (wrapR WText (sl_session (se_lib E) blob)) (\<lambda>sess.
    bindR (wrapR WText (NewAddress (ce_libsignal (se_client E)) (ad_ServiceID addr) (ad_DeviceID addr))) (\<lambda>libAddr.
    bindR (load_sessions E s addrs) (\<lambda>rest. Inr ((libAddr, sess) # rest)))))"

text \<open>All devices of all members but the local account, with the members' ids.\<close>

fun groupRecipientSessions ::
  "('r, 'v) send_env \<Rightarrow> Credentials \<Rightarrow> Member list \<Rightarrow> ('r, 'v) sender \<Rightarrow>
   ('r, 'v) sender \<times> (web_err + (Address \<times> bytes) list \<times> string list)" where
  "groupRecipientSessions E creds [] s = (s, Inr ([], []))"
| "groupRecipientSessions E creds (m # ms) s =
    (if mb_ACI m = ac_ACI (cl_acct (sn_client s)) then groupRecipientSessions E creds ms s
     else
       bindS (discoverAndEnsureSessions E creds (mb_ACI m) s) (\<lambda>s addrs.
       bindS (s, load_sessions E s addrs) (\<lambda>s here.
       bindS (groupRecipientSessions E creds ms s) (\<lambda>s (rest, acis).
         (s, Inr (here @ rest, mb_ACI m # acis))))))"

fun combine_uaks ::
  "('r, 'v) send_env \<Rightarrow> string list \<Rightarrow> bytes \<Rightarrow> ('r, 'v) sender \<Rightarrow> ('r, 'v) sender \<times> (web_err + bytes)" where
  "combine_uaks E [] acc s = (s, Inr acc)"
| "combine_uaks E (aci # acis) acc s =
    (let s = s\<lparr> sn_client := ensureRecipientUAK (se_client E) aci (sn_client s) \<rparr>;
         uak = (case map_of (cl_uaks (sn_client s)) aci of None \<Rightarrow> [] | Some u \<Rightarrow> u)
     in if length uak \<noteq> 16
        then fail_with (''signal.SendGroup: missing UAK for member '' @ aci @ '' (set profile key or fetch profile)'') s
        else combine_uaks E acis (xor_bytes acc uak) s)"

definition combinedMemberUAKs ::
  "('r, 'v) send_env \<Rightarrow> string list \<Rightarrow> ('r, 'v) sender \<Rightarrow> ('r, 'v) sender \<times> (web_err + bytes)" where
  "combinedMemberUAKs E acis s =
    (if length acis = 0 then fail_with ''signal.SendGroup: no members to combine UAKs for'' s
     else combine_uaks E acis (replicate 16 0) s)"

section \<open>The payload\<close>

text \<open>The token wins over the combined key; only when both fail the send fails.\<close>

definition group_auth ::
  "('r, 'v, 'g) group_env \<Rightarrow> string \<Rightarrow> string list \<Rightarrow> ('r, 'v, 'g) gclient \<Rightarrow>
   ('r, 'v, 'g) gclient \<times> (web_err + MultiRecipientAuth)" where
  "group_auth E mkHex acis g =
    (case on_sender (combinedMemberUAKs (send_env_of E) acis) g of
       (g, uak) \<Rightarrow>
         (case groupSendTokenForRecipients E mkHex acis g of
            (g, Inr token) \<Rightarrow>
              if length token > 0 then (g, Inr \<lparr> ma_GroupSendToken = token, ma_CombinedUAK = [] \<rparr>)
              else (g, Inr \<lparr> ma_GroupSendToken = [], ma_CombinedUAK = (case uak of Inl _ \<Rightarrow> [] | Inr k \<Rightarrow> k) \<rparr>)
          | (g, Inl tokErr) \<Rightarrow>
              (case uak of
                 Inl uakErr \<Rightarrow> (g, Inl (WWrap ''signal.SendGroup: auth: endorsement: '' tokErr))
               | Inr k \<Rightarrow> (g, Inr \<lparr> ma_GroupSendToken = [], ma_CombinedUAK = k \<rparr>))))"

definition buildGroupMultiRecipientPayload ::
  "('r, 'v, 'g) group_env \<Rightarrow> Credentials \<Rightarrow> Group \<Rightarrow> bytes \<Rightarrow> string \<Rightarrow> Address \<Rightarrow> bytes \<Rightarrow> ('r, 'v, 'g) gclient \<Rightarrow>
   ('r, 'v, 'g) gclient \<times> (web_err + bytes \<times> MultiRecipientAuth)" where
  "buildGroupMultiRecipientPayload E creds grp masterKey distID local padded g =
    (let L = ge_lib E; SE = send_env_of E in
     bindS (wrapS (\<lambda>e. WText (''signal.SendGroup: encrypt: '' @ e))
             (on_sender (on_stores (gl_group_encrypt L padded local distID)) g)) (\<lambda>g cipher.
     bindS (on_sender (cachedSenderCert SE creds) g) (\<lambda>g cert.
     bindS (pure_r (wrapR (\<lambda>e. ''signal.SendGroup: build USMC: '' @ e) (gl_usmc_group L cipher cert masterKey)) g) (\<lambda>g usmc.
     bindS (on_sender (groupRecipientSessions SE creds (gv_Members grp)) g) (\<lambda>g (recipients, acis).
     if length recipients = 0 then fail_with ''signal.SendGroup: no recipient devices'' g
     else
       bindS (group_auth E (gv_ID grp) acis g) (\<lambda>g auth.
       bindS (wrapS (\<lambda>e. WText (''signal.SendGroup: multi-recipient encrypt: '' @ e))
               (on_sender (on_stores (gl_multi_encrypt L (map fst recipients) (map snd recipients) usmc)) g))
         (\<lambda>g payload. (g, Inr (payload, auth)))))))))"

record groupDeliveryOpts =
  gd_online :: bool
  gd_urgent :: bool
  gd_distributeSKDM :: bool

definition distribute_sender_key ::
  "('r, 'v, 'g) group_env \<Rightarrow> Group \<Rightarrow> string \<Rightarrow> Address \<Rightarrow> ('r, 'v, 'g) gclient \<Rightarrow> ('r, 'v, 'g) gclient \<times> (web_err + unit)" where
  "distribute_sender_key E grp distID local g =
    bindS (wrapS (\<lambda>e. WText (''signal: create SKDM: '' @ e))
            (on_sender (on_stores (gl_skdm (ge_lib E) local distID)) g)) (\<lambda>g skdm.
    bindS (pure_r skdm g) (\<lambda>g skdmBytes.
      on_sender (distributeSenderKeyToMembers (send_env_of E) (gv_Members grp) skdmBytes) g))"

definition deliverGroupPayload ::
  "('r, 'v, 'g) group_env \<Rightarrow> bytes \<Rightarrow> Group \<Rightarrow> bytes \<Rightarrow> u64 \<Rightarrow> groupDeliveryOpts \<Rightarrow> ('r, 'v, 'g) gclient \<Rightarrow>
   ('r, 'v, 'g) gclient \<times> (web_err + Receipt)" where
  "deliverGroupPayload E masterKey grp contentBytes ts opts g =
    (let SE = send_env_of E; a = cl_acct (gn_client g) in
     if \<not> se_wired SE then fail_with ''signal: Client was opened without send-side dependencies'' g
     else
       bindS (groupDistributionID E (hexEncode masterKey) g) (\<lambda>g distID.
       bindS (pure_r (NewAddress (ce_libsignal (se_client SE)) (ac_ACI a) (ac_DeviceID a)) g) (\<lambda>g local.
       bindS (if gd_distributeSKDM opts then distribute_sender_key E grp distID local g else (g, Inr ())) (\<lambda>g _.
       bindS (buildGroupMultiRecipientPayload E (credentials (gc_sender g)) grp masterKey distID local
                (padContent contentBytes) g) (\<lambda>g (payload, auth).
       case on_net (SendMultiRecipientMessage (se_web SE) auth payload ts (gd_online opts) (gd_urgent opts)) g of
         (g, Some e) \<Rightarrow> (g, Inl (WWrap ''signal: deliver group payload: '' e))
       | (g, None) \<Rightarrow> (g, Inr (receipt_for ts (gv_ID grp))))))))"

section \<open>The exported operations\<close>

definition gnow_millis :: "('r, 'v, 'g) group_env \<Rightarrow> ('r, 'v, 'g) gclient \<Rightarrow> u64" where
  "gnow_millis E g = now_millis (send_env_of E) (gc_sender g)"

definition SendGroup ::
  "('r, 'v, 'g) group_env \<Rightarrow> bytes \<Rightarrow> string \<Rightarrow> ('r, 'v, 'g) gclient \<Rightarrow> ('r, 'v, 'g) gclient \<times> (web_err + Receipt)" where
  "SendGroup E masterKey text g =
    (if length masterKey \<noteq> 32
     then fail_with (''signal.SendGroup: master key length '' @ dec_digits (length masterKey) @ '', want 32'') g
     else if text = [] then fail_with ''signal.SendGroup: empty body'' g
     else if \<not> se_wired (send_env_of E)
     then fail_with ''signal.SendGroup: Client was opened without send-side dependencies'' g
     else
       bindS (wrapS (WWrap ''signal.SendGroup: fetch group: '') (FetchGroup E masterKey g)) (\<lambda>g grp.
       let ts = gnow_millis E g in
       bindS (pure_r (buildGroupDataMessageContent (se_lib (send_env_of E)) text ts masterKey (gv_Revision grp)
                (expireTimerSeconds (gn_client g) (hexEncode masterKey))) g) (\<lambda>g contentBytes.
         deliverGroupPayload E masterKey grp contentBytes ts
           \<lparr> gd_online = False, gd_urgent = True, gd_distributeSKDM = True \<rparr> g)))"

definition SendGroupReaction ::
  "('r, 'v, 'g) group_env \<Rightarrow> bytes \<Rightarrow> string \<Rightarrow> string \<Rightarrow> time \<Rightarrow> bool \<Rightarrow> ('r, 'v, 'g) gclient \<Rightarrow>
   ('r, 'v, 'g) gclient \<times> (web_err + Receipt)" where
  "SendGroupReaction E masterKey emoji author target remove g =
    (if length masterKey \<noteq> 32
     then fail_with (''signal.SendGroupReaction: master key length '' @ dec_digits (length masterKey) @ '', want 32'') g
     else if author = [] then fail_with ''signal.SendGroupReaction: empty target author'' g
     else if IsZero target then fail_with ''signal.SendGroupReaction: zero target timestamp'' g
     else if \<not> remove \<and> emoji = [] then fail_with ''signal.SendGroupReaction: emoji required when not removing'' g
     else
       bindS (wrapS (WWrap ''signal.SendGroupReaction: fetch group: '') (FetchGroup E masterKey g)) (\<lambda>g grp.
       let ts = gnow_millis E g in
       bindS (pure_r (buildGroupReactionContent (send_env_of E) emoji author target remove ts masterKey
                (gv_Revision grp) (expireTimerSeconds (gn_client g) (hexEncode masterKey))) g) (\<lambda>g contentBytes.
         deliverGroupPayload E masterKey grp contentBytes ts
           \<lparr> gd_online = False, gd_urgent = True, gd_distributeSKDM = True \<rparr> g)))"

definition SendGroupTyping ::
  "('r, 'v, 'g) group_env \<Rightarrow> bytes \<Rightarrow> int \<Rightarrow> ('r, 'v, 'g) gclient \<Rightarrow> ('r, 'v, 'g) gclient \<times> (web_err + Receipt)" where
  "SendGroupTyping E masterKey action g =
    (if length masterKey \<noteq> 32
     then fail_with (''signal.SendGroupTyping: master key length '' @ dec_digits (length masterKey) @ '', want 32'') g
     else
       bindS (wrapS (WWrap ''signal.SendGroupTyping: fetch group: '') (FetchGroup E masterKey g)) (\<lambda>g grp.
       let ts = gnow_millis E g in
       bindS (pure_r (buildGroupTypingContent E action ts masterKey) g) (\<lambda>g contentBytes.
         deliverGroupPayload E masterKey grp contentBytes ts
           \<lparr> gd_online = True, gd_urgent = False, gd_distributeSKDM = True \<rparr> g)))"

end
