(* ===== verification/GroupModify.thy ===== *)
theory GroupModify
  imports GroupSend
begin

text \<open>
  Creating, changing and joining groups: pkg/signal/group_modify.go, group_create.go and
  group_invite.go. Every change is a PATCH with the author's actions, followed by a fetch and a
  notification of the members whose failure is only logged. A builder that needs randomness gets
  it as an argument; the draw comes before the builder's own checks.
\<close>

section \<open>Patches\<close>

text \<open>The response of a PATCH: the change that the server made.\<close>

definition change_of :: "('r, 'v, 'g) group_env \<Rightarrow> bytes \<Rightarrow> string + bytes" where
  "change_of E raw =
    bindR (wrapR (\<lambda>e. ''signal: decode patch response: '' @ e) (gp_change_response (ge_pb E) raw)) (\<lambda>change.
      case change of None \<Rightarrow> Inl ''signal: patch returned empty group change'' | Some c \<Rightarrow> Inr c)"

definition patch_with ::
  "string \<Rightarrow> (string \<Rightarrow> 'v \<Rightarrow> 'v \<times> (web_err + bytes)) \<Rightarrow> ('r, 'v, 'g) group_env \<Rightarrow> bytes \<Rightarrow>
   ('r, 'v, 'g) gclient \<Rightarrow> ('r, 'v, 'g) gclient \<times> (web_err + bytes)" where
  "patch_with name request E sp g =
    (if \<not> has_storage E then fail_with ''signal: Client was opened without groups storage'' g
     else
       bindS (pure_r (zk_public_params (ge_zk E) sp) g) (\<lambda>g pp.
       bindS (groupsV2AuthHeader E sp pp g) (\<lambda>g auth.
       bindS (wrapS (WWrap name) (on_net (request auth) g)) (\<lambda>g raw. pure_r (change_of E raw) g))))"

definition client_patchGroup ::
  "('r, 'v, 'g) group_env \<Rightarrow> bytes \<Rightarrow> bytes \<Rightarrow> ('r, 'v, 'g) gclient \<Rightarrow> ('r, 'v, 'g) gclient \<times> (web_err + bytes)" where
  "client_patchGroup E sp actions g =
    patch_with ''signal: patch group: '' (\<lambda>auth. PatchGroup (fe_storage_web (ge_full E)) auth actions) E sp g"

definition InviteLinkPasswordBase64 :: "bytes \<Rightarrow> string" where
  "InviteLinkPasswordBase64 password = EncodeToString password"

definition client_patchGroupWithInvite ::
  "('r, 'v, 'g) group_env \<Rightarrow> bytes \<Rightarrow> bytes \<Rightarrow> bytes \<Rightarrow> ('r, 'v, 'g) gclient \<Rightarrow> ('r, 'v, 'g) gclient \<times> (web_err + bytes)" where
  "client_patchGroupWithInvite E sp password actions g =
    patch_with ''signal: patch group with invite: ''
      (\<lambda>auth. PatchGroupWithInvite (fe_storage_web (ge_full E)) auth (InviteLinkPasswordBase64 password) actions) E sp g"

definition sendGroupContent ::
  "('r, 'v, 'g) group_env \<Rightarrow> bytes \<Rightarrow> Group \<Rightarrow> bytes \<Rightarrow> u64 \<Rightarrow> ('r, 'v, 'g) gclient \<Rightarrow>
   ('r, 'v, 'g) gclient \<times> (web_err + Receipt)" where
  "sendGroupContent E masterKey grp contentBytes ts g =
    deliverGroupPayload E masterKey grp contentBytes ts
      \<lparr> gd_online = False, gd_urgent = True, gd_distributeSKDM = False \<rparr> g"

definition sendGroupChangeNotification ::
  "('r, 'v, 'g) group_env \<Rightarrow> bytes \<Rightarrow> Group \<Rightarrow> bytes \<Rightarrow> ('r, 'v, 'g) gclient \<Rightarrow> ('r, 'v, 'g) gclient \<times> (web_err + unit)" where
  "sendGroupChangeNotification E masterKey grp change g =
    (let ts = gnow_millis E g in
     bindS (pure_r (buildGroupUpdateContent (se_lib (send_env_of E)) masterKey (gv_Revision grp) change ts) g)
       (\<lambda>g contentBytes. bindS (sendGroupContent E masterKey grp contentBytes ts g) (\<lambda>g _. (g, Inr ()))))"

text \<open>After a patch: fetch the group again and tell its members.\<close>

definition fetch_and_notify ::
  "('r, 'v, 'g) group_env \<Rightarrow> bytes \<Rightarrow> bytes \<Rightarrow> ('r, 'v, 'g) gclient \<Rightarrow> ('r, 'v, 'g) gclient \<times> (web_err + Group)" where
  "fetch_and_notify E masterKey change g =
    bindS (FetchGroup E masterKey g) (\<lambda>g updated.
    bindS (pure_r (gl_marshal_change (ge_lib E) change) g) (\<lambda>g changeBytes.
      (fst (sendGroupChangeNotification E masterKey updated changeBytes g), Inr updated)))"

section \<open>Members\<close>

definition LeaveGroup ::
  "('r, 'v, 'g) group_env \<Rightarrow> bytes \<Rightarrow> ('r, 'v, 'g) gclient \<Rightarrow> ('r, 'v, 'g) gclient \<times> (web_err + unit)" where
  "LeaveGroup E masterKey g =
    bindS (wrapS (WWrap ''signal.LeaveGroup: '') (FetchGroup E masterKey g)) (\<lambda>g grp.
    bindS (pure_r (bindR (GroupSecretParamsFromMasterKey (ge_zk E) masterKey) (\<lambda>sp.
             bindR (BuildLeaveActions (ge_zk E) (ge_pb E) sp (local_ACI g) (gv_Revision grp)) (\<lambda>a. Inr (sp, a)))) g)
      (\<lambda>g (sp, actions).
    bindS (client_patchGroup E sp actions g) (\<lambda>g _.
      let mkHex = hexEncode masterKey;
          g = deleteGroupSendEndorsements E mkHex g;
          g = on_client (deleteGroupRevision mkHex) g
      in (g\<lparr> gc_distID := AList.delete mkHex (gc_distID g) \<rparr>, Inr ()))))"

text \<open>An administrator's change: fetch, check, build, patch, fetch again, notify.\<close>

definition admin_change ::
  "string \<Rightarrow> (bytes \<Rightarrow> Group \<Rightarrow> ('r, 'v, 'g) gclient \<Rightarrow> ('r, 'v, 'g) gclient \<times> (web_err + bytes)) \<Rightarrow>
   ('r, 'v, 'g) group_env \<Rightarrow> bytes \<Rightarrow> ('r, 'v, 'g) gclient \<Rightarrow> ('r, 'v, 'g) gclient \<times> (web_err + Group)" where
  "admin_change name build E masterKey g =
    bindS (wrapS (WWrap (name @ '': '')) (FetchGroup E masterKey g)) (\<lambda>g grp.
    if \<not> group_IsAdmin grp (local_ACI g) then fail_with (name @ '': local user is not an administrator'') g
    else
      bindS (pure_r (GroupSecretParamsFromMasterKey (ge_zk E) masterKey) g) (\<lambda>g sp.
      bindS (build sp grp g) (\<lambda>g actions.
      bindS (client_patchGroup E sp actions g) (\<lambda>g change. fetch_and_notify E masterKey change g))))"

definition SetMemberRole ::
  "('r, 'v, 'g) group_env \<Rightarrow> bytes \<Rightarrow> string \<Rightarrow> int \<Rightarrow> ('r, 'v, 'g) gclient \<Rightarrow> ('r, 'v, 'g) gclient \<times> (web_err + Group)" where
  "SetMemberRole E masterKey aci role g =
    (if aci = [] then fail_with ''signal.SetMemberRole: empty member ACI'' g
     else admin_change ''signal.SetMemberRole''
       (\<lambda>sp grp g. pure_r (BuildModifyRoleActions (ge_zk E) (ge_pb E) sp (local_ACI g) aci role (gv_Revision grp)) g)
       E masterKey g)"

definition PromoteMember where
  "PromoteMember E masterKey aci g = SetMemberRole E masterKey aci MemberRoleAdministrator g"

definition DemoteMember where
  "DemoteMember E masterKey aci g = SetMemberRole E masterKey aci MemberRoleDefault g"

definition RemoveMember ::
  "('r, 'v, 'g) group_env \<Rightarrow> bytes \<Rightarrow> string \<Rightarrow> ('r, 'v, 'g) gclient \<Rightarrow> ('r, 'v, 'g) gclient \<times> (web_err + Group)" where
  "RemoveMember E masterKey aci g =
    (if aci = [] then fail_with ''signal.RemoveMember: empty member ACI'' g
     else if aci = local_ACI g then fail_with ''signal.RemoveMember: use LeaveGroup to remove the local user'' g
     else admin_change ''signal.RemoveMember''
       (\<lambda>sp grp g. pure_r (BuildRemoveMemberActions (ge_zk E) (ge_pb E) sp (local_ACI g) aci (gv_Revision grp)) g)
       E masterKey g)"

definition AddMember ::
  "('r, 'v, 'g) group_env \<Rightarrow> bytes \<Rightarrow> string \<Rightarrow> bytes \<Rightarrow> int \<Rightarrow> ('r, 'v, 'g) gclient \<Rightarrow>
   ('r, 'v, 'g) gclient \<times> (web_err + Group)" where
  "AddMember E masterKey aci profileKey role g =
    (if aci = [] then fail_with ''signal.AddMember: empty member ACI'' g
     else admin_change ''signal.AddMember''
       (\<lambda>sp grp g. bindS (memberPresentationForAdd E sp aci profileKey g) (\<lambda>g presentation.
          pure_r (BuildAddMemberActions (ge_zk E) (ge_pb E) sp (local_ACI g) presentation role (gv_Revision grp)) g))
       E masterKey g)"

section \<open>Attributes\<close>

definition modifyGroupAttribute ::
  "(bytes \<Rightarrow> u32 \<Rightarrow> ('r, 'v, 'g) gclient \<Rightarrow> ('r, 'v, 'g) gclient \<times> (web_err + bytes)) \<Rightarrow>
   ('r, 'v, 'g) group_env \<Rightarrow> bytes \<Rightarrow> ('r, 'v, 'g) gclient \<Rightarrow> ('r, 'v, 'g) gclient \<times> (web_err + Group)" where
  "modifyGroupAttribute build E masterKey g =
    bindS (FetchGroup E masterKey g) (\<lambda>g grp.
    bindS (pure_r (GroupSecretParamsFromMasterKey (ge_zk E) masterKey) g) (\<lambda>g sp.
    bindS (build sp (gv_Revision grp) g) (\<lambda>g actions.
    bindS (client_patchGroup E sp actions g) (\<lambda>g change. fetch_and_notify E masterKey change g))))"

definition SetGroupTitle ::
  "('r, 'v, 'g) group_env \<Rightarrow> bytes \<Rightarrow> string \<Rightarrow> ('r, 'v, 'g) gclient \<Rightarrow> ('r, 'v, 'g) gclient \<times> (web_err + Group)" where
  "SetGroupTitle E masterKey title g =
    modifyGroupAttribute (\<lambda>sp revision g. case draw (gl_randomness (ge_lib E)) g of (g, rnd) \<Rightarrow>
      pure_r (BuildModifyTitleActions (ge_zk E) (ge_pb E) rnd sp (local_ACI g) title revision) g) E masterKey g"

definition SetGroupDescription ::
  "('r, 'v, 'g) group_env \<Rightarrow> bytes \<Rightarrow> string \<Rightarrow> ('r, 'v, 'g) gclient \<Rightarrow> ('r, 'v, 'g) gclient \<times> (web_err + Group)" where
  "SetGroupDescription E masterKey description g =
    modifyGroupAttribute (\<lambda>sp revision g. case draw (gl_randomness (ge_lib E)) g of (g, rnd) \<Rightarrow>
      pure_r (BuildModifyDescriptionActions (ge_zk E) (ge_pb E) rnd sp (local_ACI g) description revision) g)
      E masterKey g"

section \<open>Invite links\<close>

text \<open>The 16 bytes of a password are drawn like other randomness.\<close>

definition GenerateInviteLinkPassword ::
  "('r, 'v, 'g) group_env \<Rightarrow> ('r, 'v, 'g) gclient \<Rightarrow> ('r, 'v, 'g) gclient \<times> (web_err + bytes)" where
  "GenerateInviteLinkPassword E g =
    (case draw (gl_uuid_bytes (ge_lib E)) g of
       (g, Inl e) \<Rightarrow> fail_with (''group.GenerateInviteLinkPassword: '' @ e) g
     | (g, Inr b) \<Rightarrow> (g, Inr b))"

definition FormatGroupInviteLink :: "('r, 'v, 'g) group_env \<Rightarrow> bytes \<Rightarrow> bytes \<Rightarrow> string + string" where
  "FormatGroupInviteLink E masterKey password =
    wrapR (\<lambda>e. ''signal.FormatGroupInviteLink: '' @ e) (FormatInviteLinkURL (ge_pb E) masterKey password)"

text \<open>On an error of the last step Go also returns the updated group.\<close>

definition EnableGroupInviteLink ::
  "('r, 'v, 'g) group_env \<Rightarrow> bytes \<Rightarrow> int \<Rightarrow> ('r, 'v, 'g) gclient \<Rightarrow>
   ('r, 'v, 'g) gclient \<times> (web_err + string \<times> Group)" where
  "EnableGroupInviteLink E masterKey access g =
    bindS (wrapS (WWrap ''signal.EnableGroupInviteLink: '') (FetchGroup E masterKey g)) (\<lambda>g grp.
    if \<not> group_IsAdmin grp (local_ACI g)
    then fail_with ''signal.EnableGroupInviteLink: local user is not an administrator'' g
    else
      bindS (GenerateInviteLinkPassword E g) (\<lambda>g password.
      bindS (pure_r (bindR (GroupSecretParamsFromMasterKey (ge_zk E) masterKey) (\<lambda>sp.
               bindR (BuildEnableInviteLinkActions (ge_zk E) (ge_pb E) sp (local_ACI g) password access (gv_Revision grp))
                 (\<lambda>a. Inr (sp, a)))) g) (\<lambda>g (sp, actions).
      bindS (client_patchGroup E sp actions g) (\<lambda>g change.
      bindS (fetch_and_notify E masterKey change g) (\<lambda>g updated.
        pure_r (bindR (FormatGroupInviteLink E masterKey password) (\<lambda>url. Inr (url, updated))) g)))))"

definition GroupInviteLinkURL ::
  "('r, 'v, 'g) group_env \<Rightarrow> bytes \<Rightarrow> ('r, 'v, 'g) gclient \<Rightarrow> ('r, 'v, 'g) gclient \<times> (web_err + string)" where
  "GroupInviteLinkURL E masterKey g =
    (if length masterKey \<noteq> 32
     then fail_with (''signal.GroupInviteLinkURL: master key length '' @ dec_digits (length masterKey) @ '', want 32'') g
     else if \<not> has_storage E then fail_with ''signal.GroupInviteLinkURL: Client was opened without groups storage'' g
     else
       bindS (pure_r (group_params E masterKey) g) (\<lambda>g (sp, pp).
       bindS (wrapS (WWrap ''signal.GroupInviteLinkURL: authorize: '') (groupsV2AuthHeader E sp pp g)) (\<lambda>g auth.
       bindS (wrapS (WWrap ''signal.GroupInviteLinkURL: '')
               (on_net (FetchGroupState (fe_storage_web (ge_full E)) auth) g)) (\<lambda>g raw.
       pure_r (bindR (wrapR (\<lambda>e. ''signal.GroupInviteLinkURL: decode: '' @ e) (gp_response (ge_pb E) raw)) (\<lambda>(wo, gse).
         let password = (case wo of None \<Rightarrow> [] | Some w \<Rightarrow> gw_InviteLinkPassword w) in
         if length password = 0 then Inl ''signal.GroupInviteLinkURL: group has no invite link''
         else FormatGroupInviteLink E masterKey password)) g))))"

definition ParseGroupInviteLink ::
  "('r, 'v, 'g) group_env \<Rightarrow> (string \<Rightarrow> string + parsed_url) \<Rightarrow> string \<Rightarrow> string + bytes \<times> bytes" where
  "ParseGroupInviteLink E parse rawURL =
    wrapR (\<lambda>e. ''signal.ParseGroupInviteLink: '' @ e) (ParseInviteLinkURL (ge_pb E) parse rawURL)"

record GroupJoinPreview =
  jp_Title :: string
  jp_Description :: string
  jp_AvatarURL :: string
  jp_MemberCount :: u32
  jp_Revision :: u32
  jp_RequiresAdminApproval :: bool

text \<open>ADMINISTRATOR is 3 in the wire enum of access requirements.\<close>

definition join_preview :: "JoinInfo \<Rightarrow> GroupJoinPreview" where
  "join_preview i = \<lparr> jp_Title = ji_Title i, jp_Description = ji_Description i, jp_AvatarURL = ji_AvatarURL i,
     jp_MemberCount = ji_MemberCount i, jp_Revision = ji_Revision i,
     jp_RequiresAdminApproval = (ji_AddFromInviteLink i = 3 \<or> ji_PendingAdminApproval i) \<rparr>"

definition PreviewGroupJoin ::
  "('r, 'v, 'g) group_env \<Rightarrow> (string \<Rightarrow> string + parsed_url) \<Rightarrow> string \<Rightarrow> ('r, 'v, 'g) gclient \<Rightarrow>
   ('r, 'v, 'g) gclient \<times> (web_err + GroupJoinPreview)" where
  "PreviewGroupJoin E parse inviteURL g =
    bindS (pure_r (wrapR (\<lambda>e. ''signal.PreviewGroupJoin: '' @ e) (ParseInviteLinkURL (ge_pb E) parse inviteURL)) g)
      (\<lambda>g (masterKey, password).
    if \<not> has_storage E then fail_with ''signal.PreviewGroupJoin: Client was opened without groups storage'' g
    else
      bindS (pure_r (group_params E masterKey) g) (\<lambda>g (sp, pp).
      bindS (wrapS (WWrap ''signal.PreviewGroupJoin: authorize: '') (groupsV2AuthHeader E sp pp g)) (\<lambda>g auth.
      bindS (wrapS (WWrap ''signal.PreviewGroupJoin: fetch: '')
              (on_net (FetchGroupJoinInfo (fe_storage_web (ge_full E)) auth (InviteLinkPasswordBase64 password)) g)) (\<lambda>g raw.
      pure_r (bindR (wrapR (\<lambda>e. ''signal.PreviewGroupJoin: decode: '' @ e) (gp_join_info (ge_pb E) raw)) (\<lambda>wire.
              bindR (DecodeJoinInfo (ge_zk E) (ge_pb E) sp (Some wire)) (\<lambda>info. Inr (join_preview info)))) g))))"

text \<open>A refusal that says that the account is a member already counts as joined.\<close>

definition already_member :: "('r, 'v, 'g) group_env \<Rightarrow> web_err \<Rightarrow> bool" where
  "already_member E err =
    (case as_Error err of
       None \<Rightarrow> False
     | Some werr \<Rightarrow> we_StatusCode werr = 400 \<and>
         Contains (ToLower (ge_unicode E) (bytes_string (we_Body werr))) ''adding member already in group'')"

definition JoinGroupViaInviteLink ::
  "('r, 'v, 'g) group_env \<Rightarrow> (string \<Rightarrow> string + parsed_url) \<Rightarrow> string \<Rightarrow> ('r, 'v, 'g) gclient \<Rightarrow>
   ('r, 'v, 'g) gclient \<times> (web_err + Group)" where
  "JoinGroupViaInviteLink E parse inviteURL g =
    bindS (pure_r (wrapR (\<lambda>e. ''signal.JoinGroupViaInviteLink: '' @ e) (ParseInviteLinkURL (ge_pb E) parse inviteURL)) g)
      (\<lambda>g (masterKey, password).
    bindS (PreviewGroupJoin E parse inviteURL g) (\<lambda>g preview.
    let pk = ac_ProfileKey (cl_acct (gn_client g)) in
    if length pk = 0 then fail_with ''signal.JoinGroupViaInviteLink: linked account has no profile key'' g
    else
      bindS (pure_r (GroupSecretParamsFromMasterKey (ge_zk E) masterKey) g) (\<lambda>g sp.
      bindS (wrapS (WWrap ''signal.JoinGroupViaInviteLink: presentation: '')
              (memberPresentationForAdd E sp (local_ACI g) pk g)) (\<lambda>g presentation.
      bindS (pure_r (if jp_RequiresAdminApproval preview
               then BuildJoinRequestActions (ge_zk E) (ge_pb E) (local_ACI g) presentation (jp_Revision preview)
               else BuildJoinViaInviteLinkActions (ge_zk E) (ge_pb E) (local_ACI g) presentation (jp_Revision preview)) g)
        (\<lambda>g actions.
      case client_patchGroupWithInvite E sp password actions g of
        (g, Inl err) \<Rightarrow> if already_member E err then FetchGroup E masterKey g else (g, Inl err)
      | (g, Inr _) \<Rightarrow> FetchGroup E masterKey g)))))"

section \<open>Creation\<close>

record CreateGroupMember =
  cm_ACI :: string
  cm_ProfileKey :: bytes

record CreateGroupOptions =
  co_Title :: string
  co_Description :: string
  co_Members :: "CreateGroupMember list"
  co_DisappearingMessagesSeconds :: int

text \<open>Members with a profile key are added, the others become pending.\<close>

fun buildCreateGroupMembers ::
  "('r, 'v, 'g) group_env \<Rightarrow> bytes \<Rightarrow> CreateGroupMember list \<Rightarrow> ('r, 'v, 'g) gclient \<Rightarrow>
   ('r, 'v, 'g) gclient \<times> (web_err + NewGroupMember list \<times> NewGroupPendingMember list)" where
  "buildCreateGroupMembers E sp [] g = (g, Inr ([], []))"
| "buildCreateGroupMembers E sp (m # ms) g =
    (if cm_ACI m = [] then fail_with ''signal.CreateGroup: empty member ACI'' g
     else if cm_ACI m = local_ACI g then fail_with ''signal.CreateGroup: members must not include the local account'' g
     else
       let profileKey = (if length (cm_ProfileKey m) = 0
             then (case map_of (cl_profileKeys (gn_client g)) (cm_ACI m) of None \<Rightarrow> [] | Some k \<Rightarrow> k)
             else cm_ProfileKey m)
       in if length profileKey > 0 then
            bindS (wrapS (WWrap (''signal.CreateGroup: member '' @ cm_ACI m @ '': ''))
                    (memberPresentationForAdd E sp (cm_ACI m) profileKey g)) (\<lambda>g presentation.
            bindS (buildCreateGroupMembers E sp ms g) (\<lambda>g (members, pending).
              (g, Inr (\<lparr> nm_Presentation = presentation, nm_Role = MemberRoleDefault \<rparr> # members, pending))))
          else
            bindS (buildCreateGroupMembers E sp ms g) (\<lambda>g (members, pending).
              (g, Inr (members, \<lparr> np_TargetACI = cm_ACI m, np_Role = MemberRoleDefault \<rparr> # pending))))"

text \<open>The master key and its parameters come from one draw.\<close>

definition GenerateGroupMasterKey ::
  "('r, 'v, 'g) group_env \<Rightarrow> ('r, 'v, 'g) gclient \<Rightarrow> ('r, 'v, 'g) gclient \<times> (web_err + bytes \<times> bytes)" where
  "GenerateGroupMasterKey E g =
    (case draw (gl_randomness (ge_lib E)) g of (g, rnd) \<Rightarrow> pure_r (bindR rnd (gl_master_key (ge_lib E))) g)"

definition CreateGroup ::
  "('r, 'v, 'g) group_env \<Rightarrow> CreateGroupOptions \<Rightarrow> ('r, 'v, 'g) gclient \<Rightarrow>
   ('r, 'v, 'g) gclient \<times> (web_err + Group \<times> bytes)" where
  "CreateGroup E opts g =
    (let Z = ge_zk E; P = ge_pb E; pk = ac_ProfileKey (cl_acct (gn_client g)) in
     if \<not> has_storage E then fail_with ''signal.CreateGroup: Client was opened without groups storage'' g
     else if length pk = 0 then fail_with ''signal.CreateGroup: linked account has no profile key'' g
     else
       bindS (wrapS (WWrap ''signal.CreateGroup: '') (GenerateGroupMasterKey E g)) (\<lambda>g (masterKey, sp).
       bindS (pure_r (zk_public_params Z sp) g) (\<lambda>g pp.
       bindS (wrapS (WWrap ''signal.CreateGroup: self presentation: '')
               (memberPresentationForAdd E sp (local_ACI g) pk g)) (\<lambda>g selfPresentation.
       bindS (buildCreateGroupMembers E sp (co_Members opts) g) (\<lambda>g (members, pending).
       case draw (gl_randomness (ge_lib E)) g of (g, rnd) \<Rightarrow>
       bindS (pure_r (wrapR (\<lambda>e. ''signal.CreateGroup: '' @ e) (BuildNewGroupMessage Z P rnd
                \<lparr> ng_SecretParams = sp, ng_PublicParams = pp, ng_Title = co_Title opts,
                  ng_Description = co_Description opts, ng_Timer = co_DisappearingMessagesSeconds opts,
                  ng_SelfPresentation = selfPresentation, ng_Members = members, ng_PendingMembers = pending \<rparr>)) g)
         (\<lambda>g groupWire.
       bindS (wrapS (WWrap ''signal.CreateGroup: authorize: '') (groupsV2AuthHeader E sp pp g)) (\<lambda>g auth.
       bindS (wrapS (WWrap ''signal.CreateGroup: put group: '')
               (on_net (PutGroup (fe_storage_web (ge_full E)) auth groupWire) g)) (\<lambda>g raw.
       bindS (pure_r (decode_response E sp raw) g) (\<lambda>g (st, gse).
         let mkHex = hexEncode masterKey; (grp, acis) = groupFromDecodedState mkHex st;
             g = keep_state E mkHex sp gse acis grp g
         in (fst (sendGroupChangeNotification E masterKey grp [] g), Inr (grp, masterKey)))))))))))"

end
