(* ===== verification/WebLaws.thy ===== *)
theory WebLaws
  imports WebMore
begin

text \<open>
  Facts on \<open>WebMore\<close>: the poll for a transfer archive ends when the clock moves, and the next page
  of a group log starts after the end of the last one, modulo the width of a revision.
\<close>

section \<open>The archive poll\<close>

definition clock_advances :: "'v web_client \<Rightarrow> bool" where
  "clock_advances c \<longleftrightarrow> (\<forall>v h. wc_now c v < wc_now c (fst (wc_transport c v h)))"

lemma raw_get_clock:
  assumes "clock_advances c" and "raw_get name n c path q h v = (v', Inr x)"
  shows "wc_now c v < wc_now c v'"
proof -
  have p: "wc_transport c v r = (v', y) \<Longrightarrow> wc_now c v < wc_now c v'" for r y
    using assms(1) by (metis clock_advances_def fst_conv)
  then show ?thesis
    using assms(2) by (auto simp: raw_get_def split: sum.splits option.splits prod.splits dest!: p)
qed

lemma once_clock:
  assumes "clock_advances c" and "fetchTransferArchiveOnce c J creds t v = (v', Inr x)"
  shows "wc_now c v < wc_now c v'"
proof -
  obtain v1 y where r: "raw_get ''web.FetchTransferArchive'' 1048576 c ''/v1/devices/transfer_archive''
            [(''timeout'', [dec_int (poll_seconds t)])]
            (header_Set ''Authorization'' (Credentials_Header creds) (agent_headers c)) v = (v1, Inr y)"
    using assms(2) unfolding fetchTransferArchiveOnce_def bindS_Inr_iff by blast
  have "v1 = v'"
    using assms(2) unfolding fetchTransferArchiveOnce_def r
    by (auto split: prod.splits if_splits sum.splits option.splits)
  then show ?thesis using raw_get_clock [OF assms(1) r] by simp
qed

lemma archive_loop_ends:
  "clock_advances c \<Longrightarrow> \<exists>r. archive_loop ctx_err c J creds deadline v = Some r"
proof (induction "nat (deadline - wc_now c v)" arbitrary: v rule: less_induct)
  case less
  show ?case
  proof (cases "ctx_err v = None \<and> 0 < deadline - wc_now c v")
    case False
    then show ?thesis by (subst archive_loop.simps) (auto split: option.split)
  next
    case True
    obtain v' x where o: "fetchTransferArchiveOnce c J creds
        (min (deadline - wc_now c v) transferArchivePollChunk) v = (v', x)" by (rule prod.exhaust)
    have step: "archive_loop ctx_err c J creds deadline v =
        (case x of Inl e \<Rightarrow> Some (v', Inl e) | Inr (Some r) \<Rightarrow> Some (v', Inr r)
         | Inr None \<Rightarrow> archive_loop ctx_err c J creds deadline v')"
      by (subst archive_loop.simps) (use True o in \<open>auto split: sum.split option.split\<close>)
    show ?thesis
    proof (cases "x = Inr None")
      case False
      then show ?thesis unfolding step by (auto split: sum.split option.split)
    next
      case True
      then have "wc_now c v < wc_now c v'" using once_clock [OF less.prems] o by blast
      then show ?thesis using less.hyps [of v'] less.prems \<open>ctx_err v = None \<and> _\<close>
        unfolding step True by simp
    qed
  qed
qed

text \<open>C35. The poll for the transfer archive returns, with an archive, an answer of the primary or
  an error, when the clock moves on during each request: the loop stops at the deadline at the
  latest.\<close>

theorem archive_poll_returns:
  assumes "clock_advances c"
  shows "\<exists>v' r. FetchTransferArchive ctx_err c J creds timeout v = Some (v', r)"
  using archive_loop_ends [OF assms] by (simp add: FetchTransferArchive_def)

section \<open>Pages of a group log\<close>

lemma digit_val_digit: "d < 10 \<Longrightarrow> digit_val (char_of (48 + d)) = Some d"
  by (simp add: digit_val_def)

text \<open>Reading back a decimal number.\<close>

lemma digits_val_append:
  "digits_val (s @ t) acc = (case digits_val s acc of None \<Rightarrow> None | Some n \<Rightarrow> digits_val t n)"
  by (induction s arbitrary: acc) (auto split: option.split)

lemma dec_digits_not_empty [simp]: "dec_digits n \<noteq> []"
  by (subst dec_digits.simps) simp

lemma digits_val_dec: "digits_val (dec_digits n) 0 = Some n"
proof (induction n rule: dec_digits.induct)
  case (1 n)
  show ?case
  proof (cases "n < 10")
    case True
    then show ?thesis by (subst dec_digits.simps) (simp add: digit_val_digit)
  next
    case False
    then show ?thesis using 1 digit_val_digit [of "n mod 10"]
      by (subst dec_digits.simps) (simp add: digits_val_append)
  qed
qed

lemma ParseUint_dec: "n < 2 ^ bits \<Longrightarrow> ParseUint bits (dec_digits n) = Some n"
  by (simp add: ParseUint_def digits_val_dec)

lemma index_of_append:
  "c \<notin> set s \<Longrightarrow> index_of (s @ c # t) c = Some (length s)"
  by (induction s) auto

lemma dec_digits_no: "of_char c < (48 :: nat) \<Longrightarrow> c \<notin> set (dec_digits n)"
  using dec_digits_range [of c n] by auto

text \<open>The bytes a white-space encoding starts or ends with.\<close>

definition space_ends :: "nat set" where
  "space_ends = {0x20, 0x09, 0x0A, 0x0B, 0x0C, 0x0D, 0xC2, 0xE1, 0xE2, 0xE3} \<union> {0x80..0x8A} \<union>
     {0x85, 0xA0, 0xA8, 0xA9, 0xAF, 0x9F}"

lemma dec_digits_not_space: "c \<in> set (dec_digits n) \<Longrightarrow> of_char c \<notin> space_ends"
  using dec_digits_range [of c n] by (auto simp: space_ends_def)

lemma strip_all_id:
  "list_all (\<lambda>p. p \<noteq> [] \<longrightarrow> s = [] \<or> hd p \<noteq> hd s) ps \<Longrightarrow> strip_all ps s = s"
proof -
  assume "list_all (\<lambda>p. p \<noteq> [] \<longrightarrow> s = [] \<or> hd p \<noteq> hd s) ps"
  then have "find (\<lambda>p. p \<noteq> [] \<and> HasPrefix s p) ps = None"
    by (auto simp: find_None_iff HasPrefix_iff list_all_iff)
  then show ?thesis by (subst strip_all.simps) simp
qed

lemma space_encodings_ends:
  "list_all (\<lambda>p. p \<noteq> [] \<and> of_char (hd p) \<in> space_ends \<and> of_char (hd (rev p)) \<in> space_ends) space_encodings"
  by (simp add: space_encodings_def space_ends_def upt_rec [of _ "0x8B"])

lemma TrimSpace_id:
  "s \<noteq> [] \<Longrightarrow> of_char (hd s) \<notin> space_ends \<Longrightarrow> of_char (last s) \<notin> space_ends \<Longrightarrow> TrimSpace s = s"
proof -
  assume s: "s \<noteq> []" "of_char (hd s) \<notin> space_ends" "of_char (last s) \<notin> space_ends"
  have "strip_all space_encodings s = s"
    using space_encodings_ends s(2) by (intro strip_all_id) (auto simp: list_all_iff)
  moreover have "strip_all (map rev space_encodings) (rev s) = rev s"
    using space_encodings_ends s(1,3) by (intro strip_all_id) (fastforce simp: list_all_iff hd_rev)
  ultimately show ?thesis by (simp add: TrimSpace_def)
qed

definition content_range :: "u32 \<Rightarrow> u32 \<Rightarrow> nat \<Rightarrow> string" where
  "content_range fst_rev lst cnt =
    ''versions '' @ dec_digits (unat fst_rev) @ ''-'' @ dec_digits (unat lst) @ ''/'' @ dec_digits cnt"

text \<open>The page after the one whose header says it ended at a revision starts at the revision
  after it; after the last 32-bit revision that is revision 0 again.\<close>

theorem next_page_revision:
  "NextGroupLogRevision (content_range fst_rev lst cnt) = Inr (lst + 1)"
proof -
  let ?s = "dec_digits (unat fst_rev)" and ?e = "dec_digits (unat lst)" and ?t = "dec_digits cnt"
  let ?r = "?s @ ''-'' @ ?e @ ''/'' @ ?t"
  have "last (content_range fst_rev lst cnt) = last ?t" by (simp add: content_range_def)
  then have "of_char (last (content_range fst_rev lst cnt)) \<notin> space_ends"
    using dec_digits_not_space [OF last_in_set [OF dec_digits_not_empty]] by metis
  moreover have "of_char (hd (content_range fst_rev lst cnt)) \<notin> space_ends"
    by (simp add: content_range_def space_ends_def)
  ultimately have trim: "TrimSpace (content_range fst_rev lst cnt) = content_range fst_rev lst cnt"
    by (intro TrimSpace_id) (simp_all add: content_range_def)
  have dash: "index_of ?r CHR ''-'' = Some (length ?s)"
    using index_of_append [of "CHR ''-''" ?s "?e @ ''/'' @ ?t"] dec_digits_no by simp
  have slash: "index_of ?r CHR ''/'' = Some (length (?s @ ''-'' @ ?e))"
    using index_of_append [of "CHR ''/''" "?s @ ''-'' @ ?e" ?t] dec_digits_no by simp
  have sub: "subslice (length ?s + 1) (length (?s @ ''-'' @ ?e)) ?r = ?e"
    by (simp add: subslice_def)
  have "unat lst < 2 ^ 32" using unsigned_less [of "lst", where ?'a = nat] by simp
  then have "ParseUint 32 ?e = Some (unat lst)" by (rule ParseUint_dec)
  then show ?thesis
    unfolding NextGroupLogRevision_def trim Let_def
    using dash slash sub by (simp add: content_range_def HasPrefix_def)
qed

section \<open>Witnesses\<close>

definition waiting_web :: "int web_client" where
  "waiting_web = \<lparr> wc_BaseURL = ''b'', wc_UserAgent = ''u'', wc_CDNHosts = [],
     wc_transport = (\<lambda>v r. (v + 1000000000, Inr \<lparr> hs_StatusCode = 204, hs_Status = ''204'', hs_Header = [],
       hs_Body = [], hs_BodyErr = None \<rparr>)),
     wc_now = (\<lambda>v. v), wc_parse_url = (\<lambda>u q. Inr u), wc_request_err = (\<lambda>m u. None),
     wc_parse_time = (\<lambda>s. None),
     wc_json = \<lparr> js_SendMessageRequest = (\<lambda>r. Inr []), js_SendMessageResponse = (\<lambda>b. Inr False),
       js_FetchPreKeyResponse = (\<lambda>b. Inl []), js_Mismatched = (\<lambda>b. Inl []), js_Stale = (\<lambda>b. Inl []),
       js_Certificate = (\<lambda>b. Inl []), js_Profile = (\<lambda>b. Inl []), js_Credential = (\<lambda>b. Inl []),
       js_UploadForm = (\<lambda>b. Inl []), js_Userpass = (\<lambda>b. Inl []) \<rparr> \<rparr>"

theorem archive_poll_returns_witness:
  "\<forall>J. \<exists>v' r. FetchTransferArchive (\<lambda>v. None) waiting_web J \<lparr> cr_Username = ''u'', cr_Password = ''p'' \<rparr> 0 0 = Some (v', r)"
proof -
  have "clock_advances waiting_web" by (simp add: clock_advances_def waiting_web_def)
  from archive_poll_returns [OF this] show ?thesis by blast
qed

end
