(* ===== verification/GroupLaws.thy ===== *)
theory GroupLaws
  imports GroupFormat WebLaws
begin

text \<open>
  Facts on the group wire format: a new group reads back as it was described, every change asks
  for the next revision in the name of its author, and invite links are read back.
\<close>

section \<open>A new group reads back\<close>

text \<open>What is relied on: blobs decrypt to what was encrypted, and parse to what was encoded.\<close>

definition blobs_ok :: "zk_lib \<Rightarrow> group_pb \<Rightarrow> bool" where
  "blobs_ok Z P \<longleftrightarrow>
     (\<forall>sp plain r ct. zk_encrypt_blob Z sp plain r = Inr ct \<longrightarrow>
        29 \<le> length ct \<and> zk_decrypt_blob Z sp ct = Inr plain) \<and>
     (\<forall>b raw. gp_blob P b = Inr raw \<longrightarrow> gp_unblob P raw = Inr b)"

text \<open>A presentation that carries a service id and a profile key.\<close>

definition presents :: "zk_lib \<Rightarrow> bytes \<Rightarrow> bytes \<Rightarrow> string \<Rightarrow> bytes \<Rightarrow> bool" where
  "presents Z sp pres aci pk \<longleftrightarrow> pres \<noteq> [] \<and>
     (\<exists>uuid user ct. zk_pres_uuid Z pres = Inr uuid \<and> zk_decrypt_sid Z sp uuid = Inr user \<and>
        zk_sid_string Z user = Inr aci \<and> zk_pres_key Z pres = Inr ct \<and> zk_decrypt_key Z sp ct user = Inr pk)"

lemma blob_reads_back:
  assumes "blobs_ok Z P" and "EncryptBlob Z P sp b r = Inr ct"
  shows "decryptAttributeBlob Z P sp ct = Inr (Some b)"
proof -
  obtain plain where p: "gp_blob P b = Inr plain" "zk_encrypt_blob Z sp plain r = Inr ct"
    using assms(2) by (auto simp: EncryptBlob_def bindR_Inr_iff)
  then have l: "29 \<le> length ct" "zk_decrypt_blob Z sp ct = Inr plain" "gp_unblob P plain = Inr b"
    using assms(1) by (auto simp: blobs_ok_def)
  then have "length ct \<noteq> 0" by linarith
  then show ?thesis using l by (simp add: decryptAttributeBlob_def DecryptBlob_def)
qed

lemma strip_all_Nil [simp]: "strip_all ps [] = []"
  by (rule strip_all_id) (simp add: list_all_iff)

lemma TrimSpace_Nil [simp]: "TrimSpace [] = []"
  by (simp add: TrimSpace_def)

lemma decode_presented:
  "presents Z sp pres aci pk \<Longrightarrow> decodeMember Z sp (Some (presented pres role)) =
     Inr \<lparr> mb_ACI = aci, mb_Role = role, mb_Label = [], mb_LabelEmoji = [], mb_ProfileKey = pk \<rparr>"
  by (auto simp: decodeMember_def presented_def presents_def memberProfileKey_def decryptMemberLabel_def)

lemma new_member_ok: "new_member m = Inr w \<longleftrightarrow>
    nm_Presentation m \<noteq> [] \<and> w = presented (nm_Presentation m) (nm_Role m)"
  by (auto simp: new_member_def)

lemma map_result_presented:
  "list_all2 (\<lambda>m (aci, pk). presents Z sp (nm_Presentation m) aci pk) ms ids \<Longrightarrow>
   map_result new_member ms = Inr ws \<Longrightarrow>
   map_result (decodeMember Z sp) (map Some ws) =
     Inr (map2 (\<lambda>m (aci, pk). \<lparr> mb_ACI = aci, mb_Role = nm_Role m, mb_Label = [], mb_LabelEmoji = [],
       mb_ProfileKey = pk \<rparr>) ms ids)"
proof (induction arbitrary: ws rule: list_all2_induct)
  case (Cons m ms i "is")
  obtain aci pk where i: "i = (aci, pk)" by (cases i)
  from Cons.prems obtain ws' where ws: "ws = presented (nm_Presentation m) (nm_Role m) # ws'"
      "map_result new_member ms = Inr ws'"
    by (auto simp: bindR_Inr_iff new_member_ok)
  have "presents Z sp (nm_Presentation m) aci pk" using Cons.hyps(1) by (simp add: i)
  from decode_presented [OF this] Cons.IH [OF ws(2)] show ?case by (simp add: ws(1) i)
qed simp

text \<open>C29. The group that a create request describes is the one its wire form decodes to: title and
  description without white space around them, the timer at 32 bits, revision 0, the creator as
  administrator in front of the other members, each with the service id and profile key of the
  presentation.\<close>

theorem new_group_reads_back:
  assumes ok: "blobs_ok Z P" and w: "new_group_wire Z P rnd p = Inr w"
    and self: "presents Z (ng_SecretParams p) (ng_SelfPresentation p) aci pk"
    and members: "list_all2 (\<lambda>m (aci, pk). presents Z (ng_SecretParams p) (nm_Presentation m) aci pk) (ng_Members p) ids"
  shows "DecodeState Z P (ng_SecretParams p) (Some w) = Inr
    \<lparr> gs_Title = TrimSpace (ng_Title p), gs_Description = TrimSpace (ng_Description p), gs_AvatarURL = [],
      gs_Revision = 0,
      gs_Members = \<lparr> mb_ACI = aci, mb_Role = MemberRoleAdministrator, mb_Label = [], mb_LabelEmoji = [],
          mb_ProfileKey = pk \<rparr> #
        map2 (\<lambda>m (aci, pk). \<lparr> mb_ACI = aci, mb_Role = nm_Role m, mb_Label = [], mb_LabelEmoji = [],
          mb_ProfileKey = pk \<rparr>) (ng_Members p) ids,
      gs_AnnouncementsOnly = False, gs_Terminated = False, gs_Timer = of_int (ng_Timer p) \<rparr>"
proof -
  let ?sp = "ng_SecretParams p"
  from w obtain r t tm d ms pend where
      e: "EncryptTitleBlob Z P ?sp (ng_Title p) r = Inr t" "EncryptTimerBlob Z P ?sp (ng_Timer p) r = Inr tm"
        "(if ng_Description p \<noteq> [] then EncryptDescriptionBlob Z P ?sp (ng_Description p) r else Inr []) = Inr d"
        "map_result new_member (ng_Members p) = Inr ms"
    and wire: "gw_Title w = t" "gw_Description w = d" "gw_Timer w = tm" "gw_AvatarUrl w = []" "gw_Version w = 0"
      "gw_Members w = map Some (presented (ng_SelfPresentation p) MemberRoleAdministrator # ms)"
      "\<not> gw_AnnouncementsOnly w" "\<not> gw_Terminated w"
    by (auto simp: new_group_wire_def Let_def bindR_Inr_iff split: if_splits)
  have "decryptTitle Z P ?sp t = Inr (ng_Title p)"
    using blob_reads_back [OF ok] e(1) by (simp add: EncryptTitleBlob_def decryptTitle_def)
  moreover have "decryptDisappearingTimer Z P ?sp tm = Inr (of_int (ng_Timer p))"
    using blob_reads_back [OF ok] e(2) by (auto simp: EncryptTimerBlob_def decryptDisappearingTimer_def split: if_splits)
  moreover have "decryptDescription Z P ?sp d = Inr (ng_Description p)"
  proof (cases "ng_Description p = []")
    case True
    then show ?thesis using e(3) by (simp add: decryptDescription_def decryptAttributeBlob_def)
  next
    case False
    then show ?thesis using blob_reads_back [OF ok] e(3)
      by (simp add: EncryptDescriptionBlob_def decryptDescription_def)
  qed
  ultimately show ?thesis
    using decode_presented [OF self] map_result_presented [OF members e(4)]
    by (simp add: DecodeState_def wire)
qed

section \<open>Changes\<close>

text \<open>
  A change in the name of a service id for the revision after the current one, which is
  \<open>no_actions\<close> up to the update \<open>what\<close>.
\<close>

definition change_by ::
  "zk_lib \<Rightarrow> group_pb \<Rightarrow> bytes \<Rightarrow> string \<Rightarrow> u32 \<Rightarrow> (Actions \<Rightarrow> Actions \<Rightarrow> bool) \<Rightarrow> string + bytes \<Rightarrow> bool" where
  "change_by Z P sp aci cur what r \<longleftrightarrow> (\<forall>wire. r = Inr wire \<longrightarrow>
     (\<exists>a src. gp_actions P a = Inr wire \<and> EncryptServiceID Z sp aci = Inr src \<and>
        what (no_actions src (cur + 1)) a))"

lemmas change_defs = change_by_def bindR_Inr_iff EncryptServiceID_def no_actions_def

lemma leave_change:
  "change_by Z P sp aci cur (\<lambda>z a. a = z\<lparr> at_DeleteMembers := [at_SourceUserId z] \<rparr>)
    (BuildLeaveActions Z P sp aci cur)"
  by (auto simp: BuildLeaveActions_def change_defs)

lemma role_change:
  "change_by Z P sp aci cur (\<lambda>z a. \<exists>t. EncryptServiceID Z sp target = Inr t \<and>
      a = z\<lparr> at_ModifyMemberRoles := [(t, role)] \<rparr>)
    (BuildModifyRoleActions Z P sp aci target role cur)"
  by (auto simp: BuildModifyRoleActions_def change_defs)

lemma remove_change:
  "change_by Z P sp aci cur (\<lambda>z a. \<exists>t. EncryptServiceID Z sp target = Inr t \<and>
      a = z\<lparr> at_DeleteMembers := [t] \<rparr>)
    (BuildRemoveMemberActions Z P sp aci target cur)"
  by (auto simp: BuildRemoveMemberActions_def change_defs)

lemma add_change:
  "change_by Z P sp aci cur (\<lambda>z a. pres \<noteq> [] \<and> a = z\<lparr> at_AddMembers := [presented pres role] \<rparr>)
    (BuildAddMemberActions Z P sp aci pres role cur)"
  by (auto simp: BuildAddMemberActions_def change_defs split: if_splits)

lemma title_change:
  "change_by Z P sp aci cur (\<lambda>z a. \<exists>r t. rnd = Inr r \<and> EncryptTitleBlob Z P sp title r = Inr t \<and>
      a = z\<lparr> at_ModifyTitle := Some t \<rparr>)
    (BuildModifyTitleActions Z P rnd sp aci title cur)"
  by (auto simp: BuildModifyTitleActions_def change_defs)

lemma description_change:
  "change_by Z P sp aci cur (\<lambda>z a. \<exists>r t. rnd = Inr r \<and> EncryptDescriptionBlob Z P sp description r = Inr t \<and>
      a = z\<lparr> at_ModifyDescription := Some t \<rparr>)
    (BuildModifyDescriptionActions Z P rnd sp aci description cur)"
  by (auto simp: BuildModifyDescriptionActions_def change_defs)

lemma link_change:
  "change_by Z P sp aci cur (\<lambda>z a. pw \<noteq> [] \<and> a = z\<lparr> at_ModifyInviteLinkPassword := Some pw,
      at_ModifyAddFromInviteLinkAccess := Some access \<rparr>)
    (BuildEnableInviteLinkActions Z P sp aci pw access cur)"
  by (auto simp: BuildEnableInviteLinkActions_def change_defs split: if_splits)

section \<open>Invite links\<close>

lemma b64_chars: "b64_alphabet A \<Longrightarrow> c \<in> set (b64_encode A bs) \<Longrightarrow> c \<in> set A \<or> c = CHR ''=''"
  using b64_encode_chars by blast

lemma b64_unpadded:
  "b64_alphabet A \<Longrightarrow>
   filter (\<lambda>c. c \<noteq> CHR ''='') (b64_encode A bs) @
     replicate ((4 - length (filter (\<lambda>c. c \<noteq> CHR ''='') (b64_encode A bs)) mod 4) mod 4) (CHR ''='') = b64_encode A bs"
  by (induction A bs rule: b64_encode.induct) (simp_all add: six_not_pad numeral_2_eq_2)

lemma rawURL_round_trip: "rawURLDecode (rawURLEncode bs) = Inr bs"
proof -
  let ?s = "rawURLEncode bs"
  have "c \<in> set ?s \<Longrightarrow> c \<in> set urlAlphabet" for c
    using b64_chars [OF b64_alphabets(2)] by (auto simp: rawURLEncode_def)
  then have "c \<in> set ?s \<Longrightarrow> c \<noteq> CHR 0x0A \<and> c \<noteq> CHR 0x0D \<and> c \<noteq> CHR ''=''" for c
    using b64_alphabets(2) by (metis b64_alphabet_def)
  then have "filter (\<lambda>c. c \<noteq> CHR 0x0A \<and> c \<noteq> CHR 0x0D) ?s = ?s" "CHR ''='' \<notin> set ?s"
    by (auto simp: filter_id_conv)
  moreover have "?s @ replicate ((4 - length ?s mod 4) mod 4) (CHR ''='') = b64_encode urlAlphabet bs"
    unfolding rawURLEncode_def by (rule b64_unpadded [OF b64_alphabets(2)])
  ultimately show ?thesis by (simp add: rawURLDecode_def Let_def b64_decode_encode [OF b64_alphabets(2)])
qed

text \<open>What the parser of the standard library does with a link of the form the client makes.\<close>

definition parses_links :: "(string \<Rightarrow> string + parsed_url) \<Rightarrow> bool" where
  "parses_links parse \<longleftrightarrow> (\<forall>f. set f \<subseteq> set urlAlphabet \<longrightarrow> f \<noteq> [] \<longrightarrow>
     parse (''https://signal.group/#'' @ f) =
       Inr \<lparr> pu_Scheme = ''https'', pu_Host = ''signal.group'', pu_Path = ''/'', pu_Fragment = f \<rparr>)"

definition links_ok :: "group_pb \<Rightarrow> bool" where
  "links_ok P \<longleftrightarrow> (\<forall>mk pw raw. gp_link P mk pw = Inr raw \<longrightarrow> raw \<noteq> [] \<and> gp_unlink P raw = Inr (Some (mk, pw)))"

lemma rawURL_chars: "set (rawURLEncode bs) \<subseteq> set urlAlphabet"
  using b64_chars [OF b64_alphabets(2)] by (auto simp: rawURLEncode_def)

lemma rawURL_not_empty: "bs \<noteq> [] \<Longrightarrow> rawURLEncode bs \<noteq> []"
  using rawURL_round_trip [of bs] by (auto simp: rawURLDecode_def b64_decode_def)

lemma urlAlphabet_no_space: "list_all (\<lambda>c. of_char c \<notin> space_ends) urlAlphabet"
  by (simp add: urlAlphabet_def space_ends_def)

text \<open>C37. An invite link that the client formats is parsed to the same master key and password.\<close>

theorem invite_link_round_trip:
  assumes P: "links_ok P" and parse: "parses_links parse"
    and f: "FormatInviteLinkURL P masterKey password = Inr url"
  shows "ParseInviteLinkURL P parse url = Inr (masterKey, password)"
proof -
  obtain raw where raw: "gp_link P masterKey password = Inr raw"
    and url: "url = ''https://signal.group/#'' @ rawURLEncode raw"
    and len: "length masterKey = 32" "password \<noteq> []"
    using f by (auto simp: FormatInviteLinkURL_def bindR_Inr_iff split: if_splits)
  have u: "raw \<noteq> []" "gp_unlink P raw = Inr (Some (masterKey, password))"
    using P raw by (auto simp: links_ok_def)
  have ne: "rawURLEncode raw \<noteq> []" using u(1) by (rule rawURL_not_empty)
  have "last url = last (rawURLEncode raw)" by (simp add: url ne)
  then have "last url \<in> set urlAlphabet" using rawURL_chars [of raw] last_in_set [OF ne] by auto
  then have "of_char (last url) \<notin> space_ends" using urlAlphabet_no_space by (simp add: list_all_iff)
  moreover have "of_char (hd url) \<notin> space_ends" by (simp add: url space_ends_def)
  ultimately have "TrimSpace url = url" by (intro TrimSpace_id) (simp_all add: url)
  moreover have "parse url = Inr \<lparr> pu_Scheme = ''https'', pu_Host = ''signal.group'', pu_Path = ''/'',
      pu_Fragment = rawURLEncode raw \<rparr>"
    using parse rawURL_chars ne by (simp add: parses_links_def url)
  ultimately show ?thesis
    using ne u(2) len
    by (simp add: ParseInviteLinkURL_def Let_def is_group_host_def ascii_lower_def rawURL_round_trip)
qed

section \<open>Concrete parameters\<close>

definition sample_zk :: zk_lib where
  "sample_zk = \<lparr> zk_secret_params = Inr, zk_public_params = Inr, zk_group_id = Inr,
     zk_encrypt_blob = (\<lambda>sp plain r. Inr (replicate 29 0 @ plain)), zk_decrypt_blob = (\<lambda>sp ct. Inr (drop 29 ct)),
     zk_encrypt_sid = (\<lambda>sp sid. Inr sid), zk_decrypt_sid = (\<lambda>sp ct. Inr ct),
     zk_parse_sid = (\<lambda>s. Inr (string_bytes s)), zk_sid_string = (\<lambda>b. Inr (map (\<lambda>x. char_of (unat x)) b)),
     zk_pres_uuid = (\<lambda>p. Inr (take 1 p)), zk_pres_key = (\<lambda>p. Inr (drop 1 p)),
     zk_decrypt_key = (\<lambda>sp ct user. Inr ct) \<rparr>"

definition sample_group_pb :: group_pb where
  "sample_group_pb = \<lparr> gp_blob = (\<lambda>b. case b of BlobTitle t \<Rightarrow> Inr (1 # string_bytes t) | BlobOther \<Rightarrow> Inr []
         | BlobTimer n \<Rightarrow> (if n = 60 then Inr [3] else Inl ''timer'') | BlobDescription t \<Rightarrow> Inl ''description''),
     gp_unblob = (\<lambda>bs. case bs of [] \<Rightarrow> Inr BlobOther | k # r \<Rightarrow>
         if k = 3 then Inr (BlobTimer 60) else Inr (BlobTitle (map (\<lambda>x. char_of (unat x)) r))),
     gp_group = (\<lambda>w. Inr [1]), gp_actions = (\<lambda>a. Inr [1]), gp_response = (\<lambda>b. Inl ''pb''),
     gp_change_response = (\<lambda>b. Inl ''pb''), gp_changes = (\<lambda>b. Inl ''pb''), gp_join_info = (\<lambda>b. Inl ''pb''),
     gp_link = (\<lambda>mk pw. if length mk = 32 then Inr (mk @ pw) else Inl ''pb''),
     gp_unlink = (\<lambda>raw. Inr (Some (take 32 raw, drop 32 raw))) \<rparr>"

lemma unat_of_char_byte: "char_of (unat (of_char c :: byte)) = c"
proof -
  have "(of_char c :: byte) = of_nat (of_char c)" by (simp only: of_nat_of_char)
  then have "unat (of_char c :: byte) = (of_char c :: nat) mod 2 ^ 8" by (simp add: unat_of_nat)
  then show ?thesis by simp
qed

lemma sample_blobs_ok: "blobs_ok sample_zk sample_group_pb"
  by (auto simp: blobs_ok_def sample_zk_def sample_group_pb_def string_bytes_def comp_def unat_of_char_byte
    split: AttributeBlob.splits if_splits)

definition sample_new_group :: NewGroupMessageParams where
  "sample_new_group = \<lparr> ng_SecretParams = [9], ng_PublicParams = [9], ng_Title = ''club'', ng_Description = [],
     ng_Timer = 60, ng_SelfPresentation = [97, 1], ng_Members = [\<lparr> nm_Presentation = [98, 2], nm_Role = 1 \<rparr>],
     ng_PendingMembers = [] \<rparr>"

lemma char_codes [simp]: "(char_of (97 :: nat) :: char) = CHR ''a''" "(char_of (98 :: nat) :: char) = CHR ''b''"
  by code_simp+

theorem new_group_reads_back_witness:
  "\<exists>w. new_group_wire sample_zk sample_group_pb (Inr [5]) sample_new_group = Inr w \<and>
     (\<exists>s. DecodeState sample_zk sample_group_pb [9] (Some w) = Inr s \<and> gs_Timer s = 60 \<and>
        map mb_ACI (gs_Members s) = [''a'', ''b''])"
proof -
  obtain w where w: "new_group_wire sample_zk sample_group_pb (Inr [5]) sample_new_group = Inr w"
    by (simp add: new_group_wire_def sample_new_group_def EncryptTitleBlob_def EncryptTimerBlob_def EncryptBlob_def
      sample_group_pb_def sample_zk_def new_member_def)
  have p: "presents sample_zk (ng_SecretParams sample_new_group) (ng_SelfPresentation sample_new_group) ''a'' [1]"
    by (simp add: presents_def sample_zk_def sample_new_group_def)
  have m: "list_all2 (\<lambda>m (aci, pk). presents sample_zk (ng_SecretParams sample_new_group) (nm_Presentation m) aci pk)
      (ng_Members sample_new_group) [(''b'', [2])]"
    by (simp add: presents_def sample_zk_def sample_new_group_def)
  from new_group_reads_back [OF sample_blobs_ok w p m] w show ?thesis
    by (simp add: sample_new_group_def)
qed

definition sample_parse_url :: "string \<Rightarrow> string + parsed_url" where
  "sample_parse_url s = Inr \<lparr> pu_Scheme = ''https'', pu_Host = ''signal.group'', pu_Path = ''/'', pu_Fragment = drop 22 s \<rparr>"

theorem invite_link_round_trip_witness:
  "\<exists>url. FormatInviteLinkURL sample_group_pb (replicate 32 7) [1, 2] = Inr url \<and>
     ParseInviteLinkURL sample_group_pb sample_parse_url url = Inr (replicate 32 7, [1, 2])"
proof -
  have "links_ok sample_group_pb" by (auto simp: links_ok_def sample_group_pb_def split: if_splits)
  moreover have "parses_links sample_parse_url" by (simp add: parses_links_def sample_parse_url_def)
  moreover obtain url where url: "FormatInviteLinkURL sample_group_pb (replicate 32 7) [1, 2] = Inr url"
    by (simp add: FormatInviteLinkURL_def sample_group_pb_def)
  ultimately show ?thesis using invite_link_round_trip by blast
qed

end
