(* ===== verification/GroupSamples.thy ===== *)
theory GroupSamples
  imports GroupModify StorageLaws GroupLaws
begin

text \<open>
  A group with two members, its server and its client, for the concrete runs of the group
  theories: the client is the administrator, the server answers every request with success, and
  its group has no timer.
\<close>

definition patch_web :: "http_request list web_client" where
  "patch_web = (sample_web 200)\<lparr> wc_transport := (\<lambda>v r. (v @ (if hr_Method r = ''PATCH'' then [r] else []),
     Inr \<lparr> hs_StatusCode = 200, hs_Status = [], hs_Header = [], hs_Body = [1], hs_BodyErr = None \<rparr>)) \<rparr>"

definition sample_wire :: GroupWire where
  "sample_wire = \<lparr> gw_PublicKey = [], gw_Title = [], gw_Description = [], gw_AvatarUrl = [], gw_Timer = [],
     gw_Access = \<lparr> acc_Attributes = 2, acc_Members = 2, acc_AddFromInviteLink = 0 \<rparr>, gw_Version = 5,
     gw_Members = [Some (presented [97, 1] 2), Some (presented [98, 2] 1)], gw_Pending = [],
     gw_InviteLinkPassword = [], gw_AnnouncementsOnly = False, gw_Terminated = False \<rparr>"

text \<open>The sample library cannot encrypt for a group, so the notifications stop there.\<close>

definition sample_group_lib :: "nat group_lib" where
  "sample_group_lib = \<lparr> gl_server_params = Inr [1], gl_randomness = (\<lambda>r. (r + 1, Inr [5])),
     gl_uuid_bytes = (\<lambda>r. (r + 1, Inr (replicate 16 (of_nat r)))), gl_master_key = (\<lambda>r. Inr (replicate 32 7, [9])),
     gl_receive_auth = (\<lambda>s a p d b. Inr [1]), gl_auth_presentation = (\<lambda>s sp c r. Inr [1]),
     gl_request_context = (\<lambda>s u k r. Inr [1]), gl_request = (\<lambda>c. Inr [1]),
     gl_receive_credential = (\<lambda>s c b n. Inr [1]), gl_member_presentation = (\<lambda>s sp c r. Inr [98, 2]),
     gl_endorsements_expiration = (\<lambda>b. Inr 9), gl_receive_endorsements = (\<lambda>b i l sp s n. Inr (map (\<lambda>x. [1]) i)),
     gl_combine = (\<lambda>es. Inr (concat es)), gl_full_token = (\<lambda>c sp e. Inr c),
     gl_skdm = (\<lambda>a d s. (s, Inr (Inr [1]))), gl_group_encrypt = (\<lambda>p a d s. (s, Inl ''no key'')),
     gl_usmc_group = (\<lambda>c t k. Inr c), gl_multi_encrypt = (\<lambda>a x u s. (s, Inr u)), gl_marshal_change = Inr \<rparr>"

definition sample_genv :: "(nat, http_request list, mem_groups) group_env" where
  "sample_genv = \<lparr> ge_full = (sample_full_env 3 [])\<lparr> fe_send := (sample_send_env 200)\<lparr> se_web := patch_web,
         se_client := sample_receiver_env\<lparr> ce_has_storageWebc := True \<rparr> \<rparr>, fe_storage_web := patch_web \<rparr>,
     ge_zk = sample_zk,
     ge_pb = sample_group_pb\<lparr> gp_response := (\<lambda>b. Inr (Some sample_wire, [])), gp_change_response := (\<lambda>b. Inr (Some [4])) \<rparr>,
     ge_lib = sample_group_lib, ge_unicode = plain_unicode, ge_dist = Some mem_dist_ops, ge_endorse = None \<rparr>"

definition sample_key :: bytes where
  "sample_key = replicate 32 7"

definition sample_gclient :: "(nat, http_request list, mem_groups) gclient" where
  "sample_gclient = \<lparr> gc_sender = sample_sender\<lparr> sn_client := (sn_client sample_sender)
       \<lparr> cl_expireTimers := [(hexEncode sample_key, 60)], cl_uaks := [(''b'', replicate 16 1)] \<rparr> \<rparr>,
     gc_authCreds = [(0, [1])], gc_distID = [(hexEncode sample_key, ''id'')], gc_endorsements = [], gc_secretParams = [],
     gc_store = mem_NewGroupStores \<rparr>"

lemma length_sample_key [simp]: "length sample_key = 32"
  by (simp add: sample_key_def)

lemma sample_genv_fields [simp]:
  "ge_zk sample_genv = sample_zk" "ge_lib sample_genv = sample_group_lib" "ge_endorse sample_genv = None"
  "ge_dist sample_genv = Some mem_dist_ops"
  "gp_response (ge_pb sample_genv) b = Inr (Some sample_wire, [])"
  "gp_change_response (ge_pb sample_genv) b = Inr (Some [4])" "gp_actions (ge_pb sample_genv) a = Inr [1]"
  "fe_has_web (ge_full sample_genv)" "has_storage sample_genv" "fe_storage_web (ge_full sample_genv) = patch_web"
  "se_web (send_env_of sample_genv) = patch_web" "se_wired (send_env_of sample_genv)"
  "se_lib (send_env_of sample_genv) = sample_send_lib"
  by (simp_all add: sample_genv_def sample_full_env_def has_storage_def send_env_of_def sample_send_env_def
    sample_group_pb_def)

lemma sample_now [simp]: "gnow sample_genv g = 5000000000"
  by (simp add: gnow_def sn_now_def patch_web_def sample_web_def)

text \<open>The server's answer to a request of the group client.\<close>

lemma patch_web_Do:
  "snd (Do patch_web ((get_request (CHR ''/'' # path))\<lparr> rq_Headers := h \<rparr>) v) = Inr [1]"
  "snd (Do patch_web ((get_request (CHR ''/'' # path))\<lparr> rq_Method := ''PATCH'', rq_Query := q, rq_Headers := h, rq_RawBody := b \<rparr>) v) = Inr [1]"
  by (simp_all add: Do_def buildURL_def request_body_def get_request_def patch_web_def sample_web_def
    read_limited_def bodyLimit_def)

lemma trim_p: "TrimSpace ''p'' = ''p''"
  by (rule TrimSpace_id) (auto simp: space_ends_def)

text \<open>All that authorization needs: a credential for the day and the account.\<close>

definition group_ready :: "(nat, http_request list, mem_groups) gclient \<Rightarrow> bool" where
  "group_ready g \<longleftrightarrow> gc_authCreds g = [(0, [1])] \<and> cl_acct (gn_client g) = sample_account"

lemma ready_steps [simp]:
  "group_ready (fst (draw f g)) \<longleftrightarrow> group_ready g"
  "group_ready (g\<lparr> gc_sender := set_world v (gc_sender g) \<rparr>) \<longleftrightarrow> group_ready g"
  "group_ready (on_client (storeGroupRevision k r) g) \<longleftrightarrow> group_ready g"
  by (simp_all add: group_ready_def draw_def on_client_def gn_client_def set_world_def storeGroupRevision_def
    split: prod.split)

lemma sample_ready [simp]: "group_ready sample_gclient"
  by (simp add: group_ready_def sample_gclient_def gn_client_def sample_sender_def)

lemma ready_aci [simp]: "group_ready g \<Longrightarrow> local_ACI g = ''a''"
  by (simp add: group_ready_def local_ACI_def sample_account_def)

lemma sample_header:
  "group_ready g \<Longrightarrow> groupsV2AuthHeader sample_genv sp pp g =
    (fst (draw (gl_randomness sample_group_lib) g), Inr (GroupsV2AuthorizationHeader pp [1]))"
  by (simp add: groupsV2AuthHeader_def auth_response_def CurrentDaySeconds_def group_ready_def pure_r_def
    sample_group_lib_def ParseServiceIDString_def local_ACI_def gn_client_def sample_account_def
    normalizePNIServiceID_def trim_p has_pni_prefix_def sample_zk_def draw_def Let_def)

definition sample_group_state :: State where
  "sample_group_state = \<lparr> gs_Title = [], gs_Description = [], gs_AvatarURL = [], gs_Revision = 5,
     gs_Members = [\<lparr> mb_ACI = ''a'', mb_Role = 2, mb_Label = [], mb_LabelEmoji = [], mb_ProfileKey = [1] \<rparr>,
       \<lparr> mb_ACI = ''b'', mb_Role = 1, mb_Label = [], mb_LabelEmoji = [], mb_ProfileKey = [2] \<rparr>],
     gs_AnnouncementsOnly = False, gs_Terminated = False, gs_Timer = 0 \<rparr>"

definition sample_group :: Group where
  "sample_group = fst (groupFromDecodedState (hexEncode sample_key) sample_group_state)"

lemma sample_decode: "decode_response sample_genv sp raw = Inr (sample_group_state, [])"
  by (simp add: decode_response_def sample_wire_def DecodeState_def decryptTitle_def decryptDescription_def
    decryptAttributeBlob_def decryptDisappearingTimer_def decodeMember_def presented_def decryptMemberLabel_def
    memberProfileKey_def sample_zk_def sample_group_state_def TrimSpace_Nil)

lemma header_not_empty [simp]: "GroupsV2AuthorizationHeader pp p \<noteq> []"
  by (simp add: GroupsV2AuthorizationHeader_def)

lemma sample_params [simp]: "group_params sample_genv sample_key = Inr (sample_key, sample_key)"
  by (simp add: group_params_def GroupSecretParamsFromMasterKey_def sample_zk_def)

text \<open>A request through the group client, its answer and the client's other fields.\<close>

lemma on_net_snd: "snd (f (sn_world (gc_sender g))) = x \<Longrightarrow> \<exists>v. on_net f g = (g\<lparr> gc_sender := set_world v (gc_sender g) \<rparr>, x)"
  by (cases "f (sn_world (gc_sender g))") (auto simp: on_net_def on_sender_def on_world_def)

lemma fetch_run:
  assumes "length masterKey = 32" "fe_has_web (ge_full E)" "has_storage E" "group_params E masterKey = Inr (sp, pp)"
    and "groupsV2AuthHeader E sp pp g = (g1, Inr auth)"
    and "on_net (FetchGroupState (fe_storage_web (ge_full E)) auth) g1 = (g2, Inr raw)"
    and "decode_response E sp raw = Inr (st, [])" "gs_Timer st = 0"
  shows "FetchGroup E masterKey g = (on_client (storeGroupRevision (hexEncode masterKey) (gs_Revision st)) g2,
    Inr (fst (groupFromDecodedState (hexEncode masterKey) st)))"
  using assms by (simp add: FetchGroup_def pure_r_def Let_def groupFromDecodedState_def keep_state_def)

lemma sample_fetch_request:
  "snd (FetchGroupState patch_web (GroupsV2AuthorizationHeader pp [1]) v) = Inr [1]"
  using patch_web_Do(1) [where path = "''v2/groups/''" and h = "accept_headers (GroupsV2AuthorizationHeader pp [1])" and v = v]
  by (cases "Do patch_web (get_request ''/v2/groups/''\<lparr>rq_Headers := accept_headers (GroupsV2AuthorizationHeader pp [1])\<rparr>) v")
     (simp add: FetchGroupState_def map_err_def)

text \<open>Fetching, patching and an administrator's change succeed.\<close>

lemma sample_fetch:
  assumes "group_ready g"
  shows "\<exists>g'. FetchGroup sample_genv sample_key g = (g', Inr sample_group) \<and> group_ready g'"
proof -
  let ?g1 = "fst (draw (gl_randomness sample_group_lib) g)"
  obtain v where "on_net (FetchGroupState patch_web (GroupsV2AuthorizationHeader sample_key [1])) ?g1 =
      (?g1\<lparr> gc_sender := set_world v (gc_sender ?g1) \<rparr>, Inr [1])"
    using on_net_snd [where f = "FetchGroupState patch_web (GroupsV2AuthorizationHeader sample_key [1])" and g = ?g1,
        OF sample_fetch_request] by (elim exE) (rule that)
  then have n: "on_net (FetchGroupState (fe_storage_web (ge_full sample_genv)) (GroupsV2AuthorizationHeader sample_key [1])) ?g1 =
      (?g1\<lparr> gc_sender := set_world v (gc_sender ?g1) \<rparr>, Inr [1])"
    by (simp only: sample_genv_fields)
  have t: "gs_Timer sample_group_state = 0" by (simp add: sample_group_state_def)
  have "group_ready (on_client (storeGroupRevision k r) (?g1\<lparr> gc_sender := set_world v (gc_sender ?g1) \<rparr>))" for k r
    using assms by (simp only: ready_steps)
  then show ?thesis
    unfolding sample_group_def
    fetch_run [OF length_sample_key sample_genv_fields(8,9) sample_params sample_header [OF assms] n sample_decode t]
    by blast
qed

lemma sample_patch_request:
  assumes "actions \<noteq> []"
  shows "snd (PatchGroup patch_web (GroupsV2AuthorizationHeader pp [1]) actions v) = Inr [1]"
  using assms patch_web_Do(2) [where path = "''v2/groups/''" and q = "[]" and b = actions and v = v
      and h = "protobuf_headers (GroupsV2AuthorizationHeader pp [1])"]
  by (cases "Do patch_web ((get_request ''/v2/groups/'')\<lparr> rq_Method := ''PATCH'', rq_Query := [],
        rq_Headers := protobuf_headers (GroupsV2AuthorizationHeader pp [1]), rq_RawBody := actions \<rparr>) v")
     (simp add: PatchGroup_def send_group_def map_err_def)

lemma sample_patch:
  assumes "group_ready g" "actions \<noteq> []"
  shows "\<exists>g'. client_patchGroup sample_genv sp actions g = (g', Inr [4]) \<and> group_ready g'"
proof -
  let ?g1 = "fst (draw (gl_randomness sample_group_lib) g)"
  have pp: "zk_public_params sample_zk sp = Inr sp" by (simp add: sample_zk_def)
  obtain v where n: "on_net (PatchGroup patch_web (GroupsV2AuthorizationHeader sp [1]) actions) ?g1 =
      (?g1\<lparr> gc_sender := set_world v (gc_sender ?g1) \<rparr>, Inr [1])"
    using on_net_snd [where f = "PatchGroup patch_web (GroupsV2AuthorizationHeader sp [1]) actions" and g = ?g1,
        OF sample_patch_request [OF assms(2)]] by (elim exE) (rule that)
  have "group_ready (?g1\<lparr> gc_sender := set_world v (gc_sender ?g1) \<rparr>)"
    using assms(1) by (simp only: ready_steps)
  then show ?thesis
    by (simp add: client_patchGroup_def patch_with_def pure_r_def pp sample_header [OF assms(1)] n change_of_def
      del: ready_steps)
qed

lemma sample_notify:
  assumes "group_ready g"
  shows "is_ok (snd (fetch_and_notify sample_genv sample_key change g))"
proof -
  obtain g' where "FetchGroup sample_genv sample_key g = (g', Inr sample_group)" using sample_fetch [OF assms] by blast
  then show ?thesis by (simp add: fetch_and_notify_def pure_r_def sample_group_lib_def)
qed

lemma sample_change_ok:
  assumes g: "group_ready g" and b: "\<And>g. group_ready g \<Longrightarrow> \<exists>a. a \<noteq> [] \<and> build sample_key sample_group g = (g, Inr a)"
  shows "is_ok (snd (admin_change name build sample_genv sample_key g))"
proof -
  obtain g1 where 1: "FetchGroup sample_genv sample_key g = (g1, Inr sample_group)" "group_ready g1"
    using sample_fetch [OF g] by blast
  obtain a where 2: "a \<noteq> []" "build sample_key sample_group g1 = (g1, Inr a)" using b [OF 1(2)] by blast
  obtain g2 where 3: "client_patchGroup sample_genv sample_key a g1 = (g2, Inr [4])" "group_ready g2"
    using sample_patch [OF 1(2) 2(1)] by blast
  have adm: "group_IsAdmin sample_group ''a''"
    by (simp add: group_IsAdmin_def sample_group_def groupFromDecodedState_def sample_group_state_def
      MemberRoleAdministrator_def)
  have sp: "GroupSecretParamsFromMasterKey sample_zk sample_key = Inr sample_key"
    by (simp add: GroupSecretParamsFromMasterKey_def sample_zk_def)
  show ?thesis
    using sample_notify [OF 3(2)] ready_aci [OF 1(2)] by (simp add: admin_change_def 1 2 3 adm sp pure_r_def)
qed

lemma sample_removal: "is_ok (snd (RemoveMember sample_genv sample_key ''b'' sample_gclient))"
proof -
  have "is_ok (snd (admin_change ''signal.RemoveMember'' (\<lambda>sp grp g. pure_r (BuildRemoveMemberActions
      (ge_zk sample_genv) (ge_pb sample_genv) sp (local_ACI g) ''b'' (gv_Revision grp)) g) sample_genv sample_key sample_gclient))"
    by (rule sample_change_ok [OF sample_ready])
       (simp add: pure_r_def BuildRemoveMemberActions_def ParseServiceIDString_def sample_zk_def)
  then show ?thesis by (simp add: RemoveMember_def)
qed

end
