(* ===== verification/GroupClientLaws.thy ===== *)
theory GroupClientLaws
  imports GroupSamples SendLaws
begin

text \<open>
  What the group operations of the client leave alone, what they send and what they keep. The
  locale \<open>preserving\<close> is the reasoning that is common to every frame: a reflexive and transitive
  relation between the states before and after goes through the sequencing of operations.
\<close>

section \<open>Frames\<close>

locale preserving =
  fixes R :: "'s \<Rightarrow> 's \<Rightarrow> bool"
  assumes same [simp]: "R s s" and chain: "R a b \<Longrightarrow> R b c \<Longrightarrow> R a c"
begin

lemma seq:
  assumes "R s (fst r)" "\<And>s' a. R s' (fst (f s' a))"
  shows "R s (fst (bindS r f))"
  using assms by (auto simp: bindS_def split: prod.splits sum.splits intro: chain)

lemma failed [simp]: "R s (fst (fail_with t s))"
  by (simp add: fail_with_def same)

lemma computed [simp]: "R s (fst (pure_r r s))"
  by (simp add: pure_r_def same)

lemma wrapped [simp]: "R s (fst (wrapS w r)) \<longleftrightarrow> R s (fst r)"
  by simp

end

text \<open>The log of the network and the fields that fetching a group does not touch.\<close>

definition gworld :: "('r, 'v, 'g) gclient \<Rightarrow> 'v" where
  "gworld g = sn_world (gc_sender g)"

definition fetch_keeps :: "('v \<Rightarrow> 'p) \<Rightarrow> ('r, 'v, 'g) gclient \<Rightarrow> ('r, 'v, 'g) gclient \<Rightarrow> bool" where
  "fetch_keeps log g g' \<longleftrightarrow> log (gworld g') = log (gworld g) \<and> gc_distID g' = gc_distID g \<and>
     cl_acct (gn_client g') = cl_acct (gn_client g) \<and>
     cl_groupRevision (gn_client g') = cl_groupRevision (gn_client g) \<and>
     cl_expireTimers (gn_client g') = cl_expireTimers (gn_client g)"

interpretation fk: preserving "fetch_keeps log" for log :: "'v \<Rightarrow> 'p"
  by unfold_locales (auto simp: fetch_keeps_def)

definition gquiet :: "('v \<Rightarrow> 'p) \<Rightarrow> ('r, 'v, 'g) gclient \<Rightarrow> ('r, 'v, 'g) gclient \<Rightarrow> bool" where
  "gquiet log g g' \<longleftrightarrow> log (gworld g') = log (gworld g)"

interpretation gq: preserving "gquiet log" for log :: "'v \<Rightarrow> 'p"
  by unfold_locales (auto simp: gquiet_def)

lemma keeps_quiet: "fetch_keeps log g g' \<Longrightarrow> gquiet log g g'"
  by (simp add: fetch_keeps_def gquiet_def)

lemma world_simps [simp]:
  "gworld (g\<lparr> gc_authCreds := a \<rparr>) = gworld g" "gworld (g\<lparr> gc_endorsements := e \<rparr>) = gworld g"
  "gworld (g\<lparr> gc_secretParams := p \<rparr>) = gworld g" "gworld (g\<lparr> gc_store := t \<rparr>) = gworld g"
  "gworld (g\<lparr> gc_distID := d \<rparr>) = gworld g"
  by (simp_all add: gworld_def)

lemma client_simps [simp]:
  "gn_client (g\<lparr> gc_authCreds := a \<rparr>) = gn_client g" "gn_client (g\<lparr> gc_endorsements := e \<rparr>) = gn_client g"
  "gn_client (g\<lparr> gc_secretParams := p \<rparr>) = gn_client g" "gn_client (g\<lparr> gc_store := t \<rparr>) = gn_client g"
  "gn_client (g\<lparr> gc_distID := d \<rparr>) = gn_client g"
  "gn_client (on_client f g) = f (gn_client g)" "gc_distID (on_client f g) = gc_distID g"
  by (simp_all add: gn_client_def on_client_def)

lemma keeps_fields [simp]:
  "fetch_keeps log g (g\<lparr> gc_authCreds := a \<rparr>)"
  by (simp add: fetch_keeps_def)

lemma set_world_fields [simp]:
  "cl_acct (sn_client (set_world v s)) = cl_acct (sn_client s)"
  "cl_groupRevision (sn_client (set_world v s)) = cl_groupRevision (sn_client s)"
  "cl_expireTimers (sn_client (set_world v s)) = cl_expireTimers (sn_client s)"
  by (simp_all add: set_world_def)

lemma keeps_net:
  assumes "\<And>v. log (fst (f v)) = log v"
  shows "fetch_keeps log g (fst (on_net f g))"
  using assms [of "sn_world (gc_sender g)"]
  by (auto simp: on_net_def on_sender_def on_world_def fetch_keeps_def gworld_def gn_client_def split: prod.split)

lemma keeps_draw [simp]: "fetch_keeps log g (fst (draw f g))"
  by (auto simp: draw_def fetch_keeps_def on_client_def gworld_def gn_client_def sn_world_def split: prod.split)

text \<open>Both REST clients leave a log alone on some methods.\<close>

definition both_leave :: "('r, 'v, 'g) group_env \<Rightarrow> string set \<Rightarrow> ('v \<Rightarrow> 'p) \<Rightarrow> bool" where
  "both_leave E M log \<longleftrightarrow> leaves (se_web (send_env_of E)) M log \<and> leaves (fe_storage_web (ge_full E)) M log"

lemma Do_keeps_log:
  "leaves c M log \<Longrightarrow> ''GET'' \<in> M \<Longrightarrow> log (fst (Do c ((get_request path)\<lparr> rq_Headers := h \<rparr>) v)) = log v"
  "leaves c M log \<Longrightarrow> ''GET'' \<in> M \<Longrightarrow>
    log (fst (Do c ((get_request path)\<lparr> rq_Query := q, rq_Credentials := cr \<rparr>) v)) = log v"
  by (rule Do_leaves; simp add: get_request_def)+

lemma web_gets_log:
  assumes "leaves c M log" "''GET'' \<in> M"
  shows "log (fst (FetchGroupAuthCredentials c J creds day v)) = log v"
    and "log (fst (FetchGroupState c auth v)) = log v"
    and "log (fst (FetchExpiringProfileKeyCredential c aci version uak req v)) = log v"
proof -
  note d = Do_keeps_log [OF assms]
  show "log (fst (FetchGroupAuthCredentials c J creds day v)) = log v"
    by (simp add: FetchGroupAuthCredentials_def d)
  show "log (fst (FetchGroupState c auth v)) = log v" by (simp add: FetchGroupState_def d)
  have "log (fst (fetchVersionedProfileRaw c aci version uak req v)) = log v"
    by (simp add: fetchVersionedProfileRaw_def d split: option.split)
  then show "log (fst (FetchExpiringProfileKeyCredential c aci version uak req v)) = log v"
    by (cases "fetchVersionedProfileRaw c aci version uak req v")
       (auto simp: FetchExpiringProfileKeyCredential_def split: sum.split)
qed

lemma auth_response_keeps:
  assumes "both_leave E M log" "''GET'' \<in> M"
  shows "fetch_keeps log g (fst (auth_response E day g))"
  using assms
  by (auto simp: auth_response_def both_leave_def web_gets_log Let_def fk.same
      intro!: fk.seq keeps_net split: option.split)

lemma auth_header_keeps:
  assumes "both_leave E M log" "''GET'' \<in> M"
  shows "fetch_keeps log g (fst (groupsV2AuthHeader E sp pp g))"
proof -
  have d: "fetch_keeps log g (fst (case draw f g of (g, rnd) \<Rightarrow> pure_r (k rnd) g))" for f k and g
    by (cases "draw f g") (metis case_prod_conv fk.computed fk.chain fst_conv keeps_draw)
  show ?thesis
    unfolding groupsV2AuthHeader_def Let_def
    by (auto simp: auth_response_keeps [OF assms] fail_with_def d intro!: fk.seq split: sum.split)
qed

lemma store_endorsements_frame:
  "gworld (fst (storeGroupSendEndorsements E k sp resp acis g)) = gworld g"
  "gn_client (fst (storeGroupSendEndorsements E k sp resp acis g)) = gn_client g"
  "gc_distID (fst (storeGroupSendEndorsements E k sp resp acis g)) = gc_distID g"
  by (auto simp: storeGroupSendEndorsements_def Let_def split: sum.split option.split)

lemma group_cached_fields [simp]:
  "cl_acct (storeGroupRevision k r c) = cl_acct c" "cl_acct (setExpireTimer k n c) = cl_acct c"
  "cl_expireTimers (storeGroupRevision k r c) = cl_expireTimers c"
  "cl_groupRevision (setExpireTimer k n c) = cl_groupRevision c"
  "mt_server (cl_maint (storeGroupRevision k r c)) = mt_server (cl_maint c)"
  "mt_server (cl_maint (setExpireTimer k n c)) = mt_server (cl_maint c)"
  by (auto simp: storeGroupRevision_def setExpireTimer_def)

lemma on_client_world: "mt_server (cl_maint (f (gn_client g))) = mt_server (cl_maint (gn_client g)) \<Longrightarrow>
    gworld (on_client f g) = gworld g"
  by (simp add: gworld_def on_client_def gn_client_def sn_world_def)

section \<open>Fetching a group\<close>

lemma keep_state_frame:
  "gworld (keep_state E k sp gse acis grp g) = gworld g"
  "gc_distID (keep_state E k sp gse acis grp g) = gc_distID g"
  "gn_client (keep_state E k sp gse acis grp g) = storeGroupRevision k (gv_Revision grp) (gn_client g)"
  by (simp_all add: keep_state_def Let_def store_endorsements_frame on_client_world)

text \<open>What a fetch that succeeds does, between the requests and the caches.\<close>

definition with_timer :: "Group \<Rightarrow> ('r, 'v, 'g) gclient \<Rightarrow> ('r, 'v, 'g) gclient" where
  "with_timer grp g = (if gv_ExpireTimer grp > 0
     then on_client (setExpireTimer (gv_ID grp) (of_int (gv_ExpireTimer grp div 1000000000))) g else g)"

lemma with_timer_frame [simp]: "gworld (with_timer grp g) = gworld g" "gc_distID (with_timer grp g) = gc_distID g"
  by (simp_all add: with_timer_def on_client_world)

lemma FetchGroup_cases:
  assumes b: "both_leave E M log" "''GET'' \<in> M" and r: "FetchGroup E masterKey g = (g', r)"
  shows "(\<exists>e. r = Inl e \<and> fetch_keeps log g g') \<or>
    (\<exists>g1 sp gse acis grp. fetch_keeps log g g1 \<and> r = Inr grp \<and> gv_ID grp = hexEncode masterKey \<and>
       g' = with_timer grp (keep_state E (hexEncode masterKey) sp gse acis grp g1))"
proof -
  have n: "fetch_keeps log g (fst (on_net (FetchGroupState (fe_storage_web (ge_full E)) auth) g))" for auth g
    by (rule keeps_net) (use b in \<open>auto simp: both_leave_def intro: web_gets_log\<close>)
  note a = auth_header_keeps [OF b]
  show ?thesis
  proof (cases "length masterKey = 32 \<and> fe_has_web (ge_full E) \<and> has_storage E")
    case False
    then show ?thesis using r by (auto simp: FetchGroup_def fail_with_def split: if_split_asm)
  next
    case ok: True
    show ?thesis
    proof (cases "group_params E masterKey")
      case (Inl e)
      then show ?thesis using r ok by (auto simp: FetchGroup_def pure_r_def)
    next
      case (Inr q)
      obtain sp pp where q: "q = (sp, pp)" by (cases q)
      obtain g1 q1 where h: "groupsV2AuthHeader E sp pp g = (g1, q1)" by (cases "groupsV2AuthHeader E sp pp g")
      have k1: "fetch_keeps log g g1" using a [of g sp pp] h by simp
      show ?thesis
      proof (cases q1)
        case (Inl e)
        then show ?thesis using r ok Inr q h k1 by (auto simp: FetchGroup_def pure_r_def)
      next
        case auth: (Inr auth)
        obtain g2 q2 where f: "on_net (FetchGroupState (fe_storage_web (ge_full E)) auth) g1 = (g2, q2)"
          by (cases "on_net (FetchGroupState (fe_storage_web (ge_full E)) auth) g1")
        have k2: "fetch_keeps log g g2" using fk.chain [OF k1 n [of g1 auth]] f by simp
        show ?thesis
        proof (cases "q2")
          case (Inl e)
          then show ?thesis using r ok Inr q h auth f k2 by (auto simp: FetchGroup_def pure_r_def)
        next
          case raw: (Inr raw)
          show ?thesis
          proof (cases "decode_response E sp raw")
            case (Inl e)
            then show ?thesis using r ok Inr q h auth f raw k2 by (auto simp: FetchGroup_def pure_r_def)
          next
            case dec: (Inr sg)
            obtain st gse where sg: "sg = (st, gse)" by (cases sg)
            obtain grp acis where gr: "groupFromDecodedState (hexEncode masterKey) st = (grp, acis)"
              by (cases "groupFromDecodedState (hexEncode masterKey) st")
            then have i: "gv_ID grp = hexEncode masterKey" by (auto simp: groupFromDecodedState_def)
            have "g' = with_timer grp (keep_state E (hexEncode masterKey) sp gse acis grp g2)" "r = Inr grp"
              using r ok Inr q h auth f raw dec sg gr i
              by (auto simp: FetchGroup_def pure_r_def Let_def with_timer_def)
            then show ?thesis using k2 i by blast
          qed
        qed
      qed
    qed
  qed
qed

lemma no_log: "both_leave E M (\<lambda>v. ())"
  by (simp add: both_leave_def leaves_def)

lemma FetchGroup_log:
  assumes "both_leave E M log" "''GET'' \<in> M"
  shows "gquiet log g (fst (FetchGroup E masterKey g))"
proof -
  obtain g' r where r: "FetchGroup E masterKey g = (g', r)" by (cases "FetchGroup E masterKey g")
  show ?thesis using FetchGroup_cases [OF assms r] r
    by (auto simp: gquiet_def fetch_keeps_def keep_state_frame)
qed

lemma FetchGroup_frame:
  assumes "FetchGroup E masterKey g = (g', r)"
  shows "gc_distID g' = gc_distID g" "cl_acct (gn_client g') = cl_acct (gn_client g)"
  using FetchGroup_cases [OF no_log UNIV_I assms]
  by (auto simp: fetch_keeps_def keep_state_frame with_timer_def)

lemma cachedGroupRevision_store:
  "cachedGroupRevision (storeGroupRevision k r c) k' =
     (if k' = k then max (cachedGroupRevision c k) r else cachedGroupRevision c k')"
  by (auto simp: storeGroupRevision_def cachedGroupRevision_def update_conv' max_def split: option.splits)

lemma expireTimerSeconds_set:
  "expireTimerSeconds (setExpireTimer k n c) k' = (if k' = k then n else expireTimerSeconds c k')"
  by (simp add: expireTimerSeconds_def setExpireTimer_def update_conv')

lemma cached_cong:
  "cl_groupRevision c' = cl_groupRevision c \<Longrightarrow> cachedGroupRevision c' k = cachedGroupRevision c k"
  "cl_expireTimers c' = cl_expireTimers c \<Longrightarrow> expireTimerSeconds c' k = expireTimerSeconds c k"
  by (simp_all add: cachedGroupRevision_def expireTimerSeconds_def)

text \<open>C33. What a fetched group leaves in the caches: its revision if it is newer than the cached
  one, and its timer if that is not 0. A group whose timer was switched off keeps the old timer in
  the cache, from where the next message takes it.\<close>

theorem fetch_group_caches:
  assumes "FetchGroup E masterKey g = (g', Inr grp)"
  shows "cachedGroupRevision (gn_client g') k =
      (if k = hexEncode masterKey then max (cachedGroupRevision (gn_client g) k) (gv_Revision grp)
       else cachedGroupRevision (gn_client g) k) \<and>
    expireTimerSeconds (gn_client g') k =
      (if k = hexEncode masterKey \<and> gv_ExpireTimer grp > 0 then of_int (gv_ExpireTimer grp div 1000000000)
       else expireTimerSeconds (gn_client g) k)"
proof -
  obtain g1 sp gse acis where 1: "fetch_keeps (\<lambda>v. ()) g g1" "gv_ID grp = hexEncode masterKey"
      "g' = with_timer grp (keep_state E (hexEncode masterKey) sp gse acis grp g1)"
    using FetchGroup_cases [OF no_log UNIV_I assms] by auto
  then have "gn_client g' = (if gv_ExpireTimer grp > 0
      then setExpireTimer (hexEncode masterKey) (of_int (gv_ExpireTimer grp div 1000000000))
        (storeGroupRevision (hexEncode masterKey) (gv_Revision grp) (gn_client g1))
      else storeGroupRevision (hexEncode masterKey) (gv_Revision grp) (gn_client g1))"
    by (simp add: with_timer_def keep_state_frame)
  with 1(1) show ?thesis
    by (auto simp: fetch_keeps_def cachedGroupRevision_store expireTimerSeconds_set
      cached_cong(1) [of "setExpireTimer x y z" z for x y z] cached_cong(2) [of "storeGroupRevision x y z" z for x y z]
      cached_cong [of "gn_client g1" "gn_client g"])
qed

theorem fetch_group_caches_witness:
  "\<exists>g'. FetchGroup sample_genv sample_key sample_gclient = (g', Inr sample_group) \<and>
    gv_ExpireTimer sample_group = 0 \<and> cachedGroupRevision (gn_client g') (hexEncode sample_key) = 5 \<and>
    expireTimerSeconds (gn_client g') (hexEncode sample_key) = 60"
proof -
  obtain g' where g: "FetchGroup sample_genv sample_key sample_gclient = (g', Inr sample_group)"
    using sample_fetch [OF sample_ready] by blast
  have c: "cachedGroupRevision (gn_client sample_gclient) k = 0"
    "expireTimerSeconds (gn_client sample_gclient) (hexEncode sample_key) = 60" for k
    by (simp_all add: cachedGroupRevision_def expireTimerSeconds_def sample_gclient_def gn_client_def sample_sender_def)
  have s: "gv_ExpireTimer sample_group = 0" "gv_Revision sample_group = 5"
    by (simp_all add: sample_group_def groupFromDecodedState_def sample_group_state_def)
  from fetch_group_caches [OF g, of "hexEncode sample_key"] g c s show ?thesis by simp
qed

section \<open>Distribution ids\<close>

text \<open>The ids that the cache has are kept; only leaving a group drops one.\<close>

definition kept_ids :: "('r, 'v, 'g) gclient \<Rightarrow> ('r, 'v, 'g) gclient \<Rightarrow> bool" where
  "kept_ids g g' \<longleftrightarrow> (\<forall>k i. map_of (gc_distID g) k = Some i \<longrightarrow> map_of (gc_distID g') k = Some i)"

interpretation ki: preserving kept_ids
  by unfold_locales (auto simp: kept_ids_def)

lemma kept_eq: "gc_distID g' = gc_distID g \<Longrightarrow> kept_ids g g'"
  by (simp add: kept_ids_def)

lemma kept_steps [simp]:
  "kept_ids g (fst (on_sender f g))" "kept_ids g (fst (on_net h g))" "kept_ids g (fst (draw d g))"
  "kept_ids g (fst (FetchGroup E masterKey g))"
  using FetchGroup_frame(1) [of E masterKey g]
  by (auto simp: on_sender_def on_net_def draw_def on_client_def intro!: kept_eq split: prod.split)
     (metis prod.collapse)

lemma auth_header_ids [simp]: "kept_ids g (fst (groupsV2AuthHeader E sp pp g))"
  using auth_header_keeps [OF no_log UNIV_I, of g E sp pp] by (auto simp: fetch_keeps_def intro: kept_eq)

lemma distribution_id_kept [simp]: "kept_ids g (fst (groupDistributionID E k g))"
proof -
  have u: "map_of (gc_distID g) k = None \<Longrightarrow> kept_ids g (h\<lparr> gc_distID := AList.update k i (gc_distID g) \<rparr>)" for g h i
    by (auto simp: kept_ids_def update_conv')
  have n: "map_of (gc_distID g) k = None \<Longrightarrow> kept_ids g (fst (new_distribution_id E k g))"
    by (auto simp: new_distribution_id_def draw_def fail_with_def Let_def kept_ids_def update_conv'
        split: prod.split sum.split option.split)
  show ?thesis
    by (auto simp: groupDistributionID_def intro: u n split: option.split sum.split)
qed

lemma token_ids [simp]: "kept_ids g (fst (groupSendTokenForRecipients E k acis g))"
proof -
  have "kept_ids g (fst (groupSendEndorsementCache E k g))"
    by (auto simp: groupSendEndorsementCache_def Let_def fail_with_def intro!: kept_eq
        split: option.split sum.split group_store_err.split)
  then show ?thesis
    unfolding groupSendTokenForRecipients_def by (intro ki.seq) auto
qed

lemma group_auth_ids [simp]: "kept_ids g (fst (group_auth E k acis g))"
proof -
  obtain g1 u where 1: "on_sender (combinedMemberUAKs (send_env_of E) acis) g = (g1, u)"
    by (cases "on_sender (combinedMemberUAKs (send_env_of E) acis) g")
  obtain g2 t where 2: "groupSendTokenForRecipients E k acis g1 = (g2, t)"
    by (cases "groupSendTokenForRecipients E k acis g1")
  have "kept_ids g g1" "kept_ids g1 g2"
    using kept_steps(1) [of g "combinedMemberUAKs (send_env_of E) acis"] token_ids [of g1 E k acis] 1 2 by simp_all
  then show ?thesis using ki.chain by (auto simp: group_auth_def 1 2 split: sum.split)
qed

lemma deliver_ids [simp]: "kept_ids g (fst (deliverGroupPayload E masterKey grp bs ts opts g))"
proof -
  have p: "kept_ids g (fst (buildGroupMultiRecipientPayload E creds grp masterKey i local padded g))" for creds i local padded g
    unfolding buildGroupMultiRecipientPayload_def Let_def by (auto intro!: ki.seq)
  have d: "kept_ids g (fst (if b then distribute_sender_key E grp i local g else (g, Inr ())))" for b i local g
    by (auto simp: distribute_sender_key_def intro!: ki.seq)
  have n: "on_net f g = (g', x) \<Longrightarrow> kept_ids g g'" for f g g' x
    using kept_steps(2) [of g f] by simp
  show ?thesis
    unfolding deliverGroupPayload_def Let_def
    by (auto intro!: ki.seq simp: p d) (auto split: prod.split option.split dest: n)
qed

lemma change_ids [simp]:
  "kept_ids g (fst (client_patchGroup E sp actions g))"
  "kept_ids g (fst (fetch_and_notify E masterKey change g))"
proof -
  show "kept_ids g (fst (client_patchGroup E sp actions g))"
    by (auto simp: client_patchGroup_def patch_with_def intro!: ki.seq)
  have "kept_ids g (fst (sendGroupChangeNotification E masterKey grp change g))" for grp change g
    by (auto simp: sendGroupChangeNotification_def sendGroupContent_def Let_def intro!: ki.seq)
  then show "kept_ids g (fst (fetch_and_notify E masterKey change g))"
    by (auto simp: fetch_and_notify_def intro!: ki.seq)
qed




text \<open>The distribution id of a group is the same after a restart, and after the group was left
  and joined again, as long as the store took it.\<close>

theorem distribution_id_survives:
  assumes S: "ge_dist E = Some S" "distribution_store (ds_Load S) (ds_Store S)"
    and saves: "\<And>i t. snd (ds_Store S k i t) = None"
    and new: "map_of (gc_distID g) k = None" and r: "groupDistributionID E k g = (g1, Inr i)" "i \<noteq> []"
  shows "map_of d k = None \<Longrightarrow>
    \<exists>g2. groupDistributionID E k (g1\<lparr> gc_distID := d \<rparr>) = (g2, Inr i) \<and> gc_store g2 = gc_store g1"
proof -
  assume d: "map_of d k = None"
  have "ds_Load S k (gc_store g1) = Inr i"
  proof (cases "ds_Load S k (gc_store g)")
    case (Inr j)
    then show ?thesis using new r S(1) by (auto simp: groupDistributionID_def)
  next
    case (Inl e)
    obtain g0 b where b: "draw (gl_uuid_bytes (ge_lib E)) g = (g0, b)" by (cases "draw (gl_uuid_bytes (ge_lib E)) g")
    obtain t where t: "ds_Store S k i (gc_store g0) = (t, None)"
      using saves [of i "gc_store g0"] by (cases "ds_Store S k i (gc_store g0)") auto
    have "gc_store g1 = fst (ds_Store S k i (gc_store g0))"
      using Inl new r S(1) b
      by (auto simp: groupDistributionID_def new_distribution_id_def fail_with_def Let_def split: sum.splits)
    then show ?thesis using distribution_store.load_save [OF S(2) t r(2)] t by simp
  qed
  then show ?thesis using d S(1) by (simp add: groupDistributionID_def)
qed

definition sample_left :: "(nat, http_request list, mem_groups) gclient" where
  "sample_left = sample_gclient\<lparr> gc_distID := [] \<rparr>"

theorem distribution_id_survives_witness:
  "\<exists>g1 i g2. groupDistributionID sample_genv ''k'' sample_left = (g1, Inr i) \<and>
    groupDistributionID sample_genv ''k'' (g1\<lparr> gc_distID := [] \<rparr>) = (g2, Inr i)"
proof -
  let ?i = "NewRandomUUID (replicate 16 0)"
  have S: "ge_dist sample_genv = Some mem_dist_ops" "distribution_store (ds_Load mem_dist_ops) (ds_Store mem_dist_ops)"
    using mem_dist.distribution_store_axioms by (simp_all add: mem_dist_ops_def)
  have saves: "snd (ds_Store mem_dist_ops k i t) = None" for k i t
    by (simp add: mem_dist_ops_def mem_StoreDistribution_def)
  have none: "map_of (gc_distID sample_left) ''k'' = None" "map_of [] ''k'' = None" by (simp_all add: sample_left_def)
  obtain g1 where g1: "groupDistributionID sample_genv ''k'' sample_left = (g1, Inr ?i)"
    by (simp add: groupDistributionID_def sample_left_def sample_gclient_def mem_dist_ops_def mem_LoadDistribution_def
      mem_NewGroupStores_def new_distribution_id_def draw_def sample_group_lib_def gn_client_def sample_sender_def Let_def
      on_client_def)
  have "length ?i = 36" by (simp add: NewRandomUUID_def length_formatUUID)
  then have "?i \<noteq> []" by (metis list.size(3) zero_neq_numeral)
  from distribution_id_survives [OF S saves none(1) g1 this none(2)] g1 show ?thesis by blast
qed

end
