(* ===== verification/GroupSendLaws.thy ===== *)
theory GroupSendLaws
  imports GroupClientLaws
begin

text \<open>
  Whom a message to a group goes to, what authorizes it, and which changes of a group the client
  asks for.
\<close>

section \<open>The account and the device cache on the way to the sessions\<close>

definition same_cache :: "('r, 'v) sender \<Rightarrow> ('r, 'v) sender \<Rightarrow> bool" where
  "same_cache s s' \<longleftrightarrow> cl_acct (sn_client s') = cl_acct (sn_client s) \<and> sn_knownDevices s' = sn_knownDevices s"

interpretation sc: preserving same_cache
  by unfold_locales (auto simp: same_cache_def)

lemma cache_steps [simp]:
  "same_cache s (fst (on_world f s))" "same_cache s (fst (on_stores h s))"
  "same_cache s (setKeysRateLimit E aci b s)" "same_cache s (clearKeysRateLimit aci s)"
  "same_cache s (fst (keysRateLimitGate E aci s))"
  by (auto simp: same_cache_def on_world_def on_stores_def set_world_def set_stores_def setKeysRateLimit_def
      clearKeysRateLimit_def keysRateLimitGate_def Let_def split: prod.split option.split)

lemma fetch_cache [simp]: "same_cache s (fst (fetchPreKeyBundleDefensive E creds aci dev s))"
proof -
  have "same_cache s (fst (case on_world f s of
        (s', Inl err) \<Rightarrow> ((case keysRateLimitBackoff err of None \<Rightarrow> s' | Some b \<Rightarrow> setKeysRateLimit E aci b s'), Inl err)
      | (s', Inr resp) \<Rightarrow> (clearKeysRateLimit aci s', Inr resp)))" for f s
    using cache_steps(1) [of s f] sc.chain [OF _ cache_steps(3)] sc.chain [OF _ cache_steps(4)]
    by (cases "on_world f s") (auto split: sum.split option.split)
  then show ?thesis unfolding fetchPreKeyBundleDefensive_def by (intro sc.seq) auto
qed

lemma process_cache [simp]: "same_cache s (fst (processBundle E ik dev addr s))"
proof -
  have "on_stores f s = (s', x) \<Longrightarrow> same_cache s s'" for f :: "sql_stores \<Rightarrow> sql_stores \<times> string option" and s'
      and x :: "string option" using cache_steps(2) [of s f] by simp
  then show ?thesis by (auto simp: processBundle_def split: sum.split prod.split option.split)
qed

lemma fetch_process_cache [simp]: "same_cache s (fst (fetchAndProcessBundle E creds aci d s))"
  unfolding fetchAndProcessBundle_def by (rule sc.seq) (auto split: list.split)

lemma establish_cache [simp]: "same_cache s (fst (establish_all E aci ik devs s))"
  by (induction devs arbitrary: s) (auto intro!: sc.seq split: sum.split bool.split)

lemma refresh_cache [simp]: "same_cache s (fst (refresh_all E creds aci ids s))"
  by (induction ids arbitrary: s) (auto intro!: sc.seq split: sum.split bool.split)

text \<open>Discovery answers with the cached devices, and caches those of no other recipient.\<close>

lemma discover_devices:
  assumes "discoverAndEnsureSessions E creds aci s = (s', Inr addrs)"
  shows "\<exists>ids. map_of (sn_knownDevices s') aci = Some ids \<and> addrs = map (peer aci) ids"
    and "a \<noteq> aci \<Longrightarrow> map_of (sn_knownDevices s') a = map_of (sn_knownDevices s) a"
    and "map_of (sn_knownDevices s) aci = Some ids \<Longrightarrow> map_of (sn_knownDevices s') aci = Some ids"
    and "cl_acct (sn_client s') = cl_acct (sn_client s)"
proof -
  have e: "establish_all E aci ik devs s1 = (s2, Inr ()) \<Longrightarrow> same_cache s1 s2" for ik devs and s1 s2
    using establish_cache [of s1 E aci ik devs] by simp
  have f: "fetchPreKeyBundleDefensive E creds aci ''*'' s = (s1, x) \<Longrightarrow> same_cache s s1" for s1 x
    using fetch_cache [of s E creds aci "''*''"] by simp
  have r: "refresh_all E creds aci ids s = (s1, x) \<Longrightarrow> same_cache s s1" for ids s1 x
    using refresh_cache [of s E creds aci ids] by simp
  show "\<exists>ids. map_of (sn_knownDevices s') aci = Some ids \<and> addrs = map (peer aci) ids"
    using assms r by (auto simp: discoverAndEnsureSessions_def bindS_Inr_iff wrapS_Inr_iff Let_def update_conv'
        same_cache_def split: option.splits if_splits)
  show "a \<noteq> aci \<Longrightarrow> map_of (sn_knownDevices s') a = map_of (sn_knownDevices s) a"
    using assms r by (auto simp: discoverAndEnsureSessions_def bindS_Inr_iff wrapS_Inr_iff Let_def update_conv'
        same_cache_def dest!: e f split: option.splits if_splits)
  show "map_of (sn_knownDevices s) aci = Some ids \<Longrightarrow> map_of (sn_knownDevices s') aci = Some ids"
    using assms r by (auto simp: discoverAndEnsureSessions_def bindS_Inr_iff same_cache_def)
  show "cl_acct (sn_client s') = cl_acct (sn_client s)"
    using assms r by (auto simp: discoverAndEnsureSessions_def bindS_Inr_iff wrapS_Inr_iff Let_def
        same_cache_def dest!: e f split: option.splits if_splits)
qed

section \<open>The recipients of a group message\<close>

lemma NewAddress_same: "NewAddress L aci dev = Inr a \<Longrightarrow> a = peer aci dev"
  by (auto simp: NewAddress_def Let_def peer_def split: if_splits option.splits)

lemma load_sessions_addrs:
  "load_sessions E s addrs = Inr rs \<Longrightarrow> map fst rs = addrs"
  by (induction addrs arbitrary: rs) (auto simp: bindR_Inr_iff peer_def dest!: NewAddress_same)

definition devices :: "('r, 'v) sender \<Rightarrow> string \<Rightarrow> Address list" where
  "devices s aci = map (peer aci) (case map_of (sn_knownDevices s) aci of None \<Rightarrow> [] | Some ids \<Rightarrow> ids)"

lemma group_sessions:
  assumes "groupRecipientSessions E creds ms s = (s', Inr (rs, acis))"
  shows "acis = filter (\<lambda>a. a \<noteq> ac_ACI (cl_acct (sn_client s))) (map mb_ACI ms) \<and>
    map fst rs = concat (map (devices s') acis) \<and>
    (\<forall>a ids. map_of (sn_knownDevices s) a = Some ids \<longrightarrow> map_of (sn_knownDevices s') a = Some ids)"
  using assms
proof (induction ms arbitrary: s rs acis)
  case (Cons m ms)
  show ?case
  proof (cases "mb_ACI m = ac_ACI (cl_acct (sn_client s))")
    case True
    then show ?thesis using Cons.IH [of s rs acis] Cons.prems by simp
  next
    case False
    then obtain s1 addrs here rest acis' where
      d: "discoverAndEnsureSessions E creds (mb_ACI m) s = (s1, Inr addrs)" and
      l: "load_sessions E s1 addrs = Inr here" and
      g: "groupRecipientSessions E creds ms s1 = (s', Inr (rest, acis'))" and
      res: "rs = here @ rest" "acis = mb_ACI m # acis'"
      using Cons.prems by (auto simp: bindS_Inr_iff split: prod.splits)
    note IH = Cons.IH [OF g]
    obtain ids where ids: "map_of (sn_knownDevices s1) (mb_ACI m) = Some ids" "addrs = map (peer (mb_ACI m)) ids"
      using discover_devices(1) [OF d] by blast
    then have "map fst here = devices s' (mb_ACI m)"
      using IH load_sessions_addrs [OF l] by (simp add: devices_def)
    moreover have "map_of (sn_knownDevices s1) a = Some j" if "map_of (sn_knownDevices s) a = Some j" for a j
      using discover_devices(2,3) [OF d] that by (cases "a = mb_ACI m") auto
    ultimately show ?thesis
      using IH res False discover_devices(4) [OF d] by auto
  qed
qed simp

text \<open>C30. A message to a group is encrypted for every known device of every member but the local
  account, member by member, and for nobody else.\<close>

theorem group_recipients:
  assumes "groupRecipientSessions E creds ms s = (s', Inr (rs, acis))"
  shows "acis = filter (\<lambda>a. a \<noteq> ac_ACI (cl_acct (sn_client s))) (map mb_ACI ms) \<and>
    map fst rs = concat (map (devices s') acis) \<and>
    set (map (ad_ServiceID \<circ> fst) rs) \<subseteq> set acis"
proof -
  have "set (map (ad_ServiceID \<circ> fst) rs) = ad_ServiceID ` set (concat (map (devices s') acis))"
    using group_sessions [OF assms] by (metis list.map_comp set_map)
  also have "\<dots> \<subseteq> set acis" by (auto simp: devices_def peer_def)
  finally show ?thesis using group_sessions [OF assms] by blast
qed

definition sample_group_sender :: "(nat, http_request list) sender" where
  "sample_group_sender = sample_sender\<lparr> sn_knownDevices := [(''b'', [2])],
     sn_client := (sn_client sample_sender)\<lparr> cl_maint := (cl_maint (sn_client sample_sender))
       \<lparr> mt_stores := sql_empty\<lparr> sq_sessions := [(''b.2'', [1])] \<rparr> \<rparr> \<rparr> \<rparr>"

theorem group_recipients_witness:
  "\<exists>s' rs. groupRecipientSessions (sample_send_env 200) no_creds (gs_Members sample_group_state) sample_group_sender =
      (s', Inr (rs, [''b''])) \<and> map fst rs = [peer ''b'' 2]"
proof -
  obtain s' rs where r: "groupRecipientSessions (sample_send_env 200) no_creds (gs_Members sample_group_state)
      sample_group_sender = (s', Inr (rs, [''b'']))" "map_of (sn_knownDevices s') ''b'' = Some [2]"
    by (simp add: sample_group_sender_def sample_group_state_def send_run_defs sample_send_defs bindS_def)
  from group_recipients [OF r(1)] r show ?thesis by (simp add: devices_def)
qed

section \<open>What authorizes it\<close>

lemma pick_endorsements_all:
  "pick_endorsements m acis = Inr es \<longleftrightarrow> list_all2 (\<lambda>a e. map_of m a = Some e \<and> e \<noteq> []) acis es"
  by (induction acis arbitrary: es) (auto simp: bindR_Inr_iff list_all2_Cons1 split: option.splits)

definition uak_of :: "('r, 'v) client \<Rightarrow> string \<Rightarrow> bytes" where
  "uak_of c aci = (case map_of (cl_uaks c) aci of None \<Rightarrow> [] | Some u \<Rightarrow> u)"

lemma ensure_keeps_uak:
  "uak_of c a \<noteq> [] \<Longrightarrow> uak_of (ensureRecipientUAK E aci c) a = uak_of c a"
  by (auto simp: ensureRecipientUAK_def storeRecipientProfileKey_def uak_of_def Let_def update_conv'
      split: option.splits sum.splits)

lemma combine_uaks_xor:
  assumes "combine_uaks E acis acc s = (s', Inr k)"
  shows "k = fold (\<lambda>a acc. xor_bytes acc (uak_of (sn_client s') a)) acis acc \<and>
    (\<forall>a\<in>set acis. length (uak_of (sn_client s') a) = 16) \<and>
    (\<forall>a. uak_of (sn_client s) a \<noteq> [] \<longrightarrow> uak_of (sn_client s') a = uak_of (sn_client s) a)"
  using assms
proof (induction acis arbitrary: acc s)
  case (Cons a acis)
  let ?s = "s\<lparr> sn_client := ensureRecipientUAK (se_client E) a (sn_client s) \<rparr>"
  from Cons.prems have l: "length (uak_of (sn_client ?s) a) = 16"
    and c: "combine_uaks E acis (xor_bytes acc (uak_of (sn_client ?s) a)) ?s = (s', Inr k)"
    by (auto simp: Let_def uak_of_def fail_with_def split: if_splits)
  from l have "uak_of (sn_client ?s) a \<noteq> []" by auto
  then have "uak_of (sn_client s') a = uak_of (sn_client ?s) a" using Cons.IH [OF c] by blast
  then show ?case
    using Cons.IH [OF c] l ensure_keeps_uak [of "sn_client s" _ "se_client E" a] by simp
qed simp

text \<open>The cached endorsements of a group that may still be used, and the token made of them.\<close>

definition token_for :: "('r, 'v, 'g) group_env \<Rightarrow> string \<Rightarrow> string list \<Rightarrow> bytes \<Rightarrow> ('r, 'v, 'g) gclient \<Rightarrow> bool" where
  "token_for E mkHex acis token g \<longleftrightarrow>
    (\<exists>cache es combined sp. map_of (gc_endorsements g) mkHex = Some cache \<and> \<not> endorsements_expired E cache g \<and>
       list_all2 (\<lambda>a e. map_of (er_Endorsements cache) a = Some e \<and> e \<noteq> []) acis es \<and>
       gl_combine (ge_lib E) es = Inr combined \<and> groupSecretParamsForHexID E mkHex g = Inr sp \<and>
       gl_full_token (ge_lib E) combined sp (er_Expiration cache) = Inr token)"

lemma endorsement_cache_kept:
  assumes "groupSendEndorsementCache E mkHex g = (g', r)"
  shows "gc_sender g' = gc_sender g"
    and "r = Inr cache \<Longrightarrow> map_of (gc_endorsements g') mkHex = Some cache"
  using assms
  by (auto simp: groupSendEndorsementCache_def Let_def fail_with_def update_conv'
      split: option.splits sum.splits group_store_err.splits if_splits)

lemma token_spec:
  assumes "groupSendTokenForRecipients E mkHex acis g = (g', r)"
  shows "gc_sender g' = gc_sender g" and "r = Inr token \<Longrightarrow> token_for E mkHex acis token g'"
proof -
  obtain g1 q where 1: "groupSendEndorsementCache E mkHex g = (g1, q)"
    by (cases "groupSendEndorsementCache E mkHex g")
  note c = endorsement_cache_kept [OF 1]
  show "gc_sender g' = gc_sender g"
    using assms c by (cases q) (auto simp: groupSendTokenForRecipients_def 1 fail_with_def pure_r_def split: if_splits)
  show "token_for E mkHex acis token g'" if "r = Inr token"
    using assms that c
    by (cases q) (auto simp: groupSendTokenForRecipients_def 1 fail_with_def pure_r_def bindR_Inr_iff
        pick_endorsements_all token_for_def split: if_splits)
qed

text \<open>The exclusive or of the recipients' keys, all of them 16 bytes.\<close>

definition combined_key :: "string list \<Rightarrow> bytes \<Rightarrow> ('r, 'v) client \<Rightarrow> bool" where
  "combined_key acis k c \<longleftrightarrow> acis \<noteq> [] \<and> k = fold (\<lambda>a acc. xor_bytes acc (uak_of c a)) acis (replicate 16 0) \<and>
     list_all (\<lambda>a. length (uak_of c a) = 16) acis"

lemma combined_spec:
  assumes "combinedMemberUAKs E acis s = (s', Inr k)"
  shows "combined_key acis k (sn_client s')"
  using assms combine_uaks_xor [of E acis "replicate 16 0" s s' k]
  by (auto simp: combinedMemberUAKs_def fail_with_def combined_key_def list_all_iff split: if_splits)

text \<open>C31. The request of a group message carries a token or a combined key, never both. A token
  combines one valid endorsement for each recipient, of a set that has not expired; a combined key
  is the exclusive or of the 16-byte keys of exactly the recipients.\<close>

theorem group_auth_covers:
  assumes "group_auth E mkHex acis g = (g', Inr auth)"
  shows "if ma_GroupSendToken auth \<noteq> []
    then ma_CombinedUAK auth = [] \<and> token_for E mkHex acis (ma_GroupSendToken auth) g'
    else ma_CombinedUAK auth = [] \<or> combined_key acis (ma_CombinedUAK auth) (gn_client g')"
proof -
  obtain s u where 1: "combinedMemberUAKs (send_env_of E) acis (gc_sender g) = (s, u)"
    by (cases "combinedMemberUAKs (send_env_of E) acis (gc_sender g)")
  obtain g2 t where 2: "groupSendTokenForRecipients E mkHex acis (g\<lparr> gc_sender := s \<rparr>) = (g2, t)"
    by (cases "groupSendTokenForRecipients E mkHex acis (g\<lparr> gc_sender := s \<rparr>)")
  have "u = Inr k \<Longrightarrow> combined_key acis k (gn_client g2)" for k
    using combined_spec token_spec(1) [OF 2] 1 by (simp add: gn_client_def)
  then show ?thesis
    using assms token_spec(2) [OF 2]
    by (auto simp: group_auth_def on_sender_def 1 2 split: sum.splits if_splits)
qed

theorem group_auth_covers_witness:
  "\<exists>g' auth. group_auth sample_genv ''k'' [''b''] sample_gclient = (g', Inr auth) \<and>
    combined_key [''b''] (ma_CombinedUAK auth) (gn_client g')"
proof -
  obtain g' where r: "group_auth sample_genv ''k'' [''b''] sample_gclient =
      (g', Inr \<lparr> ma_GroupSendToken = [], ma_CombinedUAK = xor_bytes (replicate 16 0) (replicate 16 1) \<rparr>)"
    by (simp add: group_auth_def on_sender_def combinedMemberUAKs_def ensureRecipientUAK_def sample_gclient_def
      groupSendTokenForRecipients_def groupSendEndorsementCache_def fail_with_def Let_def)
  from group_auth_covers [OF r] r show ?thesis by (auto simp: xor_bytes_def)
qed

end
