(* ===== verification/GroupChangeLaws.thy ===== *)
theory GroupChangeLaws
  imports GroupSendLaws
begin

text \<open>
  The PATCH requests of the client's group changes: a change of the members makes at most one,
  with the actions of its author, and only when the account is an administrator of the group as
  fetched. Everything else that such an operation does is a GET or the PUT of a message.
\<close>

section \<open>Sends make no PATCH\<close>

lemma leaves_mono: "leaves c M log \<Longrightarrow> N \<subseteq> M \<Longrightarrow> leaves c N log"
  by (auto simp: leaves_def)

lemma Do_PUT_quiet:
  assumes "leaves c M log" "''PUT'' \<in> M" "rq_Method req = ''PUT''"
  shows "log (fst (Do c req v)) = log v"
  by (rule Do_leaves [OF assms(1)]) (simp add: assms)

lemma message_puts_quiet:
  assumes "leaves c M log" "''PUT'' \<in> M"
  shows "log (fst (SendMessage c creds aci req v)) = log v"
    and "log (fst (SendMessageUnidentified c uak aci req v)) = log v"
    and "log (fst (SendMultiRecipientMessage c auth payload ts online urgent v)) = log v"
proof -
  note d = Do_PUT_quiet [OF assms]
  show "log (fst (SendMessage c creds aci req v)) = log v"
    by (auto simp: SendMessage_def Let_def d split: sum.split prod.split)
  show "log (fst (SendMessageUnidentified c uak aci req v)) = log v"
    by (auto simp: SendMessageUnidentified_def Let_def d split: sum.split prod.split)
  have s: "Do c req v = (v', q) \<Longrightarrow> rq_Method req = ''PUT'' \<Longrightarrow> log v' = log v" for req v' q
    using d [of req v] by simp
  show "log (fst (SendMultiRecipientMessage c auth payload ts online urgent v)) = log v"
    by (auto simp: SendMultiRecipientMessage_def Let_def dest: s split: sum.split prod.split)
qed

interpretation qs: preserving "quiet log" for log :: "'v \<Rightarrow> 'p"
  by unfold_locales (auto simp: quiet_def)

lemma uak_quiet [simp]: "quiet log s (s\<lparr> sn_client := ensureRecipientUAK E aci (sn_client s) \<rparr>)"
  by (auto simp: quiet_def sn_world_def ensureRecipientUAK_def storeRecipientProfileKey_def Let_def
      split: sum.split option.split)

lemma deliver_with_quiet:
  assumes l: "leaves (se_web E) {''GET''} log" and b: "\<And>as s. quiet log s (fst (build as s))"
    and p: "\<And>req v. log (fst (put req v)) = log v"
  shows "quiet log s (fst (deliver_with build put E creds aci as ts s))"
proof -
  have w: "quiet log s (fst (on_world (put req) s))" for req s by (rule quiet_on_world) (rule p)
  have w': "on_world (put req) s = (s', x) \<Longrightarrow> quiet log s s'" for req s s' x using w [of s req] by simp
  have h: "quiet log s (fst (bindS (handleSendError E creds aci as err s) (\<lambda>s addrs'.
      bindS (build addrs' s) (\<lambda>s req'. bindS (wrapS (WWrap ''signal.Send: '') (on_world (put req') s)) (\<lambda>s _.
        (s, Inr (receipt_for ts aci)))))))" for err s
    by (auto intro!: qs.seq handleSendError_quiet [OF l] b w)
  show ?thesis
    unfolding deliver_with_def
    by (rule qs.seq, rule b) (auto dest: w' intro: qs.chain [OF w' h] split: prod.split sum.split)
qed

lemma sendContent_quiet:
  assumes l: "leaves (se_web E) M log" and m: "''GET'' \<in> M" "''PUT'' \<in> M"
  shows "quiet log s (fst (sendContent E aci bs ts opts s))"
proof -
  have g: "leaves (se_web E) {''GET''} log" using leaves_mono [OF l] m by auto
  have d: "quiet log s (fst (deliverBasicAuth E creds aci as padded ts opts s))"
    "quiet log s (fst (deliverSealed E creds aci as padded ts opts cert uak s))" for creds as padded cert uak s
    unfolding deliverBasicAuth_def deliverSealed_def
    by (rule deliver_with_quiet [OF g]; simp add: build_quiet message_puts_quiet [OF l m(2)])+
  have c: "cachedSenderCert E creds s = (s', x) \<Longrightarrow> quiet log s s'" for creds s s' x
    using cert_quiet [OF g, of s creds] by simp
  have e: "quiet log s (fst (case cachedSenderCert E creds s of
        (s, Inr cert) \<Rightarrow> deliverSealed E creds aci as padded ts opts cert uak s
      | (s, Inl _) \<Rightarrow> deliverBasicAuth E creds aci as padded ts opts s))" for creds as padded uak s
    by (auto intro: qs.chain [OF c d(1)] qs.chain [OF c d(2)] split: prod.split sum.split)
  show ?thesis
    unfolding sendContent_def Let_def
    by (auto intro!: qs.seq discover_quiet [OF g] intro: qs.chain [OF uak_quiet d(1)] qs.chain [OF uak_quiet e])
qed

section \<open>The group client\<close>

lemma gquiet_sender: "quiet log (gc_sender g) (fst (f (gc_sender g))) \<Longrightarrow> gquiet log g (fst (on_sender f g))"
  by (auto simp: on_sender_def gquiet_def quiet_def gworld_def split: prod.split)

lemma gquiet_draw [simp]: "gquiet log g (fst (draw f g))"
  by (rule keeps_quiet) simp

lemma gquiet_stores [simp]: "gquiet log g (fst (on_sender (on_stores f) g))"
  by (rule gquiet_sender) simp

lemma gquiet_fields [simp]:
  "gquiet log g (g\<lparr> gc_distID := d \<rparr>)" "gquiet log g (g\<lparr> gc_endorsements := e \<rparr>)"
  by (simp_all add: gquiet_def)

lemma gquiet_drawn: "draw f g = (g', x) \<Longrightarrow> gquiet log g g'"
  using gquiet_draw [of log g f] by simp

lemma new_id_quiet: "gquiet log g (fst (new_distribution_id E k g))"
proof -
  obtain g1 b where 1: "draw (gl_uuid_bytes (ge_lib E)) g = (g1, b)" by (cases "draw (gl_uuid_bytes (ge_lib E)) g")
  show ?thesis
    using gquiet_drawn [OF 1, of log]
    by (auto simp: new_distribution_id_def 1 Let_def fail_with_def gquiet_def split: sum.split option.split)
qed

lemma distribution_quiet [simp]: "gquiet log g (fst (groupDistributionID E k g))"
  by (auto simp: groupDistributionID_def intro: new_id_quiet split: option.split sum.split)

lemma recipients_quiet:
  assumes "leaves (se_web E) {''GET''} log"
  shows "quiet log s (fst (groupRecipientSessions E creds ms s))"
  by (induction ms arbitrary: s) (auto intro!: qs.seq discover_quiet [OF assms] split: prod.split)

lemma distribute_quiet:
  assumes "leaves (se_web E) M log" "''GET'' \<in> M" "''PUT'' \<in> M"
  shows "quiet log s (fst (distributeSenderKeyToMembers E ms skdm s))"
proof -
  have "quiet log s (fst (sendSenderKeyDistribution E aci skdm s))" for aci s
    by (auto simp: sendSenderKeyDistribution_def intro!: qs.seq sendContent_quiet [OF assms] split: sum.split)
  then show ?thesis by (induction ms arbitrary: s) (auto intro!: qs.seq)
qed

lemma combine_quiet: "quiet log s (fst (combine_uaks E acis acc s))"
  by (induction acis arbitrary: acc s) (auto simp: Let_def fail_with_def intro: qs.chain [OF uak_quiet])

lemma group_auth_quiet [simp]: "gquiet log g (fst (group_auth E k acis g))"
proof -
  obtain g1 u where 1: "on_sender (combinedMemberUAKs (send_env_of E) acis) g = (g1, u)"
    by (cases "on_sender (combinedMemberUAKs (send_env_of E) acis) g")
  obtain g2 t where 2: "groupSendTokenForRecipients E k acis g1 = (g2, t)"
    by (cases "groupSendTokenForRecipients E k acis g1")
  have "gquiet log g (fst (on_sender (combinedMemberUAKs (send_env_of E) acis) g))"
    by (rule gquiet_sender) (auto simp: combinedMemberUAKs_def combine_quiet)
  then have "gquiet log g g1" by (simp add: 1)
  moreover have "gquiet log g1 g2" using token_spec(1) [OF 2] by (simp add: gquiet_def gworld_def)
  ultimately have "gquiet log g g2" by (rule gq.chain)
  then show ?thesis by (auto simp: group_auth_def 1 2 split: sum.split)
qed

lemma deliver_quiet:
  assumes b: "both_leave E M log" and m: "''GET'' \<in> M" "''PUT'' \<in> M"
  shows "gquiet log g (fst (deliverGroupPayload E masterKey grp bs ts opts g))"
proof -
  have l: "leaves (se_web (send_env_of E)) M log" using b by (simp add: both_leave_def)
  have o: "leaves (se_web (send_env_of E)) {''GET''} log" using leaves_mono [OF l] m by auto
  have p: "gquiet log g (fst (buildGroupMultiRecipientPayload E creds grp masterKey i local padded g))" for creds i local padded g
    unfolding buildGroupMultiRecipientPayload_def Let_def
    by (auto intro!: gq.seq intro: gquiet_sender cert_quiet [OF o] recipients_quiet [OF o])
  have d: "gquiet log g (fst (if q then distribute_sender_key E grp i local g else (g, Inr ())))" for q i local g
    by (auto simp: distribute_sender_key_def intro!: gq.seq intro: gquiet_sender distribute_quiet [OF l m])
  have "gquiet log g (fst (on_net (SendMultiRecipientMessage (se_web (send_env_of E)) auth payload ts on ur) g))" for auth payload on ur g
    unfolding on_net_def by (intro gquiet_sender quiet_on_world message_puts_quiet [OF l m(2)])
  then have n: "on_net (SendMultiRecipientMessage (se_web (send_env_of E)) auth payload ts on ur) g = (g', x) \<Longrightarrow>
      gquiet log g g'" for auth payload on ur g g' x by (metis fst_conv)
  show ?thesis
    unfolding deliverGroupPayload_def Let_def
    by (auto intro!: gq.seq simp: p d) (auto split: prod.split option.split dest: n)
qed

lemma notify_quiet:
  assumes b: "both_leave E M log" and m: "''GET'' \<in> M" "''PUT'' \<in> M"
  shows "gquiet log g (fst (fetch_and_notify E masterKey change g))"
proof -
  have s: "gquiet log g (fst (sendGroupChangeNotification E masterKey grp c g))" for grp c g
    by (auto simp: sendGroupChangeNotification_def sendGroupContent_def Let_def intro!: gq.seq deliver_quiet [OF assms])
  show ?thesis
    unfolding fetch_and_notify_def
    by (auto intro!: gq.seq FetchGroup_log [OF b m(1)] s)
qed

lemma presentation_keeps:
  assumes b: "both_leave E M log" and m: "''GET'' \<in> M"
  shows "fetch_keeps log g (fst (memberPresentationForAdd E sp aci pk g))"
proof -
  have n: "fetch_keeps log g (fst (on_net (FetchExpiringProfileKeyCredential (se_web (send_env_of E)) a v u r) g))" for a v u r g
    by (rule keeps_net) (use b m in \<open>auto simp: both_leave_def intro: web_gets_log\<close>)
  have d: "fetch_keeps log g (fst (case draw f g of (g, rnd) \<Rightarrow> k rnd g))"
    if "\<And>rnd g. fetch_keeps log g (fst (k rnd g))" for f k g
    using keeps_draw [of log g f] that by (cases "draw f g") (auto intro: fk.chain)
  have w: "gworld (on_client (storeRecipientProfileKey F a k) g) = gworld g" for F a k g
    by (rule on_client_world) (simp add: storeRecipientProfileKey_def split: sum.split)
  have c: "fetch_keeps log g (fst (client_FetchExpiringProfileKeyCredential E aci pk g))"
    unfolding client_FetchExpiringProfileKeyCredential_def Let_def
    by (auto intro!: fk.seq d n split: prod.split)
       (auto simp: fetch_keeps_def w storeRecipientProfileKey_def split: sum.split)
  show ?thesis unfolding memberPresentationForAdd_def by (auto intro!: fk.seq c d)
qed

section \<open>The one PATCH\<close>

definition records_patches :: "'v web_client \<Rightarrow> ('v \<Rightarrow> http_request list) \<Rightarrow> bool" where
  "records_patches c log \<longleftrightarrow> (\<forall>v r. log (fst (wc_transport c v r)) =
     log v @ (if hr_Method r = ''PATCH'' then [r] else []))"

definition patch_log :: "('r, 'v, 'g) group_env \<Rightarrow> ('v \<Rightarrow> http_request list) \<Rightarrow> bool" where
  "patch_log E log \<longleftrightarrow> records_patches (se_web (send_env_of E)) log \<and> records_patches (fe_storage_web (ge_full E)) log"

lemma patch_log_leaves: "patch_log E log \<Longrightarrow> both_leave E {''GET'', ''PUT''} log"
  by (auto simp: patch_log_def both_leave_def leaves_def records_patches_def)

definition patched :: "bytes \<Rightarrow> http_request \<Rightarrow> bool" where
  "patched actions req \<longleftrightarrow> hr_Method req = ''PATCH'' \<and> hr_Body req = Some actions"

lemma Do_PATCH:
  assumes "records_patches c log" "rq_Method req = ''PATCH''" "rq_Body req = None" "rq_RawBody req = actions" "actions \<noteq> []"
  shows "(\<exists>r. log (fst (Do c req v)) = log v @ [r] \<and> patched actions r) \<or>
    log (fst (Do c req v)) = log v \<and> \<not> is_ok (snd (Do c req v))"
proof -
  have p: "log v' = log v @ (if hr_Method r = ''PATCH'' then [r] else [])" if "wc_transport c v r = (v', x)" for v v' r x
    using assms(1) that unfolding records_patches_def by (metis fst_conv)
  show ?thesis
    using assms(2-)
    by (auto simp: Do_def patched_def request_body_def split: sum.splits option.splits prod.splits dest!: p)
qed

text \<open>The request of a patch is made at most once, and was made when the patch succeeds.\<close>

lemma patch_once:
  assumes L: "patch_log E log" and r: "client_patchGroup E sp actions g = (g', r)"
  shows "(\<exists>req. log (gworld g') = log (gworld g) @ [req] \<and> patched actions req) \<or>
    log (gworld g') = log (gworld g) \<and> \<not> is_ok r"
proof -
  note h = auth_header_keeps [OF patch_log_leaves [OF L] insertI1]
  have net: "on_net (PatchGroup (fe_storage_web (ge_full E)) auth actions) g1 = (g2, y) \<Longrightarrow>
      (\<exists>req. log (gworld g2) = log (gworld g1) @ [req] \<and> patched actions req) \<or>
      log (gworld g2) = log (gworld g1) \<and> \<not> is_ok y" for g1 g2 auth y
  proof -
    assume n: "on_net (PatchGroup (fe_storage_web (ge_full E)) auth actions) g1 = (g2, y)"
    let ?v = "sn_world (gc_sender g1)"
    obtain v' where p: "PatchGroup (fe_storage_web (ge_full E)) auth actions ?v = (v', y)" "gworld g2 = v'"
      using n by (auto simp: on_net_def on_sender_def on_world_def gworld_def split: prod.splits)
    show ?thesis
    proof (cases "auth = [] \<or> actions = []")
      case True
      then show ?thesis using p by (auto simp: PatchGroup_def send_group_def gworld_def split: if_split_asm)
    next
      case False
      then show ?thesis
        using p Do_PATCH [of "fe_storage_web (ge_full E)" log "(get_request ''/v2/groups/'')\<lparr> rq_Method := ''PATCH'',
            rq_Query := [], rq_Headers := protobuf_headers auth, rq_RawBody := actions \<rparr>" actions ?v] L
        by (cases "Do (fe_storage_web (ge_full E)) ((get_request ''/v2/groups/'')\<lparr> rq_Method := ''PATCH'',
            rq_Query := [], rq_Headers := protobuf_headers auth, rq_RawBody := actions \<rparr>) ?v")
           (auto simp: PatchGroup_def send_group_def patch_log_def get_request_def map_err_def gworld_def is_ok_def
             split: sum.splits)
    qed
  qed
  show ?thesis
  proof (cases "has_storage E")
    case False
    then show ?thesis using r by (auto simp: client_patchGroup_def patch_with_def fail_with_def)
  next
    case True
    show ?thesis
    proof (cases "zk_public_params (ge_zk E) sp")
      case (Inl e)
      then show ?thesis using r True by (auto simp: client_patchGroup_def patch_with_def pure_r_def)
    next
      case (Inr pp)
      obtain g1 x where 1: "groupsV2AuthHeader E sp pp g = (g1, x)" by (cases "groupsV2AuthHeader E sp pp g")
      have k: "log (gworld g1) = log (gworld g)" using h [of g sp pp] 1 by (simp add: fetch_keeps_def)
      show ?thesis
      proof (cases x)
        case (Inl e)
        then show ?thesis using r True Inr 1 k by (auto simp: client_patchGroup_def patch_with_def pure_r_def)
      next
        case auth: (Inr auth)
        obtain g2 y where 2: "on_net (PatchGroup (fe_storage_web (ge_full E)) auth actions) g1 = (g2, y)"
          by (cases "on_net (PatchGroup (fe_storage_web (ge_full E)) auth actions) g1")
        have "g' = g2" "is_ok r \<Longrightarrow> is_ok y"
          using r True Inr 1 auth 2 by (cases y; auto simp: client_patchGroup_def patch_with_def pure_r_def)+
        then show ?thesis using net [OF 2] k by auto
      qed
    qed
  qed
qed

section \<open>Changes of the members\<close>

datatype member_change = ChangeRole string int | ChangeRemove string | ChangeAdd string bytes int

fun run_change ::
  "('r, 'v, 'g) group_env \<Rightarrow> bytes \<Rightarrow> member_change \<Rightarrow> ('r, 'v, 'g) gclient \<Rightarrow> ('r, 'v, 'g) gclient \<times> (web_err + Group)" where
  "run_change E masterKey (ChangeRole aci role) g = SetMemberRole E masterKey aci role g"
| "run_change E masterKey (ChangeRemove aci) g = RemoveMember E masterKey aci g"
| "run_change E masterKey (ChangeAdd aci pk role) g = AddMember E masterKey aci pk role g"

text \<open>The actions of a change by an author, for the group at a revision.\<close>

fun actions_of :: "zk_lib \<Rightarrow> group_pb \<Rightarrow> bytes \<Rightarrow> string \<Rightarrow> u32 \<Rightarrow> member_change \<Rightarrow> bytes \<Rightarrow> bool" where
  "actions_of Z P sp author revision (ChangeRole aci role) a \<longleftrightarrow> BuildModifyRoleActions Z P sp author aci role revision = Inr a"
| "actions_of Z P sp author revision (ChangeRemove aci) a \<longleftrightarrow> BuildRemoveMemberActions Z P sp author aci revision = Inr a"
| "actions_of Z P sp author revision (ChangeAdd aci pk role) a \<longleftrightarrow>
     (\<exists>presentation. BuildAddMemberActions Z P sp author presentation role revision = Inr a)"

lemma change_log:
  assumes L: "patch_log E log" and r: "admin_change name build E masterKey g = (g', r)"
    and keeps: "\<And>sp grp g. fetch_keeps log g (fst (build sp grp g))"
    and builds: "\<And>sp grp h h' a. build sp grp h = (h', Inr a) \<Longrightarrow> local_ACI h = local_ACI g \<Longrightarrow> B sp grp a"
  shows "log (gworld g') = log (gworld g) \<and> \<not> is_ok r \<or>
    (\<exists>g1 grp sp actions req. FetchGroup E masterKey g = (g1, Inr grp) \<and> group_IsAdmin grp (local_ACI g) \<and>
       B sp grp actions \<and> log (gworld g') = log (gworld g) @ [req] \<and> patched actions req)"
proof -
  note bl = patch_log_leaves [OF L]
  obtain g1 x where 1: "FetchGroup E masterKey g = (g1, x)" by (cases "FetchGroup E masterKey g")
  have k1: "log (gworld g1) = log (gworld g)" "local_ACI g1 = local_ACI g"
    using FetchGroup_log [OF bl, of g masterKey] FetchGroup_frame(2) [OF 1] 1 by (simp_all add: gquiet_def local_ACI_def)
  show ?thesis
  proof (cases x)
    case (Inl e)
    then show ?thesis using r k1 by (auto simp: admin_change_def 1)
  next
    case x: (Inr grp)
    show ?thesis
    proof (cases "group_IsAdmin grp (local_ACI g)")
      case False
      then show ?thesis using r x k1 by (auto simp: admin_change_def 1 fail_with_def)
    next
      case adm: True
      show ?thesis
      proof (cases "GroupSecretParamsFromMasterKey (ge_zk E) masterKey")
        case (Inl e)
        then show ?thesis using r x k1 adm by (auto simp: admin_change_def 1 pure_r_def)
      next
        case sp: (Inr sp)
        obtain g2 y where 2: "build sp grp g1 = (g2, y)" by (cases "build sp grp g1")
        have k2: "log (gworld g2) = log (gworld g)"
          using keeps [of g1 sp grp] 2 k1 by (simp add: fetch_keeps_def)
        show ?thesis
        proof (cases y)
          case (Inl e)
          then show ?thesis using r x k2 k1 adm sp by (auto simp: admin_change_def 1 2 pure_r_def)
        next
          case y: (Inr actions)
          obtain g3 z where 3: "client_patchGroup E sp actions g2 = (g3, z)" by (cases "client_patchGroup E sp actions g2")
          have B: "B sp grp actions" using builds 2 y k1(2) by blast
          have k4: "log (gworld (fst (fetch_and_notify E masterKey c g3))) = log (gworld g3)" for c
            using notify_quiet [OF bl, of g3 masterKey c] by (simp add: gquiet_def)
          have run: "(g', r) = bindS (g3, z) (\<lambda>g change. fetch_and_notify E masterKey change g)"
            using r by (simp add: admin_change_def 1 2 3 x y adm sp pure_r_def k1)
          have "log (gworld g') = log (gworld g3) \<and> (is_ok r \<longrightarrow> is_ok z)"
          proof (cases z)
            case (Inr c)
            then show ?thesis using run k4 [of c] by (metis bindS_simps(2) fst_conv is_ok_simps(2))
          qed (use run in simp)
          then show ?thesis using patch_once [OF L 3] k2 1 x adm B by auto
        qed
      qed
    qed
  qed
qed

text \<open>C32. Changing a role, removing a member and adding one: the client asks for the change at most
  once, and only when the account is an administrator of the group it fetched; the request carries
  the actions of that change, made by the account for the revision after the fetched one. Without
  that request the operation fails.\<close>

theorem member_changes_by_admins:
  assumes L: "patch_log E log" and r: "run_change E masterKey change g = (g', r)"
  shows "log (gworld g') = log (gworld g) \<and> \<not> is_ok r \<or>
    (\<exists>g1 grp sp actions req. FetchGroup E masterKey g = (g1, Inr grp) \<and> group_IsAdmin grp (local_ACI g) \<and>
       actions_of (ge_zk E) (ge_pb E) sp (local_ACI g) (gv_Revision grp) change actions \<and>
       log (gworld g') = log (gworld g) @ [req] \<and> patched actions req)"
proof -
  note bl = patch_log_leaves [OF L]
  show ?thesis
  proof (cases change)
    case (ChangeRole aci role)
    show ?thesis
    proof (cases "aci = []")
      case False
      then have "admin_change ''signal.SetMemberRole''
        (\<lambda>sp grp g. pure_r (BuildModifyRoleActions (ge_zk E) (ge_pb E) sp (local_ACI g) aci role (gv_Revision grp)) g)
        E masterKey g = (g', r)" using r ChangeRole by (simp add: SetMemberRole_def)
      from change_log [OF L this, where B = "\<lambda>sp grp. actions_of (ge_zk E) (ge_pb E) sp (local_ACI g) (gv_Revision grp) change"]
      show ?thesis using ChangeRole by (simp add: pure_r_def)
    qed (use r ChangeRole in \<open>auto simp: SetMemberRole_def fail_with_def\<close>)
  next
    case (ChangeRemove aci)
    show ?thesis
    proof (cases "aci = [] \<or> aci = local_ACI g")
      case False
      then have "admin_change ''signal.RemoveMember''
        (\<lambda>sp grp g. pure_r (BuildRemoveMemberActions (ge_zk E) (ge_pb E) sp (local_ACI g) aci (gv_Revision grp)) g)
        E masterKey g = (g', r)" using r ChangeRemove by (simp add: RemoveMember_def)
      from change_log [OF L this, where B = "\<lambda>sp grp. actions_of (ge_zk E) (ge_pb E) sp (local_ACI g) (gv_Revision grp) change"]
      show ?thesis using ChangeRemove by (simp add: pure_r_def)
    qed (use r ChangeRemove in \<open>auto simp: RemoveMember_def fail_with_def split: if_split_asm\<close>)
  next
    case (ChangeAdd aci pk role)
    show ?thesis
    proof (cases "aci = []")
      case False
      let ?build = "\<lambda>sp grp g. bindS (memberPresentationForAdd E sp aci pk g) (\<lambda>g presentation.
        pure_r (BuildAddMemberActions (ge_zk E) (ge_pb E) sp (local_ACI g) presentation role (gv_Revision grp)) g)"
      have a: "admin_change ''signal.AddMember'' ?build E masterKey g = (g', r)"
        using False r ChangeAdd by (simp add: AddMember_def)
      have k: "fetch_keeps log h (fst (?build sp grp h))" for sp grp h
        by (rule fk.seq) (auto intro: presentation_keeps [OF bl])
      have "local_ACI h1 = local_ACI h" if "memberPresentationForAdd E sp aci pk h = (h1, q)" for sp h h1 q
        using presentation_keeps [OF bl, of h sp aci pk] that by (simp add: fetch_keeps_def local_ACI_def)
      then have B: "actions_of (ge_zk E) (ge_pb E) sp (local_ACI g) (gv_Revision grp) change a"
        if "?build sp grp h = (h', Inr a)" "local_ACI h = local_ACI g" for sp grp h h' a
        using that ChangeAdd by (fastforce simp: bindS_Inr_iff pure_r_def)
      show ?thesis by (rule change_log [OF L a k B])
    qed (use r ChangeAdd in \<open>auto simp: AddMember_def fail_with_def\<close>)
  qed
qed

theorem member_changes_by_admins_witness:
  "\<exists>req sp actions. gworld (fst (run_change sample_genv sample_key (ChangeRemove ''b'') sample_gclient)) = [req] \<and>
    patched actions req \<and> actions_of sample_zk (ge_pb sample_genv) sp ''a'' 5 (ChangeRemove ''b'') actions"
proof -
  have L: "patch_log sample_genv (\<lambda>v. v)"
    by (simp add: patch_log_def records_patches_def patch_web_def)
  obtain g' r where r: "run_change sample_genv sample_key (ChangeRemove ''b'') sample_gclient = (g', r)" by fastforce
  have ok: "is_ok r" using sample_removal r by simp
  have w: "gworld sample_gclient = []" by (simp add: gworld_def sn_world_def sample_gclient_def sample_sender_def)
  obtain g1 grp sp actions req where
    c: "FetchGroup sample_genv sample_key sample_gclient = (g1, Inr grp)"
      "actions_of sample_zk (ge_pb sample_genv) sp ''a'' (gv_Revision grp) (ChangeRemove ''b'') actions"
      "gworld g' = [req]" "patched actions req"
    using member_changes_by_admins [OF L r] ok w by auto
  have "grp = sample_group" using c(1) sample_fetch [OF sample_ready] by auto
  then have "gv_Revision grp = 5" by (simp add: sample_group_def groupFromDecodedState_def sample_group_state_def)
  with c r show ?thesis by auto
qed

end
