(* ===== verification/Spec2Isabelle.thy ===== *)
theory Spec2Isabelle
  imports Attachment BotFlow ImportLaws SendLaws ChatLaws StorageLaws GroupChangeLaws
begin

text \<open>
  signal-go, a Go client library for the Signal service.

  The program. pkg/signal is the client: it links a device, receives envelopes over a websocket
  and turns them into typed events, and sends messages to contacts and groups. pkg/bot is a bot
  framework on top of it. The packages under internal/ carry the parts: attachment and backup
  formats, stores for the Signal protocol, prekey generation and maintenance, provisioning, and
  the web, chat and libsignal bindings.

  Theories, each after what it imports.
  Prelude: bytes, words, fallible results as sums, fallible state (bindS), slices; the
  collections bytes_simps and guard_simps.
  Padding: PKCS#7 (internal/attachment/cipher.go, internal/backup/decrypt.go,
  internal/provisioning/cipher.go) and content padding (pkg/signal).
  Crypto: AES as a block function and SHA-256 as a hash, both parameters; HMAC, CBC and the
  constant-time comparison are defined from them. block_cipher_ok and hash_ok say that AES
  decryption undoes encryption on 16-byte blocks and that the hash has 32 bytes.
  Encoding: hex and UUID strings, as instances of the locale codec.
  Aead, Ciphers, CipherLaws: AES-GCM over the block cipher, with the locale aead_box for boxes
  that carry their nonce; the provisioning envelope (internal/provisioning/cipher.go), device
  names (internal/devicename), profile fields (internal/profile/cipher.go), storage records
  (internal/storage/cipher.go) and sealed blobs (internal/store/seal). Curve agreement, HKDF and
  GCM-SIV are the record key_lib, with what is documented of them as agreement_ok, hkdf_ok and
  public_codec_ok.
  Attachment: attachment encryption v1 and v2 (internal/attachment,
  internal/libsignal/incremental_mac.go). The incremental MAC objects are a record of operations;
  imac_ok says that validation accepts what was digested.
  Varint, Backup: length-prefixed frames and the backup archive (internal/backup).
  BackupImport, ImportLaws: the import of an archive (internal/backup/import.go), the two
  stores of imported contacts and groups, and the loader of pkg/signal; a stream is the bytes
  left to read, an entry of a store a row of an association list.
  GoStrings, ConvoStore, Events, BotMatch, BotDispatch, BotFlow: the bot package. A handler is
  a function on a world that holds the conversation store; a handler's result is nil, ErrPass
  or an error. BotDispatch has the dispatch loops as instances of the locale handler_chain;
  BotFlow has wizards, retries and the reply helpers over a record of client operations.
  Stores, StoreLaws: the two implementations of SignalStores (internal/store), with their
  shared contracts as the locales record_store, deletable_store and identity_store; a store is
  a record of association lists, and an operation's result says whether it failed.
  PreKeys, PreKeyMaint: prekey generation and persistence (internal/prekeys), accounts
  (internal/account) and one-time prekey maintenance (internal/prekeymaint), with libsignal's
  key generation, the server and the account store as operations of an environment.
  Envelope, Inbound, InboundLaws: the envelope decryptor (internal/cipher,
  internal/libsignal/decrypt*.go) and the client's receive path (pkg/signal/client.go,
  dispatch.go, content.go). The client's state is a record with its stores, timers, profile
  keys, event buffer and the tasks it started; the effect of a content is a list of events.
  GoNet, Web: base64, numbers, escaping and header maps of the standard library; the REST client
  (internal/web), with the transport, JSON and the clock as parameters.
  Send, SendLaws: the send path (pkg/signal/send.go) over Web and the SQLite stores.
  WebMore, WebLaws: the requests for devices, keys, groups, group logs, storage and the transfer
  archive (internal/web); the poll for the archive is a partial function, shown to return.
  Storage, StorageLaws: the storage service pull (internal/storage/pull.go) over a record of
  fetcher operations, and SyncStorage (pkg/signal/storage.go) which instantiates it.
  GroupFormat, GroupLaws: the wire format of groups (internal/group): decoding a state, creating
  a group, changes, invite links. zk_lib holds libsignal's group operations, group_pb the
  protobuf codec.
  GroupStores, GroupClient, GroupSend, GroupModify: the group stores (internal/store), with the
  locales distribution_store and endorsement_store as their contracts, and the client's group
  operations (pkg/signal/group*.go) over a record of the sender, the group caches and the stores.
  GroupClientLaws, GroupSendLaws, GroupChangeLaws: what these operations keep, with the locale
  preserving for frames, what a group message is encrypted for and authorized by, and what a
  change of the members requests; GroupSamples is a group with its server for their witnesses.
  Ws, WsLaws: the request multiplexer (internal/ws/client.go) as a transition system with one
  phase per call; ws_inv is its invariant, drain its own steps, ws_step the steps from outside.
  UserAgent, ChatConn, ChatLaws: the user agents (internal/web/useragent) and the reconnecting
  connection (internal/chat/connection.go), a transition system over websocket clients that
  take their own steps.

  What the properties show. Provisioning envelopes and device names are characterised by what
  their ciphers accept; what a storage pull returns was sealed under the account's keys, a sync
  takes it as a whole, and an older manifest is shown to be taken too. A new group and an invite
  link read back as they were made; a group message is encrypted for the other members' devices and
  authorized for exactly these members, members are changed by administrators only, and fetching
  is shown to keep an old timer, removing to keep the sender key. Attachments, frames and archives are inverted by their decoders, and
  a decoder's success implies that the input was authentic; the archive parser's panics are
  characterised. An import leaves exactly the archive's recipients, in both stores; a truncated
  archive is shown to be accepted. A request of the server appends exactly its events, sealed
  senders are authenticated, plaintext and sync contents are shown to be believed. What the send
  path builds, the receive path reports; a delivery makes one or two requests, all identified or
  all anonymous; the repair after a mismatch is characterised, with the case that loses the
  device list. Responses are correlated with their requests, calls return once the connection
  is closed, the connection keeps one client at a time and its Close returns; the races that
  leave a client or a handler behind, and the backoff's overflow, are exhibited.
  Dispatch stops at the first handler that takes an event, wizards route by conversation,
  retries are bounded and replies stay in their thread. The two stores agree on admissible
  operations and are compared where they differ. One-time prekey batches stay in the id range,
  and a top-up uploads what it persists; one whose upload failed is shown to block later ones.

  Bounds. Integers are words or int with the wrap-around written out where the code can reach
  it (ids, varints, archive offsets, durations); lengths are naturals, and the properties that
  need a bound on them name it. No fuel is used: the loops are structural or have a measure, and
  the transition systems have one for the steps their goroutines take by themselves.

  Not modelled: the cgo binding, generated protobuf code, JSON and TLS (parameters or left out),
  logging other than account redaction. Store methods are atomic, as their mutex makes them;
  the tasks the receive path starts are recorded and not run. Profiles, linking, contact discovery and attachment sends are planned next.
\<close>

end
